theory Spec2Isabelle
  imports Complex_Main
begin

section \<open>Tuned-mass-damper optimiser: amplitude model\<close>

text \<open>
  The embedding follows \<^verbatim>\<open>src/services/tmdMath.ts\<close>. A TypeScript \<^verbatim>\<open>number\<close> is
  modelled as a \<^typ>\<open>real\<close>: arithmetic is exact, so rounding, overflow and the values
  \<^verbatim>\<open>NaN\<close> and \<^verbatim>\<open>Infinity\<close> of IEEE doubles are outside the model. The one place where
  the source uses \<^verbatim>\<open>Infinity\<close> as a value (\<^verbatim>\<open>prevVal\<close> in \<^verbatim>\<open>optimizeTMD\<close>) is modelled
  by \<^typ>\<open>real option\<close>.
\<close>

definition getAmplitude :: "real \<Rightarrow> real \<Rightarrow> real \<Rightarrow> real \<Rightarrow> real \<Rightarrow> real" where
  "getAmplitude g f zeta2 mu zeta1 =
     (let g2 = g * g;
          f2 = f * f;
          term1 = f2 - g2;
          term2 = 2 * zeta2 * f * g;
          num = sqrt (term1 * term1 + term2 * term2);
          denPart1 = (1 - g2) * term1 - mu * f2 * g2 - 4 * zeta1 * zeta2 * f * g2;
          denPart2 = 2 * zeta2 * f * g * (1 - g2 - mu * g2) + 2 * zeta1 * g * term1;
          den = sqrt (denPart1 * denPart1 + denPart2 * denPart2)
      in if den = 0 then 100 else num / den)"






section \<open>Peak finder\<close>

text \<open>
  The \<^verbatim>\<open>for (let g = 0.5; g <= 2.0; g += 0.005)\<close> loop of \<^verbatim>\<open>findPeakAmplitude\<close>, with
  the loop variable \<open>g\<close> and the accumulator \<open>maxAmp\<close> as arguments.
\<close>

function findPeakAmplitude_loop ::
  "real \<Rightarrow> real \<Rightarrow> real \<Rightarrow> real \<Rightarrow> real \<Rightarrow> real \<Rightarrow> real" where
  "findPeakAmplitude_loop f zeta2 mu zeta1 g maxAmp =
     (if g \<le> 2 then
        (let amp = getAmplitude g f zeta2 mu zeta1
         in findPeakAmplitude_loop f zeta2 mu zeta1 (g + 5 / 1000)
              (if amp > maxAmp then amp else maxAmp))
      else maxAmp)"
  by pat_completeness auto
termination
proof (relation "measure (\<lambda>(f, zeta2, mu, zeta1, g, maxAmp). nat (\<lfloor>(2 - g) * 200\<rfloor> + 1))")
  show "wf (measure (\<lambda>(f::real, zeta2::real, mu::real, zeta1::real, g::real, maxAmp::real).
           nat (\<lfloor>(2 - g) * 200\<rfloor> + 1)))"
    by simp
next
  fix f zeta2 mu zeta1 g maxAmp x :: real
  assume "g \<le> 2"
  then have "0 \<le> \<lfloor>(2 - g) * 200\<rfloor>" by simp
  moreover have "(2 - (g + 5 / 1000)) * 200 = (2 - g) * 200 - 1" by simp
  then have "\<lfloor>(2 - (g + 5 / 1000)) * 200\<rfloor> = \<lfloor>(2 - g) * 200\<rfloor> - 1"
    by (simp only: floor_diff_one)
  ultimately show "((f, zeta2, mu, zeta1, g + 5 / 1000, if maxAmp < x then x else maxAmp),
           (f, zeta2, mu, zeta1, g, maxAmp))
          \<in> measure (\<lambda>(f, zeta2, mu, zeta1, g, maxAmp). nat (\<lfloor>(2 - g) * 200\<rfloor> + 1))"
    by simp
qed

declare findPeakAmplitude_loop.simps [simp del]

definition findPeakAmplitude :: "real \<Rightarrow> real \<Rightarrow> real \<Rightarrow> real \<Rightarrow> real" where
  "findPeakAmplitude f zeta2 mu zeta1 = findPeakAmplitude_loop f zeta2 mu zeta1 (5 / 10) 0"

section \<open>Golden-section search\<close>

text \<open>
  The local variables \<^verbatim>\<open>a, b, x1, x2, f1, f2\<close> of \<^verbatim>\<open>goldenSectionSearch\<close> form the
  loop state (the field names carry a prefix, since short names would capture variables).
\<close>

record gss_state =
  gss_a :: real
  gss_b :: real
  gss_x1 :: real
  gss_x2 :: real
  gss_f1 :: real
  gss_f2 :: real

definition phi :: real where
  "phi = (sqrt 5 - 1) / 2"

text \<open>One execution of the body of the \<^verbatim>\<open>while\<close> loop.\<close>

definition gss_step :: "(real \<Rightarrow> real) \<Rightarrow> gss_state \<Rightarrow> gss_state" where
  "gss_step f s =
     (if gss_f1 s < gss_f2 s then
        (let b = gss_x2 s;
             x2 = gss_x1 s;
             f2 = gss_f1 s;
             x1 = b - phi * (b - gss_a s);
             f1 = f x1
         in s\<lparr>gss_b := b, gss_x2 := x2, gss_f2 := f2, gss_x1 := x1, gss_f1 := f1\<rparr>)
      else
        (let a = gss_x1 s;
             x1 = gss_x2 s;
             f1 = gss_f2 s;
             x2 = a + phi * (gss_b s - a);
             f2 = f x2
         in s\<lparr>gss_a := a, gss_x1 := x1, gss_f1 := f1, gss_x2 := x2, gss_f2 := f2\<rparr>))"

text \<open>
  The \<^verbatim>\<open>while (Math.abs(b - a) > tol)\<close> loop. Nothing in the source bounds the number
  of its iterations, so the loop is a partial function: \<open>None\<close> stands for a run that
  never leaves the loop.
\<close>

partial_function (option) gss_loop :: "(real \<Rightarrow> real) \<Rightarrow> real \<Rightarrow> gss_state \<Rightarrow> gss_state option" where
  "gss_loop f tol s =
     (if \<bar>gss_b s - gss_a s\<bar> > tol then gss_loop f tol (gss_step f s) else Some s)"

definition gss_init :: "(real \<Rightarrow> real) \<Rightarrow> real \<Rightarrow> real \<Rightarrow> gss_state" where
  "gss_init f lower upper =
     (let a = lower;
          b = upper;
          x1 = b - phi * (b - a);
          x2 = a + phi * (b - a)
      in \<lparr>gss_a = a, gss_b = b, gss_x1 = x1, gss_x2 = x2, gss_f1 = f x1, gss_f2 = f x2\<rparr>)"

definition goldenSectionSearch :: "(real \<Rightarrow> real) \<Rightarrow> real \<Rightarrow> real \<Rightarrow> real \<Rightarrow> real option" where
  "goldenSectionSearch f lower upper tol =
     (case gss_loop f tol (gss_init f lower upper) of
        None \<Rightarrow> None
      | Some s \<Rightarrow> Some ((gss_a s + gss_b s) / 2))"

section \<open>Coordinate-descent optimiser\<close>

record OptimizationResult =
  f_opt :: real
  zeta2_opt :: real
  minPeakAmp :: real

text \<open>
  The mutable locals of \<^verbatim>\<open>optimizeTMD\<close>. \<open>opt_prevVal\<close> starts as \<^verbatim>\<open>Infinity\<close>, which is
  \<open>None\<close> here. \<open>opt_runs\<close> is not a variable of the source: it counts the executions of
  the loop body, so that the iteration bound can be stated.
\<close>

record opt_state =
  opt_f :: real
  opt_zeta2 :: real
  opt_prevVal :: "real option"
  opt_currentVal :: real
  opt_runs :: nat

text \<open>\<^verbatim>\<open>Math.abs(prevVal - currentVal) < tolerance\<close>; with \<^verbatim>\<open>prevVal = Infinity\<close> it is false.\<close>

definition converged :: "real option \<Rightarrow> real \<Rightarrow> real \<Rightarrow> bool" where
  "converged prev cur tolerance =
     (case prev of None \<Rightarrow> False | Some p \<Rightarrow> \<bar>p - cur\<bar> < tolerance)"

function optimizeTMD_loop ::
  "real \<Rightarrow> real \<Rightarrow> real \<Rightarrow> nat \<Rightarrow> opt_state \<Rightarrow> opt_state option" where
  "optimizeTMD_loop mu zeta1 tolerance iteration s =
     (if iteration < 20 then
        (case goldenSectionSearch (\<lambda>testF. findPeakAmplitude testF (opt_zeta2 s) mu zeta1)
                (5 / 10) (15 / 10) tolerance of
           None \<Rightarrow> None
         | Some f \<Rightarrow>
             (case goldenSectionSearch (\<lambda>testZ2. findPeakAmplitude f testZ2 mu zeta1)
                     (1 / 100) (5 / 10) tolerance of
                None \<Rightarrow> None
              | Some zeta2 \<Rightarrow>
                  (let cur = findPeakAmplitude f zeta2 mu zeta1;
                       s' = s\<lparr>opt_f := f, opt_zeta2 := zeta2, opt_currentVal := cur,
                              opt_runs := opt_runs s + 1\<rparr>
                   in if converged (opt_prevVal s) cur tolerance then Some s'
                      else optimizeTMD_loop mu zeta1 tolerance (iteration + 1)
                             (s'\<lparr>opt_prevVal := Some cur\<rparr>))))
      else Some s)"
  by pat_completeness auto
termination
  by (relation "measure (\<lambda>(mu, zeta1, tolerance, iteration, s). 20 - iteration)") auto

declare optimizeTMD_loop.simps [simp del]

text \<open>\<^verbatim>\<open>const tolerance = 1e-4\<close>.\<close>

definition opt_tolerance :: real where
  "opt_tolerance = 1 / 10000"

text \<open>The values of the locals when the loop is entered (the Den Hartog warm start).\<close>

definition optimizeTMD_init :: "real \<Rightarrow> real \<Rightarrow> opt_state" where
  "optimizeTMD_init mu zeta1 =
     (let f = 1 / (1 + mu);
          zeta2 = sqrt ((3 * mu) / (8 * (1 + mu)));
          currentVal = findPeakAmplitude f zeta2 mu zeta1
      in \<lparr>opt_f = f, opt_zeta2 = zeta2, opt_prevVal = None, opt_currentVal = currentVal,
          opt_runs = 0\<rparr>)"

definition optimizeTMD :: "real \<Rightarrow> real \<Rightarrow> OptimizationResult option" where
  "optimizeTMD mu zeta1 =
     (case optimizeTMD_loop mu zeta1 opt_tolerance 0 (optimizeTMD_init mu zeta1) of
        None \<Rightarrow> None
      | Some s \<Rightarrow>
          Some \<lparr>f_opt = opt_f s, zeta2_opt = opt_zeta2 s, minPeakAmp = opt_currentVal s\<rparr>)"

section \<open>The formulas of the specification\<close>







section \<open>Invariants used in the proofs\<close>

text \<open>The probes sit at the golden-ratio positions of the bracket and carry the objective's
  values there.\<close>

definition gss_inv :: "(real \<Rightarrow> real) \<Rightarrow> gss_state \<Rightarrow> bool" where
  "gss_inv f s \<longleftrightarrow>
     gss_x1 s = gss_b s - phi * (gss_b s - gss_a s) \<and>
     gss_x2 s = gss_a s + phi * (gss_b s - gss_a s) \<and>
     gss_f1 s = f (gss_x1 s) \<and> gss_f2 s = f (gss_x2 s)"

text \<open>The tuning pair lies in the two search boxes and \<open>opt_currentVal\<close> is its peak.\<close>

definition opt_inv :: "real \<Rightarrow> real \<Rightarrow> opt_state \<Rightarrow> bool" where
  "opt_inv mu zeta1 s \<longleftrightarrow>
     5 / 10 \<le> opt_f s \<and> opt_f s \<le> 15 / 10 \<and>
     1 / 100 \<le> opt_zeta2 s \<and> opt_zeta2 s \<le> 5 / 10 \<and>
     opt_currentVal s = findPeakAmplitude (opt_f s) (opt_zeta2 s) mu zeta1"

section \<open>The run at \<open>mu = 3 / 5\<close>, \<open>zeta1 = 9 / 10\<close>\<close>

text \<open>
  With \<open>u = g\<^sup>2\<close>, the numerator and the denominator under the square roots of
  \<open>getAmplitude g f z (3 / 5) (9 / 10)\<close>, as polynomials in \<open>u\<close>, \<open>f\<close> and \<open>z\<close>.
\<close>

definition ampN :: "real \<Rightarrow> real \<Rightarrow> real \<Rightarrow> real" where
  "ampN u f z = (f * f - u) * (f * f - u) + 4 * z * z * (f * f) * u"

definition ampD :: "real \<Rightarrow> real \<Rightarrow> real \<Rightarrow> real" where
  "ampD u f z =
     ((1 - u) * (f * f - u) - 3 / 5 * (f * f) * u - 4 * (9 / 10) * z * f * u) *
     ((1 - u) * (f * f - u) - 3 / 5 * (f * f) * u - 4 * (9 / 10) * z * f * u) +
     u * ((2 * z * f * (1 - u - 3 / 5 * u) + 2 * (9 / 10) * (f * f - u)) *
          (2 * z * f * (1 - u - 3 / 5 * u) + 2 * (9 / 10) * (f * f - u)))"

abbreviation amp :: "real \<Rightarrow> real \<Rightarrow> real \<Rightarrow> real" where
  "amp g f z \<equiv> getAmplitude g f z (3 / 5) (9 / 10)"

abbreviation peak :: "real \<Rightarrow> real \<Rightarrow> real" where
  "peak f z \<equiv> findPeakAmplitude f z (3 / 5) (9 / 10)"

text \<open>
  The states of \<open>optimizeTMD_loop\<close> met on this run. A pass entered with \<open>pre_left\<close> ends
  with \<open>pre_right\<close>, and a pass entered with \<open>pre_right\<close> ends with \<open>pre_left\<close> at the
  corner \<open>at_upper_corner\<close> of the search boxes.
\<close>

definition pre_left :: "opt_state \<Rightarrow> bool" where
  "pre_left s \<longleftrightarrow> 3 / 8 \<le> opt_zeta2 s \<and> opt_zeta2 s \<le> 1 / 2 \<and>
     (case opt_prevVal s of None \<Rightarrow> True | Some p \<Rightarrow> 9 / 10 \<le> p)"

definition pre_right :: "opt_state \<Rightarrow> bool" where
  "pre_right s \<longleftrightarrow> 1 / 100 \<le> opt_zeta2 s \<and> opt_zeta2 s \<le> 13 / 64 \<and>
     (case opt_prevVal s of None \<Rightarrow> False | Some p \<Rightarrow> p \<le> 3 / 4)"

definition at_upper_corner :: "opt_state \<Rightarrow> bool" where
  "at_upper_corner s \<longleftrightarrow> 95 / 64 \<le> opt_f s \<and> opt_f s \<le> 3 / 2 \<and>
     31 / 64 \<le> opt_zeta2 s \<and> opt_zeta2 s \<le> 1 / 2 \<and>
     opt_currentVal s = findPeakAmplitude (opt_f s) (opt_zeta2 s) (3 / 5) (9 / 10)"

section \<open>Properties of the amplitude model\<close>





lemma guarded_ratio_nonneg:
  fixes n d :: real
  assumes "0 \<le> n" "0 \<le> d"
  shows "0 \<le> (if sqrt d = 0 then 100 else sqrt n / sqrt d)"
  using assms by (simp del: real_sqrt_eq_zero_cancel_iff)

lemma getAmplitude_nonneg: "0 \<le> getAmplitude g f zeta2 mu zeta1"
  unfolding getAmplitude_def Let_def
  by (rule guarded_ratio_nonneg) (simp_all only: zero_le_square add_nonneg_nonneg)











section \<open>Properties of the peak finder\<close>

lemma findPeakAmplitude_loop_unfold:
  "findPeakAmplitude_loop f zeta2 mu zeta1 g maxAmp =
     (if g \<le> 2 then
        findPeakAmplitude_loop f zeta2 mu zeta1 (g + 5 / 1000)
          (if getAmplitude g f zeta2 mu zeta1 > maxAmp then getAmplitude g f zeta2 mu zeta1
           else maxAmp)
      else maxAmp)"
  by (subst findPeakAmplitude_loop.simps) (simp only: Let_def)



lemma Max_insert_max:
  fixes m a :: real
  assumes "finite S"
  shows "Max (insert (max m a) S) = Max (insert m (insert a S))"
proof (cases "S = {}")
  case True
  then show ?thesis by simp
next
  case False
  with assms show ?thesis by (simp add: max.assoc)
qed

text \<open>From the \<open>k\<close>-th grid point on, the loop returns the maximum of the accumulator and
  the remaining samples; after the 301st sample the loop variable is 2.005 and the loop ends.\<close>

lemma findPeakAmplitude_loop_grid:
  assumes "k \<le> 301"
  shows "findPeakAmplitude_loop f zeta2 mu zeta1 (5 / 10 + 5 / 1000 * real k) m =
         Max (insert m ((\<lambda>j. getAmplitude (5 / 10 + 5 / 1000 * real j) f zeta2 mu zeta1) ` {k..300}))"
  using assms
proof (induction "301 - k" arbitrary: k m)
  case 0
  then have k: "k = 301" by simp
  have "\<not> (5 / 10 + 5 / 1000 * real k \<le> 2)" unfolding k by simp
  then have "findPeakAmplitude_loop f zeta2 mu zeta1 (5 / 10 + 5 / 1000 * real k) m = m"
    by (subst findPeakAmplitude_loop_unfold) (simp only: if_False)
  moreover have "{k..300} = {}" unfolding k by simp
  ultimately show ?case by simp
next
  case (Suc n)
  let ?A = "\<lambda>j. getAmplitude (5 / 10 + 5 / 1000 * real j) f zeta2 mu zeta1"
  from Suc.hyps(2) have k: "k \<le> 300" and n: "n = 301 - Suc k" by simp_all
  have le: "5 / 10 + 5 / 1000 * real k \<le> 2" using k by simp
  have next_g: "5 / 10 + 5 / 1000 * real k + 5 / 1000 = 5 / 10 + 5 / 1000 * real (Suc k)"
    by (simp add: field_simps)
  have "findPeakAmplitude_loop f zeta2 mu zeta1 (5 / 10 + 5 / 1000 * real k) m =
        findPeakAmplitude_loop f zeta2 mu zeta1 (5 / 10 + 5 / 1000 * real (Suc k))
          (if ?A k > m then ?A k else m)"
    using le by (subst findPeakAmplitude_loop_unfold) (simp only: if_True next_g)
  also have "\<dots> = Max (insert (if ?A k > m then ?A k else m) (?A ` {Suc k..300}))"
  proof (rule Suc.hyps(1) [OF n])
    show "Suc k \<le> 301" using k by linarith
  qed
  also have "(if ?A k > m then ?A k else m) = max m (?A k)"
    by (simp add: max_def)
  also have "Max (insert (max m (?A k)) (?A ` {Suc k..300})) =
             Max (insert m (insert (?A k) (?A ` {Suc k..300})))"
    by (rule Max_insert_max) (rule finite_imageI, rule finite_atLeastAtMost)
  also have "insert (?A k) (?A ` {Suc k..300}) = ?A ` insert k {Suc k..300}"
    by (simp only: image_insert)
  also have "insert k {Suc k..300} = {k..300}"
    using k by (rule atLeastAtMost_insertL)
  finally show ?case .
qed

lemma findPeakAmplitude_grid:
  "findPeakAmplitude f zeta2 mu zeta1 =
     Max ((\<lambda>k. getAmplitude (5 / 10 + 5 / 1000 * real k) f zeta2 mu zeta1) ` {0..300})"
proof -
  let ?A = "\<lambda>j. getAmplitude (5 / 10 + 5 / 1000 * real j) f zeta2 mu zeta1"
  have fin: "finite (?A ` {0..300})"
    by (rule finite_imageI) (rule finite_atLeastAtMost)
  have mem: "?A 0 \<in> ?A ` {0..300}"
    by (rule imageI) (simp only: atLeastAtMost_iff le0 simp_thms)
  have "5 / 10 + 5 / 1000 * real (0::nat) = 5 / 10" by simp
  then have "findPeakAmplitude f zeta2 mu zeta1 = Max (insert 0 (?A ` {0..300}))"
    unfolding findPeakAmplitude_def
    using findPeakAmplitude_loop_grid [of 0 f zeta2 mu zeta1 0] by (simp only: le0)
  also have "\<dots> = max 0 (Max (?A ` {0..300}))"
    using fin mem by (intro Max_insert) blast+
  also have "\<dots> = Max (?A ` {0..300})"
  proof -
    have "?A 0 \<le> Max (?A ` {0..300})" using fin mem by (rule Max_ge)
    moreover have "0 \<le> ?A 0" by (rule getAmplitude_nonneg)
    ultimately show ?thesis by linarith
  qed
  finally show ?thesis .
qed

lemma findPeakAmplitude_ge_sample:
  assumes "k \<le> 300"
  shows "getAmplitude (5 / 10 + 5 / 1000 * real k) f zeta2 mu zeta1 \<le> findPeakAmplitude f zeta2 mu zeta1"
proof -
  let ?A = "\<lambda>j. getAmplitude (5 / 10 + 5 / 1000 * real j) f zeta2 mu zeta1"
  have "finite (?A ` {0..300})"
    by (rule finite_imageI) (rule finite_atLeastAtMost)
  moreover have "?A k \<in> ?A ` {0..300}"
    using assms by (intro imageI) (simp only: atLeastAtMost_iff le0 simp_thms)
  ultimately have "?A k \<le> Max (?A ` {0..300})" by (rule Max_ge)
  then show ?thesis by (simp only: findPeakAmplitude_grid)
qed



section \<open>Properties of the golden-section search\<close>

lemma sqrt5_bounds: "2 < sqrt 5" "sqrt 5 < 3"
proof -
  show "2 < sqrt 5" by (rule real_less_rsqrt) simp
  show "sqrt 5 < 3" by (rule real_less_lsqrt) simp_all
qed

lemma phi_gt_half: "1 / 2 < phi"
  using sqrt5_bounds unfolding phi_def by simp

lemma phi_pos: "0 < phi"
  using phi_gt_half by simp

lemma phi_lt_one: "phi < 1"
  using sqrt5_bounds unfolding phi_def by simp

lemma phi_square: "phi * phi = 1 - phi"
proof -
  have "sqrt 5 * sqrt 5 = 5" by simp
  then show ?thesis unfolding phi_def by (simp add: field_simps)
qed

lemma phi_phi: "phi * (phi * w) = w - phi * w"
proof -
  have "phi * (phi * w) = (phi * phi) * w" by (simp only: mult.assoc)
  also have "\<dots> = (1 - phi) * w" by (simp only: phi_square)
  also have "\<dots> = w - phi * w" by (simp add: algebra_simps)
  finally show ?thesis .
qed

lemma gss_init_inv: "gss_inv f (gss_init f lower upper)"
  by (simp add: gss_inv_def gss_init_def Let_def)

lemma gss_init_bracket: "gss_a (gss_init f lower upper) = lower" "gss_b (gss_init f lower upper) = upper"
  by (simp_all add: gss_init_def Let_def)

lemma gss_step_inv:
  assumes "gss_inv f s"
  shows "gss_inv f (gss_step f s)"
proof (cases "gss_f1 s < gss_f2 s")
  case True
  have "gss_b s - phi * (gss_b s - gss_a s) = gss_a s + phi * (gss_a s + phi * (gss_b s - gss_a s) - gss_a s)"
    by (simp add: algebra_simps phi_phi)
  with True assms show ?thesis
    by (simp add: gss_inv_def gss_step_def Let_def)
next
  case False
  have "gss_a s + phi * (gss_b s - gss_a s) =
        gss_b s - phi * (gss_b s - (gss_b s - phi * (gss_b s - gss_a s)))"
    by (simp add: algebra_simps phi_phi)
  with False assms show ?thesis
    by (simp add: gss_inv_def gss_step_def Let_def)
qed

lemma gss_step_width:
  assumes "gss_inv f s"
  shows "gss_b (gss_step f s) - gss_a (gss_step f s) = phi * (gss_b s - gss_a s)"
  using assms by (simp add: gss_inv_def gss_step_def Let_def algebra_simps)

lemma gss_funpow_inv:
  assumes "gss_inv f s"
  shows "gss_inv f ((gss_step f ^^ n) s)"
  using assms by (induction n) (simp_all add: gss_step_inv)

lemma gss_funpow_width:
  assumes "gss_inv f s"
  shows "gss_b ((gss_step f ^^ n) s) - gss_a ((gss_step f ^^ n) s) = phi ^ n * (gss_b s - gss_a s)"
proof (induction n)
  case 0
  show ?case by simp
next
  case (Suc n)
  have "gss_b ((gss_step f ^^ Suc n) s) - gss_a ((gss_step f ^^ Suc n) s) =
        phi * (gss_b ((gss_step f ^^ n) s) - gss_a ((gss_step f ^^ n) s))"
    using gss_step_width [OF gss_funpow_inv [OF assms, of n]] by simp
  with Suc show ?case by simp
qed

text \<open>If the width falls to \<open>tol\<close> within \<open>n\<close> steps, the loop returns the state after the
  first number \<open>m\<close> of steps at which it has.\<close>

lemma gss_loop_returns:
  assumes "\<bar>gss_b ((gss_step f ^^ n) s) - gss_a ((gss_step f ^^ n) s)\<bar> \<le> tol"
  shows "\<exists>m\<le>n. gss_loop f tol s = Some ((gss_step f ^^ m) s) \<and>
           \<bar>gss_b ((gss_step f ^^ m) s) - gss_a ((gss_step f ^^ m) s)\<bar> \<le> tol \<and>
           (\<forall>j<m. \<bar>gss_b ((gss_step f ^^ j) s) - gss_a ((gss_step f ^^ j) s)\<bar> > tol)"
  using assms
proof (induction n arbitrary: s)
  case 0
  then have "gss_loop f tol s = Some s"
    by (subst gss_loop.simps) simp
  with 0 show ?case by simp
next
  case (Suc n)
  show ?case
  proof (cases "\<bar>gss_b s - gss_a s\<bar> > tol")
    case False
    then have "gss_loop f tol s = Some s"
      by (subst gss_loop.simps) simp
    with False show ?thesis by (intro exI [of _ 0]) simp
  next
    case True
    have "\<bar>gss_b ((gss_step f ^^ n) (gss_step f s)) - gss_a ((gss_step f ^^ n) (gss_step f s))\<bar> \<le> tol"
      using Suc.prems by (simp only: funpow_Suc_right o_apply)
    from Suc.IH [OF this] obtain m where m: "m \<le> n"
      "gss_loop f tol (gss_step f s) = Some ((gss_step f ^^ m) (gss_step f s))"
      "\<bar>gss_b ((gss_step f ^^ m) (gss_step f s)) - gss_a ((gss_step f ^^ m) (gss_step f s))\<bar> \<le> tol"
      "\<forall>j<m. \<bar>gss_b ((gss_step f ^^ j) (gss_step f s)) - gss_a ((gss_step f ^^ j) (gss_step f s))\<bar> > tol"
      by blast
    have loop: "gss_loop f tol s = gss_loop f tol (gss_step f s)"
      using True by (subst gss_loop.simps) simp
    have "\<forall>j<Suc m. \<bar>gss_b ((gss_step f ^^ j) s) - gss_a ((gss_step f ^^ j) s)\<bar> > tol"
    proof (intro allI impI)
      fix j assume j: "j < Suc m"
      show "\<bar>gss_b ((gss_step f ^^ j) s) - gss_a ((gss_step f ^^ j) s)\<bar> > tol"
      proof (cases j)
        case 0
        with True show ?thesis by simp
      next
        case (Suc i)
        with j have "i < m" by simp
        with m(4) have "\<bar>gss_b ((gss_step f ^^ i) (gss_step f s)) - gss_a ((gss_step f ^^ i) (gss_step f s))\<bar> > tol"
          by blast
        then show ?thesis unfolding Suc by (simp only: funpow_Suc_right o_apply)
      qed
    qed
    with m(1,2,3) loop show ?thesis
      by (intro exI [of _ "Suc m"]) (simp only: funpow_Suc_right o_apply Suc_le_mono simp_thms)
  qed
qed

lemma phi_power_small:
  assumes "0 < tol"
  shows "\<exists>n. phi ^ n * \<bar>w\<bar> \<le> tol"
proof -
  have "0 < tol / (\<bar>w\<bar> + 1)" using assms by simp
  then obtain n where n: "phi ^ n < tol / (\<bar>w\<bar> + 1)"
    using real_arch_pow_inv [OF _ phi_lt_one] by blast
  then have "phi ^ n * (\<bar>w\<bar> + 1) < tol" by (simp add: pos_less_divide_eq)
  moreover have "phi ^ n * \<bar>w\<bar> \<le> phi ^ n * (\<bar>w\<bar> + 1)"
    using phi_pos by (simp add: mult_left_mono)
  ultimately show ?thesis by (intro exI [of _ n]) linarith
qed

lemma gss_loop_terminates:
  assumes "gss_inv f s" "0 < tol"
  shows "\<exists>m. gss_loop f tol s = Some ((gss_step f ^^ m) s) \<and>
           \<bar>phi ^ m * (gss_b s - gss_a s)\<bar> \<le> tol \<and>
           (\<forall>j<m. \<bar>phi ^ j * (gss_b s - gss_a s)\<bar> > tol)"
proof -
  obtain n where "phi ^ n * \<bar>gss_b s - gss_a s\<bar> \<le> tol"
    using phi_power_small [OF assms(2)] by blast
  then have "\<bar>phi ^ n * (gss_b s - gss_a s)\<bar> \<le> tol"
    using phi_pos by (simp add: abs_mult)
  then have "\<bar>gss_b ((gss_step f ^^ n) s) - gss_a ((gss_step f ^^ n) s)\<bar> \<le> tol"
    by (simp only: gss_funpow_width [OF assms(1)])
  from gss_loop_returns [OF this] show ?thesis
    by (simp only: gss_funpow_width [OF assms(1)]) blast
qed

text \<open>The bracket never leaves the initial interval.\<close>

lemma gss_step_bracket:
  assumes "gss_inv f s" "gss_a s \<le> gss_b s"
  shows "gss_a s \<le> gss_a (gss_step f s) \<and> gss_a (gss_step f s) \<le> gss_b (gss_step f s) \<and>
         gss_b (gss_step f s) \<le> gss_b s"
proof -
  let ?w = "gss_b s - gss_a s"
  have w: "0 \<le> ?w" using assms(2) by simp
  have 1: "0 \<le> phi * ?w" using w phi_pos by simp
  have 2: "phi * ?w \<le> ?w"
  proof -
    have "phi * ?w \<le> 1 * ?w" using w phi_lt_one by (intro mult_right_mono) simp_all
    then show ?thesis by simp
  qed
  have 3: "?w \<le> 2 * (phi * ?w)"
  proof -
    have "1 / 2 * ?w \<le> phi * ?w" using w phi_gt_half by (intro mult_right_mono) simp_all
    then show ?thesis by simp
  qed
  show ?thesis
    using assms(1) 1 2 3 by (simp add: gss_inv_def gss_step_def Let_def)
qed

lemma gss_funpow_bracket:
  assumes "gss_inv f s" "gss_a s \<le> gss_b s"
  shows "gss_a s \<le> gss_a ((gss_step f ^^ n) s) \<and>
         gss_a ((gss_step f ^^ n) s) \<le> gss_b ((gss_step f ^^ n) s) \<and>
         gss_b ((gss_step f ^^ n) s) \<le> gss_b s"
proof (induction n)
  case 0
  show ?case using assms(2) by simp
next
  case (Suc n)
  have "gss_inv f ((gss_step f ^^ n) s)" by (rule gss_funpow_inv [OF assms(1)])
  from gss_step_bracket [OF this] Suc show ?case by fastforce
qed




lemma goldenSectionSearch_result:
  assumes "0 < tol"
  shows "\<exists>n. gss_loop f tol (gss_init f lower upper) = Some ((gss_step f ^^ n) (gss_init f lower upper)) \<and>
           goldenSectionSearch f lower upper tol =
             Some ((gss_a ((gss_step f ^^ n) (gss_init f lower upper)) +
                    gss_b ((gss_step f ^^ n) (gss_init f lower upper))) / 2) \<and>
           \<bar>phi ^ n * (upper - lower)\<bar> \<le> tol \<and>
           (\<forall>j<n. \<bar>phi ^ j * (upper - lower)\<bar> > tol)"
proof -
  from gss_loop_terminates [OF gss_init_inv [of f lower upper] assms]
  obtain m where m: "gss_loop f tol (gss_init f lower upper) = Some ((gss_step f ^^ m) (gss_init f lower upper))"
    "\<bar>phi ^ m * (upper - lower)\<bar> \<le> tol" "\<forall>j<m. \<bar>phi ^ j * (upper - lower)\<bar> > tol"
    unfolding gss_init_bracket by blast
  from m(1) have "goldenSectionSearch f lower upper tol =
             Some ((gss_a ((gss_step f ^^ m) (gss_init f lower upper)) +
                    gss_b ((gss_step f ^^ m) (gss_init f lower upper))) / 2)"
    unfolding goldenSectionSearch_def by simp
  with m show ?thesis by blast
qed

lemma goldenSectionSearch_range:
  assumes "lower \<le> upper" "0 < tol"
  shows "\<exists>x. goldenSectionSearch f lower upper tol = Some x \<and> lower \<le> x \<and> x \<le> upper"
proof -
  from goldenSectionSearch_result [OF assms(2), of f lower upper]
  obtain n where n: "goldenSectionSearch f lower upper tol =
             Some ((gss_a ((gss_step f ^^ n) (gss_init f lower upper)) +
                    gss_b ((gss_step f ^^ n) (gss_init f lower upper))) / 2)"
    by blast
  have "gss_a (gss_init f lower upper) \<le> gss_b (gss_init f lower upper)"
    using assms(1) by (simp only: gss_init_bracket)
  from gss_funpow_bracket [OF gss_init_inv this, of n]
  have "lower \<le> gss_a ((gss_step f ^^ n) (gss_init f lower upper))"
    "gss_a ((gss_step f ^^ n) (gss_init f lower upper)) \<le> gss_b ((gss_step f ^^ n) (gss_init f lower upper))"
    "gss_b ((gss_step f ^^ n) (gss_init f lower upper)) \<le> upper"
    by (simp_all only: gss_init_bracket)
  then have "lower \<le> (gss_a ((gss_step f ^^ n) (gss_init f lower upper)) +
                    gss_b ((gss_step f ^^ n) (gss_init f lower upper))) / 2 \<and>
             (gss_a ((gss_step f ^^ n) (gss_init f lower upper)) +
                    gss_b ((gss_step f ^^ n) (gss_init f lower upper))) / 2 \<le> upper"
    by simp
  with n show ?thesis by blast
qed








section \<open>Properties of the optimiser\<close>

lemma opt_tolerance_pos: "0 < opt_tolerance"
  by (simp add: opt_tolerance_def)

lemma optimizeTMD_loop_result:
  assumes tol: "0 < tolerance"
  shows "\<exists>s'. optimizeTMD_loop mu zeta1 tolerance iteration s = Some s' \<and>
           (iteration < 20 \<or> opt_inv mu zeta1 s \<longrightarrow> opt_inv mu zeta1 s') \<and>
           opt_runs s' \<le> opt_runs s + (20 - iteration) \<and>
           (iteration < 20 \<longrightarrow> opt_runs s < opt_runs s')"
proof (induction "20 - iteration" arbitrary: iteration s)
  case 0
  then have "\<not> iteration < 20" by simp
  then have "optimizeTMD_loop mu zeta1 tolerance iteration s = Some s"
    by (subst optimizeTMD_loop.simps) simp
  with \<open>\<not> iteration < 20\<close> show ?case by simp
next
  case (Suc n)
  then have it: "iteration < 20" and n: "n = 20 - (iteration + 1)" by simp_all
  obtain f where f: "goldenSectionSearch (\<lambda>testF. findPeakAmplitude testF (opt_zeta2 s) mu zeta1)
                       (5 / 10) (15 / 10) tolerance = Some f"
    "5 / 10 \<le> f" "f \<le> 15 / 10"
    using goldenSectionSearch_range [of "5 / 10" "15 / 10" tolerance] tol by force
  obtain zeta2 where z: "goldenSectionSearch (\<lambda>testZ2. findPeakAmplitude f testZ2 mu zeta1)
                       (1 / 100) (5 / 10) tolerance = Some zeta2"
    "1 / 100 \<le> zeta2" "zeta2 \<le> 5 / 10"
    using goldenSectionSearch_range [of "1 / 100" "5 / 10" tolerance] tol by force
  define cur where "cur = findPeakAmplitude f zeta2 mu zeta1"
  define s1 where "s1 = s\<lparr>opt_f := f, opt_zeta2 := zeta2, opt_currentVal := cur,
                              opt_runs := opt_runs s + 1\<rparr>"
  have inv1: "opt_inv mu zeta1 s1"
    using f z by (simp add: opt_inv_def s1_def cur_def)
  have runs1: "opt_runs s1 = opt_runs s + 1" by (simp add: s1_def)
  have unfold: "optimizeTMD_loop mu zeta1 tolerance iteration s =
        (if converged (opt_prevVal s) cur tolerance then Some s1
         else optimizeTMD_loop mu zeta1 tolerance (iteration + 1) (s1\<lparr>opt_prevVal := Some cur\<rparr>))"
    using it f(1) z(1) by (subst optimizeTMD_loop.simps) (simp add: Let_def cur_def s1_def)
  show ?case
  proof (cases "converged (opt_prevVal s) cur tolerance")
    case True
    with unfold inv1 runs1 it show ?thesis by simp
  next
    case False
    define s2 where "s2 = s1\<lparr>opt_prevVal := Some cur\<rparr>"
    have inv2: "opt_inv mu zeta1 s2" using inv1 by (simp add: opt_inv_def s2_def)
    have runs2: "opt_runs s2 = opt_runs s + 1" using runs1 by (simp add: s2_def)
    from Suc.hyps(1) [OF n, of s2] obtain s' where s':
      "optimizeTMD_loop mu zeta1 tolerance (iteration + 1) s2 = Some s'"
      "iteration + 1 < 20 \<or> opt_inv mu zeta1 s2 \<longrightarrow> opt_inv mu zeta1 s'"
      "opt_runs s' \<le> opt_runs s2 + (20 - (iteration + 1))"
      by blast
    have mono: "opt_runs s2 \<le> opt_runs s'"
    proof (cases "iteration + 1 < 20")
      case True
      with Suc.hyps(1) [OF n, of s2] s'(1) show ?thesis by auto
    next
      case False
      then have "optimizeTMD_loop mu zeta1 tolerance (iteration + 1) s2 = Some s2"
        by (subst optimizeTMD_loop.simps) simp
      with s'(1) show ?thesis by simp
    qed
    have "optimizeTMD_loop mu zeta1 tolerance iteration s = Some s'"
      using unfold False s'(1) by (simp add: s2_def)
    moreover have "opt_inv mu zeta1 s'" using s'(2) inv2 by blast
    moreover have "opt_runs s' \<le> opt_runs s + (20 - iteration)"
      using s'(3) runs2 it by simp
    moreover have "opt_runs s < opt_runs s'" using mono runs2 by simp
    ultimately show ?thesis by blast
  qed
qed

lemma optimizeTMD_run:
  "\<exists>s. optimizeTMD_loop mu zeta1 opt_tolerance 0 (optimizeTMD_init mu zeta1) = Some s \<and>
       opt_inv mu zeta1 s \<and> 1 \<le> opt_runs s \<and> opt_runs s \<le> 20 \<and>
       optimizeTMD mu zeta1 =
         Some \<lparr>f_opt = opt_f s, zeta2_opt = opt_zeta2 s, minPeakAmp = opt_currentVal s\<rparr>"
proof -
  have r0: "opt_runs (optimizeTMD_init mu zeta1) = 0"
    by (simp add: optimizeTMD_init_def Let_def)
  from optimizeTMD_loop_result [OF opt_tolerance_pos, of mu zeta1 0 "optimizeTMD_init mu zeta1"]
  obtain s where s: "optimizeTMD_loop mu zeta1 opt_tolerance 0 (optimizeTMD_init mu zeta1) = Some s"
    "opt_inv mu zeta1 s" "opt_runs s \<le> opt_runs (optimizeTMD_init mu zeta1) + 20"
    "opt_runs (optimizeTMD_init mu zeta1) < opt_runs s"
    by auto
  from s(1) have "optimizeTMD mu zeta1 =
         Some \<lparr>f_opt = opt_f s, zeta2_opt = opt_zeta2 s, minPeakAmp = opt_currentVal s\<rparr>"
    by (simp add: optimizeTMD_def)
  with s r0 show ?thesis by (intro exI [of _ s]) simp
qed

text \<open>
  C3. \<open>optimizeTMD\<close> returns a result for all arguments, its loop body is executed at most
  20 times, and the returned \<open>minPeakAmp\<close> is \<open>findPeakAmplitude\<close> at the returned pair.
\<close>

theorem optimizeTMD_returns:
  "\<exists>s r. optimizeTMD_loop mu zeta1 opt_tolerance 0 (optimizeTMD_init mu zeta1) = Some s \<and>
         opt_runs s \<le> 20 \<and>
         optimizeTMD mu zeta1 = Some r \<and>
         f_opt r = opt_f s \<and> zeta2_opt r = opt_zeta2 s \<and> minPeakAmp r = opt_currentVal s \<and>
         minPeakAmp r = findPeakAmplitude (f_opt r) (zeta2_opt r) mu zeta1"
proof -
  from optimizeTMD_run [of mu zeta1] obtain s where
    s: "optimizeTMD_loop mu zeta1 opt_tolerance 0 (optimizeTMD_init mu zeta1) = Some s"
      "opt_inv mu zeta1 s" "opt_runs s \<le> 20"
      "optimizeTMD mu zeta1 =
         Some \<lparr>f_opt = opt_f s, zeta2_opt = opt_zeta2 s, minPeakAmp = opt_currentVal s\<rparr>"
    by blast
  let ?r = "\<lparr>f_opt = opt_f s, zeta2_opt = opt_zeta2 s, minPeakAmp = opt_currentVal s\<rparr>"
  have "minPeakAmp ?r = findPeakAmplitude (f_opt ?r) (zeta2_opt ?r) mu zeta1"
    using s(2) by (simp add: opt_inv_def)
  with s show ?thesis by (intro exI [of _ s] exI [of _ ?r]) simp
qed

lemma goldenSectionSearch_bracket:
  assumes "lower \<le> upper" "0 < tol"
  shows "\<exists>s. gss_loop f tol (gss_init f lower upper) = Some s \<and>
             lower \<le> gss_a s \<and> gss_a s \<le> gss_b s \<and> gss_b s \<le> upper \<and>
             goldenSectionSearch f lower upper tol = Some ((gss_a s + gss_b s) / 2)"
proof -
  from goldenSectionSearch_result [OF assms(2), of f lower upper]
  obtain n where n: "gss_loop f tol (gss_init f lower upper) = Some ((gss_step f ^^ n) (gss_init f lower upper))"
    "goldenSectionSearch f lower upper tol =
             Some ((gss_a ((gss_step f ^^ n) (gss_init f lower upper)) +
                    gss_b ((gss_step f ^^ n) (gss_init f lower upper))) / 2)"
    by blast
  have "gss_a (gss_init f lower upper) \<le> gss_b (gss_init f lower upper)"
    using assms(1) by (simp only: gss_init_bracket)
  from gss_funpow_bracket [OF gss_init_inv this, of n]
  have "lower \<le> gss_a ((gss_step f ^^ n) (gss_init f lower upper))"
    "gss_a ((gss_step f ^^ n) (gss_init f lower upper)) \<le> gss_b ((gss_step f ^^ n) (gss_init f lower upper))"
    "gss_b ((gss_step f ^^ n) (gss_init f lower upper)) \<le> upper"
    by (simp_all only: gss_init_bracket)
  with n show ?thesis by blast
qed

text \<open>
  C9. For every \<open>mu\<close> and \<open>zeta1\<close> the result of \<open>optimizeTMD\<close> has \<open>f_opt\<close> in \<open>[0.5, 1.5]\<close> and
  \<open>zeta2_opt\<close> in \<open>[0.01, 0.5]\<close>: a golden-section search with \<open>lower \<le> upper\<close> and \<open>tol > 0\<close>
  ends with a bracket \<open>[a, b]\<close> inside \<open>[lower, upper]\<close> and returns its midpoint.
\<close>

theorem optimizeTMD_in_search_boxes:
  "(\<exists>r. optimizeTMD mu zeta1 = Some r \<and>
       5 / 10 \<le> f_opt r \<and> f_opt r \<le> 15 / 10 \<and>
       1 / 100 \<le> zeta2_opt r \<and> zeta2_opt r \<le> 5 / 10) \<and>
   (lower \<le> upper \<and> 0 < tol \<longrightarrow>
      (\<exists>s. gss_loop f tol (gss_init f lower upper) = Some s \<and>
           lower \<le> gss_a s \<and> gss_a s \<le> gss_b s \<and> gss_b s \<le> upper \<and>
           goldenSectionSearch f lower upper tol = Some ((gss_a s + gss_b s) / 2)))"
proof (intro conjI impI)
  from optimizeTMD_run [of mu zeta1] obtain s where
    s: "opt_inv mu zeta1 s"
      "optimizeTMD mu zeta1 =
         Some \<lparr>f_opt = opt_f s, zeta2_opt = opt_zeta2 s, minPeakAmp = opt_currentVal s\<rparr>"
    by blast
  then show "\<exists>r. optimizeTMD mu zeta1 = Some r \<and>
       5 / 10 \<le> f_opt r \<and> f_opt r \<le> 15 / 10 \<and>
       1 / 100 \<le> zeta2_opt r \<and> zeta2_opt r \<le> 5 / 10"
    by (simp add: opt_inv_def)
next
  assume "lower \<le> upper \<and> 0 < tol"
  then show "\<exists>s. gss_loop f tol (gss_init f lower upper) = Some s \<and>
           lower \<le> gss_a s \<and> gss_a s \<le> gss_b s \<and> gss_b s \<le> upper \<and>
           goldenSectionSearch f lower upper tol = Some ((gss_a s + gss_b s) / 2)"
    by (intro goldenSectionSearch_bracket) simp_all
qed

theorem optimizeTMD_in_search_boxes_witness:
  "(1 / 100 :: real) \<le> 5 / 10 \<and> (0::real) < 1 / 10000 \<and>
   (\<exists>s. gss_loop (\<lambda>x. x) (1 / 10000) (gss_init (\<lambda>x. x) (1 / 100) (5 / 10)) = Some s \<and>
        1 / 100 \<le> gss_a s \<and> gss_a s \<le> gss_b s \<and> gss_b s \<le> 5 / 10 \<and>
        goldenSectionSearch (\<lambda>x. x) (1 / 100) (5 / 10) (1 / 10000) = Some ((gss_a s + gss_b s) / 2)) \<and>
   (\<exists>r. optimizeTMD (1 / 20) (1 / 20) = Some r \<and>
       5 / 10 \<le> f_opt r \<and> f_opt r \<le> 15 / 10 \<and>
       1 / 100 \<le> zeta2_opt r \<and> zeta2_opt r \<le> 5 / 10)"
  using optimizeTMD_in_search_boxes [of "1 / 20" "1 / 20" "1 / 100" "5 / 10" "1 / 10000" "\<lambda>x. x"]
  by simp


section \<open>Polynomial inequalities for the run at \<open>mu = 3 / 5\<close>, \<open>zeta1 = 9 / 10\<close>\<close>

text \<open>
  Each inequality is proved from an identity that writes a positive multiple of the polynomial
  as a sum of products of nonnegative factors (its Bernstein form on the box).
\<close>

lemma cert_R1_poly_a_1:
  fixes f :: real
  assumes "1 / 2 \<le> f" "f \<le> 9 / 8"
  shows "0 \<le> 45056 * f ^ 8 - 40576 * f ^ 6 + 10368 * f ^ 5 + 16539 * f ^ 4 - 2484 * f ^ 3 - 2711 * f ^ 2 + 216 * f + 232"
proof -
  have id: "1600000000 * (45056 * f ^ 8 - 40576 * f ^ 6 + 10368 * f ^ 5 + 16539 * f ^ 4 - 2484 * f ^ 3 - 2711 * f ^ 2 + 216 * f + 232) =
      1029888 * (9 - 8 * f) ^ 8 +
      14279424 * (8 * f - 4) * (9 - 8 * f) ^ 7 +
      91924704 * (8 * f - 4) ^ 2 * (9 - 8 * f) ^ 6 +
      343276048 * (8 * f - 4) ^ 3 * (9 - 8 * f) ^ 5 +
      819834235 * (8 * f - 4) ^ 4 * (9 - 8 * f) ^ 4 +
      1322664428 * (8 * f - 4) ^ 5 * (9 - 8 * f) ^ 3 +
      1441002584 * (8 * f - 4) ^ 6 * (9 - 8 * f) ^ 2 +
      964299944 * (8 * f - 4) ^ 7 * (9 - 8 * f) +
      295025308 * (8 * f - 4) ^ 8"
    by algebra
  have "0 \<le> 1600000000 * (45056 * f ^ 8 - 40576 * f ^ 6 + 10368 * f ^ 5 + 16539 * f ^ 4 - 2484 * f ^ 3 - 2711 * f ^ 2 + 216 * f + 232)"
    unfolding id
    using assms 
    by (intro add_nonneg_nonneg mult_nonneg_nonneg zero_le_power) simp_all
  then show ?thesis by simp
qed

lemma cert_R1_poly_a_2:
  fixes f :: real
  assumes "1 / 2 \<le> f" "f \<le> 9 / 8"
  shows "0 \<le> 90112 * f ^ 8 - 76928 * f ^ 6 + 22464 * f ^ 5 + 31464 * f ^ 4 - 5058 * f ^ 3 - 5035 * f ^ 2 + 468 * f + 464"
proof -
  have id: "800000000 * (90112 * f ^ 8 - 76928 * f ^ 6 + 22464 * f ^ 5 + 31464 * f ^ 4 - 5058 * f ^ 3 - 5035 * f ^ 2 + 468 * f + 464) =
      1281024 * (9 - 8 * f) ^ 8 +
      17415552 * (8 * f - 4) * (9 - 8 * f) ^ 7 +
      110006592 * (8 * f - 4) ^ 2 * (9 - 8 * f) ^ 6 +
      405753304 * (8 * f - 4) ^ 3 * (9 - 8 * f) ^ 5 +
      958972780 * (8 * f - 4) ^ 4 * (9 - 8 * f) ^ 4 +
      1523195444 * (8 * f - 4) ^ 5 * (9 - 8 * f) ^ 3 +
      1620651107 * (8 * f - 4) ^ 6 * (9 - 8 * f) ^ 2 +
      1054719362 * (8 * f - 4) ^ 7 * (9 - 8 * f) +
      314469034 * (8 * f - 4) ^ 8"
    by algebra
  have "0 \<le> 800000000 * (90112 * f ^ 8 - 76928 * f ^ 6 + 22464 * f ^ 5 + 31464 * f ^ 4 - 5058 * f ^ 3 - 5035 * f ^ 2 + 468 * f + 464)"
    unfolding id
    using assms 
    by (intro add_nonneg_nonneg mult_nonneg_nonneg zero_le_power) simp_all
  then show ?thesis by simp
qed

lemma cert_R1_poly_a_3:
  fixes f :: real
  assumes "1 / 2 \<le> f" "f \<le> 9 / 8"
  shows "0 \<le> 270336 * f ^ 8 - 216704 * f ^ 6 + 72576 * f ^ 5 + 89408 * f ^ 4 - 15120 * f ^ 3 - 13815 * f ^ 2 + 1512 * f + 1392"
proof -
  have id: "800000000 * (270336 * f ^ 8 - 216704 * f ^ 6 + 72576 * f ^ 5 + 89408 * f ^ 4 - 15120 * f ^ 3 - 13815 * f ^ 2 + 1512 * f + 1392) =
      4772352 * (9 - 8 * f) ^ 8 +
      63785216 * (8 * f - 4) * (9 - 8 * f) ^ 7 +
      395629856 * (8 * f - 4) ^ 2 * (9 - 8 * f) ^ 6 +
      1439773312 * (8 * f - 4) ^ 3 * (9 - 8 * f) ^ 5 +
      3363126640 * (8 * f - 4) ^ 4 * (9 - 8 * f) ^ 4 +
      5258939712 * (8 * f - 4) ^ 5 * (9 - 8 * f) ^ 3 +
      5471755131 * (8 * f - 4) ^ 6 * (9 - 8 * f) ^ 2 +
      3468292566 * (8 * f - 4) ^ 7 * (9 - 8 * f) +
      1008397452 * (8 * f - 4) ^ 8"
    by algebra
  have "0 \<le> 800000000 * (270336 * f ^ 8 - 216704 * f ^ 6 + 72576 * f ^ 5 + 89408 * f ^ 4 - 15120 * f ^ 3 - 13815 * f ^ 2 + 1512 * f + 1392)"
    unfolding id
    using assms 
    by (intro add_nonneg_nonneg mult_nonneg_nonneg zero_le_power) simp_all
  then show ?thesis by simp
qed

lemma cert_R1_poly_a_4:
  fixes f :: real
  assumes "1 / 2 \<le> f" "f \<le> 9 / 8"
  shows "0 \<le> 22528 * f ^ 8 - 16768 * f ^ 6 + 6480 * f ^ 5 + 7040 * f ^ 4 - 1224 * f ^ 3 - 1033 * f ^ 2 + 135 * f + 116"
proof -
  have id: "3200000000 * (22528 * f ^ 8 - 16768 * f ^ 6 + 6480 * f ^ 5 + 7040 * f ^ 4 - 1224 * f ^ 3 - 1033 * f ^ 2 + 135 * f + 116) =
      1972224 * (9 - 8 * f) ^ 8 +
      25981952 * (8 * f - 4) * (9 - 8 * f) ^ 7 +
      158417792 * (8 * f - 4) ^ 2 * (9 - 8 * f) ^ 6 +
      568450304 * (8 * f - 4) ^ 3 * (9 - 8 * f) ^ 5 +
      1310947280 * (8 * f - 4) ^ 4 * (9 - 8 * f) ^ 4 +
      2017680644 * (8 * f - 4) ^ 5 * (9 - 8 * f) ^ 3 +
      2054805632 * (8 * f - 4) ^ 6 * (9 - 8 * f) ^ 2 +
      1270017812 * (8 * f - 4) ^ 7 * (9 - 8 * f) +
      360284659 * (8 * f - 4) ^ 8"
    by algebra
  have "0 \<le> 3200000000 * (22528 * f ^ 8 - 16768 * f ^ 6 + 6480 * f ^ 5 + 7040 * f ^ 4 - 1224 * f ^ 3 - 1033 * f ^ 2 + 135 * f + 116)"
    unfolding id
    using assms 
    by (intro add_nonneg_nonneg mult_nonneg_nonneg zero_le_power) simp_all
  then show ?thesis by simp
qed

lemma cert_R1_poly_a_5:
  fixes f :: real
  assumes "1 / 2 \<le> f" "f \<le> 9 / 8"
  shows "0 \<le> 5632 * f ^ 8 - 3840 * f ^ 6 + 1728 * f ^ 5 + 1664 * f ^ 4 - 288 * f ^ 3 - 226 * f ^ 2 + 36 * f + 29"
proof -
  have id: "12800000000 * (5632 * f ^ 8 - 3840 * f ^ 6 + 1728 * f ^ 5 + 1664 * f ^ 4 - 288 * f ^ 3 - 226 * f ^ 2 + 36 * f + 29) =
      2441216 * (9 - 8 * f) ^ 8 +
      31776768 * (8 * f - 4) * (9 - 8 * f) ^ 7 +
      190716928 * (8 * f - 4) ^ 2 * (9 - 8 * f) ^ 6 +
      674625536 * (8 * f - 4) ^ 3 * (9 - 8 * f) ^ 5 +
      1534795520 * (8 * f - 4) ^ 4 * (9 - 8 * f) ^ 4 +
      2324386496 * (8 * f - 4) ^ 5 * (9 - 8 * f) ^ 3 +
      2318345888 * (8 * f - 4) ^ 6 * (9 - 8 * f) ^ 2 +
      1398480608 * (8 * f - 4) ^ 7 * (9 - 8 * f) +
      387266731 * (8 * f - 4) ^ 8"
    by algebra
  have "0 \<le> 12800000000 * (5632 * f ^ 8 - 3840 * f ^ 6 + 1728 * f ^ 5 + 1664 * f ^ 4 - 288 * f ^ 3 - 226 * f ^ 2 + 36 * f + 29)"
    unfolding id
    using assms 
    by (intro add_nonneg_nonneg mult_nonneg_nonneg zero_le_power) simp_all
  then show ?thesis by simp
qed

lemma cert_R1_poly_a_6:
  fixes f z :: real
  assumes "3 / 8 \<le> z" "z \<le> 1 / 2" "1 / 2 \<le> f" "f \<le> 9 / 8"
  shows "0 \<le> 5632 * f ^ 8 + 11264 * f ^ 6 * z ^ 2 - 6656 * f ^ 6 + 3456 * f ^ 5 * z + 5632 * f ^ 4 * z ^ 4 - 5888 * f ^ 4 * z ^ 2 + 2784 * f ^ 4 + 2304 * f ^ 3 * z ^ 3 - 1152 * f ^ 3 * z + 1032 * f ^ 2 * z ^ 2 - 484 * f ^ 2 + 72 * f * z + 29"
proof -
  define Q0 where "Q0 = 45056 * f ^ 8 - 40576 * f ^ 6 + 10368 * f ^ 5 + 16539 * f ^ 4 - 2484 * f ^ 3 - 2711 * f ^ 2 + 216 * f + 232"
  define Q1 where "Q1 = 90112 * f ^ 8 - 76928 * f ^ 6 + 22464 * f ^ 5 + 31464 * f ^ 4 - 5058 * f ^ 3 - 5035 * f ^ 2 + 468 * f + 464"
  define Q2 where "Q2 = 270336 * f ^ 8 - 216704 * f ^ 6 + 72576 * f ^ 5 + 89408 * f ^ 4 - 15120 * f ^ 3 - 13815 * f ^ 2 + 1512 * f + 1392"
  define Q3 where "Q3 = 22528 * f ^ 8 - 16768 * f ^ 6 + 6480 * f ^ 5 + 7040 * f ^ 4 - 1224 * f ^ 3 - 1033 * f ^ 2 + 135 * f + 116"
  define Q4 where "Q4 = 5632 * f ^ 8 - 3840 * f ^ 6 + 1728 * f ^ 5 + 1664 * f ^ 4 - 288 * f ^ 3 - 226 * f ^ 2 + 36 * f + 29"
  have q0: "0 \<le> Q0" unfolding Q0_def by (rule cert_R1_poly_a_1 [OF assms(3) assms(4)])
  have q1: "0 \<le> Q1" unfolding Q1_def by (rule cert_R1_poly_a_2 [OF assms(3) assms(4)])
  have q2: "0 \<le> Q2" unfolding Q2_def by (rule cert_R1_poly_a_3 [OF assms(3) assms(4)])
  have q3: "0 \<le> Q3" unfolding Q3_def by (rule cert_R1_poly_a_4 [OF assms(3) assms(4)])
  have q4: "0 \<le> Q4" unfolding Q4_def by (rule cert_R1_poly_a_5 [OF assms(3) assms(4)])
  have id: "8 * (5632 * f ^ 8 + 11264 * f ^ 6 * z ^ 2 - 6656 * f ^ 6 + 3456 * f ^ 5 * z + 5632 * f ^ 4 * z ^ 4 - 5888 * f ^ 4 * z ^ 2 + 2784 * f ^ 4 + 2304 * f ^ 3 * z ^ 3 - 1152 * f ^ 3 * z + 1032 * f ^ 2 * z ^ 2 - 484 * f ^ 2 + 72 * f * z + 29) =
      1 * (4 - 8 * z) ^ 4 * Q0 +
      2 * (8 * z - 3) * (4 - 8 * z) ^ 3 * Q1 +
      1 * (8 * z - 3) ^ 2 * (4 - 8 * z) ^ 2 * Q2 +
      8 * (8 * z - 3) ^ 3 * (4 - 8 * z) * Q3 +
      8 * (8 * z - 3) ^ 4 * Q4"
    unfolding Q0_def Q1_def Q2_def Q3_def Q4_def by algebra
  have "0 \<le> 8 * (5632 * f ^ 8 + 11264 * f ^ 6 * z ^ 2 - 6656 * f ^ 6 + 3456 * f ^ 5 * z + 5632 * f ^ 4 * z ^ 4 - 5888 * f ^ 4 * z ^ 2 + 2784 * f ^ 4 + 2304 * f ^ 3 * z ^ 3 - 1152 * f ^ 3 * z + 1032 * f ^ 2 * z ^ 2 - 484 * f ^ 2 + 72 * f * z + 29)"
    unfolding id
    using assms q0 q1 q2 q3 q4
    by (intro add_nonneg_nonneg mult_nonneg_nonneg zero_le_power) simp_all
  then show ?thesis by simp
qed

lemma cert_R1_poly_a_7:
  fixes f :: real
  assumes "1 / 2 \<le> f" "f \<le> 9 / 8"
  shows "0 \<le> 462848 * f ^ 8 - 569408 * f ^ 6 + 186624 * f ^ 5 + 333942 * f ^ 4 - 63342 * f ^ 3 - 75203 * f ^ 2 + 7128 * f + 8156"
proof -
  have id: "1600000000 * (462848 * f ^ 8 - 569408 * f ^ 6 + 186624 * f ^ 5 + 333942 * f ^ 4 - 63342 * f ^ 3 - 75203 * f ^ 2 + 7128 * f + 8156) =
      18906624 * (9 - 8 * f) ^ 8 +
      232849152 * (8 * f - 4) * (9 - 8 * f) ^ 7 +
      1472803392 * (8 * f - 4) ^ 2 * (9 - 8 * f) ^ 6 +
      5463325104 * (8 * f - 4) ^ 3 * (9 - 8 * f) ^ 5 +
      12482195030 * (8 * f - 4) ^ 4 * (9 - 8 * f) ^ 4 +
      18331872544 * (8 * f - 4) ^ 5 * (9 - 8 * f) ^ 3 +
      17656078707 * (8 * f - 4) ^ 6 * (9 - 8 * f) ^ 2 +
      10569323662 * (8 * f - 4) ^ 7 * (9 - 8 * f) +
      3011527334 * (8 * f - 4) ^ 8"
    by algebra
  have "0 \<le> 1600000000 * (462848 * f ^ 8 - 569408 * f ^ 6 + 186624 * f ^ 5 + 333942 * f ^ 4 - 63342 * f ^ 3 - 75203 * f ^ 2 + 7128 * f + 8156)"
    unfolding id
    using assms 
    by (intro add_nonneg_nonneg mult_nonneg_nonneg zero_le_power) simp_all
  then show ?thesis by simp
qed

lemma cert_R1_poly_a_8:
  fixes f :: real
  assumes "1 / 2 \<le> f" "f \<le> 9 / 8"
  shows "0 \<le> 925696 * f ^ 8 - 1063744 * f ^ 6 + 404352 * f ^ 5 + 630672 * f ^ 4 - 128979 * f ^ 3 - 139495 * f ^ 2 + 15444 * f + 16312"
proof -
  have id: "1600000000 * (925696 * f ^ 8 - 1063744 * f ^ 6 + 404352 * f ^ 5 + 630672 * f ^ 4 - 128979 * f ^ 3 - 139495 * f ^ 2 + 15444 * f + 16312) =
      49503744 * (9 - 8 * f) ^ 8 +
      599075712 * (8 * f - 4) * (9 - 8 * f) ^ 7 +
      3649371552 * (8 * f - 4) ^ 2 * (9 - 8 * f) ^ 6 +
      13191702024 * (8 * f - 4) ^ 3 * (9 - 8 * f) ^ 5 +
      29784344680 * (8 * f - 4) ^ 4 * (9 - 8 * f) ^ 4 +
      43454924264 * (8 * f - 4) ^ 5 * (9 - 8 * f) ^ 3 +
      41351933667 * (8 * f - 4) ^ 6 * (9 - 8 * f) ^ 2 +
      24181692422 * (8 * f - 4) ^ 7 * (9 - 8 * f) +
      6680522029 * (8 * f - 4) ^ 8"
    by algebra
  have "0 \<le> 1600000000 * (925696 * f ^ 8 - 1063744 * f ^ 6 + 404352 * f ^ 5 + 630672 * f ^ 4 - 128979 * f ^ 3 - 139495 * f ^ 2 + 15444 * f + 16312)"
    unfolding id
    using assms 
    by (intro add_nonneg_nonneg mult_nonneg_nonneg zero_le_power) simp_all
  then show ?thesis by simp
qed

lemma cert_R1_poly_a_9:
  fixes f :: real
  assumes "1 / 2 \<le> f" "f \<le> 9 / 8"
  shows "0 \<le> 2777088 * f ^ 8 - 2940992 * f ^ 6 + 1306368 * f ^ 5 + 1777984 * f ^ 4 - 385560 * f ^ 3 - 382115 * f ^ 2 + 49896 * f + 48936"
proof -
  have id: "1600000000 * (2777088 * f ^ 8 - 2940992 * f ^ 6 + 1306368 * f ^ 5 + 1777984 * f ^ 4 - 385560 * f ^ 3 - 382115 * f ^ 2 + 49896 * f + 48936) =
      192525312 * (9 - 8 * f) ^ 8 +
      2303018496 * (8 * f - 4) * (9 - 8 * f) ^ 7 +
      13606063936 * (8 * f - 4) ^ 2 * (9 - 8 * f) ^ 6 +
      47998164672 * (8 * f - 4) ^ 3 * (9 - 8 * f) ^ 5 +
      106881829840 * (8 * f - 4) ^ 4 * (9 - 8 * f) ^ 4 +
      154500146472 * (8 * f - 4) ^ 5 * (9 - 8 * f) ^ 3 +
      145100812111 * (8 * f - 4) ^ 6 * (9 - 8 * f) ^ 2 +
      82988137446 * (8 * f - 4) ^ 7 * (9 - 8 * f) +
      22273079637 * (8 * f - 4) ^ 8"
    by algebra
  have "0 \<le> 1600000000 * (2777088 * f ^ 8 - 2940992 * f ^ 6 + 1306368 * f ^ 5 + 1777984 * f ^ 4 - 385560 * f ^ 3 - 382115 * f ^ 2 + 49896 * f + 48936)"
    unfolding id
    using assms 
    by (intro add_nonneg_nonneg mult_nonneg_nonneg zero_le_power) simp_all
  then show ?thesis by simp
qed

lemma cert_R1_poly_a_10:
  fixes f :: real
  assumes "1 / 2 \<le> f" "f \<le> 9 / 8"
  shows "0 \<le> 231424 * f ^ 8 - 222144 * f ^ 6 + 116640 * f ^ 5 + 138880 * f ^ 4 - 31212 * f ^ 3 - 28509 * f ^ 2 + 4455 * f + 4078"
proof -
  have id: "3200000000 * (231424 * f ^ 8 - 222144 * f ^ 6 + 116640 * f ^ 5 + 138880 * f ^ 4 - 31212 * f ^ 3 - 28509 * f ^ 2 + 4455 * f + 4078) =
      41244672 * (9 - 8 * f) ^ 8 +
      489901056 * (8 * f - 4) * (9 - 8 * f) ^ 7 +
      2824155776 * (8 * f - 4) ^ 2 * (9 - 8 * f) ^ 6 +
      9742274112 * (8 * f - 4) ^ 3 * (9 - 8 * f) ^ 5 +
      21370843840 * (8 * f - 4) ^ 4 * (9 - 8 * f) ^ 4 +
      30542989432 * (8 * f - 4) ^ 5 * (9 - 8 * f) ^ 3 +
      28279912346 * (8 * f - 4) ^ 6 * (9 - 8 * f) ^ 2 +
      15830945836 * (8 * f - 4) ^ 7 * (9 - 8 * f) +
      4134094427 * (8 * f - 4) ^ 8"
    by algebra
  have "0 \<le> 3200000000 * (231424 * f ^ 8 - 222144 * f ^ 6 + 116640 * f ^ 5 + 138880 * f ^ 4 - 31212 * f ^ 3 - 28509 * f ^ 2 + 4455 * f + 4078)"
    unfolding id
    using assms 
    by (intro add_nonneg_nonneg mult_nonneg_nonneg zero_le_power) simp_all
  then show ?thesis by simp
qed

lemma cert_R1_poly_a_11:
  fixes f :: real
  assumes "1 / 2 \<le> f" "f \<le> 9 / 8"
  shows "0 \<le> 115712 * f ^ 8 - 98560 * f ^ 6 + 62208 * f ^ 5 + 65184 * f ^ 4 - 14688 * f ^ 3 - 12436 * f ^ 2 + 2376 * f + 2039"
proof -
  have id: "6400000000 * (115712 * f ^ 8 - 98560 * f ^ 6 + 62208 * f ^ 5 + 65184 * f ^ 4 - 14688 * f ^ 3 - 12436 * f ^ 2 + 2376 * f + 2039) =
      52625408 * (9 - 8 * f) ^ 8 +
      622813184 * (8 * f - 4) * (9 - 8 * f) ^ 7 +
      3521649664 * (8 * f - 4) ^ 2 * (9 - 8 * f) ^ 6 +
      11907027968 * (8 * f - 4) ^ 3 * (9 - 8 * f) ^ 5 +
      25718437760 * (8 * f - 4) ^ 4 * (9 - 8 * f) ^ 4 +
      36285826048 * (8 * f - 4) ^ 5 * (9 - 8 * f) ^ 3 +
      33092701744 * (8 * f - 4) ^ 6 * (9 - 8 * f) ^ 2 +
      18140245504 * (8 * f - 4) ^ 7 * (9 - 8 * f) +
      4614638753 * (8 * f - 4) ^ 8"
    by algebra
  have "0 \<le> 6400000000 * (115712 * f ^ 8 - 98560 * f ^ 6 + 62208 * f ^ 5 + 65184 * f ^ 4 - 14688 * f ^ 3 - 12436 * f ^ 2 + 2376 * f + 2039)"
    unfolding id
    using assms 
    by (intro add_nonneg_nonneg mult_nonneg_nonneg zero_le_power) simp_all
  then show ?thesis by simp
qed

lemma cert_R1_poly_a_12:
  fixes f z :: real
  assumes "3 / 8 \<le> z" "z \<le> 1 / 2" "1 / 2 \<le> f" "f \<le> 9 / 8"
  shows "0 \<le> 115712 * f ^ 8 + 400384 * f ^ 6 * z ^ 2 - 198656 * f ^ 6 + 124416 * f ^ 5 * z + 284672 * f ^ 4 * z ^ 4 - 278528 * f ^ 4 * z ^ 2 + 117024 * f ^ 4 + 117504 * f ^ 3 * z ^ 3 - 58752 * f ^ 3 * z + 58192 * f ^ 2 * z ^ 2 - 26984 * f ^ 2 + 4752 * f * z + 2039"
proof -
  define Q0 where "Q0 = 462848 * f ^ 8 - 569408 * f ^ 6 + 186624 * f ^ 5 + 333942 * f ^ 4 - 63342 * f ^ 3 - 75203 * f ^ 2 + 7128 * f + 8156"
  define Q1 where "Q1 = 925696 * f ^ 8 - 1063744 * f ^ 6 + 404352 * f ^ 5 + 630672 * f ^ 4 - 128979 * f ^ 3 - 139495 * f ^ 2 + 15444 * f + 16312"
  define Q2 where "Q2 = 2777088 * f ^ 8 - 2940992 * f ^ 6 + 1306368 * f ^ 5 + 1777984 * f ^ 4 - 385560 * f ^ 3 - 382115 * f ^ 2 + 49896 * f + 48936"
  define Q3 where "Q3 = 231424 * f ^ 8 - 222144 * f ^ 6 + 116640 * f ^ 5 + 138880 * f ^ 4 - 31212 * f ^ 3 - 28509 * f ^ 2 + 4455 * f + 4078"
  define Q4 where "Q4 = 115712 * f ^ 8 - 98560 * f ^ 6 + 62208 * f ^ 5 + 65184 * f ^ 4 - 14688 * f ^ 3 - 12436 * f ^ 2 + 2376 * f + 2039"
  have q0: "0 \<le> Q0" unfolding Q0_def by (rule cert_R1_poly_a_7 [OF assms(3) assms(4)])
  have q1: "0 \<le> Q1" unfolding Q1_def by (rule cert_R1_poly_a_8 [OF assms(3) assms(4)])
  have q2: "0 \<le> Q2" unfolding Q2_def by (rule cert_R1_poly_a_9 [OF assms(3) assms(4)])
  have q3: "0 \<le> Q3" unfolding Q3_def by (rule cert_R1_poly_a_10 [OF assms(3) assms(4)])
  have q4: "0 \<le> Q4" unfolding Q4_def by (rule cert_R1_poly_a_11 [OF assms(3) assms(4)])
  have id: "4 * (115712 * f ^ 8 + 400384 * f ^ 6 * z ^ 2 - 198656 * f ^ 6 + 124416 * f ^ 5 * z + 284672 * f ^ 4 * z ^ 4 - 278528 * f ^ 4 * z ^ 2 + 117024 * f ^ 4 + 117504 * f ^ 3 * z ^ 3 - 58752 * f ^ 3 * z + 58192 * f ^ 2 * z ^ 2 - 26984 * f ^ 2 + 4752 * f * z + 2039) =
      1 * (4 - 8 * z) ^ 4 * Q0 +
      2 * (8 * z - 3) * (4 - 8 * z) ^ 3 * Q1 +
      1 * (8 * z - 3) ^ 2 * (4 - 8 * z) ^ 2 * Q2 +
      8 * (8 * z - 3) ^ 3 * (4 - 8 * z) * Q3 +
      4 * (8 * z - 3) ^ 4 * Q4"
    unfolding Q0_def Q1_def Q2_def Q3_def Q4_def by algebra
  have "0 \<le> 4 * (115712 * f ^ 8 + 400384 * f ^ 6 * z ^ 2 - 198656 * f ^ 6 + 124416 * f ^ 5 * z + 284672 * f ^ 4 * z ^ 4 - 278528 * f ^ 4 * z ^ 2 + 117024 * f ^ 4 + 117504 * f ^ 3 * z ^ 3 - 58752 * f ^ 3 * z + 58192 * f ^ 2 * z ^ 2 - 26984 * f ^ 2 + 4752 * f * z + 2039)"
    unfolding id
    using assms q0 q1 q2 q3 q4
    by (intro add_nonneg_nonneg mult_nonneg_nonneg zero_le_power) simp_all
  then show ?thesis by simp
qed

lemma cert_R1_poly_a_13:
  fixes f :: real
  assumes "1 / 2 \<le> f" "f \<le> 9 / 8"
  shows "0 \<le> 790528 * f ^ 8 - 1861888 * f ^ 6 + 1119744 * f ^ 5 + 1997067 * f ^ 4 - 398682 * f ^ 3 - 581473 * f ^ 2 + 62208 * f + 82816"
proof -
  have id: "1600000000 * (790528 * f ^ 8 - 1861888 * f ^ 6 + 1119744 * f ^ 5 + 1997067 * f ^ 4 - 398682 * f ^ 3 - 581473 * f ^ 2 + 62208 * f + 82816) =
      215126784 * (9 - 8 * f) ^ 8 +
      2311045632 * (8 * f - 4) * (9 - 8 * f) ^ 7 +
      13059562272 * (8 * f - 4) ^ 2 * (9 - 8 * f) ^ 6 +
      44996031264 * (8 * f - 4) ^ 3 * (9 - 8 * f) ^ 5 +
      95710011355 * (8 * f - 4) ^ 4 * (9 - 8 * f) ^ 4 +
      125648581004 * (8 * f - 4) ^ 5 * (9 - 8 * f) ^ 3 +
      100157399262 * (8 * f - 4) ^ 6 * (9 - 8 * f) ^ 2 +
      45612513092 * (8 * f - 4) ^ 7 * (9 - 8 * f) +
      9501461944 * (8 * f - 4) ^ 8"
    by algebra
  have "0 \<le> 1600000000 * (790528 * f ^ 8 - 1861888 * f ^ 6 + 1119744 * f ^ 5 + 1997067 * f ^ 4 - 398682 * f ^ 3 - 581473 * f ^ 2 + 62208 * f + 82816)"
    unfolding id
    using assms 
    by (intro add_nonneg_nonneg mult_nonneg_nonneg zero_le_power) simp_all
  then show ?thesis by simp
qed

lemma cert_R1_poly_a_14:
  fixes f :: real
  assumes "1 / 2 \<le> f" "f \<le> 9 / 8"
  shows "0 \<le> 1581056 * f ^ 8 - 3355904 * f ^ 6 + 2426112 * f ^ 5 + 3802152 * f ^ 4 - 811809 * f ^ 3 - 1077485 * f ^ 2 + 134784 * f + 165632"
proof -
  have id: "800000000 * (1581056 * f ^ 8 - 3355904 * f ^ 6 + 2426112 * f ^ 5 + 3802152 * f ^ 4 - 811809 * f ^ 3 - 1077485 * f ^ 2 + 134784 * f + 165632) =
      264943872 * (9 - 8 * f) ^ 8 +
      2858446656 * (8 * f - 4) * (9 - 8 * f) ^ 7 +
      15779675376 * (8 * f - 4) ^ 2 * (9 - 8 * f) ^ 6 +
      53104960812 * (8 * f - 4) ^ 3 * (9 - 8 * f) ^ 5 +
      111641707840 * (8 * f - 4) ^ 4 * (9 - 8 * f) ^ 4 +
      146571054632 * (8 * f - 4) ^ 5 * (9 - 8 * f) ^ 3 +
      117767689446 * (8 * f - 4) ^ 6 * (9 - 8 * f) ^ 2 +
      54135218936 * (8 * f - 4) ^ 7 * (9 - 8 * f) +
      11291055127 * (8 * f - 4) ^ 8"
    by algebra
  have "0 \<le> 800000000 * (1581056 * f ^ 8 - 3355904 * f ^ 6 + 2426112 * f ^ 5 + 3802152 * f ^ 4 - 811809 * f ^ 3 - 1077485 * f ^ 2 + 134784 * f + 165632)"
    unfolding id
    using assms 
    by (intro add_nonneg_nonneg mult_nonneg_nonneg zero_le_power) simp_all
  then show ?thesis by simp
qed

lemma cert_R1_poly_a_15:
  fixes f :: real
  assumes "1 / 2 \<le> f" "f \<le> 9 / 8"
  shows "0 \<le> 4743168 * f ^ 8 - 8841472 * f ^ 6 + 7838208 * f ^ 5 + 10828544 * f ^ 4 - 2426760 * f ^ 3 - 2947585 * f ^ 2 + 435456 * f + 496896"
proof -
  have id: "800000000 * (4743168 * f ^ 8 - 8841472 * f ^ 6 + 7838208 * f ^ 5 + 10828544 * f ^ 4 - 2426760 * f ^ 3 - 2947585 * f ^ 2 + 435456 * f + 496896) =
      975853056 * (9 - 8 * f) ^ 8 +
      10584661248 * (8 * f - 4) * (9 - 8 * f) ^ 7 +
      57360028768 * (8 * f - 4) ^ 2 * (9 - 8 * f) ^ 6 +
      189041413536 * (8 * f - 4) ^ 3 * (9 - 8 * f) ^ 5 +
      392591285920 * (8 * f - 4) ^ 4 * (9 - 8 * f) ^ 4 +
      514171361136 * (8 * f - 4) ^ 5 * (9 - 8 * f) ^ 3 +
      414907791118 * (8 * f - 4) ^ 6 * (9 - 8 * f) ^ 2 +
      191781443148 * (8 * f - 4) ^ 7 * (9 - 8 * f) +
      39970092081 * (8 * f - 4) ^ 8"
    by algebra
  have "0 \<le> 800000000 * (4743168 * f ^ 8 - 8841472 * f ^ 6 + 7838208 * f ^ 5 + 10828544 * f ^ 4 - 2426760 * f ^ 3 - 2947585 * f ^ 2 + 435456 * f + 496896)"
    unfolding id
    using assms 
    by (intro add_nonneg_nonneg mult_nonneg_nonneg zero_le_power) simp_all
  then show ?thesis by simp
qed

lemma cert_R1_poly_a_16:
  fixes f :: real
  assumes "1 / 2 \<le> f" "f \<le> 9 / 8"
  shows "0 \<le> 395264 * f ^ 8 - 624384 * f ^ 6 + 699840 * f ^ 5 + 856640 * f ^ 4 - 196452 * f ^ 3 - 219519 * f ^ 2 + 38880 * f + 41408"
proof -
  have id: "3200000000 * (395264 * f ^ 8 - 624384 * f ^ 6 + 699840 * f ^ 5 + 856640 * f ^ 4 - 196452 * f ^ 3 - 219519 * f ^ 2 + 38880 * f + 41408) =
      398211072 * (9 - 8 * f) ^ 8 +
      4346259456 * (8 * f - 4) * (9 - 8 * f) ^ 7 +
      23219925376 * (8 * f - 4) ^ 2 * (9 - 8 * f) ^ 6 +
      75142283712 * (8 * f - 4) ^ 3 * (9 - 8 * f) ^ 5 +
      154149443840 * (8 * f - 4) ^ 4 * (9 - 8 * f) ^ 4 +
      200999134832 * (8 * f - 4) ^ 5 * (9 - 8 * f) ^ 3 +
      162392361496 * (8 * f - 4) ^ 6 * (9 - 8 * f) ^ 2 +
      75237599936 * (8 * f - 4) ^ 7 * (9 - 8 * f) +
      15640726777 * (8 * f - 4) ^ 8"
    by algebra
  have "0 \<le> 3200000000 * (395264 * f ^ 8 - 624384 * f ^ 6 + 699840 * f ^ 5 + 856640 * f ^ 4 - 196452 * f ^ 3 - 219519 * f ^ 2 + 38880 * f + 41408)"
    unfolding id
    using assms 
    by (intro add_nonneg_nonneg mult_nonneg_nonneg zero_le_power) simp_all
  then show ?thesis by simp
qed

lemma cert_R1_poly_a_17:
  fixes f :: real
  assumes "1 / 2 \<le> f" "f \<le> 9 / 8"
  shows "0 \<le> 49408 * f ^ 8 - 62720 * f ^ 6 + 93312 * f ^ 5 + 102096 * f ^ 4 - 23112 * f ^ 3 - 23879 * f ^ 2 + 5184 * f + 5176"
proof -
  have id: "25600000000 * (49408 * f ^ 8 - 62720 * f ^ 6 + 93312 * f ^ 5 + 102096 * f ^ 4 - 23112 * f ^ 3 - 23879 * f ^ 2 + 5184 * f + 5176) =
      486227968 * (9 - 8 * f) ^ 8 +
      5344190464 * (8 * f - 4) * (9 - 8 * f) ^ 7 +
      28250706944 * (8 * f - 4) ^ 2 * (9 - 8 * f) ^ 6 +
      90009392128 * (8 * f - 4) ^ 3 * (9 - 8 * f) ^ 5 +
      182460424960 * (8 * f - 4) ^ 4 * (9 - 8 * f) ^ 4 +
      236512817408 * (8 * f - 4) ^ 5 * (9 - 8 * f) ^ 3 +
      190828836224 * (8 * f - 4) ^ 6 * (9 - 8 * f) ^ 2 +
      88381191584 * (8 * f - 4) ^ 7 * (9 - 8 * f) +
      18296786113 * (8 * f - 4) ^ 8"
    by algebra
  have "0 \<le> 25600000000 * (49408 * f ^ 8 - 62720 * f ^ 6 + 93312 * f ^ 5 + 102096 * f ^ 4 - 23112 * f ^ 3 - 23879 * f ^ 2 + 5184 * f + 5176)"
    unfolding id
    using assms 
    by (intro add_nonneg_nonneg mult_nonneg_nonneg zero_le_power) simp_all
  then show ?thesis by simp
qed

lemma cert_R1_poly_a_18:
  fixes f z :: real
  assumes "3 / 8 \<le> z" "z \<le> 1 / 2" "1 / 2 \<le> f" "f \<le> 9 / 8"
  shows "0 \<le> 24704 * f ^ 8 + 245248 * f ^ 6 * z ^ 2 - 92672 * f ^ 6 + 93312 * f ^ 5 * z + 220544 * f ^ 4 * z ^ 4 - 190016 * f ^ 4 * z ^ 2 + 84768 * f ^ 4 + 92448 * f ^ 3 * z ^ 3 - 46224 * f ^ 3 * z + 56974 * f ^ 2 * z ^ 2 - 26183 * f ^ 2 + 5184 * f * z + 2588"
proof -
  define Q0 where "Q0 = 790528 * f ^ 8 - 1861888 * f ^ 6 + 1119744 * f ^ 5 + 1997067 * f ^ 4 - 398682 * f ^ 3 - 581473 * f ^ 2 + 62208 * f + 82816"
  define Q1 where "Q1 = 1581056 * f ^ 8 - 3355904 * f ^ 6 + 2426112 * f ^ 5 + 3802152 * f ^ 4 - 811809 * f ^ 3 - 1077485 * f ^ 2 + 134784 * f + 165632"
  define Q2 where "Q2 = 4743168 * f ^ 8 - 8841472 * f ^ 6 + 7838208 * f ^ 5 + 10828544 * f ^ 4 - 2426760 * f ^ 3 - 2947585 * f ^ 2 + 435456 * f + 496896"
  define Q3 where "Q3 = 395264 * f ^ 8 - 624384 * f ^ 6 + 699840 * f ^ 5 + 856640 * f ^ 4 - 196452 * f ^ 3 - 219519 * f ^ 2 + 38880 * f + 41408"
  define Q4 where "Q4 = 49408 * f ^ 8 - 62720 * f ^ 6 + 93312 * f ^ 5 + 102096 * f ^ 4 - 23112 * f ^ 3 - 23879 * f ^ 2 + 5184 * f + 5176"
  have q0: "0 \<le> Q0" unfolding Q0_def by (rule cert_R1_poly_a_13 [OF assms(3) assms(4)])
  have q1: "0 \<le> Q1" unfolding Q1_def by (rule cert_R1_poly_a_14 [OF assms(3) assms(4)])
  have q2: "0 \<le> Q2" unfolding Q2_def by (rule cert_R1_poly_a_15 [OF assms(3) assms(4)])
  have q3: "0 \<le> Q3" unfolding Q3_def by (rule cert_R1_poly_a_16 [OF assms(3) assms(4)])
  have q4: "0 \<le> Q4" unfolding Q4_def by (rule cert_R1_poly_a_17 [OF assms(3) assms(4)])
  have id: "32 * (24704 * f ^ 8 + 245248 * f ^ 6 * z ^ 2 - 92672 * f ^ 6 + 93312 * f ^ 5 * z + 220544 * f ^ 4 * z ^ 4 - 190016 * f ^ 4 * z ^ 2 + 84768 * f ^ 4 + 92448 * f ^ 3 * z ^ 3 - 46224 * f ^ 3 * z + 56974 * f ^ 2 * z ^ 2 - 26183 * f ^ 2 + 5184 * f * z + 2588) =
      1 * (4 - 8 * z) ^ 4 * Q0 +
      2 * (8 * z - 3) * (4 - 8 * z) ^ 3 * Q1 +
      1 * (8 * z - 3) ^ 2 * (4 - 8 * z) ^ 2 * Q2 +
      8 * (8 * z - 3) ^ 3 * (4 - 8 * z) * Q3 +
      16 * (8 * z - 3) ^ 4 * Q4"
    unfolding Q0_def Q1_def Q2_def Q3_def Q4_def by algebra
  have "0 \<le> 32 * (24704 * f ^ 8 + 245248 * f ^ 6 * z ^ 2 - 92672 * f ^ 6 + 93312 * f ^ 5 * z + 220544 * f ^ 4 * z ^ 4 - 190016 * f ^ 4 * z ^ 2 + 84768 * f ^ 4 + 92448 * f ^ 3 * z ^ 3 - 46224 * f ^ 3 * z + 56974 * f ^ 2 * z ^ 2 - 26183 * f ^ 2 + 5184 * f * z + 2588)"
    unfolding id
    using assms q0 q1 q2 q3 q4
    by (intro add_nonneg_nonneg mult_nonneg_nonneg zero_le_power) simp_all
  then show ?thesis by simp
qed

lemma cert_R1_poly_a_19:
  fixes f :: real
  assumes "1 / 2 \<le> f" "f \<le> 9 / 8"
  shows "0 \<le> 23296 * f ^ 8 - 83316 * f ^ 6 + 58968 * f ^ 5 + 217479 * f ^ 4 - 21114 * f ^ 3 - 72241 * f ^ 2 + 3456 * f + 11712"
proof -
  have id: "25600000000 * (23296 * f ^ 8 - 83316 * f ^ 6 + 58968 * f ^ 5 + 217479 * f ^ 4 - 21114 * f ^ 3 - 72241 * f ^ 2 + 3456 * f + 11712) =
      456450048 * (9 - 8 * f) ^ 8 +
      4814075904 * (8 * f - 4) * (9 - 8 * f) ^ 7 +
      26757283584 * (8 * f - 4) ^ 2 * (9 - 8 * f) ^ 6 +
      91309182208 * (8 * f - 4) ^ 3 * (9 - 8 * f) ^ 5 +
      193271650560 * (8 * f - 4) ^ 4 * (9 - 8 * f) ^ 4 +
      252034572888 * (8 * f - 4) ^ 5 * (9 - 8 * f) ^ 3 +
      196832923139 * (8 * f - 4) ^ 6 * (9 - 8 * f) ^ 2 +
      84827089374 * (8 * f - 4) ^ 7 * (9 - 8 * f) +
      15702159918 * (8 * f - 4) ^ 8"
    by algebra
  have "0 \<le> 25600000000 * (23296 * f ^ 8 - 83316 * f ^ 6 + 58968 * f ^ 5 + 217479 * f ^ 4 - 21114 * f ^ 3 - 72241 * f ^ 2 + 3456 * f + 11712)"
    unfolding id
    using assms 
    by (intro add_nonneg_nonneg mult_nonneg_nonneg zero_le_power) simp_all
  then show ?thesis by simp
qed

lemma cert_R1_poly_a_20:
  fixes f :: real
  assumes "1 / 2 \<le> f" "f \<le> 9 / 8"
  shows "0 \<le> 46592 * f ^ 8 - 148068 * f ^ 6 + 127764 * f ^ 5 + 425184 * f ^ 4 - 42993 * f ^ 3 - 134525 * f ^ 2 + 7488 * f + 23424"
proof -
  have id: "25600000000 * (46592 * f ^ 8 - 148068 * f ^ 6 + 127764 * f ^ 5 + 425184 * f ^ 4 - 42993 * f ^ 3 - 134525 * f ^ 2 + 7488 * f + 23424) =
      1087746048 * (9 - 8 * f) ^ 8 +
      11503048704 * (8 * f - 4) * (9 - 8 * f) ^ 7 +
      62353392384 * (8 * f - 4) ^ 2 * (9 - 8 * f) ^ 6 +
      206880526208 * (8 * f - 4) ^ 3 * (9 - 8 * f) ^ 5 +
      429498016560 * (8 * f - 4) ^ 4 * (9 - 8 * f) ^ 4 +
      554622375888 * (8 * f - 4) ^ 5 * (9 - 8 * f) ^ 3 +
      432186147439 * (8 * f - 4) ^ 6 * (9 - 8 * f) ^ 2 +
      186850584174 * (8 * f - 4) ^ 7 * (9 - 8 * f) +
      34802326293 * (8 * f - 4) ^ 8"
    by algebra
  have "0 \<le> 25600000000 * (46592 * f ^ 8 - 148068 * f ^ 6 + 127764 * f ^ 5 + 425184 * f ^ 4 - 42993 * f ^ 3 - 134525 * f ^ 2 + 7488 * f + 23424)"
    unfolding id
    using assms 
    by (intro add_nonneg_nonneg mult_nonneg_nonneg zero_le_power) simp_all
  then show ?thesis by simp
qed

lemma cert_R1_poly_a_21:
  fixes f :: real
  assumes "1 / 2 \<le> f" "f \<le> 9 / 8"
  shows "0 \<le> 139776 * f ^ 8 - 382324 * f ^ 6 + 412776 * f ^ 5 + 1246248 * f ^ 4 - 128520 * f ^ 3 - 370385 * f ^ 2 + 24192 * f + 70272"
proof -
  have id: "25600000000 * (139776 * f ^ 8 - 382324 * f ^ 6 + 412776 * f ^ 5 + 1246248 * f ^ 4 - 128520 * f ^ 3 - 370385 * f ^ 2 + 24192 * f + 70272) =
      3871125504 * (9 - 8 * f) ^ 8 +
      41069074432 * (8 * f - 4) * (9 - 8 * f) ^ 7 +
      218129453312 * (8 * f - 4) ^ 2 * (9 - 8 * f) ^ 6 +
      706064609024 * (8 * f - 4) ^ 3 * (9 - 8 * f) ^ 5 +
      1439379995280 * (8 * f - 4) ^ 4 * (9 - 8 * f) ^ 4 +
      1840354855224 * (8 * f - 4) ^ 5 * (9 - 8 * f) ^ 3 +
      1429876480387 * (8 * f - 4) ^ 6 * (9 - 8 * f) ^ 2 +
      619512533982 * (8 * f - 4) ^ 7 * (9 - 8 * f) +
      115957299429 * (8 * f - 4) ^ 8"
    by algebra
  have "0 \<le> 25600000000 * (139776 * f ^ 8 - 382324 * f ^ 6 + 412776 * f ^ 5 + 1246248 * f ^ 4 - 128520 * f ^ 3 - 370385 * f ^ 2 + 24192 * f + 70272)"
    unfolding id
    using assms 
    by (intro add_nonneg_nonneg mult_nonneg_nonneg zero_le_power) simp_all
  then show ?thesis by simp
qed

lemma cert_R1_poly_a_22:
  fixes f :: real
  assumes "1 / 2 \<le> f" "f \<le> 9 / 8"
  shows "0 \<le> 11648 * f ^ 8 - 26188 * f ^ 6 + 36855 * f ^ 5 + 101550 * f ^ 4 - 10404 * f ^ 3 - 27823 * f ^ 2 + 2160 * f + 5856"
proof -
  have id: "51200000000 * (11648 * f ^ 8 - 26188 * f ^ 6 + 36855 * f ^ 5 + 101550 * f ^ 4 - 10404 * f ^ 3 - 27823 * f ^ 2 + 2160 * f + 5856) =
      762138624 * (9 - 8 * f) ^ 8 +
      8115940352 * (8 * f - 4) * (9 - 8 * f) ^ 7 +
      42409787392 * (8 * f - 4) ^ 2 * (9 - 8 * f) ^ 6 +
      134375659904 * (8 * f - 4) ^ 3 * (9 - 8 * f) ^ 5 +
      269368547280 * (8 * f - 4) ^ 4 * (9 - 8 * f) ^ 4 +
      341033026044 * (8 * f - 4) ^ 5 * (9 - 8 * f) ^ 3 +
      264024854782 * (8 * f - 4) ^ 6 * (9 - 8 * f) ^ 2 +
      114518271912 * (8 * f - 4) ^ 7 * (9 - 8 * f) +
      21513117009 * (8 * f - 4) ^ 8"
    by algebra
  have "0 \<le> 51200000000 * (11648 * f ^ 8 - 26188 * f ^ 6 + 36855 * f ^ 5 + 101550 * f ^ 4 - 10404 * f ^ 3 - 27823 * f ^ 2 + 2160 * f + 5856)"
    unfolding id
    using assms 
    by (intro add_nonneg_nonneg mult_nonneg_nonneg zero_le_power) simp_all
  then show ?thesis by simp
qed

lemma cert_R1_poly_a_23:
  fixes f :: real
  assumes "1 / 2 \<le> f" "f \<le> 9 / 8"
  shows "0 \<le> 5824 * f ^ 8 - 10000 * f ^ 6 + 19656 * f ^ 5 + 49783 * f ^ 4 - 4896 * f ^ 3 - 12252 * f ^ 2 + 1152 * f + 2928"
proof -
  have id: "102400000000 * (5824 * f ^ 8 - 10000 * f ^ 6 + 19656 * f ^ 5 + 49783 * f ^ 4 - 4896 * f ^ 3 - 12252 * f ^ 2 + 1152 * f + 2928) =
      896843776 * (9 - 8 * f) ^ 8 +
      9591554048 * (8 * f - 4) * (9 - 8 * f) ^ 7 +
      49486174208 * (8 * f - 4) ^ 2 * (9 - 8 * f) ^ 6 +
      153973789696 * (8 * f - 4) ^ 3 * (9 - 8 * f) ^ 5 +
      303977782720 * (8 * f - 4) ^ 4 * (9 - 8 * f) ^ 4 +
      381176177856 * (8 * f - 4) ^ 5 * (9 - 8 * f) ^ 3 +
      293898880368 * (8 * f - 4) ^ 6 * (9 - 8 * f) ^ 2 +
      127489826688 * (8 * f - 4) ^ 7 * (9 - 8 * f) +
      24007214091 * (8 * f - 4) ^ 8"
    by algebra
  have "0 \<le> 102400000000 * (5824 * f ^ 8 - 10000 * f ^ 6 + 19656 * f ^ 5 + 49783 * f ^ 4 - 4896 * f ^ 3 - 12252 * f ^ 2 + 1152 * f + 2928)"
    unfolding id
    using assms 
    by (intro add_nonneg_nonneg mult_nonneg_nonneg zero_le_power) simp_all
  then show ?thesis by simp
qed

lemma cert_R1_poly_a_24:
  fixes f z :: real
  assumes "3 / 8 \<le> z" "z \<le> 1 / 2" "1 / 2 \<le> f" "f \<le> 9 / 8"
  shows "0 \<le> 5824 * f ^ 8 + 99008 * f ^ 6 * z ^ 2 - 34752 * f ^ 6 + 39312 * f ^ 5 * z + 93184 * f ^ 4 * z ^ 4 - 78336 * f ^ 4 * z ^ 2 + 63543 * f ^ 4 + 39168 * f ^ 3 * z ^ 3 - 19584 * f ^ 3 * z + 53104 * f ^ 2 * z ^ 2 - 25528 * f ^ 2 + 2304 * f * z + 2928"
proof -
  define Q0 where "Q0 = 23296 * f ^ 8 - 83316 * f ^ 6 + 58968 * f ^ 5 + 217479 * f ^ 4 - 21114 * f ^ 3 - 72241 * f ^ 2 + 3456 * f + 11712"
  define Q1 where "Q1 = 46592 * f ^ 8 - 148068 * f ^ 6 + 127764 * f ^ 5 + 425184 * f ^ 4 - 42993 * f ^ 3 - 134525 * f ^ 2 + 7488 * f + 23424"
  define Q2 where "Q2 = 139776 * f ^ 8 - 382324 * f ^ 6 + 412776 * f ^ 5 + 1246248 * f ^ 4 - 128520 * f ^ 3 - 370385 * f ^ 2 + 24192 * f + 70272"
  define Q3 where "Q3 = 11648 * f ^ 8 - 26188 * f ^ 6 + 36855 * f ^ 5 + 101550 * f ^ 4 - 10404 * f ^ 3 - 27823 * f ^ 2 + 2160 * f + 5856"
  define Q4 where "Q4 = 5824 * f ^ 8 - 10000 * f ^ 6 + 19656 * f ^ 5 + 49783 * f ^ 4 - 4896 * f ^ 3 - 12252 * f ^ 2 + 1152 * f + 2928"
  have q0: "0 \<le> Q0" unfolding Q0_def by (rule cert_R1_poly_a_19 [OF assms(3) assms(4)])
  have q1: "0 \<le> Q1" unfolding Q1_def by (rule cert_R1_poly_a_20 [OF assms(3) assms(4)])
  have q2: "0 \<le> Q2" unfolding Q2_def by (rule cert_R1_poly_a_21 [OF assms(3) assms(4)])
  have q3: "0 \<le> Q3" unfolding Q3_def by (rule cert_R1_poly_a_22 [OF assms(3) assms(4)])
  have q4: "0 \<le> Q4" unfolding Q4_def by (rule cert_R1_poly_a_23 [OF assms(3) assms(4)])
  have id: "4 * (5824 * f ^ 8 + 99008 * f ^ 6 * z ^ 2 - 34752 * f ^ 6 + 39312 * f ^ 5 * z + 93184 * f ^ 4 * z ^ 4 - 78336 * f ^ 4 * z ^ 2 + 63543 * f ^ 4 + 39168 * f ^ 3 * z ^ 3 - 19584 * f ^ 3 * z + 53104 * f ^ 2 * z ^ 2 - 25528 * f ^ 2 + 2304 * f * z + 2928) =
      1 * (4 - 8 * z) ^ 4 * Q0 +
      2 * (8 * z - 3) * (4 - 8 * z) ^ 3 * Q1 +
      1 * (8 * z - 3) ^ 2 * (4 - 8 * z) ^ 2 * Q2 +
      8 * (8 * z - 3) ^ 3 * (4 - 8 * z) * Q3 +
      4 * (8 * z - 3) ^ 4 * Q4"
    unfolding Q0_def Q1_def Q2_def Q3_def Q4_def by algebra
  have "0 \<le> 4 * (5824 * f ^ 8 + 99008 * f ^ 6 * z ^ 2 - 34752 * f ^ 6 + 39312 * f ^ 5 * z + 93184 * f ^ 4 * z ^ 4 - 78336 * f ^ 4 * z ^ 2 + 63543 * f ^ 4 + 39168 * f ^ 3 * z ^ 3 - 19584 * f ^ 3 * z + 53104 * f ^ 2 * z ^ 2 - 25528 * f ^ 2 + 2304 * f * z + 2928)"
    unfolding id
    using assms q0 q1 q2 q3 q4
    by (intro add_nonneg_nonneg mult_nonneg_nonneg zero_le_power) simp_all
  then show ?thesis by simp
qed

lemma cert_R1_poly_a_25:
  fixes f u z :: real
  assumes "1 / 4 \<le> u" "u \<le> 4" "3 / 8 \<le> z" "z \<le> 1 / 2" "1 / 2 \<le> f" "f \<le> 9 / 8"
  shows "0 \<le> 1600 * u ^ 3 * f ^ 4 + 1600 * u ^ 3 * f ^ 2 * z ^ 2 - 800 * u ^ 3 * f ^ 2 + 100 * u ^ 3 + 16384 * u ^ 2 * f ^ 6 * z ^ 2 - 5120 * u ^ 2 * f ^ 6 + 6912 * u ^ 2 * f ^ 5 * z + 16384 * u ^ 2 * f ^ 4 * z ^ 4 - 13312 * u ^ 2 * f ^ 4 * z ^ 2 + 4944 * u ^ 2 * f ^ 4 + 6912 * u ^ 2 * f ^ 3 * z ^ 3 - 3456 * u ^ 2 * f ^ 3 * z + 3408 * u ^ 2 * f ^ 2 * z ^ 2 - 1512 * u ^ 2 * f ^ 2 + 432 * u ^ 2 * f * z + 149 * u ^ 2 + 4096 * u * f ^ 8 + 8448 * u * f ^ 6 * z ^ 2 - 5376 * u * f ^ 6 + 1728 * u * f ^ 5 * z + 4352 * u * f ^ 4 * z ^ 4 - 5504 * u * f ^ 4 * z ^ 2 + 2244 * u * f ^ 4 + 1728 * u * f ^ 3 * z ^ 3 - 864 * u * f ^ 3 * z + 596 * u * f ^ 2 * z ^ 2 - 298 * u * f ^ 2 + 1088 * f ^ 8 + 1088 * f ^ 6 * z ^ 2 - 832 * f ^ 6 + 432 * f ^ 5 * z + 149 * f ^ 4"
proof -
  define Q0 where "Q0 = 5632 * f ^ 8 + 11264 * f ^ 6 * z ^ 2 - 6656 * f ^ 6 + 3456 * f ^ 5 * z + 5632 * f ^ 4 * z ^ 4 - 5888 * f ^ 4 * z ^ 2 + 2784 * f ^ 4 + 2304 * f ^ 3 * z ^ 3 - 1152 * f ^ 3 * z + 1032 * f ^ 2 * z ^ 2 - 484 * f ^ 2 + 72 * f * z + 29"
  define Q1 where "Q1 = 115712 * f ^ 8 + 400384 * f ^ 6 * z ^ 2 - 198656 * f ^ 6 + 124416 * f ^ 5 * z + 284672 * f ^ 4 * z ^ 4 - 278528 * f ^ 4 * z ^ 2 + 117024 * f ^ 4 + 117504 * f ^ 3 * z ^ 3 - 58752 * f ^ 3 * z + 58192 * f ^ 2 * z ^ 2 - 26984 * f ^ 2 + 4752 * f * z + 2039"
  define Q2 where "Q2 = 24704 * f ^ 8 + 245248 * f ^ 6 * z ^ 2 - 92672 * f ^ 6 + 93312 * f ^ 5 * z + 220544 * f ^ 4 * z ^ 4 - 190016 * f ^ 4 * z ^ 2 + 84768 * f ^ 4 + 92448 * f ^ 3 * z ^ 3 - 46224 * f ^ 3 * z + 56974 * f ^ 2 * z ^ 2 - 26183 * f ^ 2 + 5184 * f * z + 2588"
  define Q3 where "Q3 = 5824 * f ^ 8 + 99008 * f ^ 6 * z ^ 2 - 34752 * f ^ 6 + 39312 * f ^ 5 * z + 93184 * f ^ 4 * z ^ 4 - 78336 * f ^ 4 * z ^ 2 + 63543 * f ^ 4 + 39168 * f ^ 3 * z ^ 3 - 19584 * f ^ 3 * z + 53104 * f ^ 2 * z ^ 2 - 25528 * f ^ 2 + 2304 * f * z + 2928"
  have q0: "0 \<le> Q0" unfolding Q0_def by (rule cert_R1_poly_a_6 [OF assms(3) assms(4) assms(5) assms(6)])
  have q1: "0 \<le> Q1" unfolding Q1_def by (rule cert_R1_poly_a_12 [OF assms(3) assms(4) assms(5) assms(6)])
  have q2: "0 \<le> Q2" unfolding Q2_def by (rule cert_R1_poly_a_18 [OF assms(3) assms(4) assms(5) assms(6)])
  have q3: "0 \<le> Q3" unfolding Q3_def by (rule cert_R1_poly_a_24 [OF assms(3) assms(4) assms(5) assms(6)])
  have id: "54000 * (1600 * u ^ 3 * f ^ 4 + 1600 * u ^ 3 * f ^ 2 * z ^ 2 - 800 * u ^ 3 * f ^ 2 + 100 * u ^ 3 + 16384 * u ^ 2 * f ^ 6 * z ^ 2 - 5120 * u ^ 2 * f ^ 6 + 6912 * u ^ 2 * f ^ 5 * z + 16384 * u ^ 2 * f ^ 4 * z ^ 4 - 13312 * u ^ 2 * f ^ 4 * z ^ 2 + 4944 * u ^ 2 * f ^ 4 + 6912 * u ^ 2 * f ^ 3 * z ^ 3 - 3456 * u ^ 2 * f ^ 3 * z + 3408 * u ^ 2 * f ^ 2 * z ^ 2 - 1512 * u ^ 2 * f ^ 2 + 432 * u ^ 2 * f * z + 149 * u ^ 2 + 4096 * u * f ^ 8 + 8448 * u * f ^ 6 * z ^ 2 - 5376 * u * f ^ 6 + 1728 * u * f ^ 5 * z + 4352 * u * f ^ 4 * z ^ 4 - 5504 * u * f ^ 4 * z ^ 2 + 2244 * u * f ^ 4 + 1728 * u * f ^ 3 * z ^ 3 - 864 * u * f ^ 3 * z + 596 * u * f ^ 2 * z ^ 2 - 298 * u * f ^ 2 + 1088 * f ^ 8 + 1088 * f ^ 6 * z ^ 2 - 832 * f ^ 6 + 432 * f ^ 5 * z + 149 * f ^ 4) =
      6 * (16 - 4 * u) ^ 3 * Q0 +
      3 * (4 * u - 1) * (16 - 4 * u) ^ 2 * Q1 +
      24 * (4 * u - 1) ^ 2 * (16 - 4 * u) * Q2 +
      48 * (4 * u - 1) ^ 3 * Q3"
    unfolding Q0_def Q1_def Q2_def Q3_def by algebra
  have "0 \<le> 54000 * (1600 * u ^ 3 * f ^ 4 + 1600 * u ^ 3 * f ^ 2 * z ^ 2 - 800 * u ^ 3 * f ^ 2 + 100 * u ^ 3 + 16384 * u ^ 2 * f ^ 6 * z ^ 2 - 5120 * u ^ 2 * f ^ 6 + 6912 * u ^ 2 * f ^ 5 * z + 16384 * u ^ 2 * f ^ 4 * z ^ 4 - 13312 * u ^ 2 * f ^ 4 * z ^ 2 + 4944 * u ^ 2 * f ^ 4 + 6912 * u ^ 2 * f ^ 3 * z ^ 3 - 3456 * u ^ 2 * f ^ 3 * z + 3408 * u ^ 2 * f ^ 2 * z ^ 2 - 1512 * u ^ 2 * f ^ 2 + 432 * u ^ 2 * f * z + 149 * u ^ 2 + 4096 * u * f ^ 8 + 8448 * u * f ^ 6 * z ^ 2 - 5376 * u * f ^ 6 + 1728 * u * f ^ 5 * z + 4352 * u * f ^ 4 * z ^ 4 - 5504 * u * f ^ 4 * z ^ 2 + 2244 * u * f ^ 4 + 1728 * u * f ^ 3 * z ^ 3 - 864 * u * f ^ 3 * z + 596 * u * f ^ 2 * z ^ 2 - 298 * u * f ^ 2 + 1088 * f ^ 8 + 1088 * f ^ 6 * z ^ 2 - 832 * f ^ 6 + 432 * f ^ 5 * z + 149 * f ^ 4)"
    unfolding id
    using assms q0 q1 q2 q3
    by (intro add_nonneg_nonneg mult_nonneg_nonneg zero_le_power) simp_all
  then show ?thesis by simp
qed

lemma cert_R1_poly:
  fixes u f z :: real
  assumes "1 / 4 \<le> u" "u \<le> 4" "1 / 2 \<le> f" "f \<le> 9 / 8" "3 / 8 \<le> z" "z \<le> 1 / 2"
  shows "0 \<le> 1600 * u ^ 3 * f ^ 4 + 1600 * u ^ 3 * f ^ 2 * z ^ 2 - 800 * u ^ 3 * f ^ 2 + 100 * u ^ 3 + 16384 * u ^ 2 * f ^ 6 * z ^ 2 - 5120 * u ^ 2 * f ^ 6 + 6912 * u ^ 2 * f ^ 5 * z + 16384 * u ^ 2 * f ^ 4 * z ^ 4 - 13312 * u ^ 2 * f ^ 4 * z ^ 2 + 4944 * u ^ 2 * f ^ 4 + 6912 * u ^ 2 * f ^ 3 * z ^ 3 - 3456 * u ^ 2 * f ^ 3 * z + 3408 * u ^ 2 * f ^ 2 * z ^ 2 - 1512 * u ^ 2 * f ^ 2 + 432 * u ^ 2 * f * z + 149 * u ^ 2 + 4096 * u * f ^ 8 + 8448 * u * f ^ 6 * z ^ 2 - 5376 * u * f ^ 6 + 1728 * u * f ^ 5 * z + 4352 * u * f ^ 4 * z ^ 4 - 5504 * u * f ^ 4 * z ^ 2 + 2244 * u * f ^ 4 + 1728 * u * f ^ 3 * z ^ 3 - 864 * u * f ^ 3 * z + 596 * u * f ^ 2 * z ^ 2 - 298 * u * f ^ 2 + 1088 * f ^ 8 + 1088 * f ^ 6 * z ^ 2 - 832 * f ^ 6 + 432 * f ^ 5 * z + 149 * f ^ 4"
  by (rule cert_R1_poly_a_25 [OF assms(1) assms(2) assms(5) assms(6) assms(3) assms(4)])

lemma cert_R1:
  fixes u f z :: real
  assumes "1 / 4 \<le> u" "u \<le> 4" "1 / 2 \<le> f" "f \<le> 9 / 8" "3 / 8 \<le> z" "z \<le> 1 / 2"
  shows "ampN u f z * ampD (1 / 4) f z \<le> ampN (1 / 4) f z * ampD u f z"
proof -
  define Q where "Q = 1600 * u ^ 3 * f ^ 4 + 1600 * u ^ 3 * f ^ 2 * z ^ 2 - 800 * u ^ 3 * f ^ 2 + 100 * u ^ 3 + 16384 * u ^ 2 * f ^ 6 * z ^ 2 - 5120 * u ^ 2 * f ^ 6 + 6912 * u ^ 2 * f ^ 5 * z + 16384 * u ^ 2 * f ^ 4 * z ^ 4 - 13312 * u ^ 2 * f ^ 4 * z ^ 2 + 4944 * u ^ 2 * f ^ 4 + 6912 * u ^ 2 * f ^ 3 * z ^ 3 - 3456 * u ^ 2 * f ^ 3 * z + 3408 * u ^ 2 * f ^ 2 * z ^ 2 - 1512 * u ^ 2 * f ^ 2 + 432 * u ^ 2 * f * z + 149 * u ^ 2 + 4096 * u * f ^ 8 + 8448 * u * f ^ 6 * z ^ 2 - 5376 * u * f ^ 6 + 1728 * u * f ^ 5 * z + 4352 * u * f ^ 4 * z ^ 4 - 5504 * u * f ^ 4 * z ^ 2 + 2244 * u * f ^ 4 + 1728 * u * f ^ 3 * z ^ 3 - 864 * u * f ^ 3 * z + 596 * u * f ^ 2 * z ^ 2 - 298 * u * f ^ 2 + 1088 * f ^ 8 + 1088 * f ^ 6 * z ^ 2 - 832 * f ^ 6 + 432 * f ^ 5 * z + 149 * f ^ 4"
  have q: "0 \<le> Q" unfolding Q_def by (rule cert_R1_poly [OF assms])
  have id: "6400 * (ampN (1 / 4) f z * ampD u f z - ampN u f z * ampD (1 / 4) f z) = (4 * u - 1) * Q"
    unfolding Q_def ampN_def ampD_def by algebra
  have "0 \<le> (4 * u - 1) * Q"
    using assms(1) q by (intro mult_nonneg_nonneg) simp_all
  then have "0 \<le> 6400 * (ampN (1 / 4) f z * ampD u f z - ampN u f z * ampD (1 / 4) f z)" unfolding id .
  then show ?thesis by simp
qed

lemma cert_R2_poly_a_1:
  fixes f :: real
  assumes "7 / 8 \<le> f" "f \<le> 3 / 2"
  shows "0 \<le> 2952790016 * f ^ 8 - 3489300480 * f ^ 6 + 14155776 * f ^ 5 + 1459429387 * f ^ 4 - 4718016 * f ^ 3 - 253722368 * f ^ 2 + 294912 * f + 15204352"
proof -
  have id: "1600000000 * (2952790016 * f ^ 8 - 3489300480 * f ^ 6 + 14155776 * f ^ 5 + 1459429387 * f ^ 4 - 4718016 * f ^ 3 - 253722368 * f ^ 2 + 294912 * f + 15204352) =
      530104736555 * (12 - 8 * f) ^ 8 +
      9452936509980 * (8 * f - 7) * (12 - 8 * f) ^ 7 +
      72060542041570 * (8 * f - 7) ^ 2 * (12 - 8 * f) ^ 6 +
      306810634889420 * (8 * f - 7) ^ 3 * (12 - 8 * f) ^ 5 +
      798521687880875 * (8 * f - 7) ^ 4 * (12 - 8 * f) ^ 4 +
      1302145850858480 * (8 * f - 7) ^ 5 * (12 - 8 * f) ^ 3 +
      1300776705646880 * (8 * f - 7) ^ 6 * (12 - 8 * f) ^ 2 +
      728736890366720 * (8 * f - 7) ^ 7 * (12 - 8 * f) +
      175538872318720 * (8 * f - 7) ^ 8"
    by algebra
  have "0 \<le> 1600000000 * (2952790016 * f ^ 8 - 3489300480 * f ^ 6 + 14155776 * f ^ 5 + 1459429387 * f ^ 4 - 4718016 * f ^ 3 - 253722368 * f ^ 2 + 294912 * f + 15204352)"
    unfolding id
    using assms 
    by (intro add_nonneg_nonneg mult_nonneg_nonneg zero_le_power) simp_all
  then show ?thesis by simp
qed

lemma cert_R2_poly_a_2:
  fixes f :: real
  assumes "7 / 8 \<le> f" "f \<le> 3 / 2"
  shows "0 \<le> 1476395008 * f ^ 8 - 1742397440 * f ^ 6 + 51314688 * f ^ 5 + 728537231 * f ^ 4 - 17099208 * f ^ 3 - 126654784 * f ^ 2 + 1069056 * f + 7602176"
proof -
  have id: "1600000000 * (1476395008 * f ^ 8 - 1742397440 * f ^ 6 + 51314688 * f ^ 5 + 728537231 * f ^ 4 - 17099208 * f ^ 3 - 126654784 * f ^ 2 + 1069056 * f + 7602176) =
      322805688815 * (12 - 8 * f) ^ 8 +
      5446691450540 * (8 * f - 7) * (12 - 8 * f) ^ 7 +
      39890363865210 * (8 * f - 7) ^ 2 * (12 - 8 * f) ^ 6 +
      165025384036060 * (8 * f - 7) ^ 3 * (12 - 8 * f) ^ 5 +
      420761257723375 * (8 * f - 7) ^ 4 * (12 - 8 * f) ^ 4 +
      676124045641840 * (8 * f - 7) ^ 5 * (12 - 8 * f) ^ 3 +
      668346648142240 * (8 * f - 7) ^ 6 * (12 - 8 * f) ^ 2 +
      371614018620160 * (8 * f - 7) ^ 7 * (12 - 8 * f) +
      89029864328960 * (8 * f - 7) ^ 8"
    by algebra
  have "0 \<le> 1600000000 * (1476395008 * f ^ 8 - 1742397440 * f ^ 6 + 51314688 * f ^ 5 + 728537231 * f ^ 4 - 17099208 * f ^ 3 - 126654784 * f ^ 2 + 1069056 * f + 7602176)"
    unfolding id
    using assms 
    by (intro add_nonneg_nonneg mult_nonneg_nonneg zero_le_power) simp_all
  then show ?thesis by simp
qed

lemma cert_R2_poly_a_3:
  fixes f :: real
  assumes "7 / 8 \<le> f" "f \<le> 3 / 2"
  shows "0 \<le> 2214592512 * f ^ 8 - 2582056960 * f ^ 6 + 143327232 * f ^ 5 + 1076324809 * f ^ 4 - 47624112 * f ^ 3 - 187092576 * f ^ 2 + 2985984 * f + 11403264"
proof -
  have id: "1600000000 * (2214592512 * f ^ 8 - 2582056960 * f ^ 6 + 143327232 * f ^ 5 + 1076324809 * f ^ 4 - 47624112 * f ^ 3 - 187092576 * f ^ 2 + 2985984 * f + 11403264) =
      595735054185 * (12 - 8 * f) ^ 8 +
      9582805062260 * (8 * f - 7) * (12 - 8 * f) ^ 7 +
      67548319490390 * (8 * f - 7) ^ 2 * (12 - 8 * f) ^ 6 +
      271243026836740 * (8 * f - 7) ^ 3 * (12 - 8 * f) ^ 5 +
      676012574019625 * (8 * f - 7) ^ 4 * (12 - 8 * f) ^ 4 +
      1067763993374160 * (8 * f - 7) ^ 5 * (12 - 8 * f) ^ 3 +
      1041940607806560 * (8 * f - 7) ^ 6 * (12 - 8 * f) ^ 2 +
      573765999325440 * (8 * f - 7) ^ 7 * (12 - 8 * f) +
      136469788227840 * (8 * f - 7) ^ 8"
    by algebra
  have "0 \<le> 1600000000 * (2214592512 * f ^ 8 - 2582056960 * f ^ 6 + 143327232 * f ^ 5 + 1076324809 * f ^ 4 - 47624112 * f ^ 3 - 187092576 * f ^ 2 + 2985984 * f + 11403264)"
    unfolding id
    using assms 
    by (intro add_nonneg_nonneg mult_nonneg_nonneg zero_le_power) simp_all
  then show ?thesis by simp
qed

lemma cert_R2_poly_a_4:
  fixes f :: real
  assumes "7 / 8 \<le> f" "f \<le> 3 / 2"
  shows "0 \<le> 369098752 * f ^ 8 - 420392960 * f ^ 6 + 34947072 * f ^ 5 + 174209639 * f ^ 4 - 11296152 * f ^ 3 - 30270496 * f ^ 2 + 728064 * f + 1900544"
proof -
  have id: "1600000000 * (369098752 * f ^ 8 - 420392960 * f ^ 6 + 34947072 * f ^ 5 + 174209639 * f ^ 4 - 11296152 * f ^ 3 - 30270496 * f ^ 2 + 728064 * f + 1900544) =
      122849686535 * (12 - 8 * f) ^ 8 +
      1896388811660 * (8 * f - 7) * (12 - 8 * f) ^ 7 +
      12900955042890 * (8 * f - 7) ^ 2 * (12 - 8 * f) ^ 6 +
      50296126650940 * (8 * f - 7) ^ 3 * (12 - 8 * f) ^ 5 +
      122393110786375 * (8 * f - 7) ^ 4 * (12 - 8 * f) ^ 4 +
      189696741531760 * (8 * f - 7) ^ 5 * (12 - 8 * f) ^ 3 +
      182392015564960 * (8 * f - 7) ^ 6 * (12 - 8 * f) ^ 2 +
      99293662493440 * (8 * f - 7) ^ 7 * (12 - 8 * f) +
      23409188407040 * (8 * f - 7) ^ 8"
    by algebra
  have "0 \<le> 1600000000 * (369098752 * f ^ 8 - 420392960 * f ^ 6 + 34947072 * f ^ 5 + 174209639 * f ^ 4 - 11296152 * f ^ 3 - 30270496 * f ^ 2 + 728064 * f + 1900544)"
    unfolding id
    using assms 
    by (intro add_nonneg_nonneg mult_nonneg_nonneg zero_le_power) simp_all
  then show ?thesis by simp
qed

lemma cert_R2_poly_a_5:
  fixes f :: real
  assumes "7 / 8 \<le> f" "f \<le> 3 / 2"
  shows "0 \<le> 184549376 * f ^ 8 - 202874880 * f ^ 6 + 23003136 * f ^ 5 + 83579707 * f ^ 4 - 7034976 * f ^ 3 - 14464448 * f ^ 2 + 479232 * f + 950272"
proof -
  have id: "1600000000 * (184549376 * f ^ 8 - 202874880 * f ^ 6 + 23003136 * f ^ 5 + 83579707 * f ^ 4 - 7034976 * f ^ 3 - 14464448 * f ^ 2 + 479232 * f + 950272) =
      76747944155 * (12 - 8 * f) ^ 8 +
      1140912969180 * (8 * f - 7) * (12 - 8 * f) ^ 7 +
      7502072663170 * (8 * f - 7) ^ 2 * (12 - 8 * f) ^ 6 +
      28395347201420 * (8 * f - 7) ^ 3 * (12 - 8 * f) ^ 5 +
      67397049606875 * (8 * f - 7) ^ 4 * (12 - 8 * f) ^ 4 +
      102339530628080 * (8 * f - 7) ^ 5 * (12 - 8 * f) ^ 3 +
      96785264226080 * (8 * f - 7) ^ 6 * (12 - 8 * f) ^ 2 +
      52000547736320 * (8 * f - 7) ^ 7 * (12 - 8 * f) +
      12132804094720 * (8 * f - 7) ^ 8"
    by algebra
  have "0 \<le> 1600000000 * (184549376 * f ^ 8 - 202874880 * f ^ 6 + 23003136 * f ^ 5 + 83579707 * f ^ 4 - 7034976 * f ^ 3 - 14464448 * f ^ 2 + 479232 * f + 950272)"
    unfolding id
    using assms 
    by (intro add_nonneg_nonneg mult_nonneg_nonneg zero_le_power) simp_all
  then show ?thesis by simp
qed

lemma cert_R2_poly_a_6:
  fixes f z :: real
  assumes "1 / 128 \<le> z" "z \<le> 13 / 64" "7 / 8 \<le> f" "f \<le> 3 / 2"
  shows "0 \<le> 5632 * f ^ 8 + 11264 * f ^ 6 * z ^ 2 - 6656 * f ^ 6 + 3456 * f ^ 5 * z + 5632 * f ^ 4 * z ^ 4 - 5888 * f ^ 4 * z ^ 2 + 2784 * f ^ 4 + 2304 * f ^ 3 * z ^ 3 - 1152 * f ^ 3 * z + 1032 * f ^ 2 * z ^ 2 - 484 * f ^ 2 + 72 * f * z + 29"
proof -
  define Q0 where "Q0 = 2952790016 * f ^ 8 - 3489300480 * f ^ 6 + 14155776 * f ^ 5 + 1459429387 * f ^ 4 - 4718016 * f ^ 3 - 253722368 * f ^ 2 + 294912 * f + 15204352"
  define Q1 where "Q1 = 1476395008 * f ^ 8 - 1742397440 * f ^ 6 + 51314688 * f ^ 5 + 728537231 * f ^ 4 - 17099208 * f ^ 3 - 126654784 * f ^ 2 + 1069056 * f + 7602176"
  define Q2 where "Q2 = 2214592512 * f ^ 8 - 2582056960 * f ^ 6 + 143327232 * f ^ 5 + 1076324809 * f ^ 4 - 47624112 * f ^ 3 - 187092576 * f ^ 2 + 2985984 * f + 11403264"
  define Q3 where "Q3 = 369098752 * f ^ 8 - 420392960 * f ^ 6 + 34947072 * f ^ 5 + 174209639 * f ^ 4 - 11296152 * f ^ 3 - 30270496 * f ^ 2 + 728064 * f + 1900544"
  define Q4 where "Q4 = 184549376 * f ^ 8 - 202874880 * f ^ 6 + 23003136 * f ^ 5 + 83579707 * f ^ 4 - 7034976 * f ^ 3 - 14464448 * f ^ 2 + 479232 * f + 950272"
  have q0: "0 \<le> Q0" unfolding Q0_def by (rule cert_R2_poly_a_1 [OF assms(3) assms(4)])
  have q1: "0 \<le> Q1" unfolding Q1_def by (rule cert_R2_poly_a_2 [OF assms(3) assms(4)])
  have q2: "0 \<le> Q2" unfolding Q2_def by (rule cert_R2_poly_a_3 [OF assms(3) assms(4)])
  have q3: "0 \<le> Q3" unfolding Q3_def by (rule cert_R2_poly_a_4 [OF assms(3) assms(4)])
  have q4: "0 \<le> Q4" unfolding Q4_def by (rule cert_R2_poly_a_5 [OF assms(3) assms(4)])
  have id: "204800000000 * (5632 * f ^ 8 + 11264 * f ^ 6 * z ^ 2 - 6656 * f ^ 6 + 3456 * f ^ 5 * z + 5632 * f ^ 4 * z ^ 4 - 5888 * f ^ 4 * z ^ 2 + 2784 * f ^ 4 + 2304 * f ^ 3 * z ^ 3 - 1152 * f ^ 3 * z + 1032 * f ^ 2 * z ^ 2 - 484 * f ^ 2 + 72 * f * z + 29) =
      1 * (26 - 128 * z) ^ 4 * Q0 +
      8 * (128 * z - 1) * (26 - 128 * z) ^ 3 * Q1 +
      8 * (128 * z - 1) ^ 2 * (26 - 128 * z) ^ 2 * Q2 +
      32 * (128 * z - 1) ^ 3 * (26 - 128 * z) * Q3 +
      16 * (128 * z - 1) ^ 4 * Q4"
    unfolding Q0_def Q1_def Q2_def Q3_def Q4_def by algebra
  have "0 \<le> 204800000000 * (5632 * f ^ 8 + 11264 * f ^ 6 * z ^ 2 - 6656 * f ^ 6 + 3456 * f ^ 5 * z + 5632 * f ^ 4 * z ^ 4 - 5888 * f ^ 4 * z ^ 2 + 2784 * f ^ 4 + 2304 * f ^ 3 * z ^ 3 - 1152 * f ^ 3 * z + 1032 * f ^ 2 * z ^ 2 - 484 * f ^ 2 + 72 * f * z + 29)"
    unfolding id
    using assms q0 q1 q2 q3 q4
    by (intro add_nonneg_nonneg mult_nonneg_nonneg zero_le_power) simp_all
  then show ?thesis by simp
qed

lemma cert_R2_poly_a_7:
  fixes f :: real
  assumes "7 / 8 \<le> f" "f \<le> 3 / 2"
  shows "0 \<le> 56908316672 * f ^ 8 - 83473776640 * f ^ 6 + 382205952 * f ^ 5 + 43807547769 * f ^ 4 - 162771552 * f ^ 3 - 9356263936 * f ^ 2 + 12386304 * f + 671350784"
proof -
  have id: "1600000000 * (56908316672 * f ^ 8 - 83473776640 * f ^ 6 + 382205952 * f ^ 5 + 43807547769 * f ^ 4 - 162771552 * f ^ 3 - 9356263936 * f ^ 2 + 12386304 * f + 671350784) =
      5638295066585 * (12 - 8 * f) ^ 8 +
      105702672798260 * (8 * f - 7) * (12 - 8 * f) ^ 7 +
      862336280715190 * (8 * f - 7) ^ 2 * (12 - 8 * f) ^ 6 +
      3942249721183940 * (8 * f - 7) ^ 3 * (12 - 8 * f) ^ 5 +
      10969828710625625 * (8 * f - 7) ^ 4 * (12 - 8 * f) ^ 4 +
      18982622324756560 * (8 * f - 7) ^ 5 * (12 - 8 * f) ^ 3 +
      19955696974526560 * (8 * f - 7) ^ 6 * (12 - 8 * f) ^ 2 +
      11671583186602240 * (8 * f - 7) ^ 7 * (12 - 8 * f) +
      2914084844407040 * (8 * f - 7) ^ 8"
    by algebra
  have "0 \<le> 1600000000 * (56908316672 * f ^ 8 - 83473776640 * f ^ 6 + 382205952 * f ^ 5 + 43807547769 * f ^ 4 - 162771552 * f ^ 3 - 9356263936 * f ^ 2 + 12386304 * f + 671350784)"
    unfolding id
    using assms 
    by (intro add_nonneg_nonneg mult_nonneg_nonneg zero_le_power) simp_all
  then show ?thesis by simp
qed

lemma cert_R2_poly_a_8:
  fixes f :: real
  assumes "7 / 8 \<le> f" "f \<le> 3 / 2"
  shows "0 \<le> 28454158336 * f ^ 8 - 41676574720 * f ^ 6 + 1385496576 * f ^ 5 + 21865327397 * f ^ 4 - 589922676 * f ^ 3 - 4670455168 * f ^ 2 + 44900352 * f + 335675392"
proof -
  have id: "1600000000 * (28454158336 * f ^ 8 - 41676574720 * f ^ 6 + 1385496576 * f ^ 5 + 21865327397 * f ^ 4 - 589922676 * f ^ 3 - 4670455168 * f ^ 2 + 44900352 * f + 335675392) =
      4114357384805 * (12 - 8 * f) ^ 8 +
      69529409814980 * (8 * f - 7) * (12 - 8 * f) ^ 7 +
      522893544443070 * (8 * f - 7) ^ 2 * (12 - 8 * f) ^ 6 +
      2253079079450420 * (8 * f - 7) ^ 3 * (12 - 8 * f) ^ 5 +
      6015547074217125 * (8 * f - 7) ^ 4 * (12 - 8 * f) ^ 4 +
      10118197363250480 * (8 * f - 7) ^ 5 * (12 - 8 * f) ^ 3 +
      10432360294646880 * (8 * f - 7) ^ 6 * (12 - 8 * f) ^ 2 +
      6020883976190720 * (8 * f - 7) ^ 7 * (12 - 8 * f) +
      1489488158014720 * (8 * f - 7) ^ 8"
    by algebra
  have "0 \<le> 1600000000 * (28454158336 * f ^ 8 - 41676574720 * f ^ 6 + 1385496576 * f ^ 5 + 21865327397 * f ^ 4 - 589922676 * f ^ 3 - 4670455168 * f ^ 2 + 44900352 * f + 335675392)"
    unfolding id
    using assms 
    by (intro add_nonneg_nonneg mult_nonneg_nonneg zero_le_power) simp_all
  then show ?thesis by simp
qed

lemma cert_R2_poly_a_9:
  fixes f :: real
  assumes "7 / 8 \<le> f" "f \<le> 3 / 2"
  shows "0 \<le> 42681237504 * f ^ 8 - 61670471680 * f ^ 6 + 3869835264 * f ^ 5 + 32259858083 * f ^ 4 - 1643031864 * f ^ 3 - 6898207552 * f ^ 2 + 125411328 * f + 503513088"
proof -
  have id: "1600000000 * (42681237504 * f ^ 8 - 61670471680 * f ^ 6 + 3869835264 * f ^ 5 + 32259858083 * f ^ 4 - 1643031864 * f ^ 3 - 6898207552 * f ^ 2 + 125411328 * f + 503513088) =
      8660374476195 * (12 - 8 * f) ^ 8 +
      136780316410620 * (8 * f - 7) * (12 - 8 * f) ^ 7 +
      966171512218130 * (8 * f - 7) ^ 2 * (12 - 8 * f) ^ 6 +
      3950159269995180 * (8 * f - 7) ^ 3 * (12 - 8 * f) ^ 5 +
      10121977660143875 * (8 * f - 7) ^ 4 * (12 - 8 * f) ^ 4 +
      16507931034281520 * (8 * f - 7) ^ 5 * (12 - 8 * f) ^ 3 +
      16639170602450720 * (8 * f - 7) ^ 6 * (12 - 8 * f) ^ 2 +
      9446100726900480 * (8 * f - 7) ^ 7 * (12 - 8 * f) +
      2309061598298880 * (8 * f - 7) ^ 8"
    by algebra
  have "0 \<le> 1600000000 * (42681237504 * f ^ 8 - 61670471680 * f ^ 6 + 3869835264 * f ^ 5 + 32259858083 * f ^ 4 - 1643031864 * f ^ 3 - 6898207552 * f ^ 2 + 125411328 * f + 503513088)"
    unfolding id
    using assms 
    by (intro add_nonneg_nonneg mult_nonneg_nonneg zero_le_power) simp_all
  then show ?thesis by simp
qed

lemma cert_R2_poly_a_10:
  fixes f :: real
  assumes "7 / 8 \<le> f" "f \<le> 3 / 2"
  shows "0 \<le> 7113539584 * f ^ 8 - 10012026880 * f ^ 6 + 943570944 * f ^ 5 + 5207613293 * f ^ 4 - 389717244 * f ^ 3 - 1115795392 * f ^ 2 + 30578688 * f + 83918848"
proof -
  have id: "1600000000 * (7113539584 * f ^ 8 - 10012026880 * f ^ 6 + 943570944 * f ^ 5 + 5207613293 * f ^ 4 - 389717244 * f ^ 3 - 1115795392 * f ^ 2 + 30578688 * f + 83918848) =
      1977599381645 * (12 - 8 * f) ^ 8 +
      29745186920420 * (8 * f - 7) * (12 - 8 * f) ^ 7 +
      199983549471630 * (8 * f - 7) ^ 2 * (12 - 8 * f) ^ 6 +
      781235053690580 * (8 * f - 7) ^ 3 * (12 - 8 * f) ^ 5 +
      1925472678286125 * (8 * f - 7) ^ 4 * (12 - 8 * f) ^ 4 +
      3042956951828720 * (8 * f - 7) ^ 5 * (12 - 8 * f) ^ 3 +
      2992694472743520 * (8 * f - 7) ^ 6 * (12 - 8 * f) ^ 2 +
      1667337398132480 * (8 * f - 7) ^ 7 * (12 - 8 * f) +
      401824690689280 * (8 * f - 7) ^ 8"
    by algebra
  have "0 \<le> 1600000000 * (7113539584 * f ^ 8 - 10012026880 * f ^ 6 + 943570944 * f ^ 5 + 5207613293 * f ^ 4 - 389717244 * f ^ 3 - 1115795392 * f ^ 2 + 30578688 * f + 83918848)"
    unfolding id
    using assms 
    by (intro add_nonneg_nonneg mult_nonneg_nonneg zero_le_power) simp_all
  then show ?thesis by simp
qed

lemma cert_R2_poly_a_11:
  fixes f :: real
  assumes "7 / 8 \<le> f" "f \<le> 3 / 2"
  shows "0 \<le> 3556769792 * f ^ 8 - 4809994240 * f ^ 6 + 621084672 * f ^ 5 + 2489193609 * f ^ 4 - 242706672 * f ^ 3 - 532948096 * f ^ 2 + 20127744 * f + 41959424"
proof -
  have id: "1600000000 * (3556769792 * f ^ 8 - 4809994240 * f ^ 6 + 621084672 * f ^ 5 + 2489193609 * f ^ 4 - 242706672 * f ^ 3 - 532948096 * f ^ 2 + 20127744 * f + 41959424) =
      1351895823785 * (12 - 8 * f) ^ 8 +
      19498436012660 * (8 * f - 7) * (12 - 8 * f) ^ 7 +
      125560501954390 * (8 * f - 7) ^ 2 * (12 - 8 * f) ^ 6 +
      470541009319940 * (8 * f - 7) ^ 3 * (12 - 8 * f) ^ 5 +
      1117054183867625 * (8 * f - 7) ^ 4 * (12 - 8 * f) ^ 4 +
      1709778781047760 * (8 * f - 7) ^ 5 * (12 - 8 * f) ^ 3 +
      1638068858020960 * (8 * f - 7) ^ 6 * (12 - 8 * f) ^ 2 +
      893801227997440 * (8 * f - 7) ^ 7 * (12 - 8 * f) +
      211923214711040 * (8 * f - 7) ^ 8"
    by algebra
  have "0 \<le> 1600000000 * (3556769792 * f ^ 8 - 4809994240 * f ^ 6 + 621084672 * f ^ 5 + 2489193609 * f ^ 4 - 242706672 * f ^ 3 - 532948096 * f ^ 2 + 20127744 * f + 41959424)"
    unfolding id
    using assms 
    by (intro add_nonneg_nonneg mult_nonneg_nonneg zero_le_power) simp_all
  then show ?thesis by simp
qed

lemma cert_R2_poly_a_12:
  fixes f z :: real
  assumes "1 / 128 \<le> z" "z \<le> 13 / 64" "7 / 8 \<le> f" "f \<le> 3 / 2"
  shows "0 \<le> 217088 * f ^ 8 + 603136 * f ^ 6 * z ^ 2 - 318464 * f ^ 6 + 186624 * f ^ 5 * z + 386048 * f ^ 4 * z ^ 4 - 384512 * f ^ 4 * z ^ 2 + 167136 * f ^ 4 + 158976 * f ^ 3 * z ^ 3 - 79488 * f ^ 3 * z + 76768 * f ^ 2 * z ^ 2 - 35696 * f ^ 2 + 6048 * f * z + 2561"
proof -
  define Q0 where "Q0 = 56908316672 * f ^ 8 - 83473776640 * f ^ 6 + 382205952 * f ^ 5 + 43807547769 * f ^ 4 - 162771552 * f ^ 3 - 9356263936 * f ^ 2 + 12386304 * f + 671350784"
  define Q1 where "Q1 = 28454158336 * f ^ 8 - 41676574720 * f ^ 6 + 1385496576 * f ^ 5 + 21865327397 * f ^ 4 - 589922676 * f ^ 3 - 4670455168 * f ^ 2 + 44900352 * f + 335675392"
  define Q2 where "Q2 = 42681237504 * f ^ 8 - 61670471680 * f ^ 6 + 3869835264 * f ^ 5 + 32259858083 * f ^ 4 - 1643031864 * f ^ 3 - 6898207552 * f ^ 2 + 125411328 * f + 503513088"
  define Q3 where "Q3 = 7113539584 * f ^ 8 - 10012026880 * f ^ 6 + 943570944 * f ^ 5 + 5207613293 * f ^ 4 - 389717244 * f ^ 3 - 1115795392 * f ^ 2 + 30578688 * f + 83918848"
  define Q4 where "Q4 = 3556769792 * f ^ 8 - 4809994240 * f ^ 6 + 621084672 * f ^ 5 + 2489193609 * f ^ 4 - 242706672 * f ^ 3 - 532948096 * f ^ 2 + 20127744 * f + 41959424"
  have q0: "0 \<le> Q0" unfolding Q0_def by (rule cert_R2_poly_a_7 [OF assms(3) assms(4)])
  have q1: "0 \<le> Q1" unfolding Q1_def by (rule cert_R2_poly_a_8 [OF assms(3) assms(4)])
  have q2: "0 \<le> Q2" unfolding Q2_def by (rule cert_R2_poly_a_9 [OF assms(3) assms(4)])
  have q3: "0 \<le> Q3" unfolding Q3_def by (rule cert_R2_poly_a_10 [OF assms(3) assms(4)])
  have q4: "0 \<le> Q4" unfolding Q4_def by (rule cert_R2_poly_a_11 [OF assms(3) assms(4)])
  have id: "102400000000 * (217088 * f ^ 8 + 603136 * f ^ 6 * z ^ 2 - 318464 * f ^ 6 + 186624 * f ^ 5 * z + 386048 * f ^ 4 * z ^ 4 - 384512 * f ^ 4 * z ^ 2 + 167136 * f ^ 4 + 158976 * f ^ 3 * z ^ 3 - 79488 * f ^ 3 * z + 76768 * f ^ 2 * z ^ 2 - 35696 * f ^ 2 + 6048 * f * z + 2561) =
      1 * (26 - 128 * z) ^ 4 * Q0 +
      8 * (128 * z - 1) * (26 - 128 * z) ^ 3 * Q1 +
      8 * (128 * z - 1) ^ 2 * (26 - 128 * z) ^ 2 * Q2 +
      32 * (128 * z - 1) ^ 3 * (26 - 128 * z) * Q3 +
      16 * (128 * z - 1) ^ 4 * Q4"
    unfolding Q0_def Q1_def Q2_def Q3_def Q4_def by algebra
  have "0 \<le> 102400000000 * (217088 * f ^ 8 + 603136 * f ^ 6 * z ^ 2 - 318464 * f ^ 6 + 186624 * f ^ 5 * z + 386048 * f ^ 4 * z ^ 4 - 384512 * f ^ 4 * z ^ 2 + 167136 * f ^ 4 + 158976 * f ^ 3 * z ^ 3 - 79488 * f ^ 3 * z + 76768 * f ^ 2 * z ^ 2 - 35696 * f ^ 2 + 6048 * f * z + 2561)"
    unfolding id
    using assms q0 q1 q2 q3 q4
    by (intro add_nonneg_nonneg mult_nonneg_nonneg zero_le_power) simp_all
  then show ?thesis by simp
qed

lemma cert_R2_poly_a_13:
  fixes f :: real
  assumes "7 / 8 \<le> f" "f \<le> 3 / 2"
  shows "0 \<le> 39191576576 * f ^ 8 - 75118428160 * f ^ 6 + 429981696 * f ^ 5 + 50148469197 * f ^ 4 - 200810556 * f ^ 3 - 13023689728 * f ^ 2 + 18911232 * f + 1130627072"
proof -
  have id: "1600000000 * (39191576576 * f ^ 8 - 75118428160 * f ^ 6 + 429981696 * f ^ 5 + 50148469197 * f ^ 4 - 200810556 * f ^ 3 - 13023689728 * f ^ 2 + 18911232 * f + 1130627072) =
      1686790993805 * (12 - 8 * f) ^ 8 +
      24651255695780 * (8 * f - 7) * (12 - 8 * f) ^ 7 +
      208041431106670 * (8 * f - 7) ^ 2 * (12 - 8 * f) ^ 6 +
      1122869577019220 * (8 * f - 7) ^ 3 * (12 - 8 * f) ^ 5 +
      3736868889930125 * (8 * f - 7) ^ 4 * (12 - 8 * f) ^ 4 +
      7531725821962480 * (8 * f - 7) ^ 5 * (12 - 8 * f) ^ 3 +
      8939264679683680 * (8 * f - 7) ^ 6 * (12 - 8 * f) ^ 2 +
      5747524812824320 * (8 * f - 7) ^ 7 * (12 - 8 * f) +
      1544647275787520 * (8 * f - 7) ^ 8"
    by algebra
  have "0 \<le> 1600000000 * (39191576576 * f ^ 8 - 75118428160 * f ^ 6 + 429981696 * f ^ 5 + 50148469197 * f ^ 4 - 200810556 * f ^ 3 - 13023689728 * f ^ 2 + 18911232 * f + 1130627072)"
    unfolding id
    using assms 
    by (intro add_nonneg_nonneg mult_nonneg_nonneg zero_le_power) simp_all
  then show ?thesis by simp
qed

lemma cert_R2_poly_a_14:
  fixes f :: real
  assumes "7 / 8 \<le> f" "f \<le> 3 / 2"
  shows "0 \<le> 39191576576 * f ^ 8 - 74994114560 * f ^ 6 + 3117367296 * f ^ 5 + 50060749522 * f ^ 4 - 1455570081 * f ^ 3 - 13002172928 * f ^ 2 + 137106432 * f + 1130627072"
proof -
  have id: "800000000 * (39191576576 * f ^ 8 - 74994114560 * f ^ 6 + 3117367296 * f ^ 5 + 50060749522 * f ^ 4 - 1455570081 * f ^ 3 - 13002172928 * f ^ 2 + 137106432 * f + 1130627072) =
      2199293419565 * (12 - 8 * f) ^ 8 +
      29954011020440 * (8 * f - 7) * (12 - 8 * f) ^ 7 +
      201791255958510 * (8 * f - 7) ^ 2 * (12 - 8 * f) ^ 6 +
      864131830792460 * (8 * f - 7) ^ 3 * (12 - 8 * f) ^ 5 +
      2441534999356125 * (8 * f - 7) ^ 4 * (12 - 8 * f) ^ 4 +
      4446294736450340 * (8 * f - 7) ^ 5 * (12 - 8 * f) ^ 3 +
      4964982886442640 * (8 * f - 7) ^ 6 * (12 - 8 * f) ^ 2 +
      3076156772960960 * (8 * f - 7) ^ 7 * (12 - 8 * f) +
      807897716047360 * (8 * f - 7) ^ 8"
    by algebra
  have "0 \<le> 800000000 * (39191576576 * f ^ 8 - 74994114560 * f ^ 6 + 3117367296 * f ^ 5 + 50060749522 * f ^ 4 - 1455570081 * f ^ 3 - 13002172928 * f ^ 2 + 137106432 * f + 1130627072)"
    unfolding id
    using assms 
    by (intro add_nonneg_nonneg mult_nonneg_nonneg zero_le_power) simp_all
  then show ?thesis by simp
qed

lemma cert_R2_poly_a_15:
  fixes f :: real
  assumes "7 / 8 \<le> f" "f \<le> 3 / 2"
  shows "0 \<le> 29393682432 * f ^ 8 - 55375390720 * f ^ 6 + 4353564672 * f ^ 5 + 36931668479 * f ^ 4 - 2027001267 * f ^ 3 - 9601012096 * f ^ 2 + 191476224 * f + 847970304"
proof -
  have id: "1600000000 * (29393682432 * f ^ 8 - 55375390720 * f ^ 6 + 4353564672 * f ^ 5 + 36931668479 * f ^ 4 - 2027001267 * f ^ 3 - 9601012096 * f ^ 2 + 191476224 * f + 847970304) =
      5882544526935 * (12 - 8 * f) ^ 8 +
      78769024513860 * (8 * f - 7) * (12 - 8 * f) ^ 7 +
      492858806462090 * (8 * f - 7) ^ 2 * (12 - 8 * f) ^ 6 +
      1895319736427340 * (8 * f - 7) ^ 3 * (12 - 8 * f) ^ 5 +
      4820185170404375 * (8 * f - 7) ^ 4 * (12 - 8 * f) ^ 4 +
      8076114805109160 * (8 * f - 7) ^ 5 * (12 - 8 * f) ^ 3 +
      8497307161780160 * (8 * f - 7) ^ 6 * (12 - 8 * f) ^ 2 +
      5054637771104640 * (8 * f - 7) ^ 7 * (12 - 8 * f) +
      1291410853981440 * (8 * f - 7) ^ 8"
    by algebra
  have "0 \<le> 1600000000 * (29393682432 * f ^ 8 - 55375390720 * f ^ 6 + 4353564672 * f ^ 5 + 36931668479 * f ^ 4 - 2027001267 * f ^ 3 - 9601012096 * f ^ 2 + 191476224 * f + 847970304)"
    unfolding id
    using assms 
    by (intro add_nonneg_nonneg mult_nonneg_nonneg zero_le_power) simp_all
  then show ?thesis by simp
qed

lemma cert_R2_poly_a_16:
  fixes f :: real
  assumes "7 / 8 \<le> f" "f \<le> 3 / 2"
  shows "0 \<le> 9797894144 * f ^ 8 - 17909411840 * f ^ 6 + 2123034624 * f ^ 5 + 11925024418 * f ^ 4 - 961584939 * f ^ 3 - 3105304832 * f ^ 2 + 93374208 * f + 282656768"
proof -
  have id: "800000000 * (9797894144 * f ^ 8 - 17909411840 * f ^ 6 + 2123034624 * f ^ 5 + 11925024418 * f ^ 4 - 961584939 * f ^ 3 - 3105304832 * f ^ 2 + 93374208 * f + 282656768) =
      1537660520285 * (12 - 8 * f) ^ 8 +
      20357050945760 * (8 * f - 7) * (12 - 8 * f) ^ 7 +
      122664250396590 * (8 * f - 7) ^ 2 * (12 - 8 * f) ^ 6 +
      443844565004540 * (8 * f - 7) ^ 3 * (12 - 8 * f) ^ 5 +
      1052109958186125 * (8 * f - 7) ^ 4 * (12 - 8 * f) ^ 4 +
      1650733729665260 * (8 * f - 7) ^ 5 * (12 - 8 * f) ^ 3 +
      1645920637768560 * (8 * f - 7) ^ 6 * (12 - 8 * f) ^ 2 +
      939877164184640 * (8 * f - 7) ^ 7 * (12 - 8 * f) +
      233047202928640 * (8 * f - 7) ^ 8"
    by algebra
  have "0 \<le> 800000000 * (9797894144 * f ^ 8 - 17909411840 * f ^ 6 + 2123034624 * f ^ 5 + 11925024418 * f ^ 4 - 961584939 * f ^ 3 - 3105304832 * f ^ 2 + 93374208 * f + 282656768)"
    unfolding id
    using assms 
    by (intro add_nonneg_nonneg mult_nonneg_nonneg zero_le_power) simp_all
  then show ?thesis by simp
qed

lemma cert_R2_poly_a_17:
  fixes f :: real
  assumes "7 / 8 \<le> f" "f \<le> 3 / 2"
  shows "0 \<le> 2449473536 * f ^ 8 - 4275343360 * f ^ 6 + 698720256 * f ^ 5 + 2851353117 * f ^ 4 - 299426166 * f ^ 3 - 741361408 * f ^ 2 + 30730752 * f + 70664192"
proof -
  have id: "1600000000 * (2449473536 * f ^ 8 - 4275343360 * f ^ 6 + 698720256 * f ^ 5 + 2851353117 * f ^ 4 - 299426166 * f ^ 3 - 741361408 * f ^ 2 + 30730752 * f + 70664192) =
      1155294023405 * (12 - 8 * f) ^ 8 +
      15059283948980 * (8 * f - 7) * (12 - 8 * f) ^ 7 +
      88171962220270 * (8 * f - 7) ^ 2 * (12 - 8 * f) ^ 6 +
      305586225991220 * (8 * f - 7) ^ 3 * (12 - 8 * f) ^ 5 +
      687379276326125 * (8 * f - 7) ^ 4 * (12 - 8 * f) ^ 4 +
      1022116670894080 * (8 * f - 7) ^ 5 * (12 - 8 * f) ^ 3 +
      971030094606880 * (8 * f - 7) ^ 6 * (12 - 8 * f) ^ 2 +
      532771609745920 * (8 * f - 7) ^ 7 * (12 - 8 * f) +
      128030763403520 * (8 * f - 7) ^ 8"
    by algebra
  have "0 \<le> 1600000000 * (2449473536 * f ^ 8 - 4275343360 * f ^ 6 + 698720256 * f ^ 5 + 2851353117 * f ^ 4 - 299426166 * f ^ 3 - 741361408 * f ^ 2 + 30730752 * f + 70664192)"
    unfolding id
    using assms 
    by (intro add_nonneg_nonneg mult_nonneg_nonneg zero_le_power) simp_all
  then show ?thesis by simp
qed

lemma cert_R2_poly_a_18:
  fixes f z :: real
  assumes "1 / 128 \<le> z" "z \<le> 13 / 64" "7 / 8 \<le> f" "f \<le> 3 / 2"
  shows "0 \<le> 149504 * f ^ 8 + 621568 * f ^ 6 * z ^ 2 - 286592 * f ^ 6 + 209952 * f ^ 5 * z + 472064 * f ^ 4 * z ^ 4 - 438656 * f ^ 4 * z ^ 2 + 191328 * f ^ 4 + 196128 * f ^ 3 * z ^ 3 - 98064 * f ^ 3 * z + 107584 * f ^ 2 * z ^ 2 - 49688 * f ^ 2 + 9234 * f * z + 4313"
proof -
  define Q0 where "Q0 = 39191576576 * f ^ 8 - 75118428160 * f ^ 6 + 429981696 * f ^ 5 + 50148469197 * f ^ 4 - 200810556 * f ^ 3 - 13023689728 * f ^ 2 + 18911232 * f + 1130627072"
  define Q1 where "Q1 = 39191576576 * f ^ 8 - 74994114560 * f ^ 6 + 3117367296 * f ^ 5 + 50060749522 * f ^ 4 - 1455570081 * f ^ 3 - 13002172928 * f ^ 2 + 137106432 * f + 1130627072"
  define Q2 where "Q2 = 29393682432 * f ^ 8 - 55375390720 * f ^ 6 + 4353564672 * f ^ 5 + 36931668479 * f ^ 4 - 2027001267 * f ^ 3 - 9601012096 * f ^ 2 + 191476224 * f + 847970304"
  define Q3 where "Q3 = 9797894144 * f ^ 8 - 17909411840 * f ^ 6 + 2123034624 * f ^ 5 + 11925024418 * f ^ 4 - 961584939 * f ^ 3 - 3105304832 * f ^ 2 + 93374208 * f + 282656768"
  define Q4 where "Q4 = 2449473536 * f ^ 8 - 4275343360 * f ^ 6 + 698720256 * f ^ 5 + 2851353117 * f ^ 4 - 299426166 * f ^ 3 - 741361408 * f ^ 2 + 30730752 * f + 70664192"
  have q0: "0 \<le> Q0" unfolding Q0_def by (rule cert_R2_poly_a_13 [OF assms(3) assms(4)])
  have q1: "0 \<le> Q1" unfolding Q1_def by (rule cert_R2_poly_a_14 [OF assms(3) assms(4)])
  have q2: "0 \<le> Q2" unfolding Q2_def by (rule cert_R2_poly_a_15 [OF assms(3) assms(4)])
  have q3: "0 \<le> Q3" unfolding Q3_def by (rule cert_R2_poly_a_16 [OF assms(3) assms(4)])
  have q4: "0 \<le> Q4" unfolding Q4_def by (rule cert_R2_poly_a_17 [OF assms(3) assms(4)])
  have id: "102400000000 * (149504 * f ^ 8 + 621568 * f ^ 6 * z ^ 2 - 286592 * f ^ 6 + 209952 * f ^ 5 * z + 472064 * f ^ 4 * z ^ 4 - 438656 * f ^ 4 * z ^ 2 + 191328 * f ^ 4 + 196128 * f ^ 3 * z ^ 3 - 98064 * f ^ 3 * z + 107584 * f ^ 2 * z ^ 2 - 49688 * f ^ 2 + 9234 * f * z + 4313) =
      1 * (26 - 128 * z) ^ 4 * Q0 +
      4 * (128 * z - 1) * (26 - 128 * z) ^ 3 * Q1 +
      8 * (128 * z - 1) ^ 2 * (26 - 128 * z) ^ 2 * Q2 +
      16 * (128 * z - 1) ^ 3 * (26 - 128 * z) * Q3 +
      16 * (128 * z - 1) ^ 4 * Q4"
    unfolding Q0_def Q1_def Q2_def Q3_def Q4_def by algebra
  have "0 \<le> 102400000000 * (149504 * f ^ 8 + 621568 * f ^ 6 * z ^ 2 - 286592 * f ^ 6 + 209952 * f ^ 5 * z + 472064 * f ^ 4 * z ^ 4 - 438656 * f ^ 4 * z ^ 2 + 191328 * f ^ 4 + 196128 * f ^ 3 * z ^ 3 - 98064 * f ^ 3 * z + 107584 * f ^ 2 * z ^ 2 - 49688 * f ^ 2 + 9234 * f * z + 4313)"
    unfolding id
    using assms q0 q1 q2 q3 q4
    by (intro add_nonneg_nonneg mult_nonneg_nonneg zero_le_power) simp_all
  then show ?thesis by simp
qed

lemma cert_R2_poly_a_19:
  fixes f :: real
  assumes "7 / 8 \<le> f" "f \<le> 3 / 2"
  shows "0 \<le> 33285996544 * f ^ 8 - 80720281600 * f ^ 6 + 534380544 * f ^ 5 + 69699908173 * f ^ 4 - 257721624 * f ^ 3 - 21391954992 * f ^ 2 + 26615808 * f + 2111520768"
proof -
  have id: "1600000000 * (33285996544 * f ^ 8 - 80720281600 * f ^ 6 + 534380544 * f ^ 5 + 69699908173 * f ^ 4 - 257721624 * f ^ 3 - 21391954992 * f ^ 2 + 26615808 * f + 2111520768) =
      7886096267245 * (12 - 8 * f) ^ 8 +
      79719059833220 * (8 * f - 7) * (12 - 8 * f) ^ 7 +
      353582704864430 * (8 * f - 7) ^ 2 * (12 - 8 * f) ^ 6 +
      1011345386812180 * (8 * f - 7) ^ 3 * (12 - 8 * f) ^ 5 +
      2310395868758125 * (8 * f - 7) ^ 4 * (12 - 8 * f) ^ 4 +
      4173698105002320 * (8 * f - 7) ^ 5 * (12 - 8 * f) ^ 3 +
      5076225930628320 * (8 * f - 7) ^ 6 * (12 - 8 * f) ^ 2 +
      3478318947713280 * (8 * f - 7) ^ 7 * (12 - 8 * f) +
      998165298842880 * (8 * f - 7) ^ 8"
    by algebra
  have "0 \<le> 1600000000 * (33285996544 * f ^ 8 - 80720281600 * f ^ 6 + 534380544 * f ^ 5 + 69699908173 * f ^ 4 - 257721624 * f ^ 3 - 21391954992 * f ^ 2 + 26615808 * f + 2111520768)"
    unfolding id
    using assms 
    by (intro add_nonneg_nonneg mult_nonneg_nonneg zero_le_power) simp_all
  then show ?thesis by simp
qed

lemma cert_R2_poly_a_20:
  fixes f :: real
  assumes "7 / 8 \<le> f" "f \<le> 3 / 2"
  shows "0 \<le> 16642998272 * f ^ 8 - 40287129600 * f ^ 6 + 1937129472 * f ^ 5 + 34795971049 * f ^ 4 - 934044237 * f ^ 3 - 10678499396 * f ^ 2 + 96482304 * f + 1055760384"
proof -
  have id: "1600000000 * (16642998272 * f ^ 8 - 40287129600 * f ^ 6 + 1937129472 * f ^ 5 + 34795971049 * f ^ 4 - 934044237 * f ^ 3 - 10678499396 * f ^ 2 + 96482304 * f + 1055760384) =
      5599467409585 * (12 - 8 * f) ^ 8 +
      61402275628060 * (8 * f - 7) * (12 - 8 * f) ^ 7 +
      296387060534790 * (8 * f - 7) ^ 2 * (12 - 8 * f) ^ 6 +
      876378345478740 * (8 * f - 7) ^ 3 * (12 - 8 * f) ^ 5 +
      1857893879388625 * (8 * f - 7) ^ 4 * (12 - 8 * f) ^ 4 +
      2922055903417560 * (8 * f - 7) ^ 5 * (12 - 8 * f) ^ 3 +
      3146714492407360 * (8 * f - 7) ^ 6 * (12 - 8 * f) ^ 2 +
      1988023877811840 * (8 * f - 7) ^ 7 * (12 - 8 * f) +
      542852702595840 * (8 * f - 7) ^ 8"
    by algebra
  have "0 \<le> 1600000000 * (16642998272 * f ^ 8 - 40287129600 * f ^ 6 + 1937129472 * f ^ 5 + 34795971049 * f ^ 4 - 934044237 * f ^ 3 - 10678499396 * f ^ 2 + 96482304 * f + 1055760384)"
    unfolding id
    using assms 
    by (intro add_nonneg_nonneg mult_nonneg_nonneg zero_le_power) simp_all
  then show ?thesis by simp
qed

lemma cert_R2_poly_a_21:
  fixes f :: real
  assumes "7 / 8 \<le> f" "f \<le> 3 / 2"
  shows "0 \<le> 24964497408 * f ^ 8 - 59408537600 * f ^ 6 + 5410603008 * f ^ 5 + 51438378111 * f ^ 4 - 2601467118 * f ^ 3 - 15773055694 * f ^ 2 + 269485056 * f + 1583640576"
proof -
  have id: "1600000000 * (24964497408 * f ^ 8 - 59408537600 * f ^ 6 + 5410603008 * f ^ 5 + 51438378111 * f ^ 4 - 2601467118 * f ^ 3 - 15773055694 * f ^ 2 + 269485056 * f + 1583640576) =
      11647157594415 * (12 - 8 * f) ^ 8 +
      134108539266140 * (8 * f - 7) * (12 - 8 * f) ^ 7 +
      678699575067610 * (8 * f - 7) ^ 2 * (12 - 8 * f) ^ 6 +
      2048087931006460 * (8 * f - 7) ^ 3 * (12 - 8 * f) ^ 5 +
      4199194462743375 * (8 * f - 7) ^ 4 * (12 - 8 * f) ^ 4 +
      6094454846233440 * (8 * f - 7) ^ 5 * (12 - 8 * f) ^ 3 +
      5994896624735840 * (8 * f - 7) ^ 6 * (12 - 8 * f) ^ 2 +
      3516046803010560 * (8 * f - 7) ^ 7 * (12 - 8 * f) +
      910641099375360 * (8 * f - 7) ^ 8"
    by algebra
  have "0 \<le> 1600000000 * (24964497408 * f ^ 8 - 59408537600 * f ^ 6 + 5410603008 * f ^ 5 + 51438378111 * f ^ 4 - 2601467118 * f ^ 3 - 15773055694 * f ^ 2 + 269485056 * f + 1583640576)"
    unfolding id
    using assms 
    by (intro add_nonneg_nonneg mult_nonneg_nonneg zero_le_power) simp_all
  then show ?thesis by simp
qed

lemma cert_R2_poly_a_22:
  fixes f :: real
  assumes "7 / 8 \<le> f" "f \<le> 3 / 2"
  shows "0 \<le> 4160749568 * f ^ 8 - 9578956800 * f ^ 6 + 1319251968 * f ^ 5 + 8335849681 * f ^ 4 - 617052303 * f ^ 3 - 2551647674 * f ^ 2 + 65707776 * f + 263940096"
proof -
  have id: "1600000000 * (4160749568 * f ^ 8 - 9578956800 * f ^ 6 + 1319251968 * f ^ 5 + 8335849681 * f ^ 4 - 617052303 * f ^ 3 - 2551647674 * f ^ 2 + 65707776 * f + 263940096) =
      2654659205065 * (12 - 8 * f) ^ 8 +
      31425024617740 * (8 * f - 7) * (12 - 8 * f) ^ 7 +
      163275635893110 * (8 * f - 7) ^ 2 * (12 - 8 * f) ^ 6 +
      498213899722260 * (8 * f - 7) ^ 3 * (12 - 8 * f) ^ 5 +
      1002750987231625 * (8 * f - 7) ^ 4 * (12 - 8 * f) ^ 4 +
      1385007586428840 * (8 * f - 7) ^ 5 * (12 - 8 * f) ^ 3 +
      1276554125453440 * (8 * f - 7) ^ 6 * (12 - 8 * f) ^ 2 +
      703380018610560 * (8 * f - 7) ^ 7 * (12 - 8 * f) +
      173187921596160 * (8 * f - 7) ^ 8"
    by algebra
  have "0 \<le> 1600000000 * (4160749568 * f ^ 8 - 9578956800 * f ^ 6 + 1319251968 * f ^ 5 + 8335849681 * f ^ 4 - 617052303 * f ^ 3 - 2551647674 * f ^ 2 + 65707776 * f + 263940096)"
    unfolding id
    using assms 
    by (intro add_nonneg_nonneg mult_nonneg_nonneg zero_le_power) simp_all
  then show ?thesis by simp
qed

lemma cert_R2_poly_a_23:
  fixes f :: real
  assumes "7 / 8 \<le> f" "f \<le> 3 / 2"
  shows "0 \<le> 2080374784 * f ^ 8 - 4552192000 * f ^ 6 + 868368384 * f ^ 5 + 4008631453 * f ^ 4 - 384285564 * f ^ 3 - 1219020012 * f ^ 2 + 43250688 * f + 131970048"
proof -
  have id: "1600000000 * (2080374784 * f ^ 8 - 4552192000 * f ^ 6 + 868368384 * f ^ 5 + 4008631453 * f ^ 4 - 384285564 * f ^ 3 - 1219020012 * f ^ 2 + 43250688 * f + 131970048) =
      1827118399645 * (12 - 8 * f) ^ 8 +
      21889330962020 * (8 * f - 7) * (12 - 8 * f) ^ 7 +
      115059040338830 * (8 * f - 7) ^ 2 * (12 - 8 * f) ^ 6 +
      352053429868180 * (8 * f - 7) ^ 3 * (12 - 8 * f) ^ 5 +
      698167395212125 * (8 * f - 7) ^ 4 * (12 - 8 * f) ^ 4 +
      930998729652720 * (8 * f - 7) ^ 5 * (12 - 8 * f) ^ 3 +
      816933963297120 * (8 * f - 7) ^ 6 * (12 - 8 * f) ^ 2 +
      427242121639680 * (8 * f - 7) ^ 7 * (12 - 8 * f) +
      100394494874880 * (8 * f - 7) ^ 8"
    by algebra
  have "0 \<le> 1600000000 * (2080374784 * f ^ 8 - 4552192000 * f ^ 6 + 868368384 * f ^ 5 + 4008631453 * f ^ 4 - 384285564 * f ^ 3 - 1219020012 * f ^ 2 + 43250688 * f + 131970048)"
    unfolding id
    using assms 
    by (intro add_nonneg_nonneg mult_nonneg_nonneg zero_le_power) simp_all
  then show ?thesis by simp
qed

lemma cert_R2_poly_a_24:
  fixes f z :: real
  assumes "1 / 128 \<le> z" "z \<le> 13 / 64" "7 / 8 \<le> f" "f \<le> 3 / 2"
  shows "0 \<le> 2031616 * f ^ 8 + 11681792 * f ^ 6 * z ^ 2 - 4927488 * f ^ 6 + 4174848 * f ^ 5 * z + 9650176 * f ^ 4 * z ^ 4 - 8638464 * f ^ 4 * z ^ 2 + 4254672 * f ^ 4 + 4027392 * f ^ 3 * z ^ 3 - 2013696 * f ^ 3 * z + 2796496 * f ^ 2 * z ^ 2 - 1305832 * f ^ 2 + 207936 * f * z + 128877"
proof -
  define Q0 where "Q0 = 33285996544 * f ^ 8 - 80720281600 * f ^ 6 + 534380544 * f ^ 5 + 69699908173 * f ^ 4 - 257721624 * f ^ 3 - 21391954992 * f ^ 2 + 26615808 * f + 2111520768"
  define Q1 where "Q1 = 16642998272 * f ^ 8 - 40287129600 * f ^ 6 + 1937129472 * f ^ 5 + 34795971049 * f ^ 4 - 934044237 * f ^ 3 - 10678499396 * f ^ 2 + 96482304 * f + 1055760384"
  define Q2 where "Q2 = 24964497408 * f ^ 8 - 59408537600 * f ^ 6 + 5410603008 * f ^ 5 + 51438378111 * f ^ 4 - 2601467118 * f ^ 3 - 15773055694 * f ^ 2 + 269485056 * f + 1583640576"
  define Q3 where "Q3 = 4160749568 * f ^ 8 - 9578956800 * f ^ 6 + 1319251968 * f ^ 5 + 8335849681 * f ^ 4 - 617052303 * f ^ 3 - 2551647674 * f ^ 2 + 65707776 * f + 263940096"
  define Q4 where "Q4 = 2080374784 * f ^ 8 - 4552192000 * f ^ 6 + 868368384 * f ^ 5 + 4008631453 * f ^ 4 - 384285564 * f ^ 3 - 1219020012 * f ^ 2 + 43250688 * f + 131970048"
  have q0: "0 \<le> Q0" unfolding Q0_def by (rule cert_R2_poly_a_19 [OF assms(3) assms(4)])
  have q1: "0 \<le> Q1" unfolding Q1_def by (rule cert_R2_poly_a_20 [OF assms(3) assms(4)])
  have q2: "0 \<le> Q2" unfolding Q2_def by (rule cert_R2_poly_a_21 [OF assms(3) assms(4)])
  have q3: "0 \<le> Q3" unfolding Q3_def by (rule cert_R2_poly_a_22 [OF assms(3) assms(4)])
  have q4: "0 \<le> Q4" unfolding Q4_def by (rule cert_R2_poly_a_23 [OF assms(3) assms(4)])
  have id: "6400000000 * (2031616 * f ^ 8 + 11681792 * f ^ 6 * z ^ 2 - 4927488 * f ^ 6 + 4174848 * f ^ 5 * z + 9650176 * f ^ 4 * z ^ 4 - 8638464 * f ^ 4 * z ^ 2 + 4254672 * f ^ 4 + 4027392 * f ^ 3 * z ^ 3 - 2013696 * f ^ 3 * z + 2796496 * f ^ 2 * z ^ 2 - 1305832 * f ^ 2 + 207936 * f * z + 128877) =
      1 * (26 - 128 * z) ^ 4 * Q0 +
      8 * (128 * z - 1) * (26 - 128 * z) ^ 3 * Q1 +
      8 * (128 * z - 1) ^ 2 * (26 - 128 * z) ^ 2 * Q2 +
      32 * (128 * z - 1) ^ 3 * (26 - 128 * z) * Q3 +
      16 * (128 * z - 1) ^ 4 * Q4"
    unfolding Q0_def Q1_def Q2_def Q3_def Q4_def by algebra
  have "0 \<le> 6400000000 * (2031616 * f ^ 8 + 11681792 * f ^ 6 * z ^ 2 - 4927488 * f ^ 6 + 4174848 * f ^ 5 * z + 9650176 * f ^ 4 * z ^ 4 - 8638464 * f ^ 4 * z ^ 2 + 4254672 * f ^ 4 + 4027392 * f ^ 3 * z ^ 3 - 2013696 * f ^ 3 * z + 2796496 * f ^ 2 * z ^ 2 - 1305832 * f ^ 2 + 207936 * f * z + 128877)"
    unfolding id
    using assms q0 q1 q2 q3 q4
    by (intro add_nonneg_nonneg mult_nonneg_nonneg zero_le_power) simp_all
  then show ?thesis by simp
qed

lemma cert_R2_poly_a_25:
  fixes f u z :: real
  assumes "1 / 4 \<le> u" "u \<le> 19 / 16" "1 / 128 \<le> z" "z \<le> 13 / 64" "7 / 8 \<le> f" "f \<le> 3 / 2"
  shows "0 \<le> 1600 * u ^ 3 * f ^ 4 + 1600 * u ^ 3 * f ^ 2 * z ^ 2 - 800 * u ^ 3 * f ^ 2 + 100 * u ^ 3 + 16384 * u ^ 2 * f ^ 6 * z ^ 2 - 5120 * u ^ 2 * f ^ 6 + 6912 * u ^ 2 * f ^ 5 * z + 16384 * u ^ 2 * f ^ 4 * z ^ 4 - 13312 * u ^ 2 * f ^ 4 * z ^ 2 + 4944 * u ^ 2 * f ^ 4 + 6912 * u ^ 2 * f ^ 3 * z ^ 3 - 3456 * u ^ 2 * f ^ 3 * z + 3408 * u ^ 2 * f ^ 2 * z ^ 2 - 1512 * u ^ 2 * f ^ 2 + 432 * u ^ 2 * f * z + 149 * u ^ 2 + 4096 * u * f ^ 8 + 8448 * u * f ^ 6 * z ^ 2 - 5376 * u * f ^ 6 + 1728 * u * f ^ 5 * z + 4352 * u * f ^ 4 * z ^ 4 - 5504 * u * f ^ 4 * z ^ 2 + 2244 * u * f ^ 4 + 1728 * u * f ^ 3 * z ^ 3 - 864 * u * f ^ 3 * z + 596 * u * f ^ 2 * z ^ 2 - 298 * u * f ^ 2 + 1088 * f ^ 8 + 1088 * f ^ 6 * z ^ 2 - 832 * f ^ 6 + 432 * f ^ 5 * z + 149 * f ^ 4"
proof -
  define Q0 where "Q0 = 5632 * f ^ 8 + 11264 * f ^ 6 * z ^ 2 - 6656 * f ^ 6 + 3456 * f ^ 5 * z + 5632 * f ^ 4 * z ^ 4 - 5888 * f ^ 4 * z ^ 2 + 2784 * f ^ 4 + 2304 * f ^ 3 * z ^ 3 - 1152 * f ^ 3 * z + 1032 * f ^ 2 * z ^ 2 - 484 * f ^ 2 + 72 * f * z + 29"
  define Q1 where "Q1 = 217088 * f ^ 8 + 603136 * f ^ 6 * z ^ 2 - 318464 * f ^ 6 + 186624 * f ^ 5 * z + 386048 * f ^ 4 * z ^ 4 - 384512 * f ^ 4 * z ^ 2 + 167136 * f ^ 4 + 158976 * f ^ 3 * z ^ 3 - 79488 * f ^ 3 * z + 76768 * f ^ 2 * z ^ 2 - 35696 * f ^ 2 + 6048 * f * z + 2561"
  define Q2 where "Q2 = 149504 * f ^ 8 + 621568 * f ^ 6 * z ^ 2 - 286592 * f ^ 6 + 209952 * f ^ 5 * z + 472064 * f ^ 4 * z ^ 4 - 438656 * f ^ 4 * z ^ 2 + 191328 * f ^ 4 + 196128 * f ^ 3 * z ^ 3 - 98064 * f ^ 3 * z + 107584 * f ^ 2 * z ^ 2 - 49688 * f ^ 2 + 9234 * f * z + 4313"
  define Q3 where "Q3 = 2031616 * f ^ 8 + 11681792 * f ^ 6 * z ^ 2 - 4927488 * f ^ 6 + 4174848 * f ^ 5 * z + 9650176 * f ^ 4 * z ^ 4 - 8638464 * f ^ 4 * z ^ 2 + 4254672 * f ^ 4 + 4027392 * f ^ 3 * z ^ 3 - 2013696 * f ^ 3 * z + 2796496 * f ^ 2 * z ^ 2 - 1305832 * f ^ 2 + 207936 * f * z + 128877"
  have q0: "0 \<le> Q0" unfolding Q0_def by (rule cert_R2_poly_a_6 [OF assms(3) assms(4) assms(5) assms(6)])
  have q1: "0 \<le> Q1" unfolding Q1_def by (rule cert_R2_poly_a_12 [OF assms(3) assms(4) assms(5) assms(6)])
  have q2: "0 \<le> Q2" unfolding Q2_def by (rule cert_R2_poly_a_18 [OF assms(3) assms(4) assms(5) assms(6)])
  have q3: "0 \<le> Q3" unfolding Q3_def by (rule cert_R2_poly_a_24 [OF assms(3) assms(4) assms(5) assms(6)])
  have id: "3456000 * (1600 * u ^ 3 * f ^ 4 + 1600 * u ^ 3 * f ^ 2 * z ^ 2 - 800 * u ^ 3 * f ^ 2 + 100 * u ^ 3 + 16384 * u ^ 2 * f ^ 6 * z ^ 2 - 5120 * u ^ 2 * f ^ 6 + 6912 * u ^ 2 * f ^ 5 * z + 16384 * u ^ 2 * f ^ 4 * z ^ 4 - 13312 * u ^ 2 * f ^ 4 * z ^ 2 + 4944 * u ^ 2 * f ^ 4 + 6912 * u ^ 2 * f ^ 3 * z ^ 3 - 3456 * u ^ 2 * f ^ 3 * z + 3408 * u ^ 2 * f ^ 2 * z ^ 2 - 1512 * u ^ 2 * f ^ 2 + 432 * u ^ 2 * f * z + 149 * u ^ 2 + 4096 * u * f ^ 8 + 8448 * u * f ^ 6 * z ^ 2 - 5376 * u * f ^ 6 + 1728 * u * f ^ 5 * z + 4352 * u * f ^ 4 * z ^ 4 - 5504 * u * f ^ 4 * z ^ 2 + 2244 * u * f ^ 4 + 1728 * u * f ^ 3 * z ^ 3 - 864 * u * f ^ 3 * z + 596 * u * f ^ 2 * z ^ 2 - 298 * u * f ^ 2 + 1088 * f ^ 8 + 1088 * f ^ 6 * z ^ 2 - 832 * f ^ 6 + 432 * f ^ 5 * z + 149 * f ^ 4) =
      384 * (19 - 16 * u) ^ 3 * Q0 +
      48 * (16 * u - 4) * (19 - 16 * u) ^ 2 * Q1 +
      96 * (16 * u - 4) ^ 2 * (19 - 16 * u) * Q2 +
      3 * (16 * u - 4) ^ 3 * Q3"
    unfolding Q0_def Q1_def Q2_def Q3_def by algebra
  have "0 \<le> 3456000 * (1600 * u ^ 3 * f ^ 4 + 1600 * u ^ 3 * f ^ 2 * z ^ 2 - 800 * u ^ 3 * f ^ 2 + 100 * u ^ 3 + 16384 * u ^ 2 * f ^ 6 * z ^ 2 - 5120 * u ^ 2 * f ^ 6 + 6912 * u ^ 2 * f ^ 5 * z + 16384 * u ^ 2 * f ^ 4 * z ^ 4 - 13312 * u ^ 2 * f ^ 4 * z ^ 2 + 4944 * u ^ 2 * f ^ 4 + 6912 * u ^ 2 * f ^ 3 * z ^ 3 - 3456 * u ^ 2 * f ^ 3 * z + 3408 * u ^ 2 * f ^ 2 * z ^ 2 - 1512 * u ^ 2 * f ^ 2 + 432 * u ^ 2 * f * z + 149 * u ^ 2 + 4096 * u * f ^ 8 + 8448 * u * f ^ 6 * z ^ 2 - 5376 * u * f ^ 6 + 1728 * u * f ^ 5 * z + 4352 * u * f ^ 4 * z ^ 4 - 5504 * u * f ^ 4 * z ^ 2 + 2244 * u * f ^ 4 + 1728 * u * f ^ 3 * z ^ 3 - 864 * u * f ^ 3 * z + 596 * u * f ^ 2 * z ^ 2 - 298 * u * f ^ 2 + 1088 * f ^ 8 + 1088 * f ^ 6 * z ^ 2 - 832 * f ^ 6 + 432 * f ^ 5 * z + 149 * f ^ 4)"
    unfolding id
    using assms q0 q1 q2 q3
    by (intro add_nonneg_nonneg mult_nonneg_nonneg zero_le_power) simp_all
  then show ?thesis by simp
qed

lemma cert_R2_poly_b_1:
  fixes f :: real
  assumes "7 / 8 \<le> f" "f \<le> 3 / 2"
  shows "0 \<le> 33285996544 * f ^ 8 - 80720281600 * f ^ 6 + 534380544 * f ^ 5 + 69699908173 * f ^ 4 - 257721624 * f ^ 3 - 21391954992 * f ^ 2 + 26615808 * f + 2111520768"
proof -
  have id: "1600000000 * (33285996544 * f ^ 8 - 80720281600 * f ^ 6 + 534380544 * f ^ 5 + 69699908173 * f ^ 4 - 257721624 * f ^ 3 - 21391954992 * f ^ 2 + 26615808 * f + 2111520768) =
      7886096267245 * (12 - 8 * f) ^ 8 +
      79719059833220 * (8 * f - 7) * (12 - 8 * f) ^ 7 +
      353582704864430 * (8 * f - 7) ^ 2 * (12 - 8 * f) ^ 6 +
      1011345386812180 * (8 * f - 7) ^ 3 * (12 - 8 * f) ^ 5 +
      2310395868758125 * (8 * f - 7) ^ 4 * (12 - 8 * f) ^ 4 +
      4173698105002320 * (8 * f - 7) ^ 5 * (12 - 8 * f) ^ 3 +
      5076225930628320 * (8 * f - 7) ^ 6 * (12 - 8 * f) ^ 2 +
      3478318947713280 * (8 * f - 7) ^ 7 * (12 - 8 * f) +
      998165298842880 * (8 * f - 7) ^ 8"
    by algebra
  have "0 \<le> 1600000000 * (33285996544 * f ^ 8 - 80720281600 * f ^ 6 + 534380544 * f ^ 5 + 69699908173 * f ^ 4 - 257721624 * f ^ 3 - 21391954992 * f ^ 2 + 26615808 * f + 2111520768)"
    unfolding id
    using assms 
    by (intro add_nonneg_nonneg mult_nonneg_nonneg zero_le_power) simp_all
  then show ?thesis by simp
qed

lemma cert_R2_poly_b_2:
  fixes f :: real
  assumes "7 / 8 \<le> f" "f \<le> 3 / 2"
  shows "0 \<le> 16642998272 * f ^ 8 - 40287129600 * f ^ 6 + 1937129472 * f ^ 5 + 34795971049 * f ^ 4 - 934044237 * f ^ 3 - 10678499396 * f ^ 2 + 96482304 * f + 1055760384"
proof -
  have id: "1600000000 * (16642998272 * f ^ 8 - 40287129600 * f ^ 6 + 1937129472 * f ^ 5 + 34795971049 * f ^ 4 - 934044237 * f ^ 3 - 10678499396 * f ^ 2 + 96482304 * f + 1055760384) =
      5599467409585 * (12 - 8 * f) ^ 8 +
      61402275628060 * (8 * f - 7) * (12 - 8 * f) ^ 7 +
      296387060534790 * (8 * f - 7) ^ 2 * (12 - 8 * f) ^ 6 +
      876378345478740 * (8 * f - 7) ^ 3 * (12 - 8 * f) ^ 5 +
      1857893879388625 * (8 * f - 7) ^ 4 * (12 - 8 * f) ^ 4 +
      2922055903417560 * (8 * f - 7) ^ 5 * (12 - 8 * f) ^ 3 +
      3146714492407360 * (8 * f - 7) ^ 6 * (12 - 8 * f) ^ 2 +
      1988023877811840 * (8 * f - 7) ^ 7 * (12 - 8 * f) +
      542852702595840 * (8 * f - 7) ^ 8"
    by algebra
  have "0 \<le> 1600000000 * (16642998272 * f ^ 8 - 40287129600 * f ^ 6 + 1937129472 * f ^ 5 + 34795971049 * f ^ 4 - 934044237 * f ^ 3 - 10678499396 * f ^ 2 + 96482304 * f + 1055760384)"
    unfolding id
    using assms 
    by (intro add_nonneg_nonneg mult_nonneg_nonneg zero_le_power) simp_all
  then show ?thesis by simp
qed

lemma cert_R2_poly_b_3:
  fixes f :: real
  assumes "7 / 8 \<le> f" "f \<le> 3 / 2"
  shows "0 \<le> 24964497408 * f ^ 8 - 59408537600 * f ^ 6 + 5410603008 * f ^ 5 + 51438378111 * f ^ 4 - 2601467118 * f ^ 3 - 15773055694 * f ^ 2 + 269485056 * f + 1583640576"
proof -
  have id: "1600000000 * (24964497408 * f ^ 8 - 59408537600 * f ^ 6 + 5410603008 * f ^ 5 + 51438378111 * f ^ 4 - 2601467118 * f ^ 3 - 15773055694 * f ^ 2 + 269485056 * f + 1583640576) =
      11647157594415 * (12 - 8 * f) ^ 8 +
      134108539266140 * (8 * f - 7) * (12 - 8 * f) ^ 7 +
      678699575067610 * (8 * f - 7) ^ 2 * (12 - 8 * f) ^ 6 +
      2048087931006460 * (8 * f - 7) ^ 3 * (12 - 8 * f) ^ 5 +
      4199194462743375 * (8 * f - 7) ^ 4 * (12 - 8 * f) ^ 4 +
      6094454846233440 * (8 * f - 7) ^ 5 * (12 - 8 * f) ^ 3 +
      5994896624735840 * (8 * f - 7) ^ 6 * (12 - 8 * f) ^ 2 +
      3516046803010560 * (8 * f - 7) ^ 7 * (12 - 8 * f) +
      910641099375360 * (8 * f - 7) ^ 8"
    by algebra
  have "0 \<le> 1600000000 * (24964497408 * f ^ 8 - 59408537600 * f ^ 6 + 5410603008 * f ^ 5 + 51438378111 * f ^ 4 - 2601467118 * f ^ 3 - 15773055694 * f ^ 2 + 269485056 * f + 1583640576)"
    unfolding id
    using assms 
    by (intro add_nonneg_nonneg mult_nonneg_nonneg zero_le_power) simp_all
  then show ?thesis by simp
qed

lemma cert_R2_poly_b_4:
  fixes f :: real
  assumes "7 / 8 \<le> f" "f \<le> 3 / 2"
  shows "0 \<le> 4160749568 * f ^ 8 - 9578956800 * f ^ 6 + 1319251968 * f ^ 5 + 8335849681 * f ^ 4 - 617052303 * f ^ 3 - 2551647674 * f ^ 2 + 65707776 * f + 263940096"
proof -
  have id: "1600000000 * (4160749568 * f ^ 8 - 9578956800 * f ^ 6 + 1319251968 * f ^ 5 + 8335849681 * f ^ 4 - 617052303 * f ^ 3 - 2551647674 * f ^ 2 + 65707776 * f + 263940096) =
      2654659205065 * (12 - 8 * f) ^ 8 +
      31425024617740 * (8 * f - 7) * (12 - 8 * f) ^ 7 +
      163275635893110 * (8 * f - 7) ^ 2 * (12 - 8 * f) ^ 6 +
      498213899722260 * (8 * f - 7) ^ 3 * (12 - 8 * f) ^ 5 +
      1002750987231625 * (8 * f - 7) ^ 4 * (12 - 8 * f) ^ 4 +
      1385007586428840 * (8 * f - 7) ^ 5 * (12 - 8 * f) ^ 3 +
      1276554125453440 * (8 * f - 7) ^ 6 * (12 - 8 * f) ^ 2 +
      703380018610560 * (8 * f - 7) ^ 7 * (12 - 8 * f) +
      173187921596160 * (8 * f - 7) ^ 8"
    by algebra
  have "0 \<le> 1600000000 * (4160749568 * f ^ 8 - 9578956800 * f ^ 6 + 1319251968 * f ^ 5 + 8335849681 * f ^ 4 - 617052303 * f ^ 3 - 2551647674 * f ^ 2 + 65707776 * f + 263940096)"
    unfolding id
    using assms 
    by (intro add_nonneg_nonneg mult_nonneg_nonneg zero_le_power) simp_all
  then show ?thesis by simp
qed

lemma cert_R2_poly_b_5:
  fixes f :: real
  assumes "7 / 8 \<le> f" "f \<le> 3 / 2"
  shows "0 \<le> 2080374784 * f ^ 8 - 4552192000 * f ^ 6 + 868368384 * f ^ 5 + 4008631453 * f ^ 4 - 384285564 * f ^ 3 - 1219020012 * f ^ 2 + 43250688 * f + 131970048"
proof -
  have id: "1600000000 * (2080374784 * f ^ 8 - 4552192000 * f ^ 6 + 868368384 * f ^ 5 + 4008631453 * f ^ 4 - 384285564 * f ^ 3 - 1219020012 * f ^ 2 + 43250688 * f + 131970048) =
      1827118399645 * (12 - 8 * f) ^ 8 +
      21889330962020 * (8 * f - 7) * (12 - 8 * f) ^ 7 +
      115059040338830 * (8 * f - 7) ^ 2 * (12 - 8 * f) ^ 6 +
      352053429868180 * (8 * f - 7) ^ 3 * (12 - 8 * f) ^ 5 +
      698167395212125 * (8 * f - 7) ^ 4 * (12 - 8 * f) ^ 4 +
      930998729652720 * (8 * f - 7) ^ 5 * (12 - 8 * f) ^ 3 +
      816933963297120 * (8 * f - 7) ^ 6 * (12 - 8 * f) ^ 2 +
      427242121639680 * (8 * f - 7) ^ 7 * (12 - 8 * f) +
      100394494874880 * (8 * f - 7) ^ 8"
    by algebra
  have "0 \<le> 1600000000 * (2080374784 * f ^ 8 - 4552192000 * f ^ 6 + 868368384 * f ^ 5 + 4008631453 * f ^ 4 - 384285564 * f ^ 3 - 1219020012 * f ^ 2 + 43250688 * f + 131970048)"
    unfolding id
    using assms 
    by (intro add_nonneg_nonneg mult_nonneg_nonneg zero_le_power) simp_all
  then show ?thesis by simp
qed

lemma cert_R2_poly_b_6:
  fixes f z :: real
  assumes "1 / 128 \<le> z" "z \<le> 13 / 64" "7 / 8 \<le> f" "f \<le> 3 / 2"
  shows "0 \<le> 2031616 * f ^ 8 + 11681792 * f ^ 6 * z ^ 2 - 4927488 * f ^ 6 + 4174848 * f ^ 5 * z + 9650176 * f ^ 4 * z ^ 4 - 8638464 * f ^ 4 * z ^ 2 + 4254672 * f ^ 4 + 4027392 * f ^ 3 * z ^ 3 - 2013696 * f ^ 3 * z + 2796496 * f ^ 2 * z ^ 2 - 1305832 * f ^ 2 + 207936 * f * z + 128877"
proof -
  define Q0 where "Q0 = 33285996544 * f ^ 8 - 80720281600 * f ^ 6 + 534380544 * f ^ 5 + 69699908173 * f ^ 4 - 257721624 * f ^ 3 - 21391954992 * f ^ 2 + 26615808 * f + 2111520768"
  define Q1 where "Q1 = 16642998272 * f ^ 8 - 40287129600 * f ^ 6 + 1937129472 * f ^ 5 + 34795971049 * f ^ 4 - 934044237 * f ^ 3 - 10678499396 * f ^ 2 + 96482304 * f + 1055760384"
  define Q2 where "Q2 = 24964497408 * f ^ 8 - 59408537600 * f ^ 6 + 5410603008 * f ^ 5 + 51438378111 * f ^ 4 - 2601467118 * f ^ 3 - 15773055694 * f ^ 2 + 269485056 * f + 1583640576"
  define Q3 where "Q3 = 4160749568 * f ^ 8 - 9578956800 * f ^ 6 + 1319251968 * f ^ 5 + 8335849681 * f ^ 4 - 617052303 * f ^ 3 - 2551647674 * f ^ 2 + 65707776 * f + 263940096"
  define Q4 where "Q4 = 2080374784 * f ^ 8 - 4552192000 * f ^ 6 + 868368384 * f ^ 5 + 4008631453 * f ^ 4 - 384285564 * f ^ 3 - 1219020012 * f ^ 2 + 43250688 * f + 131970048"
  have q0: "0 \<le> Q0" unfolding Q0_def by (rule cert_R2_poly_b_1 [OF assms(3) assms(4)])
  have q1: "0 \<le> Q1" unfolding Q1_def by (rule cert_R2_poly_b_2 [OF assms(3) assms(4)])
  have q2: "0 \<le> Q2" unfolding Q2_def by (rule cert_R2_poly_b_3 [OF assms(3) assms(4)])
  have q3: "0 \<le> Q3" unfolding Q3_def by (rule cert_R2_poly_b_4 [OF assms(3) assms(4)])
  have q4: "0 \<le> Q4" unfolding Q4_def by (rule cert_R2_poly_b_5 [OF assms(3) assms(4)])
  have id: "6400000000 * (2031616 * f ^ 8 + 11681792 * f ^ 6 * z ^ 2 - 4927488 * f ^ 6 + 4174848 * f ^ 5 * z + 9650176 * f ^ 4 * z ^ 4 - 8638464 * f ^ 4 * z ^ 2 + 4254672 * f ^ 4 + 4027392 * f ^ 3 * z ^ 3 - 2013696 * f ^ 3 * z + 2796496 * f ^ 2 * z ^ 2 - 1305832 * f ^ 2 + 207936 * f * z + 128877) =
      1 * (26 - 128 * z) ^ 4 * Q0 +
      8 * (128 * z - 1) * (26 - 128 * z) ^ 3 * Q1 +
      8 * (128 * z - 1) ^ 2 * (26 - 128 * z) ^ 2 * Q2 +
      32 * (128 * z - 1) ^ 3 * (26 - 128 * z) * Q3 +
      16 * (128 * z - 1) ^ 4 * Q4"
    unfolding Q0_def Q1_def Q2_def Q3_def Q4_def by algebra
  have "0 \<le> 6400000000 * (2031616 * f ^ 8 + 11681792 * f ^ 6 * z ^ 2 - 4927488 * f ^ 6 + 4174848 * f ^ 5 * z + 9650176 * f ^ 4 * z ^ 4 - 8638464 * f ^ 4 * z ^ 2 + 4254672 * f ^ 4 + 4027392 * f ^ 3 * z ^ 3 - 2013696 * f ^ 3 * z + 2796496 * f ^ 2 * z ^ 2 - 1305832 * f ^ 2 + 207936 * f * z + 128877)"
    unfolding id
    using assms q0 q1 q2 q3 q4
    by (intro add_nonneg_nonneg mult_nonneg_nonneg zero_le_power) simp_all
  then show ?thesis by simp
qed

lemma cert_R2_poly_b_7:
  fixes f :: real
  assumes "7 / 8 \<le> f" "f \<le> 3 / 2"
  shows "0 \<le> 30333206528 * f ^ 8 - 83521208320 * f ^ 6 + 586579968 * f ^ 5 + 79475627661 * f ^ 4 - 286177158 * f ^ 3 - 25576087624 * f ^ 2 + 30468096 * f + 2601967616"
proof -
  have id: "1600000000 * (30333206528 * f ^ 8 - 83521208320 * f ^ 6 + 586579968 * f ^ 5 + 79475627661 * f ^ 4 - 286177158 * f ^ 3 - 25576087624 * f ^ 2 + 30468096 * f + 2601967616) =
      10985748903965 * (12 - 8 * f) ^ 8 +
      107252961901940 * (8 * f - 7) * (12 - 8 * f) ^ 7 +
      426353341743310 * (8 * f - 7) ^ 2 * (12 - 8 * f) ^ 6 +
      955583291708660 * (8 * f - 7) ^ 3 * (12 - 8 * f) ^ 5 +
      1597159358172125 * (8 * f - 7) ^ 4 * (12 - 8 * f) ^ 4 +
      2494684246522240 * (8 * f - 7) ^ 5 * (12 - 8 * f) ^ 3 +
      3144706556100640 * (8 * f - 7) ^ 6 * (12 - 8 * f) ^ 2 +
      2343716015157760 * (8 * f - 7) ^ 7 * (12 - 8 * f) +
      724924310370560 * (8 * f - 7) ^ 8"
    by algebra
  have "0 \<le> 1600000000 * (30333206528 * f ^ 8 - 83521208320 * f ^ 6 + 586579968 * f ^ 5 + 79475627661 * f ^ 4 - 286177158 * f ^ 3 - 25576087624 * f ^ 2 + 30468096 * f + 2601967616)"
    unfolding id
    using assms 
    by (intro add_nonneg_nonneg mult_nonneg_nonneg zero_le_power) simp_all
  then show ?thesis by simp
qed

lemma cert_R2_poly_b_8:
  fixes f :: real
  assumes "7 / 8 \<le> f" "f \<le> 3 / 2"
  shows "0 \<le> 60666413056 * f ^ 8 - 166728663040 * f ^ 6 + 8505409536 * f ^ 5 + 158715076772 * f ^ 4 - 4148695341 * f ^ 3 - 51068823448 * f ^ 2 + 441787392 * f + 5203935232"
proof -
  have id: "400000000 * (60666413056 * f ^ 8 - 166728663040 * f ^ 6 + 8505409536 * f ^ 5 + 158715076772 * f ^ 4 - 4148695341 * f ^ 3 - 51068823448 * f ^ 2 + 441787392 * f + 5203935232) =
      7299554404595 * (12 - 8 * f) ^ 8 +
      77126407931870 * (8 * f - 7) * (12 - 8 * f) ^ 7 +
      343684962822930 * (8 * f - 7) ^ 2 * (12 - 8 * f) ^ 6 +
      882501602821880 * (8 * f - 7) ^ 3 * (12 - 8 * f) ^ 5 +
      1566073319404875 * (8 * f - 7) ^ 4 * (12 - 8 * f) ^ 4 +
      2159936486901170 * (8 * f - 7) ^ 5 * (12 - 8 * f) ^ 3 +
      2237580295389720 * (8 * f - 7) ^ 6 * (12 - 8 * f) ^ 2 +
      1443957430237280 * (8 * f - 7) ^ 7 * (12 - 8 * f) +
      410330195870080 * (8 * f - 7) ^ 8"
    by algebra
  have "0 \<le> 400000000 * (60666413056 * f ^ 8 - 166728663040 * f ^ 6 + 8505409536 * f ^ 5 + 158715076772 * f ^ 4 - 4148695341 * f ^ 3 - 51068823448 * f ^ 2 + 441787392 * f + 5203935232)"
    unfolding id
    using assms 
    by (intro add_nonneg_nonneg mult_nonneg_nonneg zero_le_power) simp_all
  then show ?thesis by simp
qed

lemma cert_R2_poly_b_9:
  fixes f :: real
  assumes "7 / 8 \<le> f" "f \<le> 3 / 2"
  shows "0 \<le> 45499809792 * f ^ 8 - 122850222080 * f ^ 6 + 11878244352 * f ^ 5 + 117383465854 * f ^ 4 - 5777400087 * f ^ 3 - 37718154986 * f ^ 2 + 616978944 * f + 3902951424"
proof -
  have id: "800000000 * (45499809792 * f ^ 8 - 122850222080 * f ^ 6 + 11878244352 * f ^ 5 + 117383465854 * f ^ 4 - 5777400087 * f ^ 3 - 37718154986 * f ^ 2 + 616978944 * f + 3902951424) =
      14529464128155 * (12 - 8 * f) ^ 8 +
      161778296642280 * (8 * f - 7) * (12 - 8 * f) ^ 7 +
      771619959370370 * (8 * f - 7) ^ 2 * (12 - 8 * f) ^ 6 +
      2124472028296020 * (8 * f - 7) ^ 3 * (12 - 8 * f) ^ 5 +
      3888699108912875 * (8 * f - 7) ^ 4 * (12 - 8 * f) ^ 4 +
      5103624866795580 * (8 * f - 7) ^ 5 * (12 - 8 * f) ^ 3 +
      4743691356213680 * (8 * f - 7) ^ 6 * (12 - 8 * f) ^ 2 +
      2746751318963520 * (8 * f - 7) ^ 7 * (12 - 8 * f) +
      720256222072320 * (8 * f - 7) ^ 8"
    by algebra
  have "0 \<le> 800000000 * (45499809792 * f ^ 8 - 122850222080 * f ^ 6 + 11878244352 * f ^ 5 + 117383465854 * f ^ 4 - 5777400087 * f ^ 3 - 37718154986 * f ^ 2 + 616978944 * f + 3902951424)"
    unfolding id
    using assms 
    by (intro add_nonneg_nonneg mult_nonneg_nonneg zero_le_power) simp_all
  then show ?thesis by simp
qed

lemma cert_R2_poly_b_10:
  fixes f :: real
  assumes "7 / 8 \<le> f" "f \<le> 3 / 2"
  shows "0 \<le> 15166603264 * f ^ 8 - 39564328960 * f ^ 6 + 5792477184 * f ^ 5 + 38090073668 * f ^ 4 - 2740728879 * f ^ 3 - 12204581212 * f ^ 2 + 300872448 * f + 1300983808"
proof -
  have id: "400000000 * (15166603264 * f ^ 8 - 39564328960 * f ^ 6 + 5792477184 * f ^ 5 + 38090073668 * f ^ 4 - 2740728879 * f ^ 3 - 12204581212 * f ^ 2 + 300872448 * f + 1300983808) =
      3213158547455 * (12 - 8 * f) ^ 8 +
      36959011453730 * (8 * f - 7) * (12 - 8 * f) ^ 7 +
      183581328641370 * (8 * f - 7) ^ 2 * (12 - 8 * f) ^ 6 +
      525398567081120 * (8 * f - 7) ^ 3 * (12 - 8 * f) ^ 5 +
      978071501754375 * (8 * f - 7) ^ 4 * (12 - 8 * f) ^ 4 +
      1252144514810630 * (8 * f - 7) ^ 5 * (12 - 8 * f) ^ 3 +
      1091870869295880 * (8 * f - 7) ^ 6 * (12 - 8 * f) ^ 2 +
      585131445823520 * (8 * f - 7) ^ 7 * (12 - 8 * f) +
      143258280929920 * (8 * f - 7) ^ 8"
    by algebra
  have "0 \<le> 400000000 * (15166603264 * f ^ 8 - 39564328960 * f ^ 6 + 5792477184 * f ^ 5 + 38090073668 * f ^ 4 - 2740728879 * f ^ 3 - 12204581212 * f ^ 2 + 300872448 * f + 1300983808)"
    unfolding id
    using assms 
    by (intro add_nonneg_nonneg mult_nonneg_nonneg zero_le_power) simp_all
  then show ?thesis by simp
qed

lemma cert_R2_poly_b_11:
  fixes f :: real
  assumes "7 / 8 \<le> f" "f \<le> 3 / 2"
  shows "0 \<le> 1895825408 * f ^ 8 - 4690616320 * f ^ 6 + 953192448 * f ^ 5 + 4587270621 * f ^ 4 - 426715263 * f ^ 3 - 1457849314 * f ^ 2 + 49510656 * f + 162622976"
proof -
  have id: "1600000000 * (1895825408 * f ^ 8 - 4690616320 * f ^ 6 + 953192448 * f ^ 5 + 4587270621 * f ^ 4 - 426715263 * f ^ 3 - 1457849314 * f ^ 2 + 49510656 * f + 162622976) =
      2163030587765 * (12 - 8 * f) ^ 8 +
      25304354468540 * (8 * f - 7) * (12 - 8 * f) ^ 7 +
      128502579398110 * (8 * f - 7) ^ 2 * (12 - 8 * f) ^ 6 +
      375287031806660 * (8 * f - 7) ^ 3 * (12 - 8 * f) ^ 5 +
      703561454655125 * (8 * f - 7) ^ 4 * (12 - 8 * f) ^ 4 +
      885439759032040 * (8 * f - 7) ^ 5 * (12 - 8 * f) ^ 3 +
      739885897642240 * (8 * f - 7) ^ 6 * (12 - 8 * f) ^ 2 +
      374477377586560 * (8 * f - 7) ^ 7 * (12 - 8 * f) +
      86576360610560 * (8 * f - 7) ^ 8"
    by algebra
  have "0 \<le> 1600000000 * (1895825408 * f ^ 8 - 4690616320 * f ^ 6 + 953192448 * f ^ 5 + 4587270621 * f ^ 4 - 426715263 * f ^ 3 - 1457849314 * f ^ 2 + 49510656 * f + 162622976)"
    unfolding id
    using assms 
    by (intro add_nonneg_nonneg mult_nonneg_nonneg zero_le_power) simp_all
  then show ?thesis by simp
qed

lemma cert_R2_poly_b_12:
  fixes f z :: real
  assumes "1 / 128 \<le> z" "z \<le> 13 / 64" "7 / 8 \<le> f" "f \<le> 3 / 2"
  shows "0 \<le> 3702784 * f ^ 8 + 25100288 * f ^ 6 * z ^ 2 - 10196992 * f ^ 6 + 9165312 * f ^ 5 * z + 21397504 * f ^ 4 * z ^ 4 - 18896896 * f ^ 4 * z ^ 2 + 9702768 * f ^ 4 + 8944128 * f ^ 3 * z ^ 3 - 4472064 * f ^ 3 * z + 6668144 * f ^ 2 * z ^ 2 - 3122488 * f ^ 2 + 476064 * f * z + 317623"
proof -
  define Q0 where "Q0 = 30333206528 * f ^ 8 - 83521208320 * f ^ 6 + 586579968 * f ^ 5 + 79475627661 * f ^ 4 - 286177158 * f ^ 3 - 25576087624 * f ^ 2 + 30468096 * f + 2601967616"
  define Q1 where "Q1 = 60666413056 * f ^ 8 - 166728663040 * f ^ 6 + 8505409536 * f ^ 5 + 158715076772 * f ^ 4 - 4148695341 * f ^ 3 - 51068823448 * f ^ 2 + 441787392 * f + 5203935232"
  define Q2 where "Q2 = 45499809792 * f ^ 8 - 122850222080 * f ^ 6 + 11878244352 * f ^ 5 + 117383465854 * f ^ 4 - 5777400087 * f ^ 3 - 37718154986 * f ^ 2 + 616978944 * f + 3902951424"
  define Q3 where "Q3 = 15166603264 * f ^ 8 - 39564328960 * f ^ 6 + 5792477184 * f ^ 5 + 38090073668 * f ^ 4 - 2740728879 * f ^ 3 - 12204581212 * f ^ 2 + 300872448 * f + 1300983808"
  define Q4 where "Q4 = 1895825408 * f ^ 8 - 4690616320 * f ^ 6 + 953192448 * f ^ 5 + 4587270621 * f ^ 4 - 426715263 * f ^ 3 - 1457849314 * f ^ 2 + 49510656 * f + 162622976"
  have q0: "0 \<le> Q0" unfolding Q0_def by (rule cert_R2_poly_b_7 [OF assms(3) assms(4)])
  have q1: "0 \<le> Q1" unfolding Q1_def by (rule cert_R2_poly_b_8 [OF assms(3) assms(4)])
  have q2: "0 \<le> Q2" unfolding Q2_def by (rule cert_R2_poly_b_9 [OF assms(3) assms(4)])
  have q3: "0 \<le> Q3" unfolding Q3_def by (rule cert_R2_poly_b_10 [OF assms(3) assms(4)])
  have q4: "0 \<le> Q4" unfolding Q4_def by (rule cert_R2_poly_b_11 [OF assms(3) assms(4)])
  have id: "3200000000 * (3702784 * f ^ 8 + 25100288 * f ^ 6 * z ^ 2 - 10196992 * f ^ 6 + 9165312 * f ^ 5 * z + 21397504 * f ^ 4 * z ^ 4 - 18896896 * f ^ 4 * z ^ 2 + 9702768 * f ^ 4 + 8944128 * f ^ 3 * z ^ 3 - 4472064 * f ^ 3 * z + 6668144 * f ^ 2 * z ^ 2 - 3122488 * f ^ 2 + 476064 * f * z + 317623) =
      1 * (26 - 128 * z) ^ 4 * Q0 +
      2 * (128 * z - 1) * (26 - 128 * z) ^ 3 * Q1 +
      4 * (128 * z - 1) ^ 2 * (26 - 128 * z) ^ 2 * Q2 +
      8 * (128 * z - 1) ^ 3 * (26 - 128 * z) * Q3 +
      16 * (128 * z - 1) ^ 4 * Q4"
    unfolding Q0_def Q1_def Q2_def Q3_def Q4_def by algebra
  have "0 \<le> 3200000000 * (3702784 * f ^ 8 + 25100288 * f ^ 6 * z ^ 2 - 10196992 * f ^ 6 + 9165312 * f ^ 5 * z + 21397504 * f ^ 4 * z ^ 4 - 18896896 * f ^ 4 * z ^ 2 + 9702768 * f ^ 4 + 8944128 * f ^ 3 * z ^ 3 - 4472064 * f ^ 3 * z + 6668144 * f ^ 2 * z ^ 2 - 3122488 * f ^ 2 + 476064 * f * z + 317623)"
    unfolding id
    using assms q0 q1 q2 q3 q4
    by (intro add_nonneg_nonneg mult_nonneg_nonneg zero_le_power) simp_all
  then show ?thesis by simp
qed

lemma cert_R2_poly_b_13:
  fixes f :: real
  assumes "7 / 8 \<le> f" "f \<le> 3 / 2"
  shows "0 \<le> 142807662592 * f ^ 8 - 451169730560 * f ^ 6 + 3354918912 * f ^ 5 + 479018692269 * f ^ 4 - 1648946592 * f ^ 3 - 161870206016 * f ^ 2 + 180486144 * f + 16964583424"
proof -
  have id: "1600000000 * (142807662592 * f ^ 8 - 451169730560 * f ^ 6 + 3354918912 * f ^ 5 + 479018692269 * f ^ 4 - 1648946592 * f ^ 3 - 161870206016 * f ^ 2 + 180486144 * f + 16964583424) =
      86777122323085 * (12 - 8 * f) ^ 8 +
      865121345230660 * (8 * f - 7) * (12 - 8 * f) ^ 7 +
      3440997290234990 * (8 * f - 7) ^ 2 * (12 - 8 * f) ^ 6 +
      7095437746776340 * (8 * f - 7) ^ 3 * (12 - 8 * f) ^ 5 +
      8799628016282125 * (8 * f - 7) ^ 4 * (12 - 8 * f) ^ 4 +
      8813193009084560 * (8 * f - 7) ^ 5 * (12 - 8 * f) ^ 3 +
      9356290704596960 * (8 * f - 7) ^ 6 * (12 - 8 * f) ^ 2 +
      7431212056567040 * (8 * f - 7) ^ 7 * (12 - 8 * f) +
      2534890224221440 * (8 * f - 7) ^ 8"
    by algebra
  have "0 \<le> 1600000000 * (142807662592 * f ^ 8 - 451169730560 * f ^ 6 + 3354918912 * f ^ 5 + 479018692269 * f ^ 4 - 1648946592 * f ^ 3 - 161870206016 * f ^ 2 + 180486144 * f + 16964583424)"
    unfolding id
    using assms 
    by (intro add_nonneg_nonneg mult_nonneg_nonneg zero_le_power) simp_all
  then show ?thesis by simp
qed

lemma cert_R2_poly_b_14:
  fixes f :: real
  assumes "7 / 8 \<le> f" "f \<le> 3 / 2"
  shows "0 \<le> 71403831296 * f ^ 8 - 225145671680 * f ^ 6 + 12161581056 * f ^ 5 + 239173981897 * f ^ 4 - 5976173196 * f ^ 3 - 80803756208 * f ^ 2 + 654262272 * f + 8482291712"
proof -
  have id: "1600000000 * (71403831296 * f ^ 8 - 225145671680 * f ^ 6 + 12161581056 * f ^ 5 + 239173981897 * f ^ 4 - 5976173196 * f ^ 3 - 80803756208 * f ^ 2 + 654262272 * f + 8482291712) =
      53713618943305 * (12 - 8 * f) ^ 8 +
      566724629188180 * (8 * f - 7) * (12 - 8 * f) ^ 7 +
      2465208223192470 * (8 * f - 7) ^ 2 * (12 - 8 * f) ^ 6 +
      5856564578855620 * (8 * f - 7) ^ 3 * (12 - 8 * f) ^ 5 +
      8777993632031625 * (8 * f - 7) ^ 4 * (12 - 8 * f) ^ 4 +
      9612510312658480 * (8 * f - 7) ^ 5 * (12 - 8 * f) ^ 3 +
      8473071111994080 * (8 * f - 7) ^ 6 * (12 - 8 * f) ^ 2 +
      5267916326245120 * (8 * f - 7) ^ 7 * (12 - 8 * f) +
      1540538860785920 * (8 * f - 7) ^ 8"
    by algebra
  have "0 \<le> 1600000000 * (71403831296 * f ^ 8 - 225145671680 * f ^ 6 + 12161581056 * f ^ 5 + 239173981897 * f ^ 4 - 5976173196 * f ^ 3 - 80803756208 * f ^ 2 + 654262272 * f + 8482291712)"
    unfolding id
    using assms 
    by (intro add_nonneg_nonneg mult_nonneg_nonneg zero_le_power) simp_all
  then show ?thesis by simp
qed

lemma cert_R2_poly_b_15:
  fixes f :: real
  assumes "7 / 8 \<le> f" "f \<le> 3 / 2"
  shows "0 \<le> 107105746944 * f ^ 8 - 331569797120 * f ^ 6 + 33968553984 * f ^ 5 + 354067047583 * f ^ 4 - 16644627144 * f ^ 3 - 119366779112 * f ^ 2 + 1827422208 * f + 12723437568"
proof -
  have id: "1600000000 * (107105746944 * f ^ 8 - 331569797120 * f ^ 6 + 33968553984 * f ^ 5 + 354067047583 * f ^ 4 - 16644627144 * f ^ 3 - 119366779112 * f ^ 2 + 1827422208 * f + 12723437568) =
      101365909393695 * (12 - 8 * f) ^ 8 +
      1115930591493420 * (8 * f - 7) * (12 - 8 * f) ^ 7 +
      5167695961332730 * (8 * f - 7) ^ 2 * (12 - 8 * f) ^ 6 +
      13364656550653980 * (8 * f - 7) ^ 3 * (12 - 8 * f) ^ 5 +
      21950829849829375 * (8 * f - 7) ^ 4 * (12 - 8 * f) ^ 4 +
      25032470748209520 * (8 * f - 7) ^ 5 * (12 - 8 * f) ^ 3 +
      20599472805039520 * (8 * f - 7) ^ 6 * (12 - 8 * f) ^ 2 +
      11201560194190080 * (8 * f - 7) ^ 7 * (12 - 8 * f) +
      2905467958951680 * (8 * f - 7) ^ 8"
    by algebra
  have "0 \<le> 1600000000 * (107105746944 * f ^ 8 - 331569797120 * f ^ 6 + 33968553984 * f ^ 5 + 354067047583 * f ^ 4 - 16644627144 * f ^ 3 - 119366779112 * f ^ 2 + 1827422208 * f + 12723437568)"
    unfolding id
    using assms 
    by (intro add_nonneg_nonneg mult_nonneg_nonneg zero_le_power) simp_all
  then show ?thesis by simp
qed

lemma cert_R2_poly_b_16:
  fixes f :: real
  assumes "7 / 8 \<le> f" "f \<le> 3 / 2"
  shows "0 \<le> 17850957824 * f ^ 8 - 53321861120 * f ^ 6 + 8282456064 * f ^ 5 + 57537711793 * f ^ 4 - 3948005124 * f ^ 3 - 19314348152 * f ^ 2 + 445575168 * f + 2120572928"
proof -
  have id: "1600000000 * (17850957824 * f ^ 8 - 53321861120 * f ^ 6 + 8282456064 * f ^ 5 + 57537711793 * f ^ 4 - 3948005124 * f ^ 3 - 19314348152 * f ^ 2 + 445575168 * f + 2120572928) =
      21532225680145 * (12 - 8 * f) ^ 8 +
      243989074767220 * (8 * f - 7) * (12 - 8 * f) ^ 7 +
      1177977177016230 * (8 * f - 7) ^ 2 * (12 - 8 * f) ^ 6 +
      3209045330321380 * (8 * f - 7) ^ 3 * (12 - 8 * f) ^ 5 +
      5541604859576625 * (8 * f - 7) ^ 4 * (12 - 8 * f) ^ 4 +
      6457178151652720 * (8 * f - 7) ^ 5 * (12 - 8 * f) ^ 3 +
      5143978876036320 * (8 * f - 7) ^ 6 * (12 - 8 * f) ^ 2 +
      2588880307982080 * (8 * f - 7) ^ 7 * (12 - 8 * f) +
      615702126414080 * (8 * f - 7) ^ 8"
    by algebra
  have "0 \<le> 1600000000 * (17850957824 * f ^ 8 - 53321861120 * f ^ 6 + 8282456064 * f ^ 5 + 57537711793 * f ^ 4 - 3948005124 * f ^ 3 - 19314348152 * f ^ 2 + 445575168 * f + 2120572928)"
    unfolding id
    using assms 
    by (intro add_nonneg_nonneg mult_nonneg_nonneg zero_le_power) simp_all
  then show ?thesis by simp
qed

lemma cert_R2_poly_b_17:
  fixes f :: real
  assumes "7 / 8 \<le> f" "f \<le> 3 / 2"
  shows "0 \<le> 8925478912 * f ^ 8 - 25233551360 * f ^ 6 + 5451743232 * f ^ 5 + 27781946109 * f ^ 4 - 2458724112 * f ^ 3 - 9230296976 * f ^ 2 + 293289984 * f + 1060286464"
proof -
  have id: "1600000000 * (8925478912 * f ^ 8 - 25233551360 * f ^ 6 + 5451743232 * f ^ 5 + 27781946109 * f ^ 4 - 2458724112 * f ^ 3 - 9230296976 * f ^ 2 + 293289984 * f + 1060286464) =
      14034964432285 * (12 - 8 * f) ^ 8 +
      161696135965060 * (8 * f - 7) * (12 - 8 * f) ^ 7 +
      800893288258190 * (8 * f - 7) ^ 2 * (12 - 8 * f) ^ 6 +
      2250492359808340 * (8 * f - 7) ^ 3 * (12 - 8 * f) ^ 5 +
      3996028715804125 * (8 * f - 7) ^ 4 * (12 - 8 * f) ^ 4 +
      4704830169727760 * (8 * f - 7) ^ 5 * (12 - 8 * f) ^ 3 +
      3673035660731360 * (8 * f - 7) ^ 6 * (12 - 8 * f) ^ 2 +
      1758533809706240 * (8 * f - 7) ^ 7 * (12 - 8 * f) +
      392411045981440 * (8 * f - 7) ^ 8"
    by algebra
  have "0 \<le> 1600000000 * (8925478912 * f ^ 8 - 25233551360 * f ^ 6 + 5451743232 * f ^ 5 + 27781946109 * f ^ 4 - 2458724112 * f ^ 3 - 9230296976 * f ^ 2 + 293289984 * f + 1060286464)"
    unfolding id
    using assms 
    by (intro add_nonneg_nonneg mult_nonneg_nonneg zero_le_power) simp_all
  then show ?thesis by simp
qed

lemma cert_R2_poly_b_18:
  fixes f z :: real
  assumes "1 / 128 \<le> z" "z \<le> 13 / 64" "7 / 8 \<le> f" "f \<le> 3 / 2"
  shows "0 \<le> 2179072 * f ^ 8 + 17567744 * f ^ 6 * z ^ 2 - 6885376 * f ^ 6 + 6552576 * f ^ 5 * z + 15388672 * f ^ 4 * z ^ 4 - 13416448 * f ^ 4 * z ^ 2 + 7310064 * f ^ 4 + 6441984 * f ^ 3 * z ^ 3 - 3220992 * f ^ 3 * z + 5253872 * f ^ 2 * z ^ 2 - 2470264 * f ^ 2 + 352512 * f * z + 258859"
proof -
  define Q0 where "Q0 = 142807662592 * f ^ 8 - 451169730560 * f ^ 6 + 3354918912 * f ^ 5 + 479018692269 * f ^ 4 - 1648946592 * f ^ 3 - 161870206016 * f ^ 2 + 180486144 * f + 16964583424"
  define Q1 where "Q1 = 71403831296 * f ^ 8 - 225145671680 * f ^ 6 + 12161581056 * f ^ 5 + 239173981897 * f ^ 4 - 5976173196 * f ^ 3 - 80803756208 * f ^ 2 + 654262272 * f + 8482291712"
  define Q2 where "Q2 = 107105746944 * f ^ 8 - 331569797120 * f ^ 6 + 33968553984 * f ^ 5 + 354067047583 * f ^ 4 - 16644627144 * f ^ 3 - 119366779112 * f ^ 2 + 1827422208 * f + 12723437568"
  define Q3 where "Q3 = 17850957824 * f ^ 8 - 53321861120 * f ^ 6 + 8282456064 * f ^ 5 + 57537711793 * f ^ 4 - 3948005124 * f ^ 3 - 19314348152 * f ^ 2 + 445575168 * f + 2120572928"
  define Q4 where "Q4 = 8925478912 * f ^ 8 - 25233551360 * f ^ 6 + 5451743232 * f ^ 5 + 27781946109 * f ^ 4 - 2458724112 * f ^ 3 - 9230296976 * f ^ 2 + 293289984 * f + 1060286464"
  have q0: "0 \<le> Q0" unfolding Q0_def by (rule cert_R2_poly_b_13 [OF assms(3) assms(4)])
  have q1: "0 \<le> Q1" unfolding Q1_def by (rule cert_R2_poly_b_14 [OF assms(3) assms(4)])
  have q2: "0 \<le> Q2" unfolding Q2_def by (rule cert_R2_poly_b_15 [OF assms(3) assms(4)])
  have q3: "0 \<le> Q3" unfolding Q3_def by (rule cert_R2_poly_b_16 [OF assms(3) assms(4)])
  have q4: "0 \<le> Q4" unfolding Q4_def by (rule cert_R2_poly_b_17 [OF assms(3) assms(4)])
  have id: "25600000000 * (2179072 * f ^ 8 + 17567744 * f ^ 6 * z ^ 2 - 6885376 * f ^ 6 + 6552576 * f ^ 5 * z + 15388672 * f ^ 4 * z ^ 4 - 13416448 * f ^ 4 * z ^ 2 + 7310064 * f ^ 4 + 6441984 * f ^ 3 * z ^ 3 - 3220992 * f ^ 3 * z + 5253872 * f ^ 2 * z ^ 2 - 2470264 * f ^ 2 + 352512 * f * z + 258859) =
      1 * (26 - 128 * z) ^ 4 * Q0 +
      8 * (128 * z - 1) * (26 - 128 * z) ^ 3 * Q1 +
      8 * (128 * z - 1) ^ 2 * (26 - 128 * z) ^ 2 * Q2 +
      32 * (128 * z - 1) ^ 3 * (26 - 128 * z) * Q3 +
      16 * (128 * z - 1) ^ 4 * Q4"
    unfolding Q0_def Q1_def Q2_def Q3_def Q4_def by algebra
  have "0 \<le> 25600000000 * (2179072 * f ^ 8 + 17567744 * f ^ 6 * z ^ 2 - 6885376 * f ^ 6 + 6552576 * f ^ 5 * z + 15388672 * f ^ 4 * z ^ 4 - 13416448 * f ^ 4 * z ^ 2 + 7310064 * f ^ 4 + 6441984 * f ^ 3 * z ^ 3 - 3220992 * f ^ 3 * z + 5253872 * f ^ 2 * z ^ 2 - 2470264 * f ^ 2 + 352512 * f * z + 258859)"
    unfolding id
    using assms q0 q1 q2 q3 q4
    by (intro add_nonneg_nonneg mult_nonneg_nonneg zero_le_power) simp_all
  then show ?thesis by simp
qed

lemma cert_R2_poly_b_19:
  fixes f :: real
  assumes "7 / 8 \<le> f" "f \<le> 3 / 2"
  shows "0 \<le> 27380416512 * f ^ 8 - 98902589440 * f ^ 6 + 771489792 * f ^ 5 + 119094444899 * f ^ 4 - 380979792 * f ^ 3 - 42321880256 * f ^ 2 + 42614784 * f + 4564516864"
proof -
  have id: "1600000000 * (27380416512 * f ^ 8 - 98902589440 * f ^ 6 + 771489792 * f ^ 5 + 119094444899 * f ^ 4 - 380979792 * f ^ 3 - 42321880256 * f ^ 2 + 42614784 * f + 4564516864) =
      29375306687235 * (12 - 8 * f) ^ 8 +
      307068016328060 * (8 * f - 7) * (12 - 8 * f) ^ 7 +
      1300380291663090 * (8 * f - 7) ^ 2 * (12 - 8 * f) ^ 6 +
      2882531690576940 * (8 * f - 7) ^ 3 * (12 - 8 * f) ^ 5 +
      3666893250175875 * (8 * f - 7) ^ 4 * (12 - 8 * f) ^ 4 +
      2946219755198960 * (8 * f - 7) ^ 5 * (12 - 8 * f) ^ 3 +
      1901988567011360 * (8 * f - 7) ^ 6 * (12 - 8 * f) ^ 2 +
      1137285945424640 * (8 * f - 7) ^ 7 * (12 - 8 * f) +
      377079191991040 * (8 * f - 7) ^ 8"
    by algebra
  have "0 \<le> 1600000000 * (27380416512 * f ^ 8 - 98902589440 * f ^ 6 + 771489792 * f ^ 5 + 119094444899 * f ^ 4 - 380979792 * f ^ 3 - 42321880256 * f ^ 2 + 42614784 * f + 4564516864)"
    unfolding id
    using assms 
    by (intro add_nonneg_nonneg mult_nonneg_nonneg zero_le_power) simp_all
  then show ?thesis by simp
qed

lemma cert_R2_poly_b_20:
  fixes f :: real
  assumes "7 / 8 \<le> f" "f \<le> 3 / 2"
  shows "0 \<le> 13690208256 * f ^ 8 - 49352069120 * f ^ 6 + 2796650496 * f ^ 5 + 59470638087 * f ^ 4 - 1380761046 * f ^ 3 - 21126797328 * f ^ 2 + 154478592 * f + 2282258432"
proof -
  have id: "1600000000 * (13690208256 * f ^ 8 - 49352069120 * f ^ 6 + 2796650496 * f ^ 5 + 59470638087 * f ^ 4 - 1380761046 * f ^ 3 - 21126797328 * f ^ 2 + 154478592 * f + 2282258432) =
      17069441967255 * (12 - 8 * f) ^ 8 +
      184429085344380 * (8 * f - 7) * (12 - 8 * f) ^ 7 +
      821496035017770 * (8 * f - 7) ^ 2 * (12 - 8 * f) ^ 6 +
      1972014370123420 * (8 * f - 7) ^ 3 * (12 - 8 * f) ^ 5 +
      2839460078900375 * (8 * f - 7) ^ 4 * (12 - 8 * f) ^ 4 +
      2668993939835680 * (8 * f - 7) ^ 5 * (12 - 8 * f) ^ 3 +
      1822593422221280 * (8 * f - 7) ^ 6 * (12 - 8 * f) ^ 2 +
      925124358353920 * (8 * f - 7) ^ 7 * (12 - 8 * f) +
      251248375550720 * (8 * f - 7) ^ 8"
    by algebra
  have "0 \<le> 1600000000 * (13690208256 * f ^ 8 - 49352069120 * f ^ 6 + 2796650496 * f ^ 5 + 59470638087 * f ^ 4 - 1380761046 * f ^ 3 - 21126797328 * f ^ 2 + 154478592 * f + 2282258432)"
    unfolding id
    using assms 
    by (intro add_nonneg_nonneg mult_nonneg_nonneg zero_le_power) simp_all
  then show ?thesis by simp
qed

lemma cert_R2_poly_b_21:
  fixes f :: real
  assumes "7 / 8 \<le> f" "f \<le> 3 / 2"
  shows "0 \<le> 20535312384 * f ^ 8 - 72638945280 * f ^ 6 + 7811334144 * f ^ 5 + 88134046993 * f ^ 4 - 3845647044 * f ^ 3 - 31212196792 * f ^ 2 + 431474688 * f + 3423387648"
proof -
  have id: "1600000000 * (20535312384 * f ^ 8 - 72638945280 * f ^ 6 + 7811334144 * f ^ 5 + 88134046993 * f ^ 4 - 3845647044 * f ^ 3 - 31212196792 * f ^ 2 + 431474688 * f + 3423387648) =
      30527356637745 * (12 - 8 * f) ^ 8 +
      338972765295220 * (8 * f - 7) * (12 - 8 * f) ^ 7 +
      1574437947659430 * (8 * f - 7) ^ 2 * (12 - 8 * f) ^ 6 +
      4018745994638180 * (8 * f - 7) ^ 3 * (12 - 8 * f) ^ 5 +
      6285989681460625 * (8 * f - 7) ^ 4 * (12 - 8 * f) ^ 4 +
      6445763212030320 * (8 * f - 7) ^ 5 * (12 - 8 * f) ^ 3 +
      4545647238660320 * (8 * f - 7) ^ 6 * (12 - 8 * f) ^ 2 +
      2144204855873280 * (8 * f - 7) ^ 7 * (12 - 8 * f) +
      513043003418880 * (8 * f - 7) ^ 8"
    by algebra
  have "0 \<le> 1600000000 * (20535312384 * f ^ 8 - 72638945280 * f ^ 6 + 7811334144 * f ^ 5 + 88134046993 * f ^ 4 - 3845647044 * f ^ 3 - 31212196792 * f ^ 2 + 431474688 * f + 3423387648)"
    unfolding id
    using assms 
    by (intro add_nonneg_nonneg mult_nonneg_nonneg zero_le_power) simp_all
  then show ?thesis by simp
qed

lemma cert_R2_poly_b_22:
  fixes f :: real
  assumes "7 / 8 \<le> f" "f \<le> 3 / 2"
  shows "0 \<le> 3422552064 * f ^ 8 - 11668244480 * f ^ 6 + 1904615424 * f ^ 5 + 14352543903 * f ^ 4 - 912164274 * f ^ 3 - 5051235432 * f ^ 2 + 105205248 * f + 570564608"
proof -
  have id: "1600000000 * (3422552064 * f ^ 8 - 11668244480 * f ^ 6 + 1904615424 * f ^ 5 + 14352543903 * f ^ 4 - 912164274 * f ^ 3 - 5051235432 * f ^ 2 + 105205248 * f + 570564608) =
      6199894747695 * (12 - 8 * f) ^ 8 +
      70224303985020 * (8 * f - 7) * (12 - 8 * f) ^ 7 +
      336627181371930 * (8 * f - 7) ^ 2 * (12 - 8 * f) ^ 6 +
      898120139259580 * (8 * f - 7) ^ 3 * (12 - 8 * f) ^ 5 +
      1483250572895375 * (8 * f - 7) ^ 4 * (12 - 8 * f) ^ 4 +
      1600658895819520 * (8 * f - 7) ^ 5 * (12 - 8 * f) ^ 3 +
      1150444392353120 * (8 * f - 7) ^ 6 * (12 - 8 * f) ^ 2 +
      522761490849280 * (8 * f - 7) ^ 7 * (12 - 8 * f) +
      115569188545280 * (8 * f - 7) ^ 8"
    by algebra
  have "0 \<le> 1600000000 * (3422552064 * f ^ 8 - 11668244480 * f ^ 6 + 1904615424 * f ^ 5 + 14352543903 * f ^ 4 - 912164274 * f ^ 3 - 5051235432 * f ^ 2 + 105205248 * f + 570564608)"
    unfolding id
    using assms 
    by (intro add_nonneg_nonneg mult_nonneg_nonneg zero_le_power) simp_all
  then show ?thesis by simp
qed

lemma cert_R2_poly_b_23:
  fixes f :: real
  assumes "7 / 8 \<le> f" "f \<le> 3 / 2"
  shows "0 \<le> 1711276032 * f ^ 8 - 5511639040 * f ^ 6 + 1253670912 * f ^ 5 + 6951147539 * f ^ 4 - 568074312 * f ^ 3 - 2414653616 * f ^ 2 + 69249024 * f + 285282304"
proof -
  have id: "1600000000 * (1711276032 * f ^ 8 - 5511639040 * f ^ 6 + 1253670912 * f ^ 5 + 6951147539 * f ^ 4 - 568074312 * f ^ 3 - 2414653616 * f ^ 2 + 69249024 * f + 285282304) =
      3885697440435 * (12 - 8 * f) ^ 8 +
      44536798126460 * (8 * f - 7) * (12 - 8 * f) ^ 7 +
      218104669102290 * (8 * f - 7) ^ 2 * (12 - 8 * f) ^ 6 +
      599619130424940 * (8 * f - 7) ^ 3 * (12 - 8 * f) ^ 5 +
      1025412560197875 * (8 * f - 7) ^ 4 * (12 - 8 * f) ^ 4 +
      1140627954826160 * (8 * f - 7) ^ 5 * (12 - 8 * f) ^ 3 +
      828113804329760 * (8 * f - 7) ^ 6 * (12 - 8 * f) ^ 2 +
      367682180099840 * (8 * f - 7) ^ 7 * (12 - 8 * f) +
      77112532407040 * (8 * f - 7) ^ 8"
    by algebra
  have "0 \<le> 1600000000 * (1711276032 * f ^ 8 - 5511639040 * f ^ 6 + 1253670912 * f ^ 5 + 6951147539 * f ^ 4 - 568074312 * f ^ 3 - 2414653616 * f ^ 2 + 69249024 * f + 285282304)"
    unfolding id
    using assms 
    by (intro add_nonneg_nonneg mult_nonneg_nonneg zero_le_power) simp_all
  then show ?thesis by simp
qed

lemma cert_R2_poly_b_24:
  fixes f z :: real
  assumes "1 / 128 \<le> z" "z \<le> 13 / 64" "7 / 8 \<le> f" "f \<le> 3 / 2"
  shows "0 \<le> 417792 * f ^ 8 + 3969024 * f ^ 6 * z ^ 2 - 1509376 * f ^ 6 + 1506816 * f ^ 5 * z + 3551232 * f ^ 4 * z ^ 4 - 3063808 * f ^ 4 * z ^ 2 + 1817424 * f ^ 4 + 1488384 * f ^ 3 * z ^ 3 - 744192 * f ^ 3 * z + 1365712 * f ^ 2 * z ^ 2 - 645864 * f ^ 2 + 83232 * f * z + 69649"
proof -
  define Q0 where "Q0 = 27380416512 * f ^ 8 - 98902589440 * f ^ 6 + 771489792 * f ^ 5 + 119094444899 * f ^ 4 - 380979792 * f ^ 3 - 42321880256 * f ^ 2 + 42614784 * f + 4564516864"
  define Q1 where "Q1 = 13690208256 * f ^ 8 - 49352069120 * f ^ 6 + 2796650496 * f ^ 5 + 59470638087 * f ^ 4 - 1380761046 * f ^ 3 - 21126797328 * f ^ 2 + 154478592 * f + 2282258432"
  define Q2 where "Q2 = 20535312384 * f ^ 8 - 72638945280 * f ^ 6 + 7811334144 * f ^ 5 + 88134046993 * f ^ 4 - 3845647044 * f ^ 3 - 31212196792 * f ^ 2 + 431474688 * f + 3423387648"
  define Q3 where "Q3 = 3422552064 * f ^ 8 - 11668244480 * f ^ 6 + 1904615424 * f ^ 5 + 14352543903 * f ^ 4 - 912164274 * f ^ 3 - 5051235432 * f ^ 2 + 105205248 * f + 570564608"
  define Q4 where "Q4 = 1711276032 * f ^ 8 - 5511639040 * f ^ 6 + 1253670912 * f ^ 5 + 6951147539 * f ^ 4 - 568074312 * f ^ 3 - 2414653616 * f ^ 2 + 69249024 * f + 285282304"
  have q0: "0 \<le> Q0" unfolding Q0_def by (rule cert_R2_poly_b_19 [OF assms(3) assms(4)])
  have q1: "0 \<le> Q1" unfolding Q1_def by (rule cert_R2_poly_b_20 [OF assms(3) assms(4)])
  have q2: "0 \<le> Q2" unfolding Q2_def by (rule cert_R2_poly_b_21 [OF assms(3) assms(4)])
  have q3: "0 \<le> Q3" unfolding Q3_def by (rule cert_R2_poly_b_22 [OF assms(3) assms(4)])
  have q4: "0 \<le> Q4" unfolding Q4_def by (rule cert_R2_poly_b_23 [OF assms(3) assms(4)])
  have id: "25600000000 * (417792 * f ^ 8 + 3969024 * f ^ 6 * z ^ 2 - 1509376 * f ^ 6 + 1506816 * f ^ 5 * z + 3551232 * f ^ 4 * z ^ 4 - 3063808 * f ^ 4 * z ^ 2 + 1817424 * f ^ 4 + 1488384 * f ^ 3 * z ^ 3 - 744192 * f ^ 3 * z + 1365712 * f ^ 2 * z ^ 2 - 645864 * f ^ 2 + 83232 * f * z + 69649) =
      1 * (26 - 128 * z) ^ 4 * Q0 +
      8 * (128 * z - 1) * (26 - 128 * z) ^ 3 * Q1 +
      8 * (128 * z - 1) ^ 2 * (26 - 128 * z) ^ 2 * Q2 +
      32 * (128 * z - 1) ^ 3 * (26 - 128 * z) * Q3 +
      16 * (128 * z - 1) ^ 4 * Q4"
    unfolding Q0_def Q1_def Q2_def Q3_def Q4_def by algebra
  have "0 \<le> 25600000000 * (417792 * f ^ 8 + 3969024 * f ^ 6 * z ^ 2 - 1509376 * f ^ 6 + 1506816 * f ^ 5 * z + 3551232 * f ^ 4 * z ^ 4 - 3063808 * f ^ 4 * z ^ 2 + 1817424 * f ^ 4 + 1488384 * f ^ 3 * z ^ 3 - 744192 * f ^ 3 * z + 1365712 * f ^ 2 * z ^ 2 - 645864 * f ^ 2 + 83232 * f * z + 69649)"
    unfolding id
    using assms q0 q1 q2 q3 q4
    by (intro add_nonneg_nonneg mult_nonneg_nonneg zero_le_power) simp_all
  then show ?thesis by simp
qed

lemma cert_R2_poly_b_25:
  fixes f u z :: real
  assumes "19 / 16 \<le> u" "u \<le> 17 / 8" "1 / 128 \<le> z" "z \<le> 13 / 64" "7 / 8 \<le> f" "f \<le> 3 / 2"
  shows "0 \<le> 1600 * u ^ 3 * f ^ 4 + 1600 * u ^ 3 * f ^ 2 * z ^ 2 - 800 * u ^ 3 * f ^ 2 + 100 * u ^ 3 + 16384 * u ^ 2 * f ^ 6 * z ^ 2 - 5120 * u ^ 2 * f ^ 6 + 6912 * u ^ 2 * f ^ 5 * z + 16384 * u ^ 2 * f ^ 4 * z ^ 4 - 13312 * u ^ 2 * f ^ 4 * z ^ 2 + 4944 * u ^ 2 * f ^ 4 + 6912 * u ^ 2 * f ^ 3 * z ^ 3 - 3456 * u ^ 2 * f ^ 3 * z + 3408 * u ^ 2 * f ^ 2 * z ^ 2 - 1512 * u ^ 2 * f ^ 2 + 432 * u ^ 2 * f * z + 149 * u ^ 2 + 4096 * u * f ^ 8 + 8448 * u * f ^ 6 * z ^ 2 - 5376 * u * f ^ 6 + 1728 * u * f ^ 5 * z + 4352 * u * f ^ 4 * z ^ 4 - 5504 * u * f ^ 4 * z ^ 2 + 2244 * u * f ^ 4 + 1728 * u * f ^ 3 * z ^ 3 - 864 * u * f ^ 3 * z + 596 * u * f ^ 2 * z ^ 2 - 298 * u * f ^ 2 + 1088 * f ^ 8 + 1088 * f ^ 6 * z ^ 2 - 832 * f ^ 6 + 432 * f ^ 5 * z + 149 * f ^ 4"
proof -
  define Q0 where "Q0 = 2031616 * f ^ 8 + 11681792 * f ^ 6 * z ^ 2 - 4927488 * f ^ 6 + 4174848 * f ^ 5 * z + 9650176 * f ^ 4 * z ^ 4 - 8638464 * f ^ 4 * z ^ 2 + 4254672 * f ^ 4 + 4027392 * f ^ 3 * z ^ 3 - 2013696 * f ^ 3 * z + 2796496 * f ^ 2 * z ^ 2 - 1305832 * f ^ 2 + 207936 * f * z + 128877"
  define Q1 where "Q1 = 3702784 * f ^ 8 + 25100288 * f ^ 6 * z ^ 2 - 10196992 * f ^ 6 + 9165312 * f ^ 5 * z + 21397504 * f ^ 4 * z ^ 4 - 18896896 * f ^ 4 * z ^ 2 + 9702768 * f ^ 4 + 8944128 * f ^ 3 * z ^ 3 - 4472064 * f ^ 3 * z + 6668144 * f ^ 2 * z ^ 2 - 3122488 * f ^ 2 + 476064 * f * z + 317623"
  define Q2 where "Q2 = 2179072 * f ^ 8 + 17567744 * f ^ 6 * z ^ 2 - 6885376 * f ^ 6 + 6552576 * f ^ 5 * z + 15388672 * f ^ 4 * z ^ 4 - 13416448 * f ^ 4 * z ^ 2 + 7310064 * f ^ 4 + 6441984 * f ^ 3 * z ^ 3 - 3220992 * f ^ 3 * z + 5253872 * f ^ 2 * z ^ 2 - 2470264 * f ^ 2 + 352512 * f * z + 258859"
  define Q3 where "Q3 = 417792 * f ^ 8 + 3969024 * f ^ 6 * z ^ 2 - 1509376 * f ^ 6 + 1506816 * f ^ 5 * z + 3551232 * f ^ 4 * z ^ 4 - 3063808 * f ^ 4 * z ^ 2 + 1817424 * f ^ 4 + 1488384 * f ^ 3 * z ^ 3 - 744192 * f ^ 3 * z + 1365712 * f ^ 2 * z ^ 2 - 645864 * f ^ 2 + 83232 * f * z + 69649"
  have q0: "0 \<le> Q0" unfolding Q0_def by (rule cert_R2_poly_b_6 [OF assms(3) assms(4) assms(5) assms(6)])
  have q1: "0 \<le> Q1" unfolding Q1_def by (rule cert_R2_poly_b_12 [OF assms(3) assms(4) assms(5) assms(6)])
  have q2: "0 \<le> Q2" unfolding Q2_def by (rule cert_R2_poly_b_18 [OF assms(3) assms(4) assms(5) assms(6)])
  have q3: "0 \<le> Q3" unfolding Q3_def by (rule cert_R2_poly_b_24 [OF assms(3) assms(4) assms(5) assms(6)])
  have id: "3456000 * (1600 * u ^ 3 * f ^ 4 + 1600 * u ^ 3 * f ^ 2 * z ^ 2 - 800 * u ^ 3 * f ^ 2 + 100 * u ^ 3 + 16384 * u ^ 2 * f ^ 6 * z ^ 2 - 5120 * u ^ 2 * f ^ 6 + 6912 * u ^ 2 * f ^ 5 * z + 16384 * u ^ 2 * f ^ 4 * z ^ 4 - 13312 * u ^ 2 * f ^ 4 * z ^ 2 + 4944 * u ^ 2 * f ^ 4 + 6912 * u ^ 2 * f ^ 3 * z ^ 3 - 3456 * u ^ 2 * f ^ 3 * z + 3408 * u ^ 2 * f ^ 2 * z ^ 2 - 1512 * u ^ 2 * f ^ 2 + 432 * u ^ 2 * f * z + 149 * u ^ 2 + 4096 * u * f ^ 8 + 8448 * u * f ^ 6 * z ^ 2 - 5376 * u * f ^ 6 + 1728 * u * f ^ 5 * z + 4352 * u * f ^ 4 * z ^ 4 - 5504 * u * f ^ 4 * z ^ 2 + 2244 * u * f ^ 4 + 1728 * u * f ^ 3 * z ^ 3 - 864 * u * f ^ 3 * z + 596 * u * f ^ 2 * z ^ 2 - 298 * u * f ^ 2 + 1088 * f ^ 8 + 1088 * f ^ 6 * z ^ 2 - 832 * f ^ 6 + 432 * f ^ 5 * z + 149 * f ^ 4) =
      3 * (34 - 16 * u) ^ 3 * Q0 +
      6 * (16 * u - 19) * (34 - 16 * u) ^ 2 * Q1 +
      12 * (16 * u - 19) ^ 2 * (34 - 16 * u) * Q2 +
      24 * (16 * u - 19) ^ 3 * Q3"
    unfolding Q0_def Q1_def Q2_def Q3_def by algebra
  have "0 \<le> 3456000 * (1600 * u ^ 3 * f ^ 4 + 1600 * u ^ 3 * f ^ 2 * z ^ 2 - 800 * u ^ 3 * f ^ 2 + 100 * u ^ 3 + 16384 * u ^ 2 * f ^ 6 * z ^ 2 - 5120 * u ^ 2 * f ^ 6 + 6912 * u ^ 2 * f ^ 5 * z + 16384 * u ^ 2 * f ^ 4 * z ^ 4 - 13312 * u ^ 2 * f ^ 4 * z ^ 2 + 4944 * u ^ 2 * f ^ 4 + 6912 * u ^ 2 * f ^ 3 * z ^ 3 - 3456 * u ^ 2 * f ^ 3 * z + 3408 * u ^ 2 * f ^ 2 * z ^ 2 - 1512 * u ^ 2 * f ^ 2 + 432 * u ^ 2 * f * z + 149 * u ^ 2 + 4096 * u * f ^ 8 + 8448 * u * f ^ 6 * z ^ 2 - 5376 * u * f ^ 6 + 1728 * u * f ^ 5 * z + 4352 * u * f ^ 4 * z ^ 4 - 5504 * u * f ^ 4 * z ^ 2 + 2244 * u * f ^ 4 + 1728 * u * f ^ 3 * z ^ 3 - 864 * u * f ^ 3 * z + 596 * u * f ^ 2 * z ^ 2 - 298 * u * f ^ 2 + 1088 * f ^ 8 + 1088 * f ^ 6 * z ^ 2 - 832 * f ^ 6 + 432 * f ^ 5 * z + 149 * f ^ 4)"
    unfolding id
    using assms q0 q1 q2 q3
    by (intro add_nonneg_nonneg mult_nonneg_nonneg zero_le_power) simp_all
  then show ?thesis by simp
qed

lemma cert_R2_poly_c_1:
  fixes f :: real
  assumes "7 / 8 \<le> f" "f \<le> 3 / 2"
  shows "0 \<le> 27380416512 * f ^ 8 - 98902589440 * f ^ 6 + 771489792 * f ^ 5 + 119094444899 * f ^ 4 - 380979792 * f ^ 3 - 42321880256 * f ^ 2 + 42614784 * f + 4564516864"
proof -
  have id: "1600000000 * (27380416512 * f ^ 8 - 98902589440 * f ^ 6 + 771489792 * f ^ 5 + 119094444899 * f ^ 4 - 380979792 * f ^ 3 - 42321880256 * f ^ 2 + 42614784 * f + 4564516864) =
      29375306687235 * (12 - 8 * f) ^ 8 +
      307068016328060 * (8 * f - 7) * (12 - 8 * f) ^ 7 +
      1300380291663090 * (8 * f - 7) ^ 2 * (12 - 8 * f) ^ 6 +
      2882531690576940 * (8 * f - 7) ^ 3 * (12 - 8 * f) ^ 5 +
      3666893250175875 * (8 * f - 7) ^ 4 * (12 - 8 * f) ^ 4 +
      2946219755198960 * (8 * f - 7) ^ 5 * (12 - 8 * f) ^ 3 +
      1901988567011360 * (8 * f - 7) ^ 6 * (12 - 8 * f) ^ 2 +
      1137285945424640 * (8 * f - 7) ^ 7 * (12 - 8 * f) +
      377079191991040 * (8 * f - 7) ^ 8"
    by algebra
  have "0 \<le> 1600000000 * (27380416512 * f ^ 8 - 98902589440 * f ^ 6 + 771489792 * f ^ 5 + 119094444899 * f ^ 4 - 380979792 * f ^ 3 - 42321880256 * f ^ 2 + 42614784 * f + 4564516864)"
    unfolding id
    using assms 
    by (intro add_nonneg_nonneg mult_nonneg_nonneg zero_le_power) simp_all
  then show ?thesis by simp
qed

lemma cert_R2_poly_c_2:
  fixes f :: real
  assumes "7 / 8 \<le> f" "f \<le> 3 / 2"
  shows "0 \<le> 13690208256 * f ^ 8 - 49352069120 * f ^ 6 + 2796650496 * f ^ 5 + 59470638087 * f ^ 4 - 1380761046 * f ^ 3 - 21126797328 * f ^ 2 + 154478592 * f + 2282258432"
proof -
  have id: "1600000000 * (13690208256 * f ^ 8 - 49352069120 * f ^ 6 + 2796650496 * f ^ 5 + 59470638087 * f ^ 4 - 1380761046 * f ^ 3 - 21126797328 * f ^ 2 + 154478592 * f + 2282258432) =
      17069441967255 * (12 - 8 * f) ^ 8 +
      184429085344380 * (8 * f - 7) * (12 - 8 * f) ^ 7 +
      821496035017770 * (8 * f - 7) ^ 2 * (12 - 8 * f) ^ 6 +
      1972014370123420 * (8 * f - 7) ^ 3 * (12 - 8 * f) ^ 5 +
      2839460078900375 * (8 * f - 7) ^ 4 * (12 - 8 * f) ^ 4 +
      2668993939835680 * (8 * f - 7) ^ 5 * (12 - 8 * f) ^ 3 +
      1822593422221280 * (8 * f - 7) ^ 6 * (12 - 8 * f) ^ 2 +
      925124358353920 * (8 * f - 7) ^ 7 * (12 - 8 * f) +
      251248375550720 * (8 * f - 7) ^ 8"
    by algebra
  have "0 \<le> 1600000000 * (13690208256 * f ^ 8 - 49352069120 * f ^ 6 + 2796650496 * f ^ 5 + 59470638087 * f ^ 4 - 1380761046 * f ^ 3 - 21126797328 * f ^ 2 + 154478592 * f + 2282258432)"
    unfolding id
    using assms 
    by (intro add_nonneg_nonneg mult_nonneg_nonneg zero_le_power) simp_all
  then show ?thesis by simp
qed

lemma cert_R2_poly_c_3:
  fixes f :: real
  assumes "7 / 8 \<le> f" "f \<le> 3 / 2"
  shows "0 \<le> 20535312384 * f ^ 8 - 72638945280 * f ^ 6 + 7811334144 * f ^ 5 + 88134046993 * f ^ 4 - 3845647044 * f ^ 3 - 31212196792 * f ^ 2 + 431474688 * f + 3423387648"
proof -
  have id: "1600000000 * (20535312384 * f ^ 8 - 72638945280 * f ^ 6 + 7811334144 * f ^ 5 + 88134046993 * f ^ 4 - 3845647044 * f ^ 3 - 31212196792 * f ^ 2 + 431474688 * f + 3423387648) =
      30527356637745 * (12 - 8 * f) ^ 8 +
      338972765295220 * (8 * f - 7) * (12 - 8 * f) ^ 7 +
      1574437947659430 * (8 * f - 7) ^ 2 * (12 - 8 * f) ^ 6 +
      4018745994638180 * (8 * f - 7) ^ 3 * (12 - 8 * f) ^ 5 +
      6285989681460625 * (8 * f - 7) ^ 4 * (12 - 8 * f) ^ 4 +
      6445763212030320 * (8 * f - 7) ^ 5 * (12 - 8 * f) ^ 3 +
      4545647238660320 * (8 * f - 7) ^ 6 * (12 - 8 * f) ^ 2 +
      2144204855873280 * (8 * f - 7) ^ 7 * (12 - 8 * f) +
      513043003418880 * (8 * f - 7) ^ 8"
    by algebra
  have "0 \<le> 1600000000 * (20535312384 * f ^ 8 - 72638945280 * f ^ 6 + 7811334144 * f ^ 5 + 88134046993 * f ^ 4 - 3845647044 * f ^ 3 - 31212196792 * f ^ 2 + 431474688 * f + 3423387648)"
    unfolding id
    using assms 
    by (intro add_nonneg_nonneg mult_nonneg_nonneg zero_le_power) simp_all
  then show ?thesis by simp
qed

lemma cert_R2_poly_c_4:
  fixes f :: real
  assumes "7 / 8 \<le> f" "f \<le> 3 / 2"
  shows "0 \<le> 3422552064 * f ^ 8 - 11668244480 * f ^ 6 + 1904615424 * f ^ 5 + 14352543903 * f ^ 4 - 912164274 * f ^ 3 - 5051235432 * f ^ 2 + 105205248 * f + 570564608"
proof -
  have id: "1600000000 * (3422552064 * f ^ 8 - 11668244480 * f ^ 6 + 1904615424 * f ^ 5 + 14352543903 * f ^ 4 - 912164274 * f ^ 3 - 5051235432 * f ^ 2 + 105205248 * f + 570564608) =
      6199894747695 * (12 - 8 * f) ^ 8 +
      70224303985020 * (8 * f - 7) * (12 - 8 * f) ^ 7 +
      336627181371930 * (8 * f - 7) ^ 2 * (12 - 8 * f) ^ 6 +
      898120139259580 * (8 * f - 7) ^ 3 * (12 - 8 * f) ^ 5 +
      1483250572895375 * (8 * f - 7) ^ 4 * (12 - 8 * f) ^ 4 +
      1600658895819520 * (8 * f - 7) ^ 5 * (12 - 8 * f) ^ 3 +
      1150444392353120 * (8 * f - 7) ^ 6 * (12 - 8 * f) ^ 2 +
      522761490849280 * (8 * f - 7) ^ 7 * (12 - 8 * f) +
      115569188545280 * (8 * f - 7) ^ 8"
    by algebra
  have "0 \<le> 1600000000 * (3422552064 * f ^ 8 - 11668244480 * f ^ 6 + 1904615424 * f ^ 5 + 14352543903 * f ^ 4 - 912164274 * f ^ 3 - 5051235432 * f ^ 2 + 105205248 * f + 570564608)"
    unfolding id
    using assms 
    by (intro add_nonneg_nonneg mult_nonneg_nonneg zero_le_power) simp_all
  then show ?thesis by simp
qed

lemma cert_R2_poly_c_5:
  fixes f :: real
  assumes "7 / 8 \<le> f" "f \<le> 3 / 2"
  shows "0 \<le> 1711276032 * f ^ 8 - 5511639040 * f ^ 6 + 1253670912 * f ^ 5 + 6951147539 * f ^ 4 - 568074312 * f ^ 3 - 2414653616 * f ^ 2 + 69249024 * f + 285282304"
proof -
  have id: "1600000000 * (1711276032 * f ^ 8 - 5511639040 * f ^ 6 + 1253670912 * f ^ 5 + 6951147539 * f ^ 4 - 568074312 * f ^ 3 - 2414653616 * f ^ 2 + 69249024 * f + 285282304) =
      3885697440435 * (12 - 8 * f) ^ 8 +
      44536798126460 * (8 * f - 7) * (12 - 8 * f) ^ 7 +
      218104669102290 * (8 * f - 7) ^ 2 * (12 - 8 * f) ^ 6 +
      599619130424940 * (8 * f - 7) ^ 3 * (12 - 8 * f) ^ 5 +
      1025412560197875 * (8 * f - 7) ^ 4 * (12 - 8 * f) ^ 4 +
      1140627954826160 * (8 * f - 7) ^ 5 * (12 - 8 * f) ^ 3 +
      828113804329760 * (8 * f - 7) ^ 6 * (12 - 8 * f) ^ 2 +
      367682180099840 * (8 * f - 7) ^ 7 * (12 - 8 * f) +
      77112532407040 * (8 * f - 7) ^ 8"
    by algebra
  have "0 \<le> 1600000000 * (1711276032 * f ^ 8 - 5511639040 * f ^ 6 + 1253670912 * f ^ 5 + 6951147539 * f ^ 4 - 568074312 * f ^ 3 - 2414653616 * f ^ 2 + 69249024 * f + 285282304)"
    unfolding id
    using assms 
    by (intro add_nonneg_nonneg mult_nonneg_nonneg zero_le_power) simp_all
  then show ?thesis by simp
qed

lemma cert_R2_poly_c_6:
  fixes f z :: real
  assumes "1 / 128 \<le> z" "z \<le> 13 / 64" "7 / 8 \<le> f" "f \<le> 3 / 2"
  shows "0 \<le> 417792 * f ^ 8 + 3969024 * f ^ 6 * z ^ 2 - 1509376 * f ^ 6 + 1506816 * f ^ 5 * z + 3551232 * f ^ 4 * z ^ 4 - 3063808 * f ^ 4 * z ^ 2 + 1817424 * f ^ 4 + 1488384 * f ^ 3 * z ^ 3 - 744192 * f ^ 3 * z + 1365712 * f ^ 2 * z ^ 2 - 645864 * f ^ 2 + 83232 * f * z + 69649"
proof -
  define Q0 where "Q0 = 27380416512 * f ^ 8 - 98902589440 * f ^ 6 + 771489792 * f ^ 5 + 119094444899 * f ^ 4 - 380979792 * f ^ 3 - 42321880256 * f ^ 2 + 42614784 * f + 4564516864"
  define Q1 where "Q1 = 13690208256 * f ^ 8 - 49352069120 * f ^ 6 + 2796650496 * f ^ 5 + 59470638087 * f ^ 4 - 1380761046 * f ^ 3 - 21126797328 * f ^ 2 + 154478592 * f + 2282258432"
  define Q2 where "Q2 = 20535312384 * f ^ 8 - 72638945280 * f ^ 6 + 7811334144 * f ^ 5 + 88134046993 * f ^ 4 - 3845647044 * f ^ 3 - 31212196792 * f ^ 2 + 431474688 * f + 3423387648"
  define Q3 where "Q3 = 3422552064 * f ^ 8 - 11668244480 * f ^ 6 + 1904615424 * f ^ 5 + 14352543903 * f ^ 4 - 912164274 * f ^ 3 - 5051235432 * f ^ 2 + 105205248 * f + 570564608"
  define Q4 where "Q4 = 1711276032 * f ^ 8 - 5511639040 * f ^ 6 + 1253670912 * f ^ 5 + 6951147539 * f ^ 4 - 568074312 * f ^ 3 - 2414653616 * f ^ 2 + 69249024 * f + 285282304"
  have q0: "0 \<le> Q0" unfolding Q0_def by (rule cert_R2_poly_c_1 [OF assms(3) assms(4)])
  have q1: "0 \<le> Q1" unfolding Q1_def by (rule cert_R2_poly_c_2 [OF assms(3) assms(4)])
  have q2: "0 \<le> Q2" unfolding Q2_def by (rule cert_R2_poly_c_3 [OF assms(3) assms(4)])
  have q3: "0 \<le> Q3" unfolding Q3_def by (rule cert_R2_poly_c_4 [OF assms(3) assms(4)])
  have q4: "0 \<le> Q4" unfolding Q4_def by (rule cert_R2_poly_c_5 [OF assms(3) assms(4)])
  have id: "25600000000 * (417792 * f ^ 8 + 3969024 * f ^ 6 * z ^ 2 - 1509376 * f ^ 6 + 1506816 * f ^ 5 * z + 3551232 * f ^ 4 * z ^ 4 - 3063808 * f ^ 4 * z ^ 2 + 1817424 * f ^ 4 + 1488384 * f ^ 3 * z ^ 3 - 744192 * f ^ 3 * z + 1365712 * f ^ 2 * z ^ 2 - 645864 * f ^ 2 + 83232 * f * z + 69649) =
      1 * (26 - 128 * z) ^ 4 * Q0 +
      8 * (128 * z - 1) * (26 - 128 * z) ^ 3 * Q1 +
      8 * (128 * z - 1) ^ 2 * (26 - 128 * z) ^ 2 * Q2 +
      32 * (128 * z - 1) ^ 3 * (26 - 128 * z) * Q3 +
      16 * (128 * z - 1) ^ 4 * Q4"
    unfolding Q0_def Q1_def Q2_def Q3_def Q4_def by algebra
  have "0 \<le> 25600000000 * (417792 * f ^ 8 + 3969024 * f ^ 6 * z ^ 2 - 1509376 * f ^ 6 + 1506816 * f ^ 5 * z + 3551232 * f ^ 4 * z ^ 4 - 3063808 * f ^ 4 * z ^ 2 + 1817424 * f ^ 4 + 1488384 * f ^ 3 * z ^ 3 - 744192 * f ^ 3 * z + 1365712 * f ^ 2 * z ^ 2 - 645864 * f ^ 2 + 83232 * f * z + 69649)"
    unfolding id
    using assms q0 q1 q2 q3 q4
    by (intro add_nonneg_nonneg mult_nonneg_nonneg zero_le_power) simp_all
  then show ?thesis by simp
qed

lemma cert_R2_poly_c_7:
  fixes f :: real
  assumes "7 / 8 \<le> f" "f \<le> 3 / 2"
  shows "0 \<le> 51808043008 * f ^ 8 - 219476787200 * f ^ 6 + 1794244608 * f ^ 5 + 296415655911 * f ^ 4 - 889935768 * f ^ 3 - 109513358144 * f ^ 2 + 101523456 * f + 12058034176"
proof -
  have id: "1600000000 * (51808043008 * f ^ 8 - 219476787200 * f ^ 6 + 1794244608 * f ^ 5 + 296415655911 * f ^ 4 - 889935768 * f ^ 3 - 109513358144 * f ^ 2 + 101523456 * f + 12058034176) =
      88800318931015 * (12 - 8 * f) ^ 8 +
      949245400860940 * (8 * f - 7) * (12 - 8 * f) ^ 7 +
      4131212667366410 * (8 * f - 7) ^ 2 * (12 - 8 * f) ^ 6 +
      9423673734208060 * (8 * f - 7) ^ 3 * (12 - 8 * f) ^ 5 +
      12101205617650375 * (8 * f - 7) ^ 4 * (12 - 8 * f) ^ 4 +
      8851392393853040 * (8 * f - 7) ^ 5 * (12 - 8 * f) ^ 3 +
      3880803199252640 * (8 * f - 7) ^ 6 * (12 - 8 * f) ^ 2 +
      1402180726127360 * (8 * f - 7) ^ 7 * (12 - 8 * f) +
      429411251848960 * (8 * f - 7) ^ 8"
    by algebra
  have "0 \<le> 1600000000 * (51808043008 * f ^ 8 - 219476787200 * f ^ 6 + 1794244608 * f ^ 5 + 296415655911 * f ^ 4 - 889935768 * f ^ 3 - 109513358144 * f ^ 2 + 101523456 * f + 12058034176)"
    unfolding id
    using assms 
    by (intro add_nonneg_nonneg mult_nonneg_nonneg zero_le_power) simp_all
  then show ?thesis by simp
qed

lemma cert_R2_poly_c_8:
  fixes f :: real
  assumes "7 / 8 \<le> f" "f \<le> 3 / 2"
  shows "0 \<le> 25904021504 * f ^ 8 - 109511475200 * f ^ 6 + 6504136704 * f ^ 5 + 148030880443 * f ^ 4 - 3225338109 * f ^ 3 - 54668709872 * f ^ 2 + 368022528 * f + 6029017088"
proof -
  have id: "1600000000 * (25904021504 * f ^ 8 - 109511475200 * f ^ 6 + 6504136704 * f ^ 5 + 148030880443 * f ^ 4 - 3225338109 * f ^ 3 - 54668709872 * f ^ 2 + 368022528 * f + 6029017088) =
      49955679380995 * (12 - 8 * f) ^ 8 +
      546568569455620 * (8 * f - 7) * (12 - 8 * f) ^ 7 +
      2464128045983730 * (8 * f - 7) ^ 2 * (12 - 8 * f) ^ 6 +
      5945782376127580 * (8 * f - 7) ^ 3 * (12 - 8 * f) ^ 5 +
      8388573539035875 * (8 * f - 7) ^ 4 * (12 - 8 * f) ^ 4 +
      7204217572931320 * (8 * f - 7) ^ 5 * (12 - 8 * f) ^ 3 +
      3965134843998720 * (8 * f - 7) ^ 6 * (12 - 8 * f) ^ 2 +
      1529101449470080 * (8 * f - 7) ^ 7 * (12 - 8 * f) +
      360348259585280 * (8 * f - 7) ^ 8"
    by algebra
  have "0 \<le> 1600000000 * (25904021504 * f ^ 8 - 109511475200 * f ^ 6 + 6504136704 * f ^ 5 + 148030880443 * f ^ 4 - 3225338109 * f ^ 3 - 54668709872 * f ^ 2 + 368022528 * f + 6029017088)"
    unfolding id
    using assms 
    by (intro add_nonneg_nonneg mult_nonneg_nonneg zero_le_power) simp_all
  then show ?thesis by simp
qed

lemma cert_R2_poly_c_9:
  fixes f :: real
  assumes "7 / 8 \<le> f" "f \<le> 3 / 2"
  shows "0 \<le> 38856032256 * f ^ 8 - 161090355200 * f ^ 6 + 18166726656 * f ^ 5 + 219569687677 * f ^ 4 - 8983098126 * f ^ 3 - 80771496008 * f ^ 2 + 1027924992 * f + 9043525632"
proof -
  have id: "1600000000 * (38856032256 * f ^ 8 - 161090355200 * f ^ 6 + 18166726656 * f ^ 5 + 219569687677 * f ^ 4 - 8983098126 * f ^ 3 - 80771496008 * f ^ 2 + 1027924992 * f + 9043525632) =
      86690150173005 * (12 - 8 * f) ^ 8 +
      967412148081780 * (8 * f - 7) * (12 - 8 * f) ^ 7 +
      4501122783801070 * (8 * f - 7) ^ 2 * (12 - 8 * f) ^ 6 +
      11402028700544820 * (8 * f - 7) ^ 3 * (12 - 8 * f) ^ 5 +
      17311538641658125 * (8 * f - 7) ^ 4 * (12 - 8 * f) ^ 4 +
      16489699080031680 * (8 * f - 7) ^ 5 * (12 - 8 * f) ^ 3 +
      10155676171451680 * (8 * f - 7) ^ 6 * (12 - 8 * f) ^ 2 +
      4048141754334720 * (8 * f - 7) ^ 7 * (12 - 8 * f) +
      855959535909120 * (8 * f - 7) ^ 8"
    by algebra
  have "0 \<le> 1600000000 * (38856032256 * f ^ 8 - 161090355200 * f ^ 6 + 18166726656 * f ^ 5 + 219569687677 * f ^ 4 - 8983098126 * f ^ 3 - 80771496008 * f ^ 2 + 1027924992 * f + 9043525632)"
    unfolding id
    using assms 
    by (intro add_nonneg_nonneg mult_nonneg_nonneg zero_le_power) simp_all
  then show ?thesis by simp
qed

lemma cert_R2_poly_c_10:
  fixes f :: real
  assumes "7 / 8 \<le> f" "f \<le> 3 / 2"
  shows "0 \<le> 6476005376 * f ^ 8 - 25846169600 * f ^ 6 + 4429541376 * f ^ 5 + 35817591667 * f ^ 4 - 2130736671 * f ^ 3 - 13073385368 * f ^ 2 + 250636032 * f + 1507254272"
proof -
  have id: "1600000000 * (6476005376 * f ^ 8 - 25846169600 * f ^ 6 + 4429541376 * f ^ 5 + 35817591667 * f ^ 4 - 2130736671 * f ^ 3 - 13073385368 * f ^ 2 + 250636032 * f + 1507254272) =
      17133413524555 * (12 - 8 * f) ^ 8 +
      194014830548980 * (8 * f - 7) * (12 - 8 * f) ^ 7 +
      925833727665570 * (8 * f - 7) ^ 2 * (12 - 8 * f) ^ 6 +
      2437017961507420 * (8 * f - 7) ^ 3 * (12 - 8 * f) ^ 5 +
      3903825148240875 * (8 * f - 7) ^ 4 * (12 - 8 * f) ^ 4 +
      3974375955361480 * (8 * f - 7) ^ 5 * (12 - 8 * f) ^ 3 +
      2605010327570880 * (8 * f - 7) ^ 6 * (12 - 8 * f) ^ 2 +
      1057986554830720 * (8 * f - 7) ^ 7 * (12 - 8 * f) +
      212210285246720 * (8 * f - 7) ^ 8"
    by algebra
  have "0 \<le> 1600000000 * (6476005376 * f ^ 8 - 25846169600 * f ^ 6 + 4429541376 * f ^ 5 + 35817591667 * f ^ 4 - 2130736671 * f ^ 3 - 13073385368 * f ^ 2 + 250636032 * f + 1507254272)"
    unfolding id
    using assms 
    by (intro add_nonneg_nonneg mult_nonneg_nonneg zero_le_power) simp_all
  then show ?thesis by simp
qed

lemma cert_R2_poly_c_11:
  fixes f :: real
  assumes "7 / 8 \<le> f" "f \<le> 3 / 2"
  shows "0 \<le> 3238002688 * f ^ 8 - 12185600000 * f ^ 6 + 2915647488 * f ^ 5 + 17389190871 * f ^ 4 - 1326972348 * f ^ 3 - 6250792784 * f ^ 2 + 164975616 * f + 753627136"
proof -
  have id: "1600000000 * (3238002688 * f ^ 8 - 12185600000 * f ^ 6 + 2915647488 * f ^ 5 + 17389190871 * f ^ 4 - 1326972348 * f ^ 3 - 6250792784 * f ^ 2 + 164975616 * f + 753627136) =
      10468156265815 * (12 - 8 * f) ^ 8 +
      119567523586540 * (8 * f - 7) * (12 - 8 * f) ^ 7 +
      581024366831210 * (8 * f - 7) ^ 2 * (12 - 8 * f) ^ 6 +
      1573039907008060 * (8 * f - 7) ^ 3 * (12 - 8 * f) ^ 5 +
      2616342162988375 * (8 * f - 7) ^ 4 * (12 - 8 * f) ^ 4 +
      2780410711853840 * (8 * f - 7) ^ 5 * (12 - 8 * f) ^ 3 +
      1889994289118240 * (8 * f - 7) ^ 6 * (12 - 8 * f) ^ 2 +
      775302905596160 * (8 * f - 7) ^ 7 * (12 - 8 * f) +
      150800872840960 * (8 * f - 7) ^ 8"
    by algebra
  have "0 \<le> 1600000000 * (3238002688 * f ^ 8 - 12185600000 * f ^ 6 + 2915647488 * f ^ 5 + 17389190871 * f ^ 4 - 1326972348 * f ^ 3 - 6250792784 * f ^ 2 + 164975616 * f + 753627136)"
    unfolding id
    using assms 
    by (intro add_nonneg_nonneg mult_nonneg_nonneg zero_le_power) simp_all
  then show ?thesis by simp
qed

lemma cert_R2_poly_c_12:
  fixes f z :: real
  assumes "1 / 128 \<le> z" "z \<le> 13 / 64" "7 / 8 \<le> f" "f \<le> 3 / 2"
  shows "0 \<le> 790528 * f ^ 8 + 9076736 * f ^ 6 * z ^ 2 - 3349504 * f ^ 6 + 3504384 * f ^ 5 * z + 8286208 * f ^ 4 * z ^ 4 - 7078912 * f ^ 4 * z ^ 2 + 4523376 * f ^ 4 + 3476736 * f ^ 3 * z ^ 3 - 1738368 * f ^ 3 * z + 3518768 * f ^ 2 * z ^ 2 - 1671256 * f ^ 2 + 198288 * f * z + 183991"
proof -
  define Q0 where "Q0 = 51808043008 * f ^ 8 - 219476787200 * f ^ 6 + 1794244608 * f ^ 5 + 296415655911 * f ^ 4 - 889935768 * f ^ 3 - 109513358144 * f ^ 2 + 101523456 * f + 12058034176"
  define Q1 where "Q1 = 25904021504 * f ^ 8 - 109511475200 * f ^ 6 + 6504136704 * f ^ 5 + 148030880443 * f ^ 4 - 3225338109 * f ^ 3 - 54668709872 * f ^ 2 + 368022528 * f + 6029017088"
  define Q2 where "Q2 = 38856032256 * f ^ 8 - 161090355200 * f ^ 6 + 18166726656 * f ^ 5 + 219569687677 * f ^ 4 - 8983098126 * f ^ 3 - 80771496008 * f ^ 2 + 1027924992 * f + 9043525632"
  define Q3 where "Q3 = 6476005376 * f ^ 8 - 25846169600 * f ^ 6 + 4429541376 * f ^ 5 + 35817591667 * f ^ 4 - 2130736671 * f ^ 3 - 13073385368 * f ^ 2 + 250636032 * f + 1507254272"
  define Q4 where "Q4 = 3238002688 * f ^ 8 - 12185600000 * f ^ 6 + 2915647488 * f ^ 5 + 17389190871 * f ^ 4 - 1326972348 * f ^ 3 - 6250792784 * f ^ 2 + 164975616 * f + 753627136"
  have q0: "0 \<le> Q0" unfolding Q0_def by (rule cert_R2_poly_c_7 [OF assms(3) assms(4)])
  have q1: "0 \<le> Q1" unfolding Q1_def by (rule cert_R2_poly_c_8 [OF assms(3) assms(4)])
  have q2: "0 \<le> Q2" unfolding Q2_def by (rule cert_R2_poly_c_9 [OF assms(3) assms(4)])
  have q3: "0 \<le> Q3" unfolding Q3_def by (rule cert_R2_poly_c_10 [OF assms(3) assms(4)])
  have q4: "0 \<le> Q4" unfolding Q4_def by (rule cert_R2_poly_c_11 [OF assms(3) assms(4)])
  have id: "25600000000 * (790528 * f ^ 8 + 9076736 * f ^ 6 * z ^ 2 - 3349504 * f ^ 6 + 3504384 * f ^ 5 * z + 8286208 * f ^ 4 * z ^ 4 - 7078912 * f ^ 4 * z ^ 2 + 4523376 * f ^ 4 + 3476736 * f ^ 3 * z ^ 3 - 1738368 * f ^ 3 * z + 3518768 * f ^ 2 * z ^ 2 - 1671256 * f ^ 2 + 198288 * f * z + 183991) =
      1 * (26 - 128 * z) ^ 4 * Q0 +
      8 * (128 * z - 1) * (26 - 128 * z) ^ 3 * Q1 +
      8 * (128 * z - 1) ^ 2 * (26 - 128 * z) ^ 2 * Q2 +
      32 * (128 * z - 1) ^ 3 * (26 - 128 * z) * Q3 +
      16 * (128 * z - 1) ^ 4 * Q4"
    unfolding Q0_def Q1_def Q2_def Q3_def Q4_def by algebra
  have "0 \<le> 25600000000 * (790528 * f ^ 8 + 9076736 * f ^ 6 * z ^ 2 - 3349504 * f ^ 6 + 3504384 * f ^ 5 * z + 8286208 * f ^ 4 * z ^ 4 - 7078912 * f ^ 4 * z ^ 2 + 4523376 * f ^ 4 + 3476736 * f ^ 3 * z ^ 3 - 1738368 * f ^ 3 * z + 3518768 * f ^ 2 * z ^ 2 - 1671256 * f ^ 2 + 198288 * f * z + 183991)"
    unfolding id
    using assms q0 q1 q2 q3 q4
    by (intro add_nonneg_nonneg mult_nonneg_nonneg zero_le_power) simp_all
  then show ?thesis by simp
qed

lemma cert_R2_poly_c_13:
  fixes f :: real
  assumes "7 / 8 \<le> f" "f \<le> 3 / 2"
  shows "0 \<le> 125090922496 * f ^ 8 - 631521198080 * f ^ 6 + 5393350656 * f ^ 5 + 977242879947 * f ^ 4 - 2682192096 * f ^ 3 - 376078231808 * f ^ 2 + 311427072 * f + 42270195712"
proof -
  have id: "1600000000 * (125090922496 * f ^ 8 - 631521198080 * f ^ 6 + 5393350656 * f ^ 5 + 977242879947 * f ^ 4 - 2682192096 * f ^ 3 - 376078231808 * f ^ 2 + 311427072 * f + 42270195712) =
      360356537848555 * (12 - 8 * f) ^ 8 +
      3958132064689180 * (8 * f - 7) * (12 - 8 * f) ^ 7 +
      17875110867439970 * (8 * f - 7) ^ 2 * (12 - 8 * f) ^ 6 +
      42900395498588620 * (8 * f - 7) ^ 3 * (12 - 8 * f) ^ 5 +
      58985624522432875 * (8 * f - 7) ^ 4 * (12 - 8 * f) ^ 4 +
      46626249308042480 * (8 * f - 7) ^ 5 * (12 - 8 * f) ^ 3 +
      20373599530530080 * (8 * f - 7) ^ 6 * (12 - 8 * f) ^ 2 +
      4869176308325120 * (8 * f - 7) ^ 7 * (12 - 8 * f) +
      771191321393920 * (8 * f - 7) ^ 8"
    by algebra
  have "0 \<le> 1600000000 * (125090922496 * f ^ 8 - 631521198080 * f ^ 6 + 5393350656 * f ^ 5 + 977242879947 * f ^ 4 - 2682192096 * f ^ 3 - 376078231808 * f ^ 2 + 311427072 * f + 42270195712)"
    unfolding id
    using assms 
    by (intro add_nonneg_nonneg mult_nonneg_nonneg zero_le_power) simp_all
  then show ?thesis by simp
qed

lemma cert_R2_poly_c_14:
  fixes f :: real
  assumes "7 / 8 \<le> f" "f \<le> 3 / 2"
  shows "0 \<le> 62545461248 * f ^ 8 - 315089162240 * f ^ 6 + 19550896128 * f ^ 5 + 488093490511 * f ^ 4 - 9720899748 * f ^ 3 - 187738637504 * f ^ 2 + 1128923136 * f + 21135097856"
proof -
  have id: "1600000000 * (62545461248 * f ^ 8 - 315089162240 * f ^ 6 + 19550896128 * f ^ 5 + 488093490511 * f ^ 4 - 9720899748 * f ^ 3 - 187738637504 * f ^ 2 + 1128923136 * f + 21135097856) =
      196989654692815 * (12 - 8 * f) ^ 8 +
      2196248792624140 * (8 * f - 7) * (12 - 8 * f) ^ 7 +
      10138623308908410 * (8 * f - 7) ^ 2 * (12 - 8 * f) ^ 6 +
      25165013342773660 * (8 * f - 7) ^ 3 * (12 - 8 * f) ^ 5 +
      36526046893359375 * (8 * f - 7) ^ 4 * (12 - 8 * f) ^ 4 +
      31667266394821840 * (8 * f - 7) ^ 5 * (12 - 8 * f) ^ 3 +
      16272238091127840 * (8 * f - 7) ^ 6 * (12 - 8 * f) ^ 2 +
      4922519159983360 * (8 * f - 7) ^ 7 * (12 - 8 * f) +
      823114542114560 * (8 * f - 7) ^ 8"
    by algebra
  have "0 \<le> 1600000000 * (62545461248 * f ^ 8 - 315089162240 * f ^ 6 + 19550896128 * f ^ 5 + 488093490511 * f ^ 4 - 9720899748 * f ^ 3 - 187738637504 * f ^ 2 + 1128923136 * f + 21135097856)"
    unfolding id
    using assms 
    by (intro add_nonneg_nonneg mult_nonneg_nonneg zero_le_power) simp_all
  then show ?thesis by simp
qed

lemma cert_R2_poly_c_15:
  fixes f :: real
  assumes "7 / 8 \<le> f" "f \<le> 3 / 2"
  shows "0 \<le> 93818191872 * f ^ 8 - 463233628160 * f ^ 6 + 54607675392 * f ^ 5 + 724750846729 * f ^ 4 - 27074307672 * f ^ 3 - 277401258656 * f ^ 2 + 3153199104 * f + 31702646784"
proof -
  have id: "1600000000 * (93818191872 * f ^ 8 - 463233628160 * f ^ 6 + 54607675392 * f ^ 5 + 724750846729 * f ^ 4 - 27074307672 * f ^ 3 - 277401258656 * f ^ 2 + 3153199104 * f + 31702646784) =
      332278885882185 * (12 - 8 * f) ^ 8 +
      3750907487148660 * (8 * f - 7) * (12 - 8 * f) ^ 7 +
      17676608493771190 * (8 * f - 7) ^ 2 * (12 - 8 * f) ^ 6 +
      45313978777675140 * (8 * f - 7) ^ 3 * (12 - 8 * f) ^ 5 +
      69126335171763625 * (8 * f - 7) ^ 4 * (12 - 8 * f) ^ 4 +
      64669781169926160 * (8 * f - 7) ^ 5 * (12 - 8 * f) ^ 3 +
      37085169463300960 * (8 * f - 7) ^ 6 * (12 - 8 * f) ^ 2 +
      12658180495146240 * (8 * f - 7) ^ 7 * (12 - 8 * f) +
      2181403115178240 * (8 * f - 7) ^ 8"
    by algebra
  have "0 \<le> 1600000000 * (93818191872 * f ^ 8 - 463233628160 * f ^ 6 + 54607675392 * f ^ 5 + 724750846729 * f ^ 4 - 27074307672 * f ^ 3 - 277401258656 * f ^ 2 + 3153199104 * f + 31702646784)"
    unfolding id
    using assms 
    by (intro add_nonneg_nonneg mult_nonneg_nonneg zero_le_power) simp_all
  then show ?thesis by simp
qed

lemma cert_R2_poly_c_16:
  fixes f :: real
  assumes "7 / 8 \<le> f" "f \<le> 3 / 2"
  shows "0 \<le> 15636365312 * f ^ 8 - 74240092160 * f ^ 6 + 13314834432 * f ^ 5 + 118472561959 * f ^ 4 - 6421862412 * f ^ 3 - 44906430176 * f ^ 2 + 768835584 * f + 5283774464"
proof -
  have id: "1600000000 * (15636365312 * f ^ 8 - 74240092160 * f ^ 6 + 13314834432 * f ^ 5 + 118472561959 * f ^ 4 - 6421862412 * f ^ 3 - 44906430176 * f ^ 2 + 768835584 * f + 5283774464) =
      63909072486535 * (12 - 8 * f) ^ 8 +
      727793850622060 * (8 * f - 7) * (12 - 8 * f) ^ 7 +
      3489721464075690 * (8 * f - 7) ^ 2 * (12 - 8 * f) ^ 6 +
      9198160314729340 * (8 * f - 7) ^ 3 * (12 - 8 * f) ^ 5 +
      14622708324750375 * (8 * f - 7) ^ 4 * (12 - 8 * f) ^ 4 +
      14491877395695760 * (8 * f - 7) ^ 5 * (12 - 8 * f) ^ 3 +
      8933092291683360 * (8 * f - 7) ^ 6 * (12 - 8 * f) ^ 2 +
      3262329971626240 * (8 * f - 7) ^ 7 * (12 - 8 * f) +
      572221579677440 * (8 * f - 7) ^ 8"
    by algebra
  have "0 \<le> 1600000000 * (15636365312 * f ^ 8 - 74240092160 * f ^ 6 + 13314834432 * f ^ 5 + 118472561959 * f ^ 4 - 6421862412 * f ^ 3 - 44906430176 * f ^ 2 + 768835584 * f + 5283774464)"
    unfolding id
    using assms 
    by (intro add_nonneg_nonneg mult_nonneg_nonneg zero_le_power) simp_all
  then show ?thesis by simp
qed

lemma cert_R2_poly_c_17:
  fixes f :: real
  assumes "7 / 8 \<le> f" "f \<le> 3 / 2"
  shows "0 \<le> 7818182656 * f ^ 8 - 34937876480 * f ^ 6 + 8764194816 * f ^ 5 + 57687471867 * f ^ 4 - 3999383856 * f ^ 3 - 21476660288 * f ^ 2 + 506068992 * f + 2641887232"
proof -
  have id: "1600000000 * (7818182656 * f ^ 8 - 34937876480 * f ^ 6 + 8764194816 * f ^ 5 + 57687471867 * f ^ 4 - 3999383856 * f ^ 3 - 21476660288 * f ^ 2 + 506068992 * f + 2641887232) =
      38008289000155 * (12 - 8 * f) ^ 8 +
      434751569372380 * (8 * f - 7) * (12 - 8 * f) ^ 7 +
      2111486971397570 * (8 * f - 7) ^ 2 * (12 - 8 * f) ^ 6 +
      5689058617076620 * (8 * f - 7) ^ 3 * (12 - 8 * f) ^ 5 +
      9338458467758875 * (8 * f - 7) ^ 4 * (12 - 8 * f) ^ 4 +
      9651491834196080 * (8 * f - 7) ^ 5 * (12 - 8 * f) ^ 3 +
      6239945933653280 * (8 * f - 7) ^ 6 * (12 - 8 * f) ^ 2 +
      2372035025150720 * (8 * f - 7) ^ 7 * (12 - 8 * f) +
      420182983985920 * (8 * f - 7) ^ 8"
    by algebra
  have "0 \<le> 1600000000 * (7818182656 * f ^ 8 - 34937876480 * f ^ 6 + 8764194816 * f ^ 5 + 57687471867 * f ^ 4 - 3999383856 * f ^ 3 - 21476660288 * f ^ 2 + 506068992 * f + 2641887232)"
    unfolding id
    using assms 
    by (intro add_nonneg_nonneg mult_nonneg_nonneg zero_le_power) simp_all
  then show ?thesis by simp
qed

lemma cert_R2_poly_c_18:
  fixes f z :: real
  assumes "1 / 128 \<le> z" "z \<le> 13 / 64" "7 / 8 \<le> f" "f \<le> 3 / 2"
  shows "0 \<le> 59648 * f ^ 8 + 839296 * f ^ 6 * z ^ 2 - 301184 * f ^ 6 + 329184 * f ^ 5 * z + 779648 * f ^ 4 * z ^ 4 - 660032 * f ^ 4 * z ^ 2 + 466026 * f ^ 4 + 327456 * f ^ 3 * z ^ 3 - 163728 * f ^ 3 * z + 375598 * f ^ 2 * z ^ 2 - 179351 * f ^ 2 + 19008 * f * z + 20156"
proof -
  define Q0 where "Q0 = 125090922496 * f ^ 8 - 631521198080 * f ^ 6 + 5393350656 * f ^ 5 + 977242879947 * f ^ 4 - 2682192096 * f ^ 3 - 376078231808 * f ^ 2 + 311427072 * f + 42270195712"
  define Q1 where "Q1 = 62545461248 * f ^ 8 - 315089162240 * f ^ 6 + 19550896128 * f ^ 5 + 488093490511 * f ^ 4 - 9720899748 * f ^ 3 - 187738637504 * f ^ 2 + 1128923136 * f + 21135097856"
  define Q2 where "Q2 = 93818191872 * f ^ 8 - 463233628160 * f ^ 6 + 54607675392 * f ^ 5 + 724750846729 * f ^ 4 - 27074307672 * f ^ 3 - 277401258656 * f ^ 2 + 3153199104 * f + 31702646784"
  define Q3 where "Q3 = 15636365312 * f ^ 8 - 74240092160 * f ^ 6 + 13314834432 * f ^ 5 + 118472561959 * f ^ 4 - 6421862412 * f ^ 3 - 44906430176 * f ^ 2 + 768835584 * f + 5283774464"
  define Q4 where "Q4 = 7818182656 * f ^ 8 - 34937876480 * f ^ 6 + 8764194816 * f ^ 5 + 57687471867 * f ^ 4 - 3999383856 * f ^ 3 - 21476660288 * f ^ 2 + 506068992 * f + 2641887232"
  have q0: "0 \<le> Q0" unfolding Q0_def by (rule cert_R2_poly_c_13 [OF assms(3) assms(4)])
  have q1: "0 \<le> Q1" unfolding Q1_def by (rule cert_R2_poly_c_14 [OF assms(3) assms(4)])
  have q2: "0 \<le> Q2" unfolding Q2_def by (rule cert_R2_poly_c_15 [OF assms(3) assms(4)])
  have q3: "0 \<le> Q3" unfolding Q3_def by (rule cert_R2_poly_c_16 [OF assms(3) assms(4)])
  have q4: "0 \<le> Q4" unfolding Q4_def by (rule cert_R2_poly_c_17 [OF assms(3) assms(4)])
  have id: "819200000000 * (59648 * f ^ 8 + 839296 * f ^ 6 * z ^ 2 - 301184 * f ^ 6 + 329184 * f ^ 5 * z + 779648 * f ^ 4 * z ^ 4 - 660032 * f ^ 4 * z ^ 2 + 466026 * f ^ 4 + 327456 * f ^ 3 * z ^ 3 - 163728 * f ^ 3 * z + 375598 * f ^ 2 * z ^ 2 - 179351 * f ^ 2 + 19008 * f * z + 20156) =
      1 * (26 - 128 * z) ^ 4 * Q0 +
      8 * (128 * z - 1) * (26 - 128 * z) ^ 3 * Q1 +
      8 * (128 * z - 1) ^ 2 * (26 - 128 * z) ^ 2 * Q2 +
      32 * (128 * z - 1) ^ 3 * (26 - 128 * z) * Q3 +
      16 * (128 * z - 1) ^ 4 * Q4"
    unfolding Q0_def Q1_def Q2_def Q3_def Q4_def by algebra
  have "0 \<le> 819200000000 * (59648 * f ^ 8 + 839296 * f ^ 6 * z ^ 2 - 301184 * f ^ 6 + 329184 * f ^ 5 * z + 779648 * f ^ 4 * z ^ 4 - 660032 * f ^ 4 * z ^ 2 + 466026 * f ^ 4 + 327456 * f ^ 3 * z ^ 3 - 163728 * f ^ 3 * z + 375598 * f ^ 2 * z ^ 2 - 179351 * f ^ 2 + 19008 * f * z + 20156)"
    unfolding id
    using assms q0 q1 q2 q3 q4
    by (intro add_nonneg_nonneg mult_nonneg_nonneg zero_le_power) simp_all
  then show ?thesis by simp
qed

lemma cert_R2_poly_c_19:
  fixes f :: real
  assumes "7 / 8 \<le> f" "f \<le> 3 / 2"
  shows "0 \<le> 1526726656 * f ^ 8 - 9108444160 * f ^ 6 + 80510976 * f ^ 5 + 16656162907 * f ^ 4 - 40103136 * f ^ 3 - 6691162368 * f ^ 2 + 4718592 * f + 767557632"
proof -
  have id: "1600000000 * (1526726656 * f ^ 8 - 9108444160 * f ^ 6 + 80510976 * f ^ 5 + 16656162907 * f ^ 4 - 40103136 * f ^ 3 - 6691162368 * f ^ 2 + 4718592 * f + 767557632) =
      7632899008555 * (12 - 8 * f) ^ 8 +
      86248099377980 * (8 * f - 7) * (12 - 8 * f) ^ 7 +
      404982551411570 * (8 * f - 7) ^ 2 * (12 - 8 * f) ^ 6 +
      1026813543073420 * (8 * f - 7) ^ 3 * (12 - 8 * f) ^ 5 +
      1528115835290875 * (8 * f - 7) ^ 4 * (12 - 8 * f) ^ 4 +
      1356463306410480 * (8 * f - 7) ^ 5 * (12 - 8 * f) ^ 3 +
      697347768494880 * (8 * f - 7) ^ 6 * (12 - 8 * f) ^ 2 +
      192553768446720 * (8 * f - 7) ^ 7 * (12 - 8 * f) +
      24145263102720 * (8 * f - 7) ^ 8"
    by algebra
  have "0 \<le> 1600000000 * (1526726656 * f ^ 8 - 9108444160 * f ^ 6 + 80510976 * f ^ 5 + 16656162907 * f ^ 4 - 40103136 * f ^ 3 - 6691162368 * f ^ 2 + 4718592 * f + 767557632)"
    unfolding id
    using assms 
    by (intro add_nonneg_nonneg mult_nonneg_nonneg zero_le_power) simp_all
  then show ?thesis by simp
qed

lemma cert_R2_poly_c_20:
  fixes f :: real
  assumes "7 / 8 \<le> f" "f \<le> 3 / 2"
  shows "0 \<le> 763363328 * f ^ 8 - 4544321280 * f ^ 6 + 291852288 * f ^ 5 + 8320248991 * f ^ 4 - 145343268 * f ^ 3 - 3340270784 * f ^ 2 + 17104896 * f + 383778816"
proof -
  have id: "1600000000 * (763363328 * f ^ 8 - 4544321280 * f ^ 6 + 291852288 * f ^ 5 + 8320248991 * f ^ 4 - 145343268 * f ^ 3 - 3340270784 * f ^ 2 + 17104896 * f + 383778816) =
      4070118709315 * (12 - 8 * f) ^ 8 +
      46390260295540 * (8 * f - 7) * (12 - 8 * f) ^ 7 +
      220512806323710 * (8 * f - 7) ^ 2 * (12 - 8 * f) ^ 6 +
      569057245920060 * (8 * f - 7) ^ 3 * (12 - 8 * f) ^ 5 +
      869301987193375 * (8 * f - 7) ^ 4 * (12 - 8 * f) ^ 4 +
      803140488549840 * (8 * f - 7) ^ 5 * (12 - 8 * f) ^ 3 +
      439607859742240 * (8 * f - 7) ^ 6 * (12 - 8 * f) ^ 2 +
      133437298556160 * (8 * f - 7) ^ 7 * (12 - 8 * f) +
      18605321352960 * (8 * f - 7) ^ 8"
    by algebra
  have "0 \<le> 1600000000 * (763363328 * f ^ 8 - 4544321280 * f ^ 6 + 291852288 * f ^ 5 + 8320248991 * f ^ 4 - 145343268 * f ^ 3 - 3340270784 * f ^ 2 + 17104896 * f + 383778816)"
    unfolding id
    using assms 
    by (intro add_nonneg_nonneg mult_nonneg_nonneg zero_le_power) simp_all
  then show ?thesis by simp
qed

lemma cert_R2_poly_c_21:
  fixes f :: real
  assumes "7 / 8 \<le> f" "f \<le> 3 / 2"
  shows "0 \<le> 1145044992 * f ^ 8 - 6677870720 * f ^ 6 + 815173632 * f ^ 5 + 12370747449 * f ^ 4 - 404804952 * f ^ 3 - 4936060576 * f ^ 2 + 47775744 * f + 575668224"
proof -
  have id: "1600000000 * (1145044992 * f ^ 8 - 6677870720 * f ^ 6 + 815173632 * f ^ 5 + 12370747449 * f ^ 4 - 404804952 * f ^ 3 - 4936060576 * f ^ 2 + 47775744 * f + 575668224) =
      6689498542935 * (12 - 8 * f) ^ 8 +
      76722946933760 * (8 * f - 7) * (12 - 8 * f) ^ 7 +
      368895051857140 * (8 * f - 7) ^ 2 * (12 - 8 * f) ^ 6 +
      969350307950740 * (8 * f - 7) ^ 3 * (12 - 8 * f) ^ 5 +
      1521757922309625 * (8 * f - 7) ^ 4 * (12 - 8 * f) ^ 4 +
      1464142106534160 * (8 * f - 7) ^ 5 * (12 - 8 * f) ^ 3 +
      850194570270560 * (8 * f - 7) ^ 6 * (12 - 8 * f) ^ 2 +
      279291681373440 * (8 * f - 7) ^ 7 * (12 - 8 * f) +
      42079199811840 * (8 * f - 7) ^ 8"
    by algebra
  have "0 \<le> 1600000000 * (1145044992 * f ^ 8 - 6677870720 * f ^ 6 + 815173632 * f ^ 5 + 12370747449 * f ^ 4 - 404804952 * f ^ 3 - 4936060576 * f ^ 2 + 47775744 * f + 575668224)"
    unfolding id
    using assms 
    by (intro add_nonneg_nonneg mult_nonneg_nonneg zero_le_power) simp_all
  then show ?thesis by simp
qed

lemma cert_R2_poly_c_22:
  fixes f :: real
  assumes "7 / 8 \<le> f" "f \<le> 3 / 2"
  shows "0 \<le> 190840832 * f ^ 8 - 1069249920 * f ^ 6 + 198761472 * f ^ 5 + 2027385079 * f ^ 4 - 96017292 * f ^ 3 - 799222496 * f ^ 2 + 11649024 * f + 95944704"
proof -
  have id: "1600000000 * (190840832 * f ^ 8 - 1069249920 * f ^ 6 + 198761472 * f ^ 5 + 2027385079 * f ^ 4 - 96017292 * f ^ 3 - 799222496 * f ^ 2 + 11649024 * f + 95944704) =
      1253259230785 * (12 - 8 * f) ^ 8 +
      14420959722160 * (8 * f - 7) * (12 - 8 * f) ^ 7 +
      69999645241140 * (8 * f - 7) ^ 2 * (12 - 8 * f) ^ 6 +
      187017056192940 * (8 * f - 7) ^ 3 * (12 - 8 * f) ^ 5 +
      301126057036375 * (8 * f - 7) ^ 4 * (12 - 8 * f) ^ 4 +
      300457025999760 * (8 * f - 7) ^ 5 * (12 - 8 * f) ^ 3 +
      183277283452960 * (8 * f - 7) ^ 6 * (12 - 8 * f) ^ 2 +
      63883503325440 * (8 * f - 7) ^ 7 * (12 - 8 * f) +
      10140500279040 * (8 * f - 7) ^ 8"
    by algebra
  have "0 \<le> 1600000000 * (190840832 * f ^ 8 - 1069249920 * f ^ 6 + 198761472 * f ^ 5 + 2027385079 * f ^ 4 - 96017292 * f ^ 3 - 799222496 * f ^ 2 + 11649024 * f + 95944704)"
    unfolding id
    using assms 
    by (intro add_nonneg_nonneg mult_nonneg_nonneg zero_le_power) simp_all
  then show ?thesis by simp
qed

lemma cert_R2_poly_c_23:
  fixes f :: real
  assumes "7 / 8 \<le> f" "f \<le> 3 / 2"
  shows "0 \<le> 95420416 * f ^ 8 - 502447360 * f ^ 6 + 130830336 * f ^ 5 + 990732427 * f ^ 4 - 59797296 * f ^ 3 - 382352448 * f ^ 2 + 7667712 * f + 47972352"
proof -
  have id: "1600000000 * (95420416 * f ^ 8 - 502447360 * f ^ 6 + 130830336 * f ^ 5 + 990732427 * f ^ 4 - 59797296 * f ^ 3 - 382352448 * f ^ 2 + 7667712 * f + 47972352) =
      725106609655 * (12 - 8 * f) ^ 8 +
      8342984660180 * (8 * f - 7) * (12 - 8 * f) ^ 7 +
      40769131738670 * (8 * f - 7) ^ 2 * (12 - 8 * f) ^ 6 +
      110436260221420 * (8 * f - 7) ^ 3 * (12 - 8 * f) ^ 5 +
      181708937936875 * (8 * f - 7) ^ 4 * (12 - 8 * f) ^ 4 +
      186876329716080 * (8 * f - 7) ^ 5 * (12 - 8 * f) ^ 3 +
      118477420642080 * (8 * f - 7) ^ 6 * (12 - 8 * f) ^ 2 +
      43096973464320 * (8 * f - 7) ^ 7 * (12 - 8 * f) +
      7081051134720 * (8 * f - 7) ^ 8"
    by algebra
  have "0 \<le> 1600000000 * (95420416 * f ^ 8 - 502447360 * f ^ 6 + 130830336 * f ^ 5 + 990732427 * f ^ 4 - 59797296 * f ^ 3 - 382352448 * f ^ 2 + 7667712 * f + 47972352)"
    unfolding id
    using assms 
    by (intro add_nonneg_nonneg mult_nonneg_nonneg zero_le_power) simp_all
  then show ?thesis by simp
qed

lemma cert_R2_poly_c_24:
  fixes f z :: real
  assumes "1 / 128 \<le> z" "z \<le> 13 / 64" "7 / 8 \<le> f" "f \<le> 3 / 2"
  shows "0 \<le> 5824 * f ^ 8 + 99008 * f ^ 6 * z ^ 2 - 34752 * f ^ 6 + 39312 * f ^ 5 * z + 93184 * f ^ 4 * z ^ 4 - 78336 * f ^ 4 * z ^ 2 + 63543 * f ^ 4 + 39168 * f ^ 3 * z ^ 3 - 19584 * f ^ 3 * z + 53104 * f ^ 2 * z ^ 2 - 25528 * f ^ 2 + 2304 * f * z + 2928"
proof -
  define Q0 where "Q0 = 1526726656 * f ^ 8 - 9108444160 * f ^ 6 + 80510976 * f ^ 5 + 16656162907 * f ^ 4 - 40103136 * f ^ 3 - 6691162368 * f ^ 2 + 4718592 * f + 767557632"
  define Q1 where "Q1 = 763363328 * f ^ 8 - 4544321280 * f ^ 6 + 291852288 * f ^ 5 + 8320248991 * f ^ 4 - 145343268 * f ^ 3 - 3340270784 * f ^ 2 + 17104896 * f + 383778816"
  define Q2 where "Q2 = 1145044992 * f ^ 8 - 6677870720 * f ^ 6 + 815173632 * f ^ 5 + 12370747449 * f ^ 4 - 404804952 * f ^ 3 - 4936060576 * f ^ 2 + 47775744 * f + 575668224"
  define Q3 where "Q3 = 190840832 * f ^ 8 - 1069249920 * f ^ 6 + 198761472 * f ^ 5 + 2027385079 * f ^ 4 - 96017292 * f ^ 3 - 799222496 * f ^ 2 + 11649024 * f + 95944704"
  define Q4 where "Q4 = 95420416 * f ^ 8 - 502447360 * f ^ 6 + 130830336 * f ^ 5 + 990732427 * f ^ 4 - 59797296 * f ^ 3 - 382352448 * f ^ 2 + 7667712 * f + 47972352"
  have q0: "0 \<le> Q0" unfolding Q0_def by (rule cert_R2_poly_c_19 [OF assms(3) assms(4)])
  have q1: "0 \<le> Q1" unfolding Q1_def by (rule cert_R2_poly_c_20 [OF assms(3) assms(4)])
  have q2: "0 \<le> Q2" unfolding Q2_def by (rule cert_R2_poly_c_21 [OF assms(3) assms(4)])
  have q3: "0 \<le> Q3" unfolding Q3_def by (rule cert_R2_poly_c_22 [OF assms(3) assms(4)])
  have q4: "0 \<le> Q4" unfolding Q4_def by (rule cert_R2_poly_c_23 [OF assms(3) assms(4)])
  have id: "102400000000 * (5824 * f ^ 8 + 99008 * f ^ 6 * z ^ 2 - 34752 * f ^ 6 + 39312 * f ^ 5 * z + 93184 * f ^ 4 * z ^ 4 - 78336 * f ^ 4 * z ^ 2 + 63543 * f ^ 4 + 39168 * f ^ 3 * z ^ 3 - 19584 * f ^ 3 * z + 53104 * f ^ 2 * z ^ 2 - 25528 * f ^ 2 + 2304 * f * z + 2928) =
      1 * (26 - 128 * z) ^ 4 * Q0 +
      8 * (128 * z - 1) * (26 - 128 * z) ^ 3 * Q1 +
      8 * (128 * z - 1) ^ 2 * (26 - 128 * z) ^ 2 * Q2 +
      32 * (128 * z - 1) ^ 3 * (26 - 128 * z) * Q3 +
      16 * (128 * z - 1) ^ 4 * Q4"
    unfolding Q0_def Q1_def Q2_def Q3_def Q4_def by algebra
  have "0 \<le> 102400000000 * (5824 * f ^ 8 + 99008 * f ^ 6 * z ^ 2 - 34752 * f ^ 6 + 39312 * f ^ 5 * z + 93184 * f ^ 4 * z ^ 4 - 78336 * f ^ 4 * z ^ 2 + 63543 * f ^ 4 + 39168 * f ^ 3 * z ^ 3 - 19584 * f ^ 3 * z + 53104 * f ^ 2 * z ^ 2 - 25528 * f ^ 2 + 2304 * f * z + 2928)"
    unfolding id
    using assms q0 q1 q2 q3 q4
    by (intro add_nonneg_nonneg mult_nonneg_nonneg zero_le_power) simp_all
  then show ?thesis by simp
qed

lemma cert_R2_poly_c_25:
  fixes f u z :: real
  assumes "17 / 8 \<le> u" "u \<le> 4" "1 / 128 \<le> z" "z \<le> 13 / 64" "7 / 8 \<le> f" "f \<le> 3 / 2"
  shows "0 \<le> 1600 * u ^ 3 * f ^ 4 + 1600 * u ^ 3 * f ^ 2 * z ^ 2 - 800 * u ^ 3 * f ^ 2 + 100 * u ^ 3 + 16384 * u ^ 2 * f ^ 6 * z ^ 2 - 5120 * u ^ 2 * f ^ 6 + 6912 * u ^ 2 * f ^ 5 * z + 16384 * u ^ 2 * f ^ 4 * z ^ 4 - 13312 * u ^ 2 * f ^ 4 * z ^ 2 + 4944 * u ^ 2 * f ^ 4 + 6912 * u ^ 2 * f ^ 3 * z ^ 3 - 3456 * u ^ 2 * f ^ 3 * z + 3408 * u ^ 2 * f ^ 2 * z ^ 2 - 1512 * u ^ 2 * f ^ 2 + 432 * u ^ 2 * f * z + 149 * u ^ 2 + 4096 * u * f ^ 8 + 8448 * u * f ^ 6 * z ^ 2 - 5376 * u * f ^ 6 + 1728 * u * f ^ 5 * z + 4352 * u * f ^ 4 * z ^ 4 - 5504 * u * f ^ 4 * z ^ 2 + 2244 * u * f ^ 4 + 1728 * u * f ^ 3 * z ^ 3 - 864 * u * f ^ 3 * z + 596 * u * f ^ 2 * z ^ 2 - 298 * u * f ^ 2 + 1088 * f ^ 8 + 1088 * f ^ 6 * z ^ 2 - 832 * f ^ 6 + 432 * f ^ 5 * z + 149 * f ^ 4"
proof -
  define Q0 where "Q0 = 417792 * f ^ 8 + 3969024 * f ^ 6 * z ^ 2 - 1509376 * f ^ 6 + 1506816 * f ^ 5 * z + 3551232 * f ^ 4 * z ^ 4 - 3063808 * f ^ 4 * z ^ 2 + 1817424 * f ^ 4 + 1488384 * f ^ 3 * z ^ 3 - 744192 * f ^ 3 * z + 1365712 * f ^ 2 * z ^ 2 - 645864 * f ^ 2 + 83232 * f * z + 69649"
  define Q1 where "Q1 = 790528 * f ^ 8 + 9076736 * f ^ 6 * z ^ 2 - 3349504 * f ^ 6 + 3504384 * f ^ 5 * z + 8286208 * f ^ 4 * z ^ 4 - 7078912 * f ^ 4 * z ^ 2 + 4523376 * f ^ 4 + 3476736 * f ^ 3 * z ^ 3 - 1738368 * f ^ 3 * z + 3518768 * f ^ 2 * z ^ 2 - 1671256 * f ^ 2 + 198288 * f * z + 183991"
  define Q2 where "Q2 = 59648 * f ^ 8 + 839296 * f ^ 6 * z ^ 2 - 301184 * f ^ 6 + 329184 * f ^ 5 * z + 779648 * f ^ 4 * z ^ 4 - 660032 * f ^ 4 * z ^ 2 + 466026 * f ^ 4 + 327456 * f ^ 3 * z ^ 3 - 163728 * f ^ 3 * z + 375598 * f ^ 2 * z ^ 2 - 179351 * f ^ 2 + 19008 * f * z + 20156"
  define Q3 where "Q3 = 5824 * f ^ 8 + 99008 * f ^ 6 * z ^ 2 - 34752 * f ^ 6 + 39312 * f ^ 5 * z + 93184 * f ^ 4 * z ^ 4 - 78336 * f ^ 4 * z ^ 2 + 63543 * f ^ 4 + 39168 * f ^ 3 * z ^ 3 - 19584 * f ^ 3 * z + 53104 * f ^ 2 * z ^ 2 - 25528 * f ^ 2 + 2304 * f * z + 2928"
  have q0: "0 \<le> Q0" unfolding Q0_def by (rule cert_R2_poly_c_6 [OF assms(3) assms(4) assms(5) assms(6)])
  have q1: "0 \<le> Q1" unfolding Q1_def by (rule cert_R2_poly_c_12 [OF assms(3) assms(4) assms(5) assms(6)])
  have q2: "0 \<le> Q2" unfolding Q2_def by (rule cert_R2_poly_c_18 [OF assms(3) assms(4) assms(5) assms(6)])
  have q3: "0 \<le> Q3" unfolding Q3_def by (rule cert_R2_poly_c_24 [OF assms(3) assms(4) assms(5) assms(6)])
  have id: "432000 * (1600 * u ^ 3 * f ^ 4 + 1600 * u ^ 3 * f ^ 2 * z ^ 2 - 800 * u ^ 3 * f ^ 2 + 100 * u ^ 3 + 16384 * u ^ 2 * f ^ 6 * z ^ 2 - 5120 * u ^ 2 * f ^ 6 + 6912 * u ^ 2 * f ^ 5 * z + 16384 * u ^ 2 * f ^ 4 * z ^ 4 - 13312 * u ^ 2 * f ^ 4 * z ^ 2 + 4944 * u ^ 2 * f ^ 4 + 6912 * u ^ 2 * f ^ 3 * z ^ 3 - 3456 * u ^ 2 * f ^ 3 * z + 3408 * u ^ 2 * f ^ 2 * z ^ 2 - 1512 * u ^ 2 * f ^ 2 + 432 * u ^ 2 * f * z + 149 * u ^ 2 + 4096 * u * f ^ 8 + 8448 * u * f ^ 6 * z ^ 2 - 5376 * u * f ^ 6 + 1728 * u * f ^ 5 * z + 4352 * u * f ^ 4 * z ^ 4 - 5504 * u * f ^ 4 * z ^ 2 + 2244 * u * f ^ 4 + 1728 * u * f ^ 3 * z ^ 3 - 864 * u * f ^ 3 * z + 596 * u * f ^ 2 * z ^ 2 - 298 * u * f ^ 2 + 1088 * f ^ 8 + 1088 * f ^ 6 * z ^ 2 - 832 * f ^ 6 + 432 * f ^ 5 * z + 149 * f ^ 4) =
      3 * (32 - 8 * u) ^ 3 * Q0 +
      6 * (8 * u - 17) * (32 - 8 * u) ^ 2 * Q1 +
      96 * (8 * u - 17) ^ 2 * (32 - 8 * u) * Q2 +
      384 * (8 * u - 17) ^ 3 * Q3"
    unfolding Q0_def Q1_def Q2_def Q3_def by algebra
  have "0 \<le> 432000 * (1600 * u ^ 3 * f ^ 4 + 1600 * u ^ 3 * f ^ 2 * z ^ 2 - 800 * u ^ 3 * f ^ 2 + 100 * u ^ 3 + 16384 * u ^ 2 * f ^ 6 * z ^ 2 - 5120 * u ^ 2 * f ^ 6 + 6912 * u ^ 2 * f ^ 5 * z + 16384 * u ^ 2 * f ^ 4 * z ^ 4 - 13312 * u ^ 2 * f ^ 4 * z ^ 2 + 4944 * u ^ 2 * f ^ 4 + 6912 * u ^ 2 * f ^ 3 * z ^ 3 - 3456 * u ^ 2 * f ^ 3 * z + 3408 * u ^ 2 * f ^ 2 * z ^ 2 - 1512 * u ^ 2 * f ^ 2 + 432 * u ^ 2 * f * z + 149 * u ^ 2 + 4096 * u * f ^ 8 + 8448 * u * f ^ 6 * z ^ 2 - 5376 * u * f ^ 6 + 1728 * u * f ^ 5 * z + 4352 * u * f ^ 4 * z ^ 4 - 5504 * u * f ^ 4 * z ^ 2 + 2244 * u * f ^ 4 + 1728 * u * f ^ 3 * z ^ 3 - 864 * u * f ^ 3 * z + 596 * u * f ^ 2 * z ^ 2 - 298 * u * f ^ 2 + 1088 * f ^ 8 + 1088 * f ^ 6 * z ^ 2 - 832 * f ^ 6 + 432 * f ^ 5 * z + 149 * f ^ 4)"
    unfolding id
    using assms q0 q1 q2 q3
    by (intro add_nonneg_nonneg mult_nonneg_nonneg zero_le_power) simp_all
  then show ?thesis by simp
qed

lemma cert_R2_poly:
  fixes u f z :: real
  assumes "1 / 4 \<le> u" "u \<le> 4" "7 / 8 \<le> f" "f \<le> 3 / 2" "1 / 128 \<le> z" "z \<le> 13 / 64"
  shows "0 \<le> 1600 * u ^ 3 * f ^ 4 + 1600 * u ^ 3 * f ^ 2 * z ^ 2 - 800 * u ^ 3 * f ^ 2 + 100 * u ^ 3 + 16384 * u ^ 2 * f ^ 6 * z ^ 2 - 5120 * u ^ 2 * f ^ 6 + 6912 * u ^ 2 * f ^ 5 * z + 16384 * u ^ 2 * f ^ 4 * z ^ 4 - 13312 * u ^ 2 * f ^ 4 * z ^ 2 + 4944 * u ^ 2 * f ^ 4 + 6912 * u ^ 2 * f ^ 3 * z ^ 3 - 3456 * u ^ 2 * f ^ 3 * z + 3408 * u ^ 2 * f ^ 2 * z ^ 2 - 1512 * u ^ 2 * f ^ 2 + 432 * u ^ 2 * f * z + 149 * u ^ 2 + 4096 * u * f ^ 8 + 8448 * u * f ^ 6 * z ^ 2 - 5376 * u * f ^ 6 + 1728 * u * f ^ 5 * z + 4352 * u * f ^ 4 * z ^ 4 - 5504 * u * f ^ 4 * z ^ 2 + 2244 * u * f ^ 4 + 1728 * u * f ^ 3 * z ^ 3 - 864 * u * f ^ 3 * z + 596 * u * f ^ 2 * z ^ 2 - 298 * u * f ^ 2 + 1088 * f ^ 8 + 1088 * f ^ 6 * z ^ 2 - 832 * f ^ 6 + 432 * f ^ 5 * z + 149 * f ^ 4"
proof -
  consider "u \<le> 19 / 16" | "19 / 16 \<le> u" "u \<le> 17 / 8" | "17 / 8 \<le> u" by linarith
  then show ?thesis
  proof cases
    case 1
    show ?thesis by (rule cert_R2_poly_a_25 [OF assms(1) 1 assms(5) assms(6) assms(3) assms(4)])
  next
    case 2
    show ?thesis by (rule cert_R2_poly_b_25 [OF 2(1) 2(2) assms(5) assms(6) assms(3) assms(4)])
  next
    case 3
    show ?thesis by (rule cert_R2_poly_c_25 [OF 3 assms(2) assms(5) assms(6) assms(3) assms(4)])
  qed
qed

lemma cert_R2:
  fixes u f z :: real
  assumes "1 / 4 \<le> u" "u \<le> 4" "7 / 8 \<le> f" "f \<le> 3 / 2" "1 / 128 \<le> z" "z \<le> 13 / 64"
  shows "ampN u f z * ampD (1 / 4) f z \<le> ampN (1 / 4) f z * ampD u f z"
proof -
  define Q where "Q = 1600 * u ^ 3 * f ^ 4 + 1600 * u ^ 3 * f ^ 2 * z ^ 2 - 800 * u ^ 3 * f ^ 2 + 100 * u ^ 3 + 16384 * u ^ 2 * f ^ 6 * z ^ 2 - 5120 * u ^ 2 * f ^ 6 + 6912 * u ^ 2 * f ^ 5 * z + 16384 * u ^ 2 * f ^ 4 * z ^ 4 - 13312 * u ^ 2 * f ^ 4 * z ^ 2 + 4944 * u ^ 2 * f ^ 4 + 6912 * u ^ 2 * f ^ 3 * z ^ 3 - 3456 * u ^ 2 * f ^ 3 * z + 3408 * u ^ 2 * f ^ 2 * z ^ 2 - 1512 * u ^ 2 * f ^ 2 + 432 * u ^ 2 * f * z + 149 * u ^ 2 + 4096 * u * f ^ 8 + 8448 * u * f ^ 6 * z ^ 2 - 5376 * u * f ^ 6 + 1728 * u * f ^ 5 * z + 4352 * u * f ^ 4 * z ^ 4 - 5504 * u * f ^ 4 * z ^ 2 + 2244 * u * f ^ 4 + 1728 * u * f ^ 3 * z ^ 3 - 864 * u * f ^ 3 * z + 596 * u * f ^ 2 * z ^ 2 - 298 * u * f ^ 2 + 1088 * f ^ 8 + 1088 * f ^ 6 * z ^ 2 - 832 * f ^ 6 + 432 * f ^ 5 * z + 149 * f ^ 4"
  have q: "0 \<le> Q" unfolding Q_def by (rule cert_R2_poly [OF assms])
  have id: "6400 * (ampN (1 / 4) f z * ampD u f z - ampN u f z * ampD (1 / 4) f z) = (4 * u - 1) * Q"
    unfolding Q_def ampN_def ampD_def by algebra
  have "0 \<le> (4 * u - 1) * Q"
    using assms(1) q by (intro mult_nonneg_nonneg) simp_all
  then have "0 \<le> 6400 * (ampN (1 / 4) f z * ampD u f z - ampN u f z * ampD (1 / 4) f z)" unfolding id .
  then show ?thesis by simp
qed

lemma cert_R3_poly_a_1:
  fixes f :: real
  assumes "11 / 8 \<le> f" "f \<le> 3 / 2"
  shows "0 \<le> 720896 * f ^ 8 - 801280 * f ^ 6 + 82944 * f ^ 5 + 330747 * f ^ 4 - 25704 * f ^ 3 - 57308 * f ^ 2 + 1728 * f + 3712"
proof -
  have id: "4096 * (720896 * f ^ 8 - 801280 * f ^ 6 + 82944 * f ^ 5 + 330747 * f ^ 4 - 25704 * f ^ 3 - 57308 * f ^ 2 + 1728 * f + 3712) =
      21366910035 * (12 - 8 * f) ^ 8 +
      188640503052 * (8 * f - 11) * (12 - 8 * f) ^ 7 +
      728558380026 * (8 * f - 11) ^ 2 * (12 - 8 * f) ^ 6 +
      1607727606796 * (8 * f - 11) ^ 3 * (12 - 8 * f) ^ 5 +
      2217154792267 * (8 * f - 11) ^ 4 * (12 - 8 * f) ^ 4 +
      1956652359152 * (8 * f - 11) ^ 5 * (12 - 8 * f) ^ 3 +
      1079106358304 * (8 * f - 11) ^ 6 * (12 - 8 * f) ^ 2 +
      340038828800 * (8 * f - 11) ^ 7 * (12 - 8 * f) +
      46872857344 * (8 * f - 11) ^ 8"
    by algebra
  have "0 \<le> 4096 * (720896 * f ^ 8 - 801280 * f ^ 6 + 82944 * f ^ 5 + 330747 * f ^ 4 - 25704 * f ^ 3 - 57308 * f ^ 2 + 1728 * f + 3712)"
    unfolding id
    using assms 
    by (intro add_nonneg_nonneg mult_nonneg_nonneg zero_le_power) simp_all
  then show ?thesis by simp
qed

lemma cert_R3_poly_a_2:
  fixes f :: real
  assumes "11 / 8 \<le> f" "f \<le> 3 / 2"
  shows "0 \<le> 360448 * f ^ 8 - 379520 * f ^ 6 + 58752 * f ^ 5 + 155076 * f ^ 4 - 17397 * f ^ 3 - 26719 * f ^ 2 + 1224 * f + 1856"
proof -
  have id: "2048 * (360448 * f ^ 8 - 379520 * f ^ 6 + 58752 * f ^ 5 + 155076 * f ^ 4 - 17397 * f ^ 3 - 26719 * f ^ 2 + 1224 * f + 1856) =
      5716895805 * (12 - 8 * f) ^ 8 +
      50367417138 * (8 * f - 11) * (12 - 8 * f) ^ 7 +
      194132257599 * (8 * f - 11) ^ 2 * (12 - 8 * f) ^ 6 +
      427549637344 * (8 * f - 11) ^ 3 * (12 - 8 * f) ^ 5 +
      588481208518 * (8 * f - 11) ^ 4 * (12 - 8 * f) ^ 4 +
      518363265428 * (8 * f - 11) ^ 5 * (12 - 8 * f) ^ 3 +
      285357878096 * (8 * f - 11) ^ 6 * (12 - 8 * f) ^ 2 +
      89759403200 * (8 * f - 11) ^ 7 * (12 - 8 * f) +
      12351483136 * (8 * f - 11) ^ 8"
    by algebra
  have "0 \<le> 2048 * (360448 * f ^ 8 - 379520 * f ^ 6 + 58752 * f ^ 5 + 155076 * f ^ 4 - 17397 * f ^ 3 - 26719 * f ^ 2 + 1224 * f + 1856)"
    unfolding id
    using assms 
    by (intro add_nonneg_nonneg mult_nonneg_nonneg zero_le_power) simp_all
  then show ?thesis by simp
qed

lemma cert_R3_poly_a_3:
  fixes f :: real
  assumes "11 / 8 \<le> f" "f \<le> 3 / 2"
  shows "0 \<le> 1081344 * f ^ 8 - 1040000 * f ^ 6 + 228096 * f ^ 5 + 419648 * f ^ 4 - 61776 * f ^ 3 - 71127 * f ^ 2 + 4752 * f + 5568"
proof -
  have id: "2048 * (1081344 * f ^ 8 - 1040000 * f ^ 6 + 228096 * f ^ 5 + 419648 * f ^ 4 - 61776 * f ^ 3 - 71127 * f ^ 2 + 4752 * f + 5568) =
      18689901135 * (12 - 8 * f) ^ 8 +
      164268583214 * (8 * f - 11) * (12 - 8 * f) ^ 7 +
      631657817387 * (8 * f - 11) ^ 2 * (12 - 8 * f) ^ 6 +
      1387941556792 * (8 * f - 11) ^ 3 * (12 - 8 * f) ^ 5 +
      1906069386064 * (8 * f - 11) ^ 4 * (12 - 8 * f) ^ 4 +
      1675261691904 * (8 * f - 11) ^ 5 * (12 - 8 * f) ^ 3 +
      920240521248 * (8 * f - 11) ^ 6 * (12 - 8 * f) ^ 2 +
      288851769600 * (8 * f - 11) ^ 7 * (12 - 8 * f) +
      39665975808 * (8 * f - 11) ^ 8"
    by algebra
  have "0 \<le> 2048 * (1081344 * f ^ 8 - 1040000 * f ^ 6 + 228096 * f ^ 5 + 419648 * f ^ 4 - 61776 * f ^ 3 - 71127 * f ^ 2 + 4752 * f + 5568)"
    unfolding id
    using assms 
    by (intro add_nonneg_nonneg mult_nonneg_nonneg zero_le_power) simp_all
  then show ?thesis by simp
qed

lemma cert_R3_poly_a_4:
  fixes f :: real
  assumes "11 / 8 \<le> f" "f \<le> 3 / 2"
  shows "0 \<le> 45056 * f ^ 8 - 37760 * f ^ 6 + 11664 * f ^ 5 + 15232 * f ^ 4 - 2664 * f ^ 3 - 2453 * f ^ 2 + 243 * f + 232"
proof -
  have id: "4096 * (45056 * f ^ 8 - 37760 * f ^ 6 + 11664 * f ^ 5 + 15232 * f ^ 4 - 2664 * f ^ 3 - 2453 * f ^ 2 + 243 * f + 232) =
      1725507315 * (12 - 8 * f) ^ 8 +
      15125571422 * (8 * f - 11) * (12 - 8 * f) ^ 7 +
      58010467196 * (8 * f - 11) ^ 2 * (12 - 8 * f) ^ 6 +
      127140127646 * (8 * f - 11) ^ 3 * (12 - 8 * f) ^ 5 +
      174163416152 * (8 * f - 11) ^ 4 * (12 - 8 * f) ^ 4 +
      152695924352 * (8 * f - 11) ^ 5 * (12 - 8 * f) ^ 3 +
      83674376384 * (8 * f - 11) ^ 6 * (12 - 8 * f) ^ 2 +
      26201868800 * (8 * f - 11) ^ 7 * (12 - 8 * f) +
      3589725184 * (8 * f - 11) ^ 8"
    by algebra
  have "0 \<le> 4096 * (45056 * f ^ 8 - 37760 * f ^ 6 + 11664 * f ^ 5 + 15232 * f ^ 4 - 2664 * f ^ 3 - 2453 * f ^ 2 + 243 * f + 232)"
    unfolding id
    using assms 
    by (intro add_nonneg_nonneg mult_nonneg_nonneg zero_le_power) simp_all
  then show ?thesis by simp
qed

lemma cert_R3_poly_a_5:
  fixes f :: real
  assumes "11 / 8 \<le> f" "f \<le> 3 / 2"
  shows "0 \<le> 5632 * f ^ 8 - 3840 * f ^ 6 + 1728 * f ^ 5 + 1664 * f ^ 4 - 288 * f ^ 3 - 226 * f ^ 2 + 36 * f + 29"
proof -
  have id: "32768 * (5632 * f ^ 8 - 3840 * f ^ 6 + 1728 * f ^ 5 + 1664 * f ^ 4 - 288 * f ^ 3 - 226 * f ^ 2 + 36 * f + 29) =
      1944833675 * (12 - 8 * f) ^ 8 +
      16997995872 * (8 * f - 11) * (12 - 8 * f) ^ 7 +
      65002794016 * (8 * f - 11) ^ 2 * (12 - 8 * f) ^ 6 +
      142058624576 * (8 * f - 11) ^ 3 * (12 - 8 * f) ^ 5 +
      194053221632 * (8 * f - 11) ^ 4 * (12 - 8 * f) ^ 4 +
      169664141312 * (8 * f - 11) ^ 5 * (12 - 8 * f) ^ 3 +
      92720036864 * (8 * f - 11) ^ 6 * (12 - 8 * f) ^ 2 +
      28956876800 * (8 * f - 11) ^ 7 * (12 - 8 * f) +
      3956752384 * (8 * f - 11) ^ 8"
    by algebra
  have "0 \<le> 32768 * (5632 * f ^ 8 - 3840 * f ^ 6 + 1728 * f ^ 5 + 1664 * f ^ 4 - 288 * f ^ 3 - 226 * f ^ 2 + 36 * f + 29)"
    unfolding id
    using assms 
    by (intro add_nonneg_nonneg mult_nonneg_nonneg zero_le_power) simp_all
  then show ?thesis by simp
qed

lemma cert_R3_poly_a_6:
  fixes f z :: real
  assumes "3 / 16 \<le> z" "z \<le> 1 / 2" "11 / 8 \<le> f" "f \<le> 3 / 2"
  shows "0 \<le> 5632 * f ^ 8 + 11264 * f ^ 6 * z ^ 2 - 6656 * f ^ 6 + 3456 * f ^ 5 * z + 5632 * f ^ 4 * z ^ 4 - 5888 * f ^ 4 * z ^ 2 + 2784 * f ^ 4 + 2304 * f ^ 3 * z ^ 3 - 1152 * f ^ 3 * z + 1032 * f ^ 2 * z ^ 2 - 484 * f ^ 2 + 72 * f * z + 29"
proof -
  define Q0 where "Q0 = 720896 * f ^ 8 - 801280 * f ^ 6 + 82944 * f ^ 5 + 330747 * f ^ 4 - 25704 * f ^ 3 - 57308 * f ^ 2 + 1728 * f + 3712"
  define Q1 where "Q1 = 360448 * f ^ 8 - 379520 * f ^ 6 + 58752 * f ^ 5 + 155076 * f ^ 4 - 17397 * f ^ 3 - 26719 * f ^ 2 + 1224 * f + 1856"
  define Q2 where "Q2 = 1081344 * f ^ 8 - 1040000 * f ^ 6 + 228096 * f ^ 5 + 419648 * f ^ 4 - 61776 * f ^ 3 - 71127 * f ^ 2 + 4752 * f + 5568"
  define Q3 where "Q3 = 45056 * f ^ 8 - 37760 * f ^ 6 + 11664 * f ^ 5 + 15232 * f ^ 4 - 2664 * f ^ 3 - 2453 * f ^ 2 + 243 * f + 232"
  define Q4 where "Q4 = 5632 * f ^ 8 - 3840 * f ^ 6 + 1728 * f ^ 5 + 1664 * f ^ 4 - 288 * f ^ 3 - 226 * f ^ 2 + 36 * f + 29"
  have q0: "0 \<le> Q0" unfolding Q0_def by (rule cert_R3_poly_a_1 [OF assms(3) assms(4)])
  have q1: "0 \<le> Q1" unfolding Q1_def by (rule cert_R3_poly_a_2 [OF assms(3) assms(4)])
  have q2: "0 \<le> Q2" unfolding Q2_def by (rule cert_R3_poly_a_3 [OF assms(3) assms(4)])
  have q3: "0 \<le> Q3" unfolding Q3_def by (rule cert_R3_poly_a_4 [OF assms(3) assms(4)])
  have q4: "0 \<le> Q4" unfolding Q4_def by (rule cert_R3_poly_a_5 [OF assms(3) assms(4)])
  have id: "80000 * (5632 * f ^ 8 + 11264 * f ^ 6 * z ^ 2 - 6656 * f ^ 6 + 3456 * f ^ 5 * z + 5632 * f ^ 4 * z ^ 4 - 5888 * f ^ 4 * z ^ 2 + 2784 * f ^ 4 + 2304 * f ^ 3 * z ^ 3 - 1152 * f ^ 3 * z + 1032 * f ^ 2 * z ^ 2 - 484 * f ^ 2 + 72 * f * z + 29) =
      1 * (8 - 16 * z) ^ 4 * Q0 +
      8 * (16 * z - 3) * (8 - 16 * z) ^ 3 * Q1 +
      4 * (16 * z - 3) ^ 2 * (8 - 16 * z) ^ 2 * Q2 +
      64 * (16 * z - 3) ^ 3 * (8 - 16 * z) * Q3 +
      128 * (16 * z - 3) ^ 4 * Q4"
    unfolding Q0_def Q1_def Q2_def Q3_def Q4_def by algebra
  have "0 \<le> 80000 * (5632 * f ^ 8 + 11264 * f ^ 6 * z ^ 2 - 6656 * f ^ 6 + 3456 * f ^ 5 * z + 5632 * f ^ 4 * z ^ 4 - 5888 * f ^ 4 * z ^ 2 + 2784 * f ^ 4 + 2304 * f ^ 3 * z ^ 3 - 1152 * f ^ 3 * z + 1032 * f ^ 2 * z ^ 2 - 484 * f ^ 2 + 72 * f * z + 29)"
    unfolding id
    using assms q0 q1 q2 q3 q4
    by (intro add_nonneg_nonneg mult_nonneg_nonneg zero_le_power) simp_all
  then show ?thesis by simp
qed

lemma cert_R3_poly_a_7:
  fixes f :: real
  assumes "11 / 8 \<le> f" "f \<le> 3 / 2"
  shows "0 \<le> 3702784 * f ^ 8 - 5906560 * f ^ 6 + 746496 * f ^ 5 + 3442683 * f ^ 4 - 327726 * f ^ 3 - 798022 * f ^ 2 + 28512 * f + 65248"
proof -
  have id: "4096 * (3702784 * f ^ 8 - 5906560 * f ^ 6 + 746496 * f ^ 5 + 3442683 * f ^ 4 - 327726 * f ^ 3 - 798022 * f ^ 2 + 28512 * f + 65248) =
      86473703025 * (12 - 8 * f) ^ 8 +
      766639480248 * (8 * f - 11) * (12 - 8 * f) ^ 7 +
      2973389938224 * (8 * f - 11) ^ 2 * (12 - 8 * f) ^ 6 +
      6589395963324 * (8 * f - 11) ^ 3 * (12 - 8 * f) ^ 5 +
      9126120891163 * (8 * f - 11) ^ 4 * (12 - 8 * f) ^ 4 +
      8088529639328 * (8 * f - 11) ^ 5 * (12 - 8 * f) ^ 3 +
      4480142501856 * (8 * f - 11) ^ 6 * (12 - 8 * f) ^ 2 +
      1417852805120 * (8 * f - 11) ^ 7 * (12 - 8 * f) +
      196290854656 * (8 * f - 11) ^ 8"
    by algebra
  have "0 \<le> 4096 * (3702784 * f ^ 8 - 5906560 * f ^ 6 + 746496 * f ^ 5 + 3442683 * f ^ 4 - 327726 * f ^ 3 - 798022 * f ^ 2 + 28512 * f + 65248)"
    unfolding id
    using assms 
    by (intro add_nonneg_nonneg mult_nonneg_nonneg zero_le_power) simp_all
  then show ?thesis by simp
qed

lemma cert_R3_poly_a_8:
  fixes f :: real
  assumes "11 / 8 \<le> f" "f \<le> 3 / 2"
  shows "0 \<le> 7405568 * f ^ 8 - 11062400 * f ^ 6 + 2115072 * f ^ 5 + 6400656 * f ^ 4 - 887247 * f ^ 3 - 1486934 * f ^ 2 + 80784 * f + 130496"
proof -
  have id: "2048 * (7405568 * f ^ 8 - 11062400 * f ^ 6 + 2115072 * f ^ 5 + 6400656 * f ^ 4 - 887247 * f ^ 3 - 1486934 * f ^ 2 + 80784 * f + 130496) =
      98832557115 * (12 - 8 * f) ^ 8 +
      872479939698 * (8 * f - 11) * (12 - 8 * f) ^ 7 +
      3369827719479 * (8 * f - 11) ^ 2 * (12 - 8 * f) ^ 6 +
      7437660411744 * (8 * f - 11) ^ 3 * (12 - 8 * f) ^ 5 +
      10260185249908 * (8 * f - 11) ^ 4 * (12 - 8 * f) ^ 4 +
      9058578389468 * (8 * f - 11) ^ 5 * (12 - 8 * f) ^ 3 +
      4998582104976 * (8 * f - 11) ^ 6 * (12 - 8 * f) ^ 2 +
      1576135257920 * (8 * f - 11) ^ 7 * (12 - 8 * f) +
      217426368256 * (8 * f - 11) ^ 8"
    by algebra
  have "0 \<le> 2048 * (7405568 * f ^ 8 - 11062400 * f ^ 6 + 2115072 * f ^ 5 + 6400656 * f ^ 4 - 887247 * f ^ 3 - 1486934 * f ^ 2 + 80784 * f + 130496)"
    unfolding id
    using assms 
    by (intro add_nonneg_nonneg mult_nonneg_nonneg zero_le_power) simp_all
  then show ?thesis by simp
qed

lemma cert_R3_poly_a_9:
  fixes f :: real
  assumes "11 / 8 \<le> f" "f \<le> 3 / 2"
  shows "0 \<le> 11108352 * f ^ 8 - 14841920 * f ^ 6 + 4105728 * f ^ 5 + 8532544 * f ^ 4 - 1575288 * f ^ 3 - 1975811 * f ^ 2 + 156816 * f + 195744"
proof -
  have id: "4096 * (11108352 * f ^ 8 - 14841920 * f ^ 6 + 4105728 * f ^ 5 + 8532544 * f ^ 4 - 1575288 * f ^ 3 - 1975811 * f ^ 2 + 156816 * f + 195744) =
      347696966415 * (12 - 8 * f) ^ 8 +
      3055999153494 * (8 * f - 11) * (12 - 8 * f) ^ 7 +
      11752557658327 * (8 * f - 11) ^ 2 * (12 - 8 * f) ^ 6 +
      25829663493192 * (8 * f - 11) ^ 3 * (12 - 8 * f) ^ 5 +
      35483530613584 * (8 * f - 11) ^ 4 * (12 - 8 * f) ^ 4 +
      31199887785024 * (8 * f - 11) ^ 5 * (12 - 8 * f) ^ 3 +
      17147225850688 * (8 * f - 11) ^ 6 * (12 - 8 * f) ^ 2 +
      5385521180160 * (8 * f - 11) ^ 7 * (12 - 8 * f) +
      740060525568 * (8 * f - 11) ^ 8"
    by algebra
  have "0 \<le> 4096 * (11108352 * f ^ 8 - 14841920 * f ^ 6 + 4105728 * f ^ 5 + 8532544 * f ^ 4 - 1575288 * f ^ 3 - 1975811 * f ^ 2 + 156816 * f + 195744)"
    unfolding id
    using assms 
    by (intro add_nonneg_nonneg mult_nonneg_nonneg zero_le_power) simp_all
  then show ?thesis by simp
qed

lemma cert_R3_poly_a_10:
  fixes f :: real
  assumes "11 / 8 \<le> f" "f \<le> 3 / 2"
  shows "0 \<le> 462848 * f ^ 8 - 519360 * f ^ 6 + 209952 * f ^ 5 + 303296 * f ^ 4 - 67932 * f ^ 3 - 67929 * f ^ 2 + 8019 * f + 8156"
proof -
  have id: "4096 * (462848 * f ^ 8 - 519360 * f ^ 6 + 209952 * f ^ 5 + 303296 * f ^ 4 - 67932 * f ^ 3 - 67929 * f ^ 2 + 8019 * f + 8156) =
      17342703090 * (12 - 8 * f) ^ 8 +
      151763581206 * (8 * f - 11) * (12 - 8 * f) ^ 7 +
      581119644233 * (8 * f - 11) ^ 2 * (12 - 8 * f) ^ 6 +
      1271721699348 * (8 * f - 11) ^ 3 * (12 - 8 * f) ^ 5 +
      1739652787456 * (8 * f - 11) ^ 4 * (12 - 8 * f) ^ 4 +
      1523260985056 * (8 * f - 11) ^ 5 * (12 - 8 * f) ^ 3 +
      833728453952 * (8 * f - 11) ^ 6 * (12 - 8 * f) ^ 2 +
      260791037440 * (8 * f - 11) ^ 7 * (12 - 8 * f) +
      35693714432 * (8 * f - 11) ^ 8"
    by algebra
  have "0 \<le> 4096 * (462848 * f ^ 8 - 519360 * f ^ 6 + 209952 * f ^ 5 + 303296 * f ^ 4 - 67932 * f ^ 3 - 67929 * f ^ 2 + 8019 * f + 8156)"
    unfolding id
    using assms 
    by (intro add_nonneg_nonneg mult_nonneg_nonneg zero_le_power) simp_all
  then show ?thesis by simp
qed

lemma cert_R3_poly_a_11:
  fixes f :: real
  assumes "11 / 8 \<le> f" "f \<le> 3 / 2"
  shows "0 \<le> 115712 * f ^ 8 - 98560 * f ^ 6 + 62208 * f ^ 5 + 65184 * f ^ 4 - 14688 * f ^ 3 - 12436 * f ^ 2 + 2376 * f + 2039"
proof -
  have id: "16384 * (115712 * f ^ 8 - 98560 * f ^ 6 + 62208 * f ^ 5 + 65184 * f ^ 4 - 14688 * f ^ 3 - 12436 * f ^ 2 + 2376 * f + 2039) =
      21212628545 * (12 - 8 * f) ^ 8 +
      184794323456 * (8 * f - 11) * (12 - 8 * f) ^ 7 +
      704443649968 * (8 * f - 11) ^ 2 * (12 - 8 * f) ^ 6 +
      1534792095488 * (8 * f - 11) ^ 3 * (12 - 8 * f) ^ 5 +
      2090329652096 * (8 * f - 11) ^ 4 * (12 - 8 * f) ^ 4 +
      1822384577536 * (8 * f - 11) ^ 5 * (12 - 8 * f) ^ 3 +
      993169595392 * (8 * f - 11) ^ 6 * (12 - 8 * f) ^ 2 +
      309346263040 * (8 * f - 11) ^ 7 * (12 - 8 * f) +
      42161733632 * (8 * f - 11) ^ 8"
    by algebra
  have "0 \<le> 16384 * (115712 * f ^ 8 - 98560 * f ^ 6 + 62208 * f ^ 5 + 65184 * f ^ 4 - 14688 * f ^ 3 - 12436 * f ^ 2 + 2376 * f + 2039)"
    unfolding id
    using assms 
    by (intro add_nonneg_nonneg mult_nonneg_nonneg zero_le_power) simp_all
  then show ?thesis by simp
qed

lemma cert_R3_poly_a_12:
  fixes f z :: real
  assumes "3 / 16 \<le> z" "z \<le> 1 / 2" "11 / 8 \<le> f" "f \<le> 3 / 2"
  shows "0 \<le> 115712 * f ^ 8 + 400384 * f ^ 6 * z ^ 2 - 198656 * f ^ 6 + 124416 * f ^ 5 * z + 284672 * f ^ 4 * z ^ 4 - 278528 * f ^ 4 * z ^ 2 + 117024 * f ^ 4 + 117504 * f ^ 3 * z ^ 3 - 58752 * f ^ 3 * z + 58192 * f ^ 2 * z ^ 2 - 26984 * f ^ 2 + 4752 * f * z + 2039"
proof -
  define Q0 where "Q0 = 3702784 * f ^ 8 - 5906560 * f ^ 6 + 746496 * f ^ 5 + 3442683 * f ^ 4 - 327726 * f ^ 3 - 798022 * f ^ 2 + 28512 * f + 65248"
  define Q1 where "Q1 = 7405568 * f ^ 8 - 11062400 * f ^ 6 + 2115072 * f ^ 5 + 6400656 * f ^ 4 - 887247 * f ^ 3 - 1486934 * f ^ 2 + 80784 * f + 130496"
  define Q2 where "Q2 = 11108352 * f ^ 8 - 14841920 * f ^ 6 + 4105728 * f ^ 5 + 8532544 * f ^ 4 - 1575288 * f ^ 3 - 1975811 * f ^ 2 + 156816 * f + 195744"
  define Q3 where "Q3 = 462848 * f ^ 8 - 519360 * f ^ 6 + 209952 * f ^ 5 + 303296 * f ^ 4 - 67932 * f ^ 3 - 67929 * f ^ 2 + 8019 * f + 8156"
  define Q4 where "Q4 = 115712 * f ^ 8 - 98560 * f ^ 6 + 62208 * f ^ 5 + 65184 * f ^ 4 - 14688 * f ^ 3 - 12436 * f ^ 2 + 2376 * f + 2039"
  have q0: "0 \<le> Q0" unfolding Q0_def by (rule cert_R3_poly_a_7 [OF assms(3) assms(4)])
  have q1: "0 \<le> Q1" unfolding Q1_def by (rule cert_R3_poly_a_8 [OF assms(3) assms(4)])
  have q2: "0 \<le> Q2" unfolding Q2_def by (rule cert_R3_poly_a_9 [OF assms(3) assms(4)])
  have q3: "0 \<le> Q3" unfolding Q3_def by (rule cert_R3_poly_a_10 [OF assms(3) assms(4)])
  have q4: "0 \<le> Q4" unfolding Q4_def by (rule cert_R3_poly_a_11 [OF assms(3) assms(4)])
  have id: "20000 * (115712 * f ^ 8 + 400384 * f ^ 6 * z ^ 2 - 198656 * f ^ 6 + 124416 * f ^ 5 * z + 284672 * f ^ 4 * z ^ 4 - 278528 * f ^ 4 * z ^ 2 + 117024 * f ^ 4 + 117504 * f ^ 3 * z ^ 3 - 58752 * f ^ 3 * z + 58192 * f ^ 2 * z ^ 2 - 26984 * f ^ 2 + 4752 * f * z + 2039) =
      1 * (8 - 16 * z) ^ 4 * Q0 +
      2 * (16 * z - 3) * (8 - 16 * z) ^ 3 * Q1 +
      2 * (16 * z - 3) ^ 2 * (8 - 16 * z) ^ 2 * Q2 +
      32 * (16 * z - 3) ^ 3 * (8 - 16 * z) * Q3 +
      32 * (16 * z - 3) ^ 4 * Q4"
    unfolding Q0_def Q1_def Q2_def Q3_def Q4_def by algebra
  have "0 \<le> 20000 * (115712 * f ^ 8 + 400384 * f ^ 6 * z ^ 2 - 198656 * f ^ 6 + 124416 * f ^ 5 * z + 284672 * f ^ 4 * z ^ 4 - 278528 * f ^ 4 * z ^ 2 + 117024 * f ^ 4 + 117504 * f ^ 3 * z ^ 3 - 58752 * f ^ 3 * z + 58192 * f ^ 2 * z ^ 2 - 26984 * f ^ 2 + 4752 * f * z + 2039)"
    unfolding id
    using assms q0 q1 q2 q3 q4
    by (intro add_nonneg_nonneg mult_nonneg_nonneg zero_le_power) simp_all
  then show ?thesis by simp
qed

lemma cert_R3_poly_a_13:
  fixes f :: real
  assumes "11 / 8 \<le> f" "f \<le> 3 / 2"
  shows "0 \<le> 12648448 * f ^ 8 - 43033600 * f ^ 6 + 8957952 * f ^ 5 + 40120491 * f ^ 4 - 4125492 * f ^ 3 - 12380164 * f ^ 2 + 497664 * f + 1325056"
proof -
  have id: "4096 * (12648448 * f ^ 8 - 43033600 * f ^ 6 + 8957952 * f ^ 5 + 40120491 * f ^ 4 - 4125492 * f ^ 3 - 12380164 * f ^ 2 + 497664 * f + 1325056) =
      106912651995 * (12 - 8 * f) ^ 8 +
      953383591836 * (8 * f - 11) * (12 - 8 * f) ^ 7 +
      3727787820018 * (8 * f - 11) ^ 2 * (12 - 8 * f) ^ 6 +
      8345818130508 * (8 * f - 11) ^ 3 * (12 - 8 * f) ^ 5 +
      11698859525851 * (8 * f - 11) ^ 4 * (12 - 8 * f) ^ 4 +
      10511882904656 * (8 * f - 11) ^ 5 * (12 - 8 * f) ^ 3 +
      5911366526112 * (8 * f - 11) ^ 6 * (12 - 8 * f) ^ 2 +
      1901775054080 * (8 * f - 11) ^ 7 * (12 - 8 * f) +
      267933160192 * (8 * f - 11) ^ 8"
    by algebra
  have "0 \<le> 4096 * (12648448 * f ^ 8 - 43033600 * f ^ 6 + 8957952 * f ^ 5 + 40120491 * f ^ 4 - 4125492 * f ^ 3 - 12380164 * f ^ 2 + 497664 * f + 1325056)"
    unfolding id
    using assms 
    by (intro add_nonneg_nonneg mult_nonneg_nonneg zero_le_power) simp_all
  then show ?thesis by simp
qed

lemma cert_R3_poly_a_14:
  fixes f :: real
  assumes "11 / 8 \<le> f" "f \<le> 3 / 2"
  shows "0 \<le> 12648448 * f ^ 8 - 39354880 * f ^ 6 + 12690432 * f ^ 5 + 37502856 * f ^ 4 - 5584437 * f ^ 3 - 11525554 * f ^ 2 + 705024 * f + 1325056"
proof -
  have id: "512 * (12648448 * f ^ 8 - 39354880 * f ^ 6 + 12690432 * f ^ 5 + 37502856 * f ^ 4 - 5584437 * f ^ 3 - 11525554 * f ^ 2 + 705024 * f + 1325056) =
      29726030475 * (12 - 8 * f) ^ 8 +
      259172814267 * (8 * f - 11) * (12 - 8 * f) ^ 7 +
      989913277491 * (8 * f - 11) ^ 2 * (12 - 8 * f) ^ 6 +
      2163384013806 * (8 * f - 11) ^ 3 * (12 - 8 * f) ^ 5 +
      2958718956302 * (8 * f - 11) ^ 4 * (12 - 8 * f) ^ 4 +
      2592934340317 * (8 * f - 11) ^ 5 * (12 - 8 * f) ^ 3 +
      1421931736044 * (8 * f - 11) ^ 6 * (12 - 8 * f) ^ 2 +
      446094450160 * (8 * f - 11) ^ 7 * (12 - 8 * f) +
      61295618624 * (8 * f - 11) ^ 8"
    by algebra
  have "0 \<le> 512 * (12648448 * f ^ 8 - 39354880 * f ^ 6 + 12690432 * f ^ 5 + 37502856 * f ^ 4 - 5584437 * f ^ 3 - 11525554 * f ^ 2 + 705024 * f + 1325056)"
    unfolding id
    using assms 
    by (intro add_nonneg_nonneg mult_nonneg_nonneg zero_le_power) simp_all
  then show ?thesis by simp
qed

lemma cert_R3_poly_a_15:
  fixes f :: real
  assumes "11 / 8 \<le> f" "f \<le> 3 / 2"
  shows "0 \<le> 18972672 * f ^ 8 - 50448640 * f ^ 6 + 24634368 * f ^ 5 + 50534144 * f ^ 4 - 9915048 * f ^ 3 - 15294241 * f ^ 2 + 1368576 * f + 1987584"
proof -
  have id: "1024 * (18972672 * f ^ 8 - 50448640 * f ^ 6 + 24634368 * f ^ 5 + 50534144 * f ^ 4 - 9915048 * f ^ 3 - 15294241 * f ^ 2 + 1368576 * f + 1987584) =
      156022174005 * (12 - 8 * f) ^ 8 +
      1349490643926 * (8 * f - 11) * (12 - 8 * f) ^ 7 +
      5110495502783 * (8 * f - 11) ^ 2 * (12 - 8 * f) ^ 6 +
      11067576736008 * (8 * f - 11) ^ 3 * (12 - 8 * f) ^ 5 +
      14991955595696 * (8 * f - 11) ^ 4 * (12 - 8 * f) ^ 4 +
      13007108361456 * (8 * f - 11) ^ 5 * (12 - 8 * f) ^ 3 +
      7058612705072 * (8 * f - 11) ^ 6 * (12 - 8 * f) ^ 2 +
      2190555031680 * (8 * f - 11) ^ 7 * (12 - 8 * f) +
      297644796672 * (8 * f - 11) ^ 8"
    by algebra
  have "0 \<le> 1024 * (18972672 * f ^ 8 - 50448640 * f ^ 6 + 24634368 * f ^ 5 + 50534144 * f ^ 4 - 9915048 * f ^ 3 - 15294241 * f ^ 2 + 1368576 * f + 1987584)"
    unfolding id
    using assms 
    by (intro add_nonneg_nonneg mult_nonneg_nonneg zero_le_power) simp_all
  then show ?thesis by simp
qed

lemma cert_R3_poly_a_16:
  fixes f :: real
  assumes "11 / 8 \<le> f" "f \<le> 3 / 2"
  shows "0 \<le> 790528 * f ^ 8 - 1616640 * f ^ 6 + 1259712 * f ^ 5 + 1832896 * f ^ 4 - 427572 * f ^ 3 - 524499 * f ^ 2 + 69984 * f + 82816"
proof -
  have id: "4096 * (790528 * f ^ 8 - 1616640 * f ^ 6 + 1259712 * f ^ 5 + 1832896 * f ^ 4 - 427572 * f ^ 3 - 524499 * f ^ 2 + 69984 * f + 82816) =
      40935655485 * (12 - 8 * f) ^ 8 +
      352505704896 * (8 * f - 11) * (12 - 8 * f) ^ 7 +
      1328647702828 * (8 * f - 11) ^ 2 * (12 - 8 * f) ^ 6 +
      2862999097608 * (8 * f - 11) ^ 3 * (12 - 8 * f) ^ 5 +
      3857646179456 * (8 * f - 11) ^ 4 * (12 - 8 * f) ^ 4 +
      3328257709856 * (8 * f - 11) ^ 5 * (12 - 8 * f) ^ 3 +
      1795593564352 * (8 * f - 11) ^ 6 * (12 - 8 * f) ^ 2 +
      553834772480 * (8 * f - 11) ^ 7 * (12 - 8 * f) +
      74774182912 * (8 * f - 11) ^ 8"
    by algebra
  have "0 \<le> 4096 * (790528 * f ^ 8 - 1616640 * f ^ 6 + 1259712 * f ^ 5 + 1832896 * f ^ 4 - 427572 * f ^ 3 - 524499 * f ^ 2 + 69984 * f + 82816)"
    unfolding id
    using assms 
    by (intro add_nonneg_nonneg mult_nonneg_nonneg zero_le_power) simp_all
  then show ?thesis by simp
qed

lemma cert_R3_poly_a_17:
  fixes f :: real
  assumes "11 / 8 \<le> f" "f \<le> 3 / 2"
  shows "0 \<le> 49408 * f ^ 8 - 62720 * f ^ 6 + 93312 * f ^ 5 + 102096 * f ^ 4 - 23112 * f ^ 3 - 23879 * f ^ 2 + 5184 * f + 5176"
proof -
  have id: "65536 * (49408 * f ^ 8 - 62720 * f ^ 6 + 93312 * f ^ 5 + 102096 * f ^ 4 - 23112 * f ^ 3 - 23879 * f ^ 2 + 5184 * f + 5176) =
      61475876065 * (12 - 8 * f) ^ 8 +
      527532923296 * (8 * f - 11) * (12 - 8 * f) ^ 7 +
      1981083721088 * (8 * f - 11) ^ 2 * (12 - 8 * f) ^ 6 +
      4252577966848 * (8 * f - 11) ^ 3 * (12 - 8 * f) ^ 5 +
      5707156247296 * (8 * f - 11) ^ 4 * (12 - 8 * f) ^ 4 +
      4903530023936 * (8 * f - 11) ^ 5 * (12 - 8 * f) ^ 3 +
      2634043937792 * (8 * f - 11) ^ 6 * (12 - 8 * f) ^ 2 +
      808811847680 * (8 * f - 11) ^ 7 * (12 - 8 * f) +
      108692979712 * (8 * f - 11) ^ 8"
    by algebra
  have "0 \<le> 65536 * (49408 * f ^ 8 - 62720 * f ^ 6 + 93312 * f ^ 5 + 102096 * f ^ 4 - 23112 * f ^ 3 - 23879 * f ^ 2 + 5184 * f + 5176)"
    unfolding id
    using assms 
    by (intro add_nonneg_nonneg mult_nonneg_nonneg zero_le_power) simp_all
  then show ?thesis by simp
qed

lemma cert_R3_poly_a_18:
  fixes f z :: real
  assumes "3 / 16 \<le> z" "z \<le> 1 / 2" "11 / 8 \<le> f" "f \<le> 3 / 2"
  shows "0 \<le> 24704 * f ^ 8 + 245248 * f ^ 6 * z ^ 2 - 92672 * f ^ 6 + 93312 * f ^ 5 * z + 220544 * f ^ 4 * z ^ 4 - 190016 * f ^ 4 * z ^ 2 + 84768 * f ^ 4 + 92448 * f ^ 3 * z ^ 3 - 46224 * f ^ 3 * z + 56974 * f ^ 2 * z ^ 2 - 26183 * f ^ 2 + 5184 * f * z + 2588"
proof -
  define Q0 where "Q0 = 12648448 * f ^ 8 - 43033600 * f ^ 6 + 8957952 * f ^ 5 + 40120491 * f ^ 4 - 4125492 * f ^ 3 - 12380164 * f ^ 2 + 497664 * f + 1325056"
  define Q1 where "Q1 = 12648448 * f ^ 8 - 39354880 * f ^ 6 + 12690432 * f ^ 5 + 37502856 * f ^ 4 - 5584437 * f ^ 3 - 11525554 * f ^ 2 + 705024 * f + 1325056"
  define Q2 where "Q2 = 18972672 * f ^ 8 - 50448640 * f ^ 6 + 24634368 * f ^ 5 + 50534144 * f ^ 4 - 9915048 * f ^ 3 - 15294241 * f ^ 2 + 1368576 * f + 1987584"
  define Q3 where "Q3 = 790528 * f ^ 8 - 1616640 * f ^ 6 + 1259712 * f ^ 5 + 1832896 * f ^ 4 - 427572 * f ^ 3 - 524499 * f ^ 2 + 69984 * f + 82816"
  define Q4 where "Q4 = 49408 * f ^ 8 - 62720 * f ^ 6 + 93312 * f ^ 5 + 102096 * f ^ 4 - 23112 * f ^ 3 - 23879 * f ^ 2 + 5184 * f + 5176"
  have q0: "0 \<le> Q0" unfolding Q0_def by (rule cert_R3_poly_a_13 [OF assms(3) assms(4)])
  have q1: "0 \<le> Q1" unfolding Q1_def by (rule cert_R3_poly_a_14 [OF assms(3) assms(4)])
  have q2: "0 \<le> Q2" unfolding Q2_def by (rule cert_R3_poly_a_15 [OF assms(3) assms(4)])
  have q3: "0 \<le> Q3" unfolding Q3_def by (rule cert_R3_poly_a_16 [OF assms(3) assms(4)])
  have q4: "0 \<le> Q4" unfolding Q4_def by (rule cert_R3_poly_a_17 [OF assms(3) assms(4)])
  have id: "320000 * (24704 * f ^ 8 + 245248 * f ^ 6 * z ^ 2 - 92672 * f ^ 6 + 93312 * f ^ 5 * z + 220544 * f ^ 4 * z ^ 4 - 190016 * f ^ 4 * z ^ 2 + 84768 * f ^ 4 + 92448 * f ^ 3 * z ^ 3 - 46224 * f ^ 3 * z + 56974 * f ^ 2 * z ^ 2 - 26183 * f ^ 2 + 5184 * f * z + 2588) =
      1 * (8 - 16 * z) ^ 4 * Q0 +
      4 * (16 * z - 3) * (8 - 16 * z) ^ 3 * Q1 +
      4 * (16 * z - 3) ^ 2 * (8 - 16 * z) ^ 2 * Q2 +
      64 * (16 * z - 3) ^ 3 * (8 - 16 * z) * Q3 +
      256 * (16 * z - 3) ^ 4 * Q4"
    unfolding Q0_def Q1_def Q2_def Q3_def Q4_def by algebra
  have "0 \<le> 320000 * (24704 * f ^ 8 + 245248 * f ^ 6 * z ^ 2 - 92672 * f ^ 6 + 93312 * f ^ 5 * z + 220544 * f ^ 4 * z ^ 4 - 190016 * f ^ 4 * z ^ 2 + 84768 * f ^ 4 + 92448 * f ^ 3 * z ^ 3 - 46224 * f ^ 3 * z + 56974 * f ^ 2 * z ^ 2 - 26183 * f ^ 2 + 5184 * f * z + 2588)"
    unfolding id
    using assms q0 q1 q2 q3 q4
    by (intro add_nonneg_nonneg mult_nonneg_nonneg zero_le_power) simp_all
  then show ?thesis by simp
qed

lemma cert_R3_poly_a_19:
  fixes f :: real
  assumes "11 / 8 \<le> f" "f \<le> 3 / 2"
  shows "0 \<le> 372736 * f ^ 8 - 2001360 * f ^ 6 + 471744 * f ^ 5 + 3897867 * f ^ 4 - 218484 * f ^ 3 - 1514308 * f ^ 2 + 27648 * f + 187392"
proof -
  have id: "16384 * (372736 * f ^ 8 - 2001360 * f ^ 6 + 471744 * f ^ 5 + 3897867 * f ^ 4 - 218484 * f ^ 3 - 1514308 * f ^ 2 + 27648 * f + 187392) =
      70173238995 * (12 - 8 * f) ^ 8 +
      586528283598 * (8 * f - 11) * (12 - 8 * f) ^ 7 +
      2145272980899 * (8 * f - 11) ^ 2 * (12 - 8 * f) ^ 6 +
      4485162852664 * (8 * f - 11) ^ 3 * (12 - 8 * f) ^ 5 +
      5863257333948 * (8 * f - 11) ^ 4 * (12 - 8 * f) ^ 4 +
      4908090996288 * (8 * f - 11) ^ 5 * (12 - 8 * f) ^ 3 +
      2569507170176 * (8 * f - 11) ^ 6 * (12 - 8 * f) ^ 2 +
      769282268160 * (8 * f - 11) ^ 7 * (12 - 8 * f) +
      100853677056 * (8 * f - 11) ^ 8"
    by algebra
  have "0 \<le> 16384 * (372736 * f ^ 8 - 2001360 * f ^ 6 + 471744 * f ^ 5 + 3897867 * f ^ 4 - 218484 * f ^ 3 - 1514308 * f ^ 2 + 27648 * f + 187392)"
    unfolding id
    using assms 
    by (intro add_nonneg_nonneg mult_nonneg_nonneg zero_le_power) simp_all
  then show ?thesis by simp
qed

lemma cert_R3_poly_a_20:
  fixes f :: real
  assumes "11 / 8 \<le> f" "f \<le> 3 / 2"
  shows "0 \<le> 372736 * f ^ 8 - 1815720 * f ^ 6 + 668304 * f ^ 5 + 3763272 * f ^ 4 - 295749 * f ^ 3 - 1414738 * f ^ 2 + 39168 * f + 187392"
proof -
  have id: "32768 * (372736 * f ^ 8 - 1815720 * f ^ 6 + 668304 * f ^ 5 + 3763272 * f ^ 4 - 295749 * f ^ 3 - 1414738 * f ^ 2 + 39168 * f + 187392) =
      197452756395 * (12 - 8 * f) ^ 8 +
      1660360151646 * (8 * f - 11) * (12 - 8 * f) ^ 7 +
      6109513705683 * (8 * f - 11) ^ 2 * (12 - 8 * f) ^ 6 +
      12849511718168 * (8 * f - 11) ^ 3 * (12 - 8 * f) ^ 5 +
      16896166392336 * (8 * f - 11) ^ 4 * (12 - 8 * f) ^ 4 +
      14224611502656 * (8 * f - 11) ^ 5 * (12 - 8 * f) ^ 3 +
      7488135995392 * (8 * f - 11) ^ 6 * (12 - 8 * f) ^ 2 +
      2253727749120 * (8 * f - 11) ^ 7 * (12 - 8 * f) +
      296942272512 * (8 * f - 11) ^ 8"
    by algebra
  have "0 \<le> 32768 * (372736 * f ^ 8 - 1815720 * f ^ 6 + 668304 * f ^ 5 + 3763272 * f ^ 4 - 295749 * f ^ 3 - 1414738 * f ^ 2 + 39168 * f + 187392)"
    unfolding id
    using assms 
    by (intro add_nonneg_nonneg mult_nonneg_nonneg zero_le_power) simp_all
  then show ?thesis by simp
qed

lemma cert_R3_poly_a_21:
  fixes f :: real
  assumes "11 / 8 \<le> f" "f \<le> 3 / 2"
  shows "0 \<le> 559104 * f ^ 8 - 2290420 * f ^ 6 + 1297296 * f ^ 5 + 5351328 * f ^ 4 - 525096 * f ^ 3 - 1889777 * f ^ 2 + 76032 * f + 281088"
proof -
  have id: "65536 * (559104 * f ^ 8 - 2290420 * f ^ 6 + 1297296 * f ^ 5 + 5351328 * f ^ 4 - 525096 * f ^ 3 - 1889777 * f ^ 2 + 76032 * f + 281088) =
      826859731875 * (12 - 8 * f) ^ 8 +
      6981482588638 * (8 * f - 11) * (12 - 8 * f) ^ 7 +
      25793429387579 * (8 * f - 11) ^ 2 * (12 - 8 * f) ^ 6 +
      54464880964424 * (8 * f - 11) ^ 3 * (12 - 8 * f) ^ 5 +
      71896100741328 * (8 * f - 11) ^ 4 * (12 - 8 * f) ^ 4 +
      60756563044608 * (8 * f - 11) ^ 5 * (12 - 8 * f) ^ 3 +
      32099522212096 * (8 * f - 11) ^ 6 * (12 - 8 * f) ^ 2 +
      9694429685760 * (8 * f - 11) ^ 7 * (12 - 8 * f) +
      1281444212736 * (8 * f - 11) ^ 8"
    by algebra
  have "0 \<le> 65536 * (559104 * f ^ 8 - 2290420 * f ^ 6 + 1297296 * f ^ 5 + 5351328 * f ^ 4 - 525096 * f ^ 3 - 1889777 * f ^ 2 + 76032 * f + 281088)"
    unfolding id
    using assms 
    by (intro add_nonneg_nonneg mult_nonneg_nonneg zero_le_power) simp_all
  then show ?thesis by simp
qed

lemma cert_R3_poly_a_22:
  fixes f :: real
  assumes "11 / 8 \<le> f" "f \<le> 3 / 2"
  shows "0 \<le> 23296 * f ^ 8 - 70940 * f ^ 6 + 66339 * f ^ 5 + 209052 * f ^ 4 - 22644 * f ^ 3 - 65603 * f ^ 2 + 3888 * f + 11712"
proof -
  have id: "65536 * (23296 * f ^ 8 - 70940 * f ^ 6 + 66339 * f ^ 5 + 209052 * f ^ 4 - 22644 * f ^ 3 - 65603 * f ^ 2 + 3888 * f + 11712) =
      47559259710 * (12 - 8 * f) ^ 8 +
      402545695112 * (8 * f - 11) * (12 - 8 * f) ^ 7 +
      1490811125791 * (8 * f - 11) ^ 2 * (12 - 8 * f) ^ 6 +
      3155379125906 * (8 * f - 11) ^ 3 * (12 - 8 * f) ^ 5 +
      4174751608152 * (8 * f - 11) ^ 4 * (12 - 8 * f) ^ 4 +
      3535662649152 * (8 * f - 11) ^ 5 * (12 - 8 * f) ^ 3 +
      1871903286784 * (8 * f - 11) ^ 6 * (12 - 8 * f) ^ 2 +
      566450403840 * (8 * f - 11) ^ 7 * (12 - 8 * f) +
      75012593664 * (8 * f - 11) ^ 8"
    by algebra
  have "0 \<le> 65536 * (23296 * f ^ 8 - 70940 * f ^ 6 + 66339 * f ^ 5 + 209052 * f ^ 4 - 22644 * f ^ 3 - 65603 * f ^ 2 + 3888 * f + 11712)"
    unfolding id
    using assms 
    by (intro add_nonneg_nonneg mult_nonneg_nonneg zero_le_power) simp_all
  then show ?thesis by simp
qed

lemma cert_R3_poly_a_23:
  fixes f :: real
  assumes "11 / 8 \<le> f" "f \<le> 3 / 2"
  shows "0 \<le> 5824 * f ^ 8 - 10000 * f ^ 6 + 19656 * f ^ 5 + 49783 * f ^ 4 - 4896 * f ^ 3 - 12252 * f ^ 2 + 1152 * f + 2928"
proof -
  have id: "262144 * (5824 * f ^ 8 - 10000 * f ^ 6 + 19656 * f ^ 5 + 49783 * f ^ 4 - 4896 * f ^ 3 - 12252 * f ^ 2 + 1152 * f + 2928) =
      65537881195 * (12 - 8 * f) ^ 8 +
      555324595712 * (8 * f - 11) * (12 - 8 * f) ^ 7 +
      2058802465136 * (8 * f - 11) ^ 2 * (12 - 8 * f) ^ 6 +
      4362002095936 * (8 * f - 11) ^ 3 * (12 - 8 * f) ^ 5 +
      5776769616832 * (8 * f - 11) ^ 4 * (12 - 8 * f) ^ 4 +
      4896873587712 * (8 * f - 11) ^ 5 * (12 - 8 * f) ^ 3 +
      2594743179264 * (8 * f - 11) ^ 6 * (12 - 8 * f) ^ 2 +
      785779261440 * (8 * f - 11) ^ 7 * (12 - 8 * f) +
      104126398464 * (8 * f - 11) ^ 8"
    by algebra
  have "0 \<le> 262144 * (5824 * f ^ 8 - 10000 * f ^ 6 + 19656 * f ^ 5 + 49783 * f ^ 4 - 4896 * f ^ 3 - 12252 * f ^ 2 + 1152 * f + 2928)"
    unfolding id
    using assms 
    by (intro add_nonneg_nonneg mult_nonneg_nonneg zero_le_power) simp_all
  then show ?thesis by simp
qed

lemma cert_R3_poly_a_24:
  fixes f z :: real
  assumes "3 / 16 \<le> z" "z \<le> 1 / 2" "11 / 8 \<le> f" "f \<le> 3 / 2"
  shows "0 \<le> 5824 * f ^ 8 + 99008 * f ^ 6 * z ^ 2 - 34752 * f ^ 6 + 39312 * f ^ 5 * z + 93184 * f ^ 4 * z ^ 4 - 78336 * f ^ 4 * z ^ 2 + 63543 * f ^ 4 + 39168 * f ^ 3 * z ^ 3 - 19584 * f ^ 3 * z + 53104 * f ^ 2 * z ^ 2 - 25528 * f ^ 2 + 2304 * f * z + 2928"
proof -
  define Q0 where "Q0 = 372736 * f ^ 8 - 2001360 * f ^ 6 + 471744 * f ^ 5 + 3897867 * f ^ 4 - 218484 * f ^ 3 - 1514308 * f ^ 2 + 27648 * f + 187392"
  define Q1 where "Q1 = 372736 * f ^ 8 - 1815720 * f ^ 6 + 668304 * f ^ 5 + 3763272 * f ^ 4 - 295749 * f ^ 3 - 1414738 * f ^ 2 + 39168 * f + 187392"
  define Q2 where "Q2 = 559104 * f ^ 8 - 2290420 * f ^ 6 + 1297296 * f ^ 5 + 5351328 * f ^ 4 - 525096 * f ^ 3 - 1889777 * f ^ 2 + 76032 * f + 281088"
  define Q3 where "Q3 = 23296 * f ^ 8 - 70940 * f ^ 6 + 66339 * f ^ 5 + 209052 * f ^ 4 - 22644 * f ^ 3 - 65603 * f ^ 2 + 3888 * f + 11712"
  define Q4 where "Q4 = 5824 * f ^ 8 - 10000 * f ^ 6 + 19656 * f ^ 5 + 49783 * f ^ 4 - 4896 * f ^ 3 - 12252 * f ^ 2 + 1152 * f + 2928"
  have q0: "0 \<le> Q0" unfolding Q0_def by (rule cert_R3_poly_a_19 [OF assms(3) assms(4)])
  have q1: "0 \<le> Q1" unfolding Q1_def by (rule cert_R3_poly_a_20 [OF assms(3) assms(4)])
  have q2: "0 \<le> Q2" unfolding Q2_def by (rule cert_R3_poly_a_21 [OF assms(3) assms(4)])
  have q3: "0 \<le> Q3" unfolding Q3_def by (rule cert_R3_poly_a_22 [OF assms(3) assms(4)])
  have q4: "0 \<le> Q4" unfolding Q4_def by (rule cert_R3_poly_a_23 [OF assms(3) assms(4)])
  have id: "40000 * (5824 * f ^ 8 + 99008 * f ^ 6 * z ^ 2 - 34752 * f ^ 6 + 39312 * f ^ 5 * z + 93184 * f ^ 4 * z ^ 4 - 78336 * f ^ 4 * z ^ 2 + 63543 * f ^ 4 + 39168 * f ^ 3 * z ^ 3 - 19584 * f ^ 3 * z + 53104 * f ^ 2 * z ^ 2 - 25528 * f ^ 2 + 2304 * f * z + 2928) =
      1 * (8 - 16 * z) ^ 4 * Q0 +
      4 * (16 * z - 3) * (8 - 16 * z) ^ 3 * Q1 +
      4 * (16 * z - 3) ^ 2 * (8 - 16 * z) ^ 2 * Q2 +
      64 * (16 * z - 3) ^ 3 * (8 - 16 * z) * Q3 +
      64 * (16 * z - 3) ^ 4 * Q4"
    unfolding Q0_def Q1_def Q2_def Q3_def Q4_def by algebra
  have "0 \<le> 40000 * (5824 * f ^ 8 + 99008 * f ^ 6 * z ^ 2 - 34752 * f ^ 6 + 39312 * f ^ 5 * z + 93184 * f ^ 4 * z ^ 4 - 78336 * f ^ 4 * z ^ 2 + 63543 * f ^ 4 + 39168 * f ^ 3 * z ^ 3 - 19584 * f ^ 3 * z + 53104 * f ^ 2 * z ^ 2 - 25528 * f ^ 2 + 2304 * f * z + 2928)"
    unfolding id
    using assms q0 q1 q2 q3 q4
    by (intro add_nonneg_nonneg mult_nonneg_nonneg zero_le_power) simp_all
  then show ?thesis by simp
qed

lemma cert_R3_poly_a_25:
  fixes f u z :: real
  assumes "1 / 4 \<le> u" "u \<le> 4" "3 / 16 \<le> z" "z \<le> 1 / 2" "11 / 8 \<le> f" "f \<le> 3 / 2"
  shows "0 \<le> 1600 * u ^ 3 * f ^ 4 + 1600 * u ^ 3 * f ^ 2 * z ^ 2 - 800 * u ^ 3 * f ^ 2 + 100 * u ^ 3 + 16384 * u ^ 2 * f ^ 6 * z ^ 2 - 5120 * u ^ 2 * f ^ 6 + 6912 * u ^ 2 * f ^ 5 * z + 16384 * u ^ 2 * f ^ 4 * z ^ 4 - 13312 * u ^ 2 * f ^ 4 * z ^ 2 + 4944 * u ^ 2 * f ^ 4 + 6912 * u ^ 2 * f ^ 3 * z ^ 3 - 3456 * u ^ 2 * f ^ 3 * z + 3408 * u ^ 2 * f ^ 2 * z ^ 2 - 1512 * u ^ 2 * f ^ 2 + 432 * u ^ 2 * f * z + 149 * u ^ 2 + 4096 * u * f ^ 8 + 8448 * u * f ^ 6 * z ^ 2 - 5376 * u * f ^ 6 + 1728 * u * f ^ 5 * z + 4352 * u * f ^ 4 * z ^ 4 - 5504 * u * f ^ 4 * z ^ 2 + 2244 * u * f ^ 4 + 1728 * u * f ^ 3 * z ^ 3 - 864 * u * f ^ 3 * z + 596 * u * f ^ 2 * z ^ 2 - 298 * u * f ^ 2 + 1088 * f ^ 8 + 1088 * f ^ 6 * z ^ 2 - 832 * f ^ 6 + 432 * f ^ 5 * z + 149 * f ^ 4"
proof -
  define Q0 where "Q0 = 5632 * f ^ 8 + 11264 * f ^ 6 * z ^ 2 - 6656 * f ^ 6 + 3456 * f ^ 5 * z + 5632 * f ^ 4 * z ^ 4 - 5888 * f ^ 4 * z ^ 2 + 2784 * f ^ 4 + 2304 * f ^ 3 * z ^ 3 - 1152 * f ^ 3 * z + 1032 * f ^ 2 * z ^ 2 - 484 * f ^ 2 + 72 * f * z + 29"
  define Q1 where "Q1 = 115712 * f ^ 8 + 400384 * f ^ 6 * z ^ 2 - 198656 * f ^ 6 + 124416 * f ^ 5 * z + 284672 * f ^ 4 * z ^ 4 - 278528 * f ^ 4 * z ^ 2 + 117024 * f ^ 4 + 117504 * f ^ 3 * z ^ 3 - 58752 * f ^ 3 * z + 58192 * f ^ 2 * z ^ 2 - 26984 * f ^ 2 + 4752 * f * z + 2039"
  define Q2 where "Q2 = 24704 * f ^ 8 + 245248 * f ^ 6 * z ^ 2 - 92672 * f ^ 6 + 93312 * f ^ 5 * z + 220544 * f ^ 4 * z ^ 4 - 190016 * f ^ 4 * z ^ 2 + 84768 * f ^ 4 + 92448 * f ^ 3 * z ^ 3 - 46224 * f ^ 3 * z + 56974 * f ^ 2 * z ^ 2 - 26183 * f ^ 2 + 5184 * f * z + 2588"
  define Q3 where "Q3 = 5824 * f ^ 8 + 99008 * f ^ 6 * z ^ 2 - 34752 * f ^ 6 + 39312 * f ^ 5 * z + 93184 * f ^ 4 * z ^ 4 - 78336 * f ^ 4 * z ^ 2 + 63543 * f ^ 4 + 39168 * f ^ 3 * z ^ 3 - 19584 * f ^ 3 * z + 53104 * f ^ 2 * z ^ 2 - 25528 * f ^ 2 + 2304 * f * z + 2928"
  have q0: "0 \<le> Q0" unfolding Q0_def by (rule cert_R3_poly_a_6 [OF assms(3) assms(4) assms(5) assms(6)])
  have q1: "0 \<le> Q1" unfolding Q1_def by (rule cert_R3_poly_a_12 [OF assms(3) assms(4) assms(5) assms(6)])
  have q2: "0 \<le> Q2" unfolding Q2_def by (rule cert_R3_poly_a_18 [OF assms(3) assms(4) assms(5) assms(6)])
  have q3: "0 \<le> Q3" unfolding Q3_def by (rule cert_R3_poly_a_24 [OF assms(3) assms(4) assms(5) assms(6)])
  have id: "54000 * (1600 * u ^ 3 * f ^ 4 + 1600 * u ^ 3 * f ^ 2 * z ^ 2 - 800 * u ^ 3 * f ^ 2 + 100 * u ^ 3 + 16384 * u ^ 2 * f ^ 6 * z ^ 2 - 5120 * u ^ 2 * f ^ 6 + 6912 * u ^ 2 * f ^ 5 * z + 16384 * u ^ 2 * f ^ 4 * z ^ 4 - 13312 * u ^ 2 * f ^ 4 * z ^ 2 + 4944 * u ^ 2 * f ^ 4 + 6912 * u ^ 2 * f ^ 3 * z ^ 3 - 3456 * u ^ 2 * f ^ 3 * z + 3408 * u ^ 2 * f ^ 2 * z ^ 2 - 1512 * u ^ 2 * f ^ 2 + 432 * u ^ 2 * f * z + 149 * u ^ 2 + 4096 * u * f ^ 8 + 8448 * u * f ^ 6 * z ^ 2 - 5376 * u * f ^ 6 + 1728 * u * f ^ 5 * z + 4352 * u * f ^ 4 * z ^ 4 - 5504 * u * f ^ 4 * z ^ 2 + 2244 * u * f ^ 4 + 1728 * u * f ^ 3 * z ^ 3 - 864 * u * f ^ 3 * z + 596 * u * f ^ 2 * z ^ 2 - 298 * u * f ^ 2 + 1088 * f ^ 8 + 1088 * f ^ 6 * z ^ 2 - 832 * f ^ 6 + 432 * f ^ 5 * z + 149 * f ^ 4) =
      6 * (16 - 4 * u) ^ 3 * Q0 +
      3 * (4 * u - 1) * (16 - 4 * u) ^ 2 * Q1 +
      24 * (4 * u - 1) ^ 2 * (16 - 4 * u) * Q2 +
      48 * (4 * u - 1) ^ 3 * Q3"
    unfolding Q0_def Q1_def Q2_def Q3_def by algebra
  have "0 \<le> 54000 * (1600 * u ^ 3 * f ^ 4 + 1600 * u ^ 3 * f ^ 2 * z ^ 2 - 800 * u ^ 3 * f ^ 2 + 100 * u ^ 3 + 16384 * u ^ 2 * f ^ 6 * z ^ 2 - 5120 * u ^ 2 * f ^ 6 + 6912 * u ^ 2 * f ^ 5 * z + 16384 * u ^ 2 * f ^ 4 * z ^ 4 - 13312 * u ^ 2 * f ^ 4 * z ^ 2 + 4944 * u ^ 2 * f ^ 4 + 6912 * u ^ 2 * f ^ 3 * z ^ 3 - 3456 * u ^ 2 * f ^ 3 * z + 3408 * u ^ 2 * f ^ 2 * z ^ 2 - 1512 * u ^ 2 * f ^ 2 + 432 * u ^ 2 * f * z + 149 * u ^ 2 + 4096 * u * f ^ 8 + 8448 * u * f ^ 6 * z ^ 2 - 5376 * u * f ^ 6 + 1728 * u * f ^ 5 * z + 4352 * u * f ^ 4 * z ^ 4 - 5504 * u * f ^ 4 * z ^ 2 + 2244 * u * f ^ 4 + 1728 * u * f ^ 3 * z ^ 3 - 864 * u * f ^ 3 * z + 596 * u * f ^ 2 * z ^ 2 - 298 * u * f ^ 2 + 1088 * f ^ 8 + 1088 * f ^ 6 * z ^ 2 - 832 * f ^ 6 + 432 * f ^ 5 * z + 149 * f ^ 4)"
    unfolding id
    using assms q0 q1 q2 q3
    by (intro add_nonneg_nonneg mult_nonneg_nonneg zero_le_power) simp_all
  then show ?thesis by simp
qed

lemma cert_R3_poly:
  fixes u f z :: real
  assumes "1 / 4 \<le> u" "u \<le> 4" "11 / 8 \<le> f" "f \<le> 3 / 2" "3 / 16 \<le> z" "z \<le> 1 / 2"
  shows "0 \<le> 1600 * u ^ 3 * f ^ 4 + 1600 * u ^ 3 * f ^ 2 * z ^ 2 - 800 * u ^ 3 * f ^ 2 + 100 * u ^ 3 + 16384 * u ^ 2 * f ^ 6 * z ^ 2 - 5120 * u ^ 2 * f ^ 6 + 6912 * u ^ 2 * f ^ 5 * z + 16384 * u ^ 2 * f ^ 4 * z ^ 4 - 13312 * u ^ 2 * f ^ 4 * z ^ 2 + 4944 * u ^ 2 * f ^ 4 + 6912 * u ^ 2 * f ^ 3 * z ^ 3 - 3456 * u ^ 2 * f ^ 3 * z + 3408 * u ^ 2 * f ^ 2 * z ^ 2 - 1512 * u ^ 2 * f ^ 2 + 432 * u ^ 2 * f * z + 149 * u ^ 2 + 4096 * u * f ^ 8 + 8448 * u * f ^ 6 * z ^ 2 - 5376 * u * f ^ 6 + 1728 * u * f ^ 5 * z + 4352 * u * f ^ 4 * z ^ 4 - 5504 * u * f ^ 4 * z ^ 2 + 2244 * u * f ^ 4 + 1728 * u * f ^ 3 * z ^ 3 - 864 * u * f ^ 3 * z + 596 * u * f ^ 2 * z ^ 2 - 298 * u * f ^ 2 + 1088 * f ^ 8 + 1088 * f ^ 6 * z ^ 2 - 832 * f ^ 6 + 432 * f ^ 5 * z + 149 * f ^ 4"
  by (rule cert_R3_poly_a_25 [OF assms(1) assms(2) assms(5) assms(6) assms(3) assms(4)])

lemma cert_R3:
  fixes u f z :: real
  assumes "1 / 4 \<le> u" "u \<le> 4" "11 / 8 \<le> f" "f \<le> 3 / 2" "3 / 16 \<le> z" "z \<le> 1 / 2"
  shows "ampN u f z * ampD (1 / 4) f z \<le> ampN (1 / 4) f z * ampD u f z"
proof -
  define Q where "Q = 1600 * u ^ 3 * f ^ 4 + 1600 * u ^ 3 * f ^ 2 * z ^ 2 - 800 * u ^ 3 * f ^ 2 + 100 * u ^ 3 + 16384 * u ^ 2 * f ^ 6 * z ^ 2 - 5120 * u ^ 2 * f ^ 6 + 6912 * u ^ 2 * f ^ 5 * z + 16384 * u ^ 2 * f ^ 4 * z ^ 4 - 13312 * u ^ 2 * f ^ 4 * z ^ 2 + 4944 * u ^ 2 * f ^ 4 + 6912 * u ^ 2 * f ^ 3 * z ^ 3 - 3456 * u ^ 2 * f ^ 3 * z + 3408 * u ^ 2 * f ^ 2 * z ^ 2 - 1512 * u ^ 2 * f ^ 2 + 432 * u ^ 2 * f * z + 149 * u ^ 2 + 4096 * u * f ^ 8 + 8448 * u * f ^ 6 * z ^ 2 - 5376 * u * f ^ 6 + 1728 * u * f ^ 5 * z + 4352 * u * f ^ 4 * z ^ 4 - 5504 * u * f ^ 4 * z ^ 2 + 2244 * u * f ^ 4 + 1728 * u * f ^ 3 * z ^ 3 - 864 * u * f ^ 3 * z + 596 * u * f ^ 2 * z ^ 2 - 298 * u * f ^ 2 + 1088 * f ^ 8 + 1088 * f ^ 6 * z ^ 2 - 832 * f ^ 6 + 432 * f ^ 5 * z + 149 * f ^ 4"
  have q: "0 \<le> Q" unfolding Q_def by (rule cert_R3_poly [OF assms])
  have id: "6400 * (ampN (1 / 4) f z * ampD u f z - ampN u f z * ampD (1 / 4) f z) = (4 * u - 1) * Q"
    unfolding Q_def ampN_def ampD_def by algebra
  have "0 \<le> (4 * u - 1) * Q"
    using assms(1) q by (intro mult_nonneg_nonneg) simp_all
  then have "0 \<le> 6400 * (ampN (1 / 4) f z * ampD u f z - ampN u f z * ampD (1 / 4) f z)" unfolding id .
  then show ?thesis by simp
qed

lemma cert_U5_poly_a_1:
  fixes f :: real
  assumes "1 / 2 \<le> f" "f \<le> 33 / 64"
  shows "0 \<le> - 8962048 * f ^ 4 + 3816925 * f ^ 2 + 7776 * f - 373504"
proof -
  have id: "4096 * (- 8962048 * f ^ 4 + 3816925 * f ^ 2 + 7776 * f - 373504) =
      100299776 * (33 - 64 * f) ^ 4 +
      359194432 * (64 * f - 32) * (33 - 64 * f) ^ 3 +
      466158493 * (64 * f - 32) ^ 2 * (33 - 64 * f) ^ 2 +
      255652730 * (64 * f - 32) ^ 3 * (33 - 64 * f) +
      48386705 * (64 * f - 32) ^ 4"
    by algebra
  have "0 \<le> 4096 * (- 8962048 * f ^ 4 + 3816925 * f ^ 2 + 7776 * f - 373504)"
    unfolding id
    using assms 
    by (intro add_nonneg_nonneg mult_nonneg_nonneg zero_le_power) simp_all
  then show ?thesis by simp
qed

lemma cert_U5_poly_a_2:
  fixes f :: real
  assumes "1 / 2 \<le> f" "f \<le> 33 / 64"
  shows "0 \<le> - 4481024 * f ^ 4 + 1901625 * f ^ 2 + 52488 * f - 186752"
proof -
  have id: "4096 * (- 4481024 * f ^ 4 + 1901625 * f ^ 2 + 52488 * f - 186752) =
      142681088 * (33 - 64 * f) ^ 4 +
      552394816 * (64 * f - 32) * (33 - 64 * f) ^ 3 +
      796278009 * (64 * f - 32) ^ 2 * (33 - 64 * f) ^ 2 +
      505955890 * (64 * f - 32) ^ 3 * (33 - 64 * f) +
      119390515 * (64 * f - 32) ^ 4"
    by algebra
  have "0 \<le> 4096 * (- 4481024 * f ^ 4 + 1901625 * f ^ 2 + 52488 * f - 186752)"
    unfolding id
    using assms 
    by (intro add_nonneg_nonneg mult_nonneg_nonneg zero_le_power) simp_all
  then show ?thesis by simp
qed

lemma cert_U5_poly_a_3:
  fixes f :: real
  assumes "1 / 2 \<le> f" "f \<le> 33 / 64"
  shows "0 \<le> - 2240512 * f ^ 4 + 861925 * f ^ 2 + 50544 * f - 93376"
proof -
  have id: "4096 * (- 2240512 * f ^ 4 + 861925 * f ^ 2 + 50544 * f - 93376) =
      30086144 * (33 - 64 * f) ^ 4 +
      107046208 * (64 * f - 32) * (33 - 64 * f) ^ 3 +
      138122917 * (64 * f - 32) ^ 2 * (33 - 64 * f) ^ 2 +
      75381770 * (64 * f - 32) ^ 3 * (33 - 64 * f) +
      14218370 * (64 * f - 32) ^ 4"
    by algebra
  have "0 \<le> 4096 * (- 2240512 * f ^ 4 + 861925 * f ^ 2 + 50544 * f - 93376)"
    unfolding id
    using assms 
    by (intro add_nonneg_nonneg mult_nonneg_nonneg zero_le_power) simp_all
  then show ?thesis by simp
qed

lemma cert_U5_poly_a_4:
  fixes f z :: real
  assumes "1 / 128 \<le> z" "z \<le> 13 / 64" "1 / 2 \<le> f" "f \<le> 33 / 64"
  shows "0 \<le> - 35008 * f ^ 4 - 35008 * f ^ 2 * z ^ 2 + 14912 * f ^ 2 + 3888 * f * z - 1459"
proof -
  define Q0 where "Q0 = - 8962048 * f ^ 4 + 3816925 * f ^ 2 + 7776 * f - 373504"
  define Q1 where "Q1 = - 4481024 * f ^ 4 + 1901625 * f ^ 2 + 52488 * f - 186752"
  define Q2 where "Q2 = - 2240512 * f ^ 4 + 861925 * f ^ 2 + 50544 * f - 93376"
  have q0: "0 \<le> Q0" unfolding Q0_def by (rule cert_U5_poly_a_1 [OF assms(3) assms(4)])
  have q1: "0 \<le> Q1" unfolding Q1_def by (rule cert_U5_poly_a_2 [OF assms(3) assms(4)])
  have q2: "0 \<le> Q2" unfolding Q2_def by (rule cert_U5_poly_a_3 [OF assms(3) assms(4)])
  have id: "160000 * (- 35008 * f ^ 4 - 35008 * f ^ 2 * z ^ 2 + 14912 * f ^ 2 + 3888 * f * z - 1459) =
      1 * (26 - 128 * z) ^ 2 * Q0 +
      4 * (128 * z - 1) * (26 - 128 * z) * Q1 +
      4 * (128 * z - 1) ^ 2 * Q2"
    unfolding Q0_def Q1_def Q2_def by algebra
  have "0 \<le> 160000 * (- 35008 * f ^ 4 - 35008 * f ^ 2 * z ^ 2 + 14912 * f ^ 2 + 3888 * f * z - 1459)"
    unfolding id
    using assms q0 q1 q2
    by (intro add_nonneg_nonneg mult_nonneg_nonneg zero_le_power) simp_all
  then show ?thesis by simp
qed

lemma cert_U5_poly_a_5:
  fixes f :: real
  assumes "1 / 2 \<le> f" "f \<le> 33 / 64"
  shows "0 \<le> - 35201024 * f ^ 4 + 39258005 * f ^ 2 + 237168 * f - 5583872"
proof -
  have id: "4096 * (- 35201024 * f ^ 4 + 39258005 * f ^ 2 + 237168 * f - 5583872) =
      8802915328 * (33 - 64 * f) ^ 4 +
      36612919616 * (64 * f - 32) * (33 - 64 * f) ^ 3 +
      57007723349 * (64 * f - 32) ^ 2 * (33 - 64 * f) ^ 2 +
      39387249130 * (64 * f - 32) ^ 3 * (33 - 64 * f) +
      10189521475 * (64 * f - 32) ^ 4"
    by algebra
  have "0 \<le> 4096 * (- 35201024 * f ^ 4 + 39258005 * f ^ 2 + 237168 * f - 5583872)"
    unfolding id
    using assms 
    by (intro add_nonneg_nonneg mult_nonneg_nonneg zero_le_power) simp_all
  then show ?thesis by simp
qed

lemma cert_U5_poly_a_6:
  fixes f :: real
  assumes "1 / 2 \<le> f" "f \<le> 33 / 64"
  shows "0 \<le> - 17600512 * f ^ 4 + 19550865 * f ^ 2 + 1600884 * f - 2791936"
proof -
  have id: "4096 * (- 17600512 * f ^ 4 + 19550865 * f ^ 2 + 1600884 * f - 2791936) =
      7357195264 * (33 - 64 * f) ^ 4 +
      30219276608 * (64 * f - 32) * (33 - 64 * f) ^ 3 +
      46507808337 * (64 * f - 32) ^ 2 * (33 - 64 * f) ^ 2 +
      31786017890 * (64 * f - 32) ^ 3 * (33 - 64 * f) +
      8140286600 * (64 * f - 32) ^ 4"
    by algebra
  have "0 \<le> 4096 * (- 17600512 * f ^ 4 + 19550865 * f ^ 2 + 1600884 * f - 2791936)"
    unfolding id
    using assms 
    by (intro add_nonneg_nonneg mult_nonneg_nonneg zero_le_power) simp_all
  then show ?thesis by simp
qed

lemma cert_U5_poly_a_7:
  fixes f :: real
  assumes "1 / 2 \<le> f" "f \<le> 33 / 64"
  shows "0 \<le> - 8800256 * f ^ 4 + 8759645 * f ^ 2 + 1541592 * f - 1395968"
proof -
  have id: "8192 * (- 8800256 * f ^ 4 + 8759645 * f ^ 2 + 1541592 * f - 1395968) =
      8312612864 * (33 - 64 * f) ^ 4 +
      34005793408 * (64 * f - 32) * (33 - 64 * f) ^ 3 +
      52132821562 * (64 * f - 32) ^ 2 * (33 - 64 * f) ^ 2 +
      35498164340 * (64 * f - 32) ^ 3 * (33 - 64 * f) +
      9058519025 * (64 * f - 32) ^ 4"
    by algebra
  have "0 \<le> 8192 * (- 8800256 * f ^ 4 + 8759645 * f ^ 2 + 1541592 * f - 1395968)"
    unfolding id
    using assms 
    by (intro add_nonneg_nonneg mult_nonneg_nonneg zero_le_power) simp_all
  then show ?thesis by simp
qed

lemma cert_U5_poly_a_8:
  fixes f z :: real
  assumes "1 / 128 \<le> z" "z \<le> 13 / 64" "1 / 2 \<le> f" "f \<le> 33 / 64"
  shows "0 \<le> - 34376 * f ^ 4 - 100016 * f ^ 2 * z ^ 2 + 38344 * f ^ 2 + 29646 * f * z - 5453"
proof -
  define Q0 where "Q0 = - 35201024 * f ^ 4 + 39258005 * f ^ 2 + 237168 * f - 5583872"
  define Q1 where "Q1 = - 17600512 * f ^ 4 + 19550865 * f ^ 2 + 1600884 * f - 2791936"
  define Q2 where "Q2 = - 8800256 * f ^ 4 + 8759645 * f ^ 2 + 1541592 * f - 1395968"
  have q0: "0 \<le> Q0" unfolding Q0_def by (rule cert_U5_poly_a_5 [OF assms(3) assms(4)])
  have q1: "0 \<le> Q1" unfolding Q1_def by (rule cert_U5_poly_a_6 [OF assms(3) assms(4)])
  have q2: "0 \<le> Q2" unfolding Q2_def by (rule cert_U5_poly_a_7 [OF assms(3) assms(4)])
  have id: "640000 * (- 34376 * f ^ 4 - 100016 * f ^ 2 * z ^ 2 + 38344 * f ^ 2 + 29646 * f * z - 5453) =
      1 * (26 - 128 * z) ^ 2 * Q0 +
      4 * (128 * z - 1) * (26 - 128 * z) * Q1 +
      4 * (128 * z - 1) ^ 2 * Q2"
    unfolding Q0_def Q1_def Q2_def by algebra
  have "0 \<le> 640000 * (- 34376 * f ^ 4 - 100016 * f ^ 2 * z ^ 2 + 38344 * f ^ 2 + 29646 * f * z - 5453)"
    unfolding id
    using assms q0 q1 q2
    by (intro add_nonneg_nonneg mult_nonneg_nonneg zero_le_power) simp_all
  then show ?thesis by simp
qed

lemma cert_U5_poly_a_9:
  fixes f :: real
  assumes "1 / 2 \<le> f" "f \<le> 33 / 64"
  shows "0 \<le> 182124544 * f ^ 4 - 62406085 * f ^ 2 + 3398112 * f + 3722752"
proof -
  have id: "4096 * (182124544 * f ^ 4 - 62406085 * f ^ 2 + 3398112 * f + 3722752) =
      4927777792 * (33 - 64 * f) ^ 4 +
      21762586304 * (64 * f - 32) * (33 - 64 * f) ^ 3 +
      35931872891 * (64 * f - 32) ^ 2 * (33 - 64 * f) ^ 2 +
      26292789430 * (64 * f - 32) ^ 3 * (33 - 64 * f) +
      7195769515 * (64 * f - 32) ^ 4"
    by algebra
  have "0 \<le> 4096 * (182124544 * f ^ 4 - 62406085 * f ^ 2 + 3398112 * f + 3722752)"
    unfolding id
    using assms 
    by (intro add_nonneg_nonneg mult_nonneg_nonneg zero_le_power) simp_all
  then show ?thesis by simp
qed

lemma cert_U5_poly_a_10:
  fixes f :: real
  assumes "1 / 2 \<le> f" "f \<le> 33 / 64"
  shows "0 \<le> 91062272 * f ^ 4 - 31195905 * f ^ 2 + 22937256 * f + 1861376"
proof -
  have id: "4096 * (91062272 * f ^ 4 - 31195905 * f ^ 2 + 22937256 * f + 1861376) =
      45967031296 * (33 - 64 * f) ^ 4 +
      186253564352 * (64 * f - 32) * (33 - 64 * f) ^ 3 +
      283063902783 * (64 * f - 32) ^ 2 * (33 - 64 * f) ^ 2 +
      191238083390 * (64 * f - 32) ^ 3 * (33 - 64 * f) +
      48460735895 * (64 * f - 32) ^ 4"
    by algebra
  have "0 \<le> 4096 * (91062272 * f ^ 4 - 31195905 * f ^ 2 + 22937256 * f + 1861376)"
    unfolding id
    using assms 
    by (intro add_nonneg_nonneg mult_nonneg_nonneg zero_le_power) simp_all
  then show ?thesis by simp
qed

lemma cert_U5_poly_a_11:
  fixes f :: real
  assumes "1 / 2 \<le> f" "f \<le> 33 / 64"
  shows "0 \<le> 45531136 * f ^ 4 - 15505165 * f ^ 2 + 22087728 * f + 930688"
proof -
  have id: "4096 * (45531136 * f ^ 4 - 15505165 * f ^ 2 + 22087728 * f + 930688) =
      44826446848 * (33 - 64 * f) ^ 4 +
      181184067776 * (64 * f - 32) * (33 - 64 * f) ^ 3 +
      274646313779 * (64 * f - 32) ^ 2 * (33 - 64 * f) ^ 2 +
      185047634470 * (64 * f - 32) ^ 3 * (33 - 64 * f) +
      46758952735 * (64 * f - 32) ^ 4"
    by algebra
  have "0 \<le> 4096 * (45531136 * f ^ 4 - 15505165 * f ^ 2 + 22087728 * f + 930688)"
    unfolding id
    using assms 
    by (intro add_nonneg_nonneg mult_nonneg_nonneg zero_le_power) simp_all
  then show ?thesis by simp
qed

lemma cert_U5_poly_a_12:
  fixes f z :: real
  assumes "1 / 128 \<le> z" "z \<le> 13 / 64" "1 / 2 \<le> f" "f \<le> 33 / 64"
  shows "0 \<le> 355712 * f ^ 4 + 18272 * f ^ 2 * z ^ 2 - 121888 * f ^ 2 + 849528 * f * z + 7271"
proof -
  define Q0 where "Q0 = 182124544 * f ^ 4 - 62406085 * f ^ 2 + 3398112 * f + 3722752"
  define Q1 where "Q1 = 91062272 * f ^ 4 - 31195905 * f ^ 2 + 22937256 * f + 1861376"
  define Q2 where "Q2 = 45531136 * f ^ 4 - 15505165 * f ^ 2 + 22087728 * f + 930688"
  have q0: "0 \<le> Q0" unfolding Q0_def by (rule cert_U5_poly_a_9 [OF assms(3) assms(4)])
  have q1: "0 \<le> Q1" unfolding Q1_def by (rule cert_U5_poly_a_10 [OF assms(3) assms(4)])
  have q2: "0 \<le> Q2" unfolding Q2_def by (rule cert_U5_poly_a_11 [OF assms(3) assms(4)])
  have id: "320000 * (355712 * f ^ 4 + 18272 * f ^ 2 * z ^ 2 - 121888 * f ^ 2 + 849528 * f * z + 7271) =
      1 * (26 - 128 * z) ^ 2 * Q0 +
      4 * (128 * z - 1) * (26 - 128 * z) * Q1 +
      4 * (128 * z - 1) ^ 2 * Q2"
    unfolding Q0_def Q1_def Q2_def by algebra
  have "0 \<le> 320000 * (355712 * f ^ 4 + 18272 * f ^ 2 * z ^ 2 - 121888 * f ^ 2 + 849528 * f * z + 7271)"
    unfolding id
    using assms q0 q1 q2
    by (intro add_nonneg_nonneg mult_nonneg_nonneg zero_le_power) simp_all
  then show ?thesis by simp
qed

lemma cert_U5_poly_a_13:
  fixes f :: real
  assumes "1 / 2 \<le> f" "f \<le> 33 / 64"
  shows "0 \<le> 682000384 * f ^ 4 - 847151965 * f ^ 2 + 10877652 * f + 283950592"
proof -
  have id: "4096 * (682000384 * f ^ 4 - 847151965 * f ^ 2 + 10877652 * f + 283950592) =
      492447542272 * (33 - 64 * f) ^ 4 +
      1938092625344 * (64 * f - 32) * (33 - 64 * f) ^ 3 +
      2859768471011 * (64 * f - 32) ^ 2 * (33 - 64 * f) ^ 2 +
      1875070547590 * (64 * f - 32) ^ 3 * (33 - 64 * f) +
      460947326155 * (64 * f - 32) ^ 4"
    by algebra
  have "0 \<le> 4096 * (682000384 * f ^ 4 - 847151965 * f ^ 2 + 10877652 * f + 283950592)"
    unfolding id
    using assms 
    by (intro add_nonneg_nonneg mult_nonneg_nonneg zero_le_power) simp_all
  then show ?thesis by simp
qed

lemma cert_U5_poly_a_14:
  fixes f :: real
  assumes "1 / 2 \<le> f" "f \<le> 33 / 64"
  shows "0 \<le> 341000192 * f ^ 4 - 422076345 * f ^ 2 + 73424151 * f + 141975296"
proof -
  have id: "4096 * (341000192 * f ^ 4 - 422076345 * f ^ 2 + 73424151 * f + 141975296) =
      386993345536 * (33 - 64 * f) ^ 4 +
      1536571647872 * (64 * f - 32) * (33 - 64 * f) ^ 3 +
      2287844294343 * (64 * f - 32) ^ 2 * (33 - 64 * f) ^ 2 +
      1513957683470 * (64 * f - 32) ^ 3 * (33 - 64 * f) +
      375691774715 * (64 * f - 32) ^ 4"
    by algebra
  have "0 \<le> 4096 * (341000192 * f ^ 4 - 422076345 * f ^ 2 + 73424151 * f + 141975296)"
    unfolding id
    using assms 
    by (intro add_nonneg_nonneg mult_nonneg_nonneg zero_le_power) simp_all
  then show ?thesis by simp
qed

lemma cert_U5_poly_a_15:
  fixes f :: real
  assumes "1 / 2 \<le> f" "f \<le> 33 / 64"
  shows "0 \<le> 170500096 * f ^ 4 - 191542885 * f ^ 2 + 70704738 * f + 70987648"
proof -
  have id: "4096 * (170500096 * f ^ 4 - 191542885 * f ^ 2 + 70704738 * f + 70987648) =
      283076819968 * (33 - 64 * f) ^ 4 +
      1130029641536 * (64 * f - 32) * (33 - 64 * f) ^ 3 +
      1691692212059 * (64 * f - 32) ^ 2 * (33 - 64 * f) ^ 2 +
      1125608107510 * (64 * f - 32) ^ 3 * (33 - 64 * f) +
      280868758645 * (64 * f - 32) ^ 4"
    by algebra
  have "0 \<le> 4096 * (170500096 * f ^ 4 - 191542885 * f ^ 2 + 70704738 * f + 70987648)"
    unfolding id
    using assms 
    by (intro add_nonneg_nonneg mult_nonneg_nonneg zero_le_power) simp_all
  then show ?thesis by simp
qed

lemma cert_U5_poly_a_16:
  fixes f z :: real
  assumes "1 / 128 \<le> z" "z \<le> 13 / 64" "1 / 2 \<le> f" "f \<le> 33 / 64"
  shows "0 \<le> 1332032 * f ^ 4 + 3839072 * f ^ 2 * z ^ 2 - 1654828 * f ^ 2 + 2719413 * f * z + 554591"
proof -
  define Q0 where "Q0 = 682000384 * f ^ 4 - 847151965 * f ^ 2 + 10877652 * f + 283950592"
  define Q1 where "Q1 = 341000192 * f ^ 4 - 422076345 * f ^ 2 + 73424151 * f + 141975296"
  define Q2 where "Q2 = 170500096 * f ^ 4 - 191542885 * f ^ 2 + 70704738 * f + 70987648"
  have q0: "0 \<le> Q0" unfolding Q0_def by (rule cert_U5_poly_a_13 [OF assms(3) assms(4)])
  have q1: "0 \<le> Q1" unfolding Q1_def by (rule cert_U5_poly_a_14 [OF assms(3) assms(4)])
  have q2: "0 \<le> Q2" unfolding Q2_def by (rule cert_U5_poly_a_15 [OF assms(3) assms(4)])
  have id: "320000 * (1332032 * f ^ 4 + 3839072 * f ^ 2 * z ^ 2 - 1654828 * f ^ 2 + 2719413 * f * z + 554591) =
      1 * (26 - 128 * z) ^ 2 * Q0 +
      4 * (128 * z - 1) * (26 - 128 * z) * Q1 +
      4 * (128 * z - 1) ^ 2 * Q2"
    unfolding Q0_def Q1_def Q2_def by algebra
  have "0 \<le> 320000 * (1332032 * f ^ 4 + 3839072 * f ^ 2 * z ^ 2 - 1654828 * f ^ 2 + 2719413 * f * z + 554591)"
    unfolding id
    using assms q0 q1 q2
    by (intro add_nonneg_nonneg mult_nonneg_nonneg zero_le_power) simp_all
  then show ?thesis by simp
qed

lemma cert_U5_poly_a_17:
  fixes f :: real
  assumes "1 / 2 \<le> f" "f \<le> 33 / 64"
  shows "0 \<le> 679411712 * f ^ 4 - 1254092435 * f ^ 2 + 13333896 * f + 700288016"
proof -
  have id: "4096 * (679411712 * f ^ 4 - 1254092435 * f ^ 2 + 13333896 * f + 700288016) =
      1785426277376 * (33 - 64 * f) ^ 4 +
      7084037737792 * (64 * f - 32) * (33 - 64 * f) ^ 3 +
      10539320574253 * (64 * f - 32) ^ 2 * (33 - 64 * f) ^ 2 +
      6968254276250 * (64 * f - 32) ^ 3 * (33 - 64 * f) +
      1727545328285 * (64 * f - 32) ^ 4"
    by algebra
  have "0 \<le> 4096 * (679411712 * f ^ 4 - 1254092435 * f ^ 2 + 13333896 * f + 700288016)"
    unfolding id
    using assms 
    by (intro add_nonneg_nonneg mult_nonneg_nonneg zero_le_power) simp_all
  then show ?thesis by simp
qed

lemma cert_U5_poly_a_18:
  fixes f :: real
  assumes "1 / 2 \<le> f" "f \<le> 33 / 64"
  shows "0 \<le> 339705856 * f ^ 4 - 624584055 * f ^ 2 + 90003798 * f + 350144008"
proof -
  have id: "4096 * (339705856 * f ^ 4 - 624584055 * f ^ 2 + 90003798 * f + 350144008) =
      1065908261888 * (33 - 64 * f) ^ 4 +
      4240290498496 * (64 * f - 32) * (33 - 64 * f) ^ 3 +
      6325306898889 * (64 * f - 32) ^ 2 * (33 - 64 * f) ^ 2 +
      4193385965650 * (64 * f - 32) ^ 3 * (33 - 64 * f) +
      1042461386305 * (64 * f - 32) ^ 4"
    by algebra
  have "0 \<le> 4096 * (339705856 * f ^ 4 - 624584055 * f ^ 2 + 90003798 * f + 350144008)"
    unfolding id
    using assms 
    by (intro add_nonneg_nonneg mult_nonneg_nonneg zero_le_power) simp_all
  then show ?thesis by simp
qed

lemma cert_U5_poly_a_19:
  fixes f :: real
  assumes "1 / 2 \<le> f" "f \<le> 33 / 64"
  shows "0 \<le> 169852928 * f ^ 4 - 280283915 * f ^ 2 + 86670324 * f + 175072004"
proof -
  have id: "4096 * (169852928 * f ^ 4 - 280283915 * f ^ 2 + 86670324 * f + 175072004) =
      651067372544 * (33 - 64 * f) ^ 4 +
      2597313514048 * (64 * f - 32) * (33 - 64 * f) ^ 3 +
      3885510802357 * (64 * f - 32) ^ 2 * (33 - 64 * f) ^ 2 +
      2583355860650 * (64 * f - 32) ^ 3 * (33 - 64 * f) +
      644091241265 * (64 * f - 32) ^ 4"
    by algebra
  have "0 \<le> 4096 * (169852928 * f ^ 4 - 280283915 * f ^ 2 + 86670324 * f + 175072004)"
    unfolding id
    using assms 
    by (intro add_nonneg_nonneg mult_nonneg_nonneg zero_le_power) simp_all
  then show ?thesis by simp
qed

lemma cert_U5_poly_a_20:
  fixes f z :: real
  assumes "1 / 128 \<le> z" "z \<le> 13 / 64" "1 / 2 \<le> f" "f \<le> 33 / 64"
  shows "0 \<le> 42463232 * f ^ 4 + 201700352 * f ^ 2 * z ^ 2 - 78393088 * f ^ 2 + 106671168 * f * z + 43768001"
proof -
  define Q0 where "Q0 = 679411712 * f ^ 4 - 1254092435 * f ^ 2 + 13333896 * f + 700288016"
  define Q1 where "Q1 = 339705856 * f ^ 4 - 624584055 * f ^ 2 + 90003798 * f + 350144008"
  define Q2 where "Q2 = 169852928 * f ^ 4 - 280283915 * f ^ 2 + 86670324 * f + 175072004"
  have q0: "0 \<le> Q0" unfolding Q0_def by (rule cert_U5_poly_a_17 [OF assms(3) assms(4)])
  have q1: "0 \<le> Q1" unfolding Q1_def by (rule cert_U5_poly_a_18 [OF assms(3) assms(4)])
  have q2: "0 \<le> Q2" unfolding Q2_def by (rule cert_U5_poly_a_19 [OF assms(3) assms(4)])
  have id: "10000 * (42463232 * f ^ 4 + 201700352 * f ^ 2 * z ^ 2 - 78393088 * f ^ 2 + 106671168 * f * z + 43768001) =
      1 * (26 - 128 * z) ^ 2 * Q0 +
      4 * (128 * z - 1) * (26 - 128 * z) * Q1 +
      4 * (128 * z - 1) ^ 2 * Q2"
    unfolding Q0_def Q1_def Q2_def by algebra
  have "0 \<le> 10000 * (42463232 * f ^ 4 + 201700352 * f ^ 2 * z ^ 2 - 78393088 * f ^ 2 + 106671168 * f * z + 43768001)"
    unfolding id
    using assms q0 q1 q2
    by (intro add_nonneg_nonneg mult_nonneg_nonneg zero_le_power) simp_all
  then show ?thesis by simp
qed

lemma cert_U5_poly_a_21:
  fixes f u z :: real
  assumes "1 / 4 \<le> u" "u \<le> 19 / 16" "1 / 128 \<le> z" "z \<le> 13 / 64" "1 / 2 \<le> f" "f \<le> 33 / 64"
  shows "0 \<le> 225 * u ^ 4 + 2304 * u ^ 3 * f ^ 2 * z ^ 2 - 720 * u ^ 3 * f ^ 2 + 972 * u ^ 3 * f * z + 279 * u ^ 3 + 576 * u ^ 2 * f ^ 4 + 36 * u ^ 2 * f ^ 2 * z ^ 2 - 288 * u ^ 2 * f ^ 2 - 175 * u ^ 2 + 9 * u * f ^ 4 - 700 * u * f ^ 2 * z ^ 2 + 350 * u * f ^ 2 - 175 * f ^ 4"
proof -
  define Q0 where "Q0 = - 35008 * f ^ 4 - 35008 * f ^ 2 * z ^ 2 + 14912 * f ^ 2 + 3888 * f * z - 1459"
  define Q1 where "Q1 = - 34376 * f ^ 4 - 100016 * f ^ 2 * z ^ 2 + 38344 * f ^ 2 + 29646 * f * z - 5453"
  define Q2 where "Q2 = 355712 * f ^ 4 + 18272 * f ^ 2 * z ^ 2 - 121888 * f ^ 2 + 849528 * f * z + 7271"
  define Q3 where "Q3 = 1332032 * f ^ 4 + 3839072 * f ^ 2 * z ^ 2 - 1654828 * f ^ 2 + 2719413 * f * z + 554591"
  define Q4 where "Q4 = 42463232 * f ^ 4 + 201700352 * f ^ 2 * z ^ 2 - 78393088 * f ^ 2 + 106671168 * f * z + 43768001"
  have q0: "0 \<le> Q0" unfolding Q0_def by (rule cert_U5_poly_a_4 [OF assms(3) assms(4) assms(5) assms(6)])
  have q1: "0 \<le> Q1" unfolding Q1_def by (rule cert_U5_poly_a_8 [OF assms(3) assms(4) assms(5) assms(6)])
  have q2: "0 \<le> Q2" unfolding Q2_def by (rule cert_U5_poly_a_12 [OF assms(3) assms(4) assms(5) assms(6)])
  have q3: "0 \<le> Q3" unfolding Q3_def by (rule cert_U5_poly_a_16 [OF assms(3) assms(4) assms(5) assms(6)])
  have q4: "0 \<le> Q4" unfolding Q4_def by (rule cert_U5_poly_a_20 [OF assms(3) assms(4) assms(5) assms(6)])
  have id: "3317760000 * (225 * u ^ 4 + 2304 * u ^ 3 * f ^ 2 * z ^ 2 - 720 * u ^ 3 * f ^ 2 + 972 * u ^ 3 * f * z + 279 * u ^ 3 + 576 * u ^ 2 * f ^ 4 + 36 * u ^ 2 * f ^ 2 * z ^ 2 - 288 * u ^ 2 * f ^ 2 - 175 * u ^ 2 + 9 * u * f ^ 4 - 700 * u * f ^ 2 * z ^ 2 + 350 * u * f ^ 2 - 175 * f ^ 4) =
      256 * (19 - 16 * u) ^ 4 * Q0 +
      512 * (16 * u - 4) * (19 - 16 * u) ^ 3 * Q1 +
      96 * (16 * u - 4) ^ 2 * (19 - 16 * u) ^ 2 * Q2 +
      64 * (16 * u - 4) ^ 3 * (19 - 16 * u) * Q3 +
      1 * (16 * u - 4) ^ 4 * Q4"
    unfolding Q0_def Q1_def Q2_def Q3_def Q4_def by algebra
  have "0 \<le> 3317760000 * (225 * u ^ 4 + 2304 * u ^ 3 * f ^ 2 * z ^ 2 - 720 * u ^ 3 * f ^ 2 + 972 * u ^ 3 * f * z + 279 * u ^ 3 + 576 * u ^ 2 * f ^ 4 + 36 * u ^ 2 * f ^ 2 * z ^ 2 - 288 * u ^ 2 * f ^ 2 - 175 * u ^ 2 + 9 * u * f ^ 4 - 700 * u * f ^ 2 * z ^ 2 + 350 * u * f ^ 2 - 175 * f ^ 4)"
    unfolding id
    using assms q0 q1 q2 q3 q4
    by (intro add_nonneg_nonneg mult_nonneg_nonneg zero_le_power) simp_all
  then show ?thesis by simp
qed

lemma cert_U5_poly_b_1:
  fixes f :: real
  assumes "1 / 2 \<le> f" "f \<le> 33 / 64"
  shows "0 \<le> 679411712 * f ^ 4 - 1254092435 * f ^ 2 + 13333896 * f + 700288016"
proof -
  have id: "4096 * (679411712 * f ^ 4 - 1254092435 * f ^ 2 + 13333896 * f + 700288016) =
      1785426277376 * (33 - 64 * f) ^ 4 +
      7084037737792 * (64 * f - 32) * (33 - 64 * f) ^ 3 +
      10539320574253 * (64 * f - 32) ^ 2 * (33 - 64 * f) ^ 2 +
      6968254276250 * (64 * f - 32) ^ 3 * (33 - 64 * f) +
      1727545328285 * (64 * f - 32) ^ 4"
    by algebra
  have "0 \<le> 4096 * (679411712 * f ^ 4 - 1254092435 * f ^ 2 + 13333896 * f + 700288016)"
    unfolding id
    using assms 
    by (intro add_nonneg_nonneg mult_nonneg_nonneg zero_le_power) simp_all
  then show ?thesis by simp
qed

lemma cert_U5_poly_b_2:
  fixes f :: real
  assumes "1 / 2 \<le> f" "f \<le> 33 / 64"
  shows "0 \<le> 339705856 * f ^ 4 - 624584055 * f ^ 2 + 90003798 * f + 350144008"
proof -
  have id: "4096 * (339705856 * f ^ 4 - 624584055 * f ^ 2 + 90003798 * f + 350144008) =
      1065908261888 * (33 - 64 * f) ^ 4 +
      4240290498496 * (64 * f - 32) * (33 - 64 * f) ^ 3 +
      6325306898889 * (64 * f - 32) ^ 2 * (33 - 64 * f) ^ 2 +
      4193385965650 * (64 * f - 32) ^ 3 * (33 - 64 * f) +
      1042461386305 * (64 * f - 32) ^ 4"
    by algebra
  have "0 \<le> 4096 * (339705856 * f ^ 4 - 624584055 * f ^ 2 + 90003798 * f + 350144008)"
    unfolding id
    using assms 
    by (intro add_nonneg_nonneg mult_nonneg_nonneg zero_le_power) simp_all
  then show ?thesis by simp
qed

lemma cert_U5_poly_b_3:
  fixes f :: real
  assumes "1 / 2 \<le> f" "f \<le> 33 / 64"
  shows "0 \<le> 169852928 * f ^ 4 - 280283915 * f ^ 2 + 86670324 * f + 175072004"
proof -
  have id: "4096 * (169852928 * f ^ 4 - 280283915 * f ^ 2 + 86670324 * f + 175072004) =
      651067372544 * (33 - 64 * f) ^ 4 +
      2597313514048 * (64 * f - 32) * (33 - 64 * f) ^ 3 +
      3885510802357 * (64 * f - 32) ^ 2 * (33 - 64 * f) ^ 2 +
      2583355860650 * (64 * f - 32) ^ 3 * (33 - 64 * f) +
      644091241265 * (64 * f - 32) ^ 4"
    by algebra
  have "0 \<le> 4096 * (169852928 * f ^ 4 - 280283915 * f ^ 2 + 86670324 * f + 175072004)"
    unfolding id
    using assms 
    by (intro add_nonneg_nonneg mult_nonneg_nonneg zero_le_power) simp_all
  then show ?thesis by simp
qed

lemma cert_U5_poly_b_4:
  fixes f z :: real
  assumes "1 / 128 \<le> z" "z \<le> 13 / 64" "1 / 2 \<le> f" "f \<le> 33 / 64"
  shows "0 \<le> 42463232 * f ^ 4 + 201700352 * f ^ 2 * z ^ 2 - 78393088 * f ^ 2 + 106671168 * f * z + 43768001"
proof -
  define Q0 where "Q0 = 679411712 * f ^ 4 - 1254092435 * f ^ 2 + 13333896 * f + 700288016"
  define Q1 where "Q1 = 339705856 * f ^ 4 - 624584055 * f ^ 2 + 90003798 * f + 350144008"
  define Q2 where "Q2 = 169852928 * f ^ 4 - 280283915 * f ^ 2 + 86670324 * f + 175072004"
  have q0: "0 \<le> Q0" unfolding Q0_def by (rule cert_U5_poly_b_1 [OF assms(3) assms(4)])
  have q1: "0 \<le> Q1" unfolding Q1_def by (rule cert_U5_poly_b_2 [OF assms(3) assms(4)])
  have q2: "0 \<le> Q2" unfolding Q2_def by (rule cert_U5_poly_b_3 [OF assms(3) assms(4)])
  have id: "10000 * (42463232 * f ^ 4 + 201700352 * f ^ 2 * z ^ 2 - 78393088 * f ^ 2 + 106671168 * f * z + 43768001) =
      1 * (26 - 128 * z) ^ 2 * Q0 +
      4 * (128 * z - 1) * (26 - 128 * z) * Q1 +
      4 * (128 * z - 1) ^ 2 * Q2"
    unfolding Q0_def Q1_def Q2_def by algebra
  have "0 \<le> 10000 * (42463232 * f ^ 4 + 201700352 * f ^ 2 * z ^ 2 - 78393088 * f ^ 2 + 106671168 * f * z + 43768001)"
    unfolding id
    using assms q0 q1 q2
    by (intro add_nonneg_nonneg mult_nonneg_nonneg zero_le_power) simp_all
  then show ?thesis by simp
qed

lemma cert_U5_poly_b_5:
  fixes f :: real
  assumes "1 / 2 \<le> f" "f \<le> 33 / 64"
  shows "0 \<le> 2035646464 * f ^ 4 - 4169217775 * f ^ 2 + 42457932 * f + 2517201472"
proof -
  have id: "4096 * (2035646464 * f ^ 4 - 4169217775 * f ^ 2 + 42457932 * f + 2517201472) =
      6649257567232 * (33 - 64 * f) ^ 4 +
      26398058325824 * (64 * f - 32) * (33 - 64 * f) ^ 3 +
      39297513826001 * (64 * f - 32) ^ 2 * (33 - 64 * f) ^ 2 +
      25997946557410 * (64 * f - 32) ^ 3 * (33 - 64 * f) +
      6449233986985 * (64 * f - 32) ^ 4"
    by algebra
  have "0 \<le> 4096 * (2035646464 * f ^ 4 - 4169217775 * f ^ 2 + 42457932 * f + 2517201472)"
    unfolding id
    using assms 
    by (intro add_nonneg_nonneg mult_nonneg_nonneg zero_le_power) simp_all
  then show ?thesis by simp
qed

lemma cert_U5_poly_b_6:
  fixes f :: real
  assumes "1 / 2 \<le> f" "f \<le> 33 / 64"
  shows "0 \<le> 1017823232 * f ^ 4 - 2076259875 * f ^ 2 + 286591041 * f + 1258600736"
proof -
  have id: "4096 * (1017823232 * f ^ 4 - 2076259875 * f ^ 2 + 286591041 * f + 1258600736) =
      3876639702016 * (33 - 64 * f) ^ 4 +
      15424590346112 * (64 * f - 32) * (33 - 64 * f) ^ 3 +
      23013383301213 * (64 * f - 32) ^ 2 * (33 - 64 * f) ^ 2 +
      15259586179130 * (64 * f - 32) ^ 3 * (33 - 64 * f) +
      3794153770505 * (64 * f - 32) ^ 4"
    by algebra
  have "0 \<le> 4096 * (1017823232 * f ^ 4 - 2076259875 * f ^ 2 + 286591041 * f + 1258600736)"
    unfolding id
    using assms 
    by (intro add_nonneg_nonneg mult_nonneg_nonneg zero_le_power) simp_all
  then show ?thesis by simp
qed

lemma cert_U5_poly_b_7:
  fixes f :: real
  assumes "1 / 2 \<le> f" "f \<le> 33 / 64"
  shows "0 \<le> 508911616 * f ^ 4 - 929592775 * f ^ 2 + 275976558 * f + 629300368"
proof -
  have id: "4096 * (508911616 * f ^ 4 - 929592775 * f ^ 2 + 275976558 * f + 629300368) =
      2321192670208 * (33 - 64 * f) ^ 4 +
      9259224414656 * (64 * f - 32) * (33 - 64 * f) ^ 3 +
      13850350997369 * (64 * f - 32) ^ 2 * (33 - 64 * f) ^ 2 +
      9207815335090 * (64 * f - 32) ^ 3 * (33 - 64 * f) +
      2295496206415 * (64 * f - 32) ^ 4"
    by algebra
  have "0 \<le> 4096 * (508911616 * f ^ 4 - 929592775 * f ^ 2 + 275976558 * f + 629300368)"
    unfolding id
    using assms 
    by (intro add_nonneg_nonneg mult_nonneg_nonneg zero_le_power) simp_all
  then show ?thesis by simp
qed

lemma cert_U5_poly_b_8:
  fixes f z :: real
  assumes "1 / 128 \<le> z" "z \<le> 13 / 64" "1 / 2 \<le> f" "f \<le> 33 / 64"
  shows "0 \<le> 31806976 * f ^ 4 + 170987776 * f ^ 2 * z ^ 2 - 65154464 * f ^ 2 + 84915864 * f * z + 39331273"
proof -
  define Q0 where "Q0 = 2035646464 * f ^ 4 - 4169217775 * f ^ 2 + 42457932 * f + 2517201472"
  define Q1 where "Q1 = 1017823232 * f ^ 4 - 2076259875 * f ^ 2 + 286591041 * f + 1258600736"
  define Q2 where "Q2 = 508911616 * f ^ 4 - 929592775 * f ^ 2 + 275976558 * f + 629300368"
  have q0: "0 \<le> Q0" unfolding Q0_def by (rule cert_U5_poly_b_5 [OF assms(3) assms(4)])
  have q1: "0 \<le> Q1" unfolding Q1_def by (rule cert_U5_poly_b_6 [OF assms(3) assms(4)])
  have q2: "0 \<le> Q2" unfolding Q2_def by (rule cert_U5_poly_b_7 [OF assms(3) assms(4)])
  have id: "40000 * (31806976 * f ^ 4 + 170987776 * f ^ 2 * z ^ 2 - 65154464 * f ^ 2 + 84915864 * f * z + 39331273) =
      1 * (26 - 128 * z) ^ 2 * Q0 +
      4 * (128 * z - 1) * (26 - 128 * z) * Q1 +
      4 * (128 * z - 1) ^ 2 * Q2"
    unfolding Q0_def Q1_def Q2_def by algebra
  have "0 \<le> 40000 * (31806976 * f ^ 4 + 170987776 * f ^ 2 * z ^ 2 - 65154464 * f ^ 2 + 84915864 * f * z + 39331273)"
    unfolding id
    using assms q0 q1 q2
    by (intro add_nonneg_nonneg mult_nonneg_nonneg zero_le_power) simp_all
  then show ?thesis by simp
qed

lemma cert_U5_poly_b_9:
  fixes f :: real
  assumes "1 / 2 \<le> f" "f \<le> 33 / 64"
  shows "0 \<le> 2889416704 * f ^ 4 - 6706537705 * f ^ 2 + 66558672 * f + 4470224512"
proof -
  have id: "4096 * (2889416704 * f ^ 4 - 6706537705 * f ^ 2 + 66558672 * f + 4470224512) =
      12318547827712 * (33 - 64 * f) ^ 4 +
      48941693987264 * (64 * f - 32) * (33 - 64 * f) ^ 3 +
      72911422582871 * (64 * f - 32) ^ 2 * (33 - 64 * f) ^ 2 +
      48272044809070 * (64 * f - 32) ^ 3 * (33 - 64 * f) +
      11983769091175 * (64 * f - 32) ^ 4"
    by algebra
  have "0 \<le> 4096 * (2889416704 * f ^ 4 - 6706537705 * f ^ 2 + 66558672 * f + 4470224512)"
    unfolding id
    using assms 
    by (intro add_nonneg_nonneg mult_nonneg_nonneg zero_le_power) simp_all
  then show ?thesis by simp
qed

lemma cert_U5_poly_b_10:
  fixes f :: real
  assumes "1 / 2 \<le> f" "f \<le> 33 / 64"
  shows "0 \<le> 1444708352 * f ^ 4 - 3339562965 * f ^ 2 + 449271036 * f + 2235112256"
proof -
  have id: "4096 * (1444708352 * f ^ 4 - 3339562965 * f ^ 2 + 449271036 * f + 2235112256) =
      7025259744256 * (33 - 64 * f) ^ 4 +
      27962290960832 * (64 * f - 32) * (33 - 64 * f) ^ 3 +
      41734141916523 * (64 * f - 32) ^ 2 * (33 - 64 * f) ^ 2 +
      27682495074710 * (64 * f - 32) ^ 3 * (33 - 64 * f) +
      6885384727475 * (64 * f - 32) ^ 4"
    by algebra
  have "0 \<le> 4096 * (1444708352 * f ^ 4 - 3339562965 * f ^ 2 + 449271036 * f + 2235112256)"
    unfolding id
    using assms 
    by (intro add_nonneg_nonneg mult_nonneg_nonneg zero_le_power) simp_all
  then show ?thesis by simp
qed

lemma cert_U5_poly_b_11:
  fixes f :: real
  assumes "1 / 2 \<le> f" "f \<le> 33 / 64"
  shows "0 \<le> 722354176 * f ^ 4 - 1491604945 * f ^ 2 + 432631368 * f + 1117556128"
proof -
  have id: "4096 * (722354176 * f ^ 4 - 1491604945 * f ^ 2 + 432631368 * f + 1117556128) =
      4121058147328 * (33 - 64 * f) ^ 4 +
      16439573614016 * (64 * f - 32) * (33 - 64 * f) ^ 3 +
      24591963884399 * (64 * f - 32) ^ 2 * (33 - 64 * f) ^ 2 +
      16349462089630 * (64 * f - 32) ^ 3 * (33 - 64 * f) +
      4076013848275 * (64 * f - 32) ^ 4"
    by algebra
  have "0 \<le> 4096 * (722354176 * f ^ 4 - 1491604945 * f ^ 2 + 432631368 * f + 1117556128)"
    unfolding id
    using assms 
    by (intro add_nonneg_nonneg mult_nonneg_nonneg zero_le_power) simp_all
  then show ?thesis by simp
qed

lemma cert_U5_poly_b_12:
  fixes f z :: real
  assumes "1 / 128 \<le> z" "z \<le> 13 / 64" "1 / 2 \<le> f" "f \<le> 33 / 64"
  shows "0 \<le> 22573568 * f ^ 4 + 140348288 * f ^ 2 * z ^ 2 - 52403392 * f ^ 2 + 66558672 * f * z + 34923629"
proof -
  define Q0 where "Q0 = 2889416704 * f ^ 4 - 6706537705 * f ^ 2 + 66558672 * f + 4470224512"
  define Q1 where "Q1 = 1444708352 * f ^ 4 - 3339562965 * f ^ 2 + 449271036 * f + 2235112256"
  define Q2 where "Q2 = 722354176 * f ^ 4 - 1491604945 * f ^ 2 + 432631368 * f + 1117556128"
  have q0: "0 \<le> Q0" unfolding Q0_def by (rule cert_U5_poly_b_9 [OF assms(3) assms(4)])
  have q1: "0 \<le> Q1" unfolding Q1_def by (rule cert_U5_poly_b_10 [OF assms(3) assms(4)])
  have q2: "0 \<le> Q2" unfolding Q2_def by (rule cert_U5_poly_b_11 [OF assms(3) assms(4)])
  have id: "80000 * (22573568 * f ^ 4 + 140348288 * f ^ 2 * z ^ 2 - 52403392 * f ^ 2 + 66558672 * f * z + 34923629) =
      1 * (26 - 128 * z) ^ 2 * Q0 +
      4 * (128 * z - 1) * (26 - 128 * z) * Q1 +
      4 * (128 * z - 1) ^ 2 * Q2"
    unfolding Q0_def Q1_def Q2_def by algebra
  have "0 \<le> 80000 * (22573568 * f ^ 4 + 140348288 * f ^ 2 * z ^ 2 - 52403392 * f ^ 2 + 66558672 * f * z + 34923629)"
    unfolding id
    using assms q0 q1 q2
    by (intro add_nonneg_nonneg mult_nonneg_nonneg zero_le_power) simp_all
  then show ?thesis by simp
qed

lemma cert_U5_poly_b_13:
  fixes f :: real
  assumes "1 / 2 \<le> f" "f \<le> 33 / 64"
  shows "0 \<le> 1960067072 * f ^ 4 - 5215561955 * f ^ 2 + 51125256 * f + 3920936576"
proof -
  have id: "4096 * (1960067072 * f ^ 4 - 5215561955 * f ^ 2 + 51125256 * f + 3920936576) =
      11325902468096 * (33 - 64 * f) ^ 4 +
      45035808069952 * (64 * f - 32) * (33 - 64 * f) ^ 3 +
      67149733939933 * (64 * f - 32) ^ 2 * (33 - 64 * f) ^ 2 +
      44495714794490 * (64 * f - 32) ^ 3 * (33 - 64 * f) +
      11055886934945 * (64 * f - 32) ^ 4"
    by algebra
  have "0 \<le> 4096 * (1960067072 * f ^ 4 - 5215561955 * f ^ 2 + 51125256 * f + 3920936576)"
    unfolding id
    using assms 
    by (intro add_nonneg_nonneg mult_nonneg_nonneg zero_le_power) simp_all
  then show ?thesis by simp
qed

lemma cert_U5_poly_b_14:
  fixes f :: real
  assumes "1 / 2 \<le> f" "f \<le> 33 / 64"
  shows "0 \<le> 980033536 * f ^ 4 - 2596903815 * f ^ 2 + 345095478 * f + 1960468288"
proof -
  have id: "4096 * (980033536 * f ^ 4 - 2596903815 * f ^ 2 + 345095478 * f + 1960468288) =
      6328492725248 * (33 - 64 * f) ^ 4 +
      25201216240576 * (64 * f - 32) * (33 - 64 * f) ^ 3 +
      37631565516729 * (64 * f - 32) ^ 2 * (33 - 64 * f) ^ 2 +
      24973483838770 * (64 * f - 32) ^ 3 * (33 - 64 * f) +
      6214642076635 * (64 * f - 32) ^ 4"
    by algebra
  have "0 \<le> 4096 * (980033536 * f ^ 4 - 2596903815 * f ^ 2 + 345095478 * f + 1960468288)"
    unfolding id
    using assms 
    by (intro add_nonneg_nonneg mult_nonneg_nonneg zero_le_power) simp_all
  then show ?thesis by simp
qed

lemma cert_U5_poly_b_15:
  fixes f :: real
  assumes "1 / 2 \<le> f" "f \<le> 33 / 64"
  shows "0 \<le> 490016768 * f ^ 4 - 1157048795 * f ^ 2 + 332314164 * f + 980234144"
proof -
  have id: "4096 * (490016768 * f ^ 4 - 1157048795 * f ^ 2 + 332314164 * f + 980234144) =
      3636244788224 * (33 - 64 * f) ^ 4 +
      14507876673088 * (64 * f - 32) * (33 - 64 * f) ^ 3 +
      21705739266277 * (64 * f - 32) ^ 2 * (33 - 64 * f) ^ 2 +
      14432842979210 * (64 * f - 32) ^ 3 * (33 - 64 * f) +
      3598735717430 * (64 * f - 32) ^ 4"
    by algebra
  have "0 \<le> 4096 * (490016768 * f ^ 4 - 1157048795 * f ^ 2 + 332314164 * f + 980234144)"
    unfolding id
    using assms 
    by (intro add_nonneg_nonneg mult_nonneg_nonneg zero_le_power) simp_all
  then show ?thesis by simp
qed

lemma cert_U5_poly_b_16:
  fixes f z :: real
  assumes "1 / 128 \<le> z" "z \<le> 13 / 64" "1 / 2 \<le> f" "f \<le> 33 / 64"
  shows "0 \<le> 15313024 * f ^ 4 + 111382144 * f ^ 2 * z ^ 2 - 40753376 * f ^ 2 + 51125256 * f * z + 30632317"
proof -
  define Q0 where "Q0 = 1960067072 * f ^ 4 - 5215561955 * f ^ 2 + 51125256 * f + 3920936576"
  define Q1 where "Q1 = 980033536 * f ^ 4 - 2596903815 * f ^ 2 + 345095478 * f + 1960468288"
  define Q2 where "Q2 = 490016768 * f ^ 4 - 1157048795 * f ^ 2 + 332314164 * f + 980234144"
  have q0: "0 \<le> Q0" unfolding Q0_def by (rule cert_U5_poly_b_13 [OF assms(3) assms(4)])
  have q1: "0 \<le> Q1" unfolding Q1_def by (rule cert_U5_poly_b_14 [OF assms(3) assms(4)])
  have q2: "0 \<le> Q2" unfolding Q2_def by (rule cert_U5_poly_b_15 [OF assms(3) assms(4)])
  have id: "80000 * (15313024 * f ^ 4 + 111382144 * f ^ 2 * z ^ 2 - 40753376 * f ^ 2 + 51125256 * f * z + 30632317) =
      1 * (26 - 128 * z) ^ 2 * Q0 +
      4 * (128 * z - 1) * (26 - 128 * z) * Q1 +
      4 * (128 * z - 1) ^ 2 * Q2"
    unfolding Q0_def Q1_def Q2_def by algebra
  have "0 \<le> 80000 * (15313024 * f ^ 4 + 111382144 * f ^ 2 * z ^ 2 - 40753376 * f ^ 2 + 51125256 * f * z + 30632317)"
    unfolding id
    using assms q0 q1 q2
    by (intro add_nonneg_nonneg mult_nonneg_nonneg zero_le_power) simp_all
  then show ?thesis by simp
qed

lemma cert_U5_poly_b_17:
  fixes f :: real
  assumes "1 / 2 \<le> f" "f \<le> 33 / 64"
  shows "0 \<le> 640974848 * f ^ 4 - 1956744455 * f ^ 2 + 19101744 * f + 1697359424"
proof -
  have id: "4096 * (640974848 * f ^ 4 - 1956744455 * f ^ 2 + 19101744 * f + 1697359424) =
      5151887811584 * (33 - 64 * f) ^ 4 +
      20504053307968 * (64 * f - 32) * (33 - 64 * f) ^ 3 +
      30599837772217 * (64 * f - 32) ^ 2 * (33 - 64 * f) ^ 2 +
      20295086897330 * (64 * f - 32) ^ 3 * (33 - 64 * f) +
      5047414777985 * (64 * f - 32) ^ 4"
    by algebra
  have "0 \<le> 4096 * (640974848 * f ^ 4 - 1956744455 * f ^ 2 + 19101744 * f + 1697359424)"
    unfolding id
    using assms 
    by (intro add_nonneg_nonneg mult_nonneg_nonneg zero_le_power) simp_all
  then show ?thesis by simp
qed

lemma cert_U5_poly_b_18:
  fixes f :: real
  assumes "1 / 2 \<le> f" "f \<le> 33 / 64"
  shows "0 \<le> 320487424 * f ^ 4 - 974215515 * f ^ 2 + 128936772 * f + 848679712"
proof -
  have id: "4096 * (320487424 * f ^ 4 - 974215515 * f ^ 2 + 128936772 * f + 848679712) =
      2824702702592 * (33 - 64 * f) ^ 4 +
      11254968568384 * (64 * f - 32) * (33 - 64 * f) ^ 3 +
      16816196005221 * (64 * f - 32) ^ 2 * (33 - 64 * f) ^ 2 +
      11166307130890 * (64 * f - 32) ^ 3 * (33 - 64 * f) +
      2780377069705 * (64 * f - 32) ^ 4"
    by algebra
  have "0 \<le> 4096 * (320487424 * f ^ 4 - 974215515 * f ^ 2 + 128936772 * f + 848679712)"
    unfolding id
    using assms 
    by (intro add_nonneg_nonneg mult_nonneg_nonneg zero_le_power) simp_all
  then show ?thesis by simp
qed

lemma cert_U5_poly_b_19:
  fixes f :: real
  assumes "1 / 2 \<le> f" "f \<le> 33 / 64"
  shows "0 \<le> 160243712 * f ^ 4 - 433070495 * f ^ 2 + 124161336 * f + 424339856"
proof -
  have id: "4096 * (160243712 * f ^ 4 - 433070495 * f ^ 2 + 124161336 * f + 424339856) =
      1589936669696 * (33 - 64 * f) ^ 4 +
      6345104291392 * (64 * f - 32) * (33 - 64 * f) ^ 3 +
      9495500151073 * (64 * f - 32) ^ 2 * (33 - 64 * f) ^ 2 +
      6315439114370 * (64 * f - 32) ^ 3 * (33 - 64 * f) +
      1575106624115 * (64 * f - 32) ^ 4"
    by algebra
  have "0 \<le> 4096 * (160243712 * f ^ 4 - 433070495 * f ^ 2 + 124161336 * f + 424339856)"
    unfolding id
    using assms 
    by (intro add_nonneg_nonneg mult_nonneg_nonneg zero_le_power) simp_all
  then show ?thesis by simp
qed

lemma cert_U5_poly_b_20:
  fixes f z :: real
  assumes "1 / 128 \<le> z" "z \<le> 13 / 64" "1 / 2 \<le> f" "f \<le> 33 / 64"
  shows "0 \<le> 10015232 * f ^ 4 + 85129472 * f ^ 2 * z ^ 2 - 30579328 * f ^ 2 + 38203488 * f * z + 26521241"
proof -
  define Q0 where "Q0 = 640974848 * f ^ 4 - 1956744455 * f ^ 2 + 19101744 * f + 1697359424"
  define Q1 where "Q1 = 320487424 * f ^ 4 - 974215515 * f ^ 2 + 128936772 * f + 848679712"
  define Q2 where "Q2 = 160243712 * f ^ 4 - 433070495 * f ^ 2 + 124161336 * f + 424339856"
  have q0: "0 \<le> Q0" unfolding Q0_def by (rule cert_U5_poly_b_17 [OF assms(3) assms(4)])
  have q1: "0 \<le> Q1" unfolding Q1_def by (rule cert_U5_poly_b_18 [OF assms(3) assms(4)])
  have q2: "0 \<le> Q2" unfolding Q2_def by (rule cert_U5_poly_b_19 [OF assms(3) assms(4)])
  have id: "40000 * (10015232 * f ^ 4 + 85129472 * f ^ 2 * z ^ 2 - 30579328 * f ^ 2 + 38203488 * f * z + 26521241) =
      1 * (26 - 128 * z) ^ 2 * Q0 +
      4 * (128 * z - 1) * (26 - 128 * z) * Q1 +
      4 * (128 * z - 1) ^ 2 * Q2"
    unfolding Q0_def Q1_def Q2_def by algebra
  have "0 \<le> 40000 * (10015232 * f ^ 4 + 85129472 * f ^ 2 * z ^ 2 - 30579328 * f ^ 2 + 38203488 * f * z + 26521241)"
    unfolding id
    using assms q0 q1 q2
    by (intro add_nonneg_nonneg mult_nonneg_nonneg zero_le_power) simp_all
  then show ?thesis by simp
qed

lemma cert_U5_poly_b_21:
  fixes f u z :: real
  assumes "19 / 16 \<le> u" "u \<le> 17 / 8" "1 / 128 \<le> z" "z \<le> 13 / 64" "1 / 2 \<le> f" "f \<le> 33 / 64"
  shows "0 \<le> 225 * u ^ 4 + 2304 * u ^ 3 * f ^ 2 * z ^ 2 - 720 * u ^ 3 * f ^ 2 + 972 * u ^ 3 * f * z + 279 * u ^ 3 + 576 * u ^ 2 * f ^ 4 + 36 * u ^ 2 * f ^ 2 * z ^ 2 - 288 * u ^ 2 * f ^ 2 - 175 * u ^ 2 + 9 * u * f ^ 4 - 700 * u * f ^ 2 * z ^ 2 + 350 * u * f ^ 2 - 175 * f ^ 4"
proof -
  define Q0 where "Q0 = 42463232 * f ^ 4 + 201700352 * f ^ 2 * z ^ 2 - 78393088 * f ^ 2 + 106671168 * f * z + 43768001"
  define Q1 where "Q1 = 31806976 * f ^ 4 + 170987776 * f ^ 2 * z ^ 2 - 65154464 * f ^ 2 + 84915864 * f * z + 39331273"
  define Q2 where "Q2 = 22573568 * f ^ 4 + 140348288 * f ^ 2 * z ^ 2 - 52403392 * f ^ 2 + 66558672 * f * z + 34923629"
  define Q3 where "Q3 = 15313024 * f ^ 4 + 111382144 * f ^ 2 * z ^ 2 - 40753376 * f ^ 2 + 51125256 * f * z + 30632317"
  define Q4 where "Q4 = 10015232 * f ^ 4 + 85129472 * f ^ 2 * z ^ 2 - 30579328 * f ^ 2 + 38203488 * f * z + 26521241"
  have q0: "0 \<le> Q0" unfolding Q0_def by (rule cert_U5_poly_b_4 [OF assms(3) assms(4) assms(5) assms(6)])
  have q1: "0 \<le> Q1" unfolding Q1_def by (rule cert_U5_poly_b_8 [OF assms(3) assms(4) assms(5) assms(6)])
  have q2: "0 \<le> Q2" unfolding Q2_def by (rule cert_U5_poly_b_12 [OF assms(3) assms(4) assms(5) assms(6)])
  have q3: "0 \<le> Q3" unfolding Q3_def by (rule cert_U5_poly_b_16 [OF assms(3) assms(4) assms(5) assms(6)])
  have q4: "0 \<le> Q4" unfolding Q4_def by (rule cert_U5_poly_b_20 [OF assms(3) assms(4) assms(5) assms(6)])
  have id: "3317760000 * (225 * u ^ 4 + 2304 * u ^ 3 * f ^ 2 * z ^ 2 - 720 * u ^ 3 * f ^ 2 + 972 * u ^ 3 * f * z + 279 * u ^ 3 + 576 * u ^ 2 * f ^ 4 + 36 * u ^ 2 * f ^ 2 * z ^ 2 - 288 * u ^ 2 * f ^ 2 - 175 * u ^ 2 + 9 * u * f ^ 4 - 700 * u * f ^ 2 * z ^ 2 + 350 * u * f ^ 2 - 175 * f ^ 4) =
      1 * (34 - 16 * u) ^ 4 * Q0 +
      8 * (16 * u - 19) * (34 - 16 * u) ^ 3 * Q1 +
      24 * (16 * u - 19) ^ 2 * (34 - 16 * u) ^ 2 * Q2 +
      32 * (16 * u - 19) ^ 3 * (34 - 16 * u) * Q3 +
      16 * (16 * u - 19) ^ 4 * Q4"
    unfolding Q0_def Q1_def Q2_def Q3_def Q4_def by algebra
  have "0 \<le> 3317760000 * (225 * u ^ 4 + 2304 * u ^ 3 * f ^ 2 * z ^ 2 - 720 * u ^ 3 * f ^ 2 + 972 * u ^ 3 * f * z + 279 * u ^ 3 + 576 * u ^ 2 * f ^ 4 + 36 * u ^ 2 * f ^ 2 * z ^ 2 - 288 * u ^ 2 * f ^ 2 - 175 * u ^ 2 + 9 * u * f ^ 4 - 700 * u * f ^ 2 * z ^ 2 + 350 * u * f ^ 2 - 175 * f ^ 4)"
    unfolding id
    using assms q0 q1 q2 q3 q4
    by (intro add_nonneg_nonneg mult_nonneg_nonneg zero_le_power) simp_all
  then show ?thesis by simp
qed

lemma cert_U5_poly_c_1:
  fixes f :: real
  assumes "1 / 2 \<le> f" "f \<le> 33 / 64"
  shows "0 \<le> 640974848 * f ^ 4 - 1956744455 * f ^ 2 + 19101744 * f + 1697359424"
proof -
  have id: "4096 * (640974848 * f ^ 4 - 1956744455 * f ^ 2 + 19101744 * f + 1697359424) =
      5151887811584 * (33 - 64 * f) ^ 4 +
      20504053307968 * (64 * f - 32) * (33 - 64 * f) ^ 3 +
      30599837772217 * (64 * f - 32) ^ 2 * (33 - 64 * f) ^ 2 +
      20295086897330 * (64 * f - 32) ^ 3 * (33 - 64 * f) +
      5047414777985 * (64 * f - 32) ^ 4"
    by algebra
  have "0 \<le> 4096 * (640974848 * f ^ 4 - 1956744455 * f ^ 2 + 19101744 * f + 1697359424)"
    unfolding id
    using assms 
    by (intro add_nonneg_nonneg mult_nonneg_nonneg zero_le_power) simp_all
  then show ?thesis by simp
qed

lemma cert_U5_poly_c_2:
  fixes f :: real
  assumes "1 / 2 \<le> f" "f \<le> 33 / 64"
  shows "0 \<le> 320487424 * f ^ 4 - 974215515 * f ^ 2 + 128936772 * f + 848679712"
proof -
  have id: "4096 * (320487424 * f ^ 4 - 974215515 * f ^ 2 + 128936772 * f + 848679712) =
      2824702702592 * (33 - 64 * f) ^ 4 +
      11254968568384 * (64 * f - 32) * (33 - 64 * f) ^ 3 +
      16816196005221 * (64 * f - 32) ^ 2 * (33 - 64 * f) ^ 2 +
      11166307130890 * (64 * f - 32) ^ 3 * (33 - 64 * f) +
      2780377069705 * (64 * f - 32) ^ 4"
    by algebra
  have "0 \<le> 4096 * (320487424 * f ^ 4 - 974215515 * f ^ 2 + 128936772 * f + 848679712)"
    unfolding id
    using assms 
    by (intro add_nonneg_nonneg mult_nonneg_nonneg zero_le_power) simp_all
  then show ?thesis by simp
qed

lemma cert_U5_poly_c_3:
  fixes f :: real
  assumes "1 / 2 \<le> f" "f \<le> 33 / 64"
  shows "0 \<le> 160243712 * f ^ 4 - 433070495 * f ^ 2 + 124161336 * f + 424339856"
proof -
  have id: "4096 * (160243712 * f ^ 4 - 433070495 * f ^ 2 + 124161336 * f + 424339856) =
      1589936669696 * (33 - 64 * f) ^ 4 +
      6345104291392 * (64 * f - 32) * (33 - 64 * f) ^ 3 +
      9495500151073 * (64 * f - 32) ^ 2 * (33 - 64 * f) ^ 2 +
      6315439114370 * (64 * f - 32) ^ 3 * (33 - 64 * f) +
      1575106624115 * (64 * f - 32) ^ 4"
    by algebra
  have "0 \<le> 4096 * (160243712 * f ^ 4 - 433070495 * f ^ 2 + 124161336 * f + 424339856)"
    unfolding id
    using assms 
    by (intro add_nonneg_nonneg mult_nonneg_nonneg zero_le_power) simp_all
  then show ?thesis by simp
qed

lemma cert_U5_poly_c_4:
  fixes f z :: real
  assumes "1 / 128 \<le> z" "z \<le> 13 / 64" "1 / 2 \<le> f" "f \<le> 33 / 64"
  shows "0 \<le> 10015232 * f ^ 4 + 85129472 * f ^ 2 * z ^ 2 - 30579328 * f ^ 2 + 38203488 * f * z + 26521241"
proof -
  define Q0 where "Q0 = 640974848 * f ^ 4 - 1956744455 * f ^ 2 + 19101744 * f + 1697359424"
  define Q1 where "Q1 = 320487424 * f ^ 4 - 974215515 * f ^ 2 + 128936772 * f + 848679712"
  define Q2 where "Q2 = 160243712 * f ^ 4 - 433070495 * f ^ 2 + 124161336 * f + 424339856"
  have q0: "0 \<le> Q0" unfolding Q0_def by (rule cert_U5_poly_c_1 [OF assms(3) assms(4)])
  have q1: "0 \<le> Q1" unfolding Q1_def by (rule cert_U5_poly_c_2 [OF assms(3) assms(4)])
  have q2: "0 \<le> Q2" unfolding Q2_def by (rule cert_U5_poly_c_3 [OF assms(3) assms(4)])
  have id: "40000 * (10015232 * f ^ 4 + 85129472 * f ^ 2 * z ^ 2 - 30579328 * f ^ 2 + 38203488 * f * z + 26521241) =
      1 * (26 - 128 * z) ^ 2 * Q0 +
      4 * (128 * z - 1) * (26 - 128 * z) * Q1 +
      4 * (128 * z - 1) ^ 2 * Q2"
    unfolding Q0_def Q1_def Q2_def by algebra
  have "0 \<le> 40000 * (10015232 * f ^ 4 + 85129472 * f ^ 2 * z ^ 2 - 30579328 * f ^ 2 + 38203488 * f * z + 26521241)"
    unfolding id
    using assms q0 q1 q2
    by (intro add_nonneg_nonneg mult_nonneg_nonneg zero_le_power) simp_all
  then show ?thesis by simp
qed

lemma cert_U5_poly_c_5:
  fixes f :: real
  assumes "1 / 2 \<le> f" "f \<le> 33 / 64"
  shows "0 \<le> 1885782016 * f ^ 4 - 6524904775 * f ^ 2 + 63485208 * f + 6263219968"
proof -
  have id: "4096 * (1885782016 * f ^ 4 - 6524904775 * f ^ 2 + 63485208 * f + 6263219968) =
      19585424401408 * (33 - 64 * f) ^ 4 +
      77988511777856 * (64 * f - 32) * (33 - 64 * f) ^ 3 +
      116449292693369 * (64 * f - 32) ^ 2 * (33 - 64 * f) ^ 2 +
      77274806589490 * (64 * f - 32) ^ 3 * (33 - 64 * f) +
      19228601732965 * (64 * f - 32) ^ 4"
    by algebra
  have "0 \<le> 4096 * (1885782016 * f ^ 4 - 6524904775 * f ^ 2 + 63485208 * f + 6263219968)"
    unfolding id
    using assms 
    by (intro add_nonneg_nonneg mult_nonneg_nonneg zero_le_power) simp_all
  then show ?thesis by simp
qed

lemma cert_U5_poly_c_6:
  fixes f :: real
  assumes "1 / 2 \<le> f" "f \<le> 33 / 64"
  shows "0 \<le> 942891008 * f ^ 4 - 3248389275 * f ^ 2 + 428525154 * f + 3131609984"
proof -
  have id: "4096 * (942891008 * f ^ 4 - 3248389275 * f ^ 2 + 428525154 * f + 3131609984) =
      10619723490304 * (33 - 64 * f) ^ 4 +
      42328595169728 * (64 * f - 32) * (33 - 64 * f) ^ 3 +
      63265610514597 * (64 * f - 32) ^ 2 * (33 - 64 * f) ^ 2 +
      42024358946570 * (64 * f - 32) ^ 3 * (33 - 64 * f) +
      10467620341595 * (64 * f - 32) ^ 4"
    by algebra
  have "0 \<le> 4096 * (942891008 * f ^ 4 - 3248389275 * f ^ 2 + 428525154 * f + 3131609984)"
    unfolding id
    using assms 
    by (intro add_nonneg_nonneg mult_nonneg_nonneg zero_le_power) simp_all
  then show ?thesis by simp
qed

lemma cert_U5_poly_c_7:
  fixes f :: real
  assumes "1 / 2 \<le> f" "f \<le> 33 / 64"
  shows "0 \<le> 471445504 * f ^ 4 - 1441374175 * f ^ 2 + 412653852 * f + 1565804992"
proof -
  have id: "4096 * (471445504 * f ^ 4 - 1441374175 * f ^ 2 + 412653852 * f + 1565804992) =
      5903375229952 * (33 - 64 * f) ^ 4 +
      23562749075264 * (64 * f - 32) * (33 - 64 * f) ^ 3 +
      35267261640161 * (64 * f - 32) ^ 2 * (33 - 64 * f) ^ 2 +
      23459791707010 * (64 * f - 32) ^ 3 * (33 - 64 * f) +
      5851904027260 * (64 * f - 32) ^ 4"
    by algebra
  have "0 \<le> 4096 * (471445504 * f ^ 4 - 1441374175 * f ^ 2 + 412653852 * f + 1565804992)"
    unfolding id
    using assms 
    by (intro add_nonneg_nonneg mult_nonneg_nonneg zero_le_power) simp_all
  then show ?thesis by simp
qed

lemma cert_U5_poly_c_8:
  fixes f z :: real
  assumes "1 / 128 \<le> z" "z \<le> 13 / 64" "1 / 2 \<le> f" "f \<le> 33 / 64"
  shows "0 \<le> 7366336 * f ^ 4 + 72003136 * f ^ 2 * z ^ 2 - 25492304 * f ^ 2 + 31742604 * f * z + 24465703"
proof -
  define Q0 where "Q0 = 1885782016 * f ^ 4 - 6524904775 * f ^ 2 + 63485208 * f + 6263219968"
  define Q1 where "Q1 = 942891008 * f ^ 4 - 3248389275 * f ^ 2 + 428525154 * f + 3131609984"
  define Q2 where "Q2 = 471445504 * f ^ 4 - 1441374175 * f ^ 2 + 412653852 * f + 1565804992"
  have q0: "0 \<le> Q0" unfolding Q0_def by (rule cert_U5_poly_c_5 [OF assms(3) assms(4)])
  have q1: "0 \<le> Q1" unfolding Q1_def by (rule cert_U5_poly_c_6 [OF assms(3) assms(4)])
  have q2: "0 \<le> Q2" unfolding Q2_def by (rule cert_U5_poly_c_7 [OF assms(3) assms(4)])
  have id: "160000 * (7366336 * f ^ 4 + 72003136 * f ^ 2 * z ^ 2 - 25492304 * f ^ 2 + 31742604 * f * z + 24465703) =
      1 * (26 - 128 * z) ^ 2 * Q0 +
      4 * (128 * z - 1) * (26 - 128 * z) * Q1 +
      4 * (128 * z - 1) ^ 2 * Q2"
    unfolding Q0_def Q1_def Q2_def by algebra
  have "0 \<le> 160000 * (7366336 * f ^ 4 + 72003136 * f ^ 2 * z ^ 2 - 25492304 * f ^ 2 + 31742604 * f * z + 24465703)"
    unfolding id
    using assms q0 q1 q2
    by (intro add_nonneg_nonneg mult_nonneg_nonneg zero_le_power) simp_all
  then show ?thesis by simp
qed

lemma cert_U5_poly_c_9:
  fixes f :: real
  assumes "1 / 2 \<le> f" "f \<le> 33 / 64"
  shows "0 \<le> 2666561536 * f ^ 4 - 10634566165 * f ^ 2 + 103638528 * f + 11497074688"
proof -
  have id: "4096 * (2666561536 * f ^ 4 - 10634566165 * f ^ 2 + 103638528 * f + 11497074688) =
      37097113627648 * (33 - 64 * f) ^ 4 +
      147799805110976 * (64 * f - 32) * (33 - 64 * f) ^ 3 +
      220810098843179 * (64 * f - 32) ^ 2 * (33 - 64 * f) ^ 2 +
      146609320194070 * (64 * f - 32) ^ 3 * (33 - 64 * f) +
      36501913485235 * (64 * f - 32) ^ 4"
    by algebra
  have "0 \<le> 4096 * (2666561536 * f ^ 4 - 10634566165 * f ^ 2 + 103638528 * f + 11497074688)"
    unfolding id
    using assms 
    by (intro add_nonneg_nonneg mult_nonneg_nonneg zero_le_power) simp_all
  then show ?thesis by simp
qed

lemma cert_U5_poly_c_10:
  fixes f :: real
  assumes "1 / 2 \<le> f" "f \<le> 33 / 64"
  shows "0 \<le> 1333280768 * f ^ 4 - 5294019345 * f ^ 2 + 699560064 * f + 5748537344"
proof -
  have id: "4096 * (1333280768 * f ^ 4 - 5294019345 * f ^ 2 + 699560064 * f + 5748537344) =
      19898952039424 * (33 - 64 * f) ^ 4 +
      79344427748288 * (64 * f - 32) * (33 - 64 * f) ^ 3 +
      118636276910127 * (64 * f - 32) ^ 2 * (33 - 64 * f) ^ 2 +
      78835120398110 * (64 * f - 32) ^ 3 * (33 - 64 * f) +
      19644319522355 * (64 * f - 32) ^ 4"
    by algebra
  have "0 \<le> 4096 * (1333280768 * f ^ 4 - 5294019345 * f ^ 2 + 699560064 * f + 5748537344)"
    unfolding id
    using assms 
    by (intro add_nonneg_nonneg mult_nonneg_nonneg zero_le_power) simp_all
  then show ?thesis by simp
qed

lemma cert_U5_poly_c_11:
  fixes f :: real
  assumes "1 / 2 \<le> f" "f \<le> 33 / 64"
  shows "0 \<le> 666640384 * f ^ 4 - 2344581085 * f ^ 2 + 673650432 * f + 2874268672"
proof -
  have id: "4096 * (666640384 * f ^ 4 - 2344581085 * f ^ 2 + 673650432 * f + 2874268672) =
      10922449472512 * (33 - 64 * f) ^ 4 +
      43604190820544 * (64 * f - 32) * (33 - 64 * f) ^ 3 +
      65276531006051 * (64 * f - 32) ^ 2 * (33 - 64 * f) ^ 2 +
      43430308273030 * (64 * f - 32) ^ 3 * (33 - 64 * f) +
      10835518777765 * (64 * f - 32) ^ 4"
    by algebra
  have "0 \<le> 4096 * (666640384 * f ^ 4 - 2344581085 * f ^ 2 + 673650432 * f + 2874268672)"
    unfolding id
    using assms 
    by (intro add_nonneg_nonneg mult_nonneg_nonneg zero_le_power) simp_all
  then show ?thesis by simp
qed

lemma cert_U5_poly_c_12:
  fixes f z :: real
  assumes "1 / 128 \<le> z" "z \<le> 13 / 64" "1 / 2 \<le> f" "f \<le> 33 / 64"
  shows "0 \<le> 651016 * f ^ 4 + 7444396 * f ^ 2 * z ^ 2 - 2596784 * f ^ 2 + 3238704 * f * z + 2806903"
proof -
  define Q0 where "Q0 = 2666561536 * f ^ 4 - 10634566165 * f ^ 2 + 103638528 * f + 11497074688"
  define Q1 where "Q1 = 1333280768 * f ^ 4 - 5294019345 * f ^ 2 + 699560064 * f + 5748537344"
  define Q2 where "Q2 = 666640384 * f ^ 4 - 2344581085 * f ^ 2 + 673650432 * f + 2874268672"
  have q0: "0 \<le> Q0" unfolding Q0_def by (rule cert_U5_poly_c_9 [OF assms(3) assms(4)])
  have q1: "0 \<le> Q1" unfolding Q1_def by (rule cert_U5_poly_c_10 [OF assms(3) assms(4)])
  have q2: "0 \<le> Q2" unfolding Q2_def by (rule cert_U5_poly_c_11 [OF assms(3) assms(4)])
  have id: "2560000 * (651016 * f ^ 4 + 7444396 * f ^ 2 * z ^ 2 - 2596784 * f ^ 2 + 3238704 * f * z + 2806903) =
      1 * (26 - 128 * z) ^ 2 * Q0 +
      4 * (128 * z - 1) * (26 - 128 * z) * Q1 +
      4 * (128 * z - 1) ^ 2 * Q2"
    unfolding Q0_def Q1_def Q2_def by algebra
  have "0 \<le> 2560000 * (651016 * f ^ 4 + 7444396 * f ^ 2 * z ^ 2 - 2596784 * f ^ 2 + 3238704 * f * z + 2806903)"
    unfolding id
    using assms q0 q1 q2
    by (intro add_nonneg_nonneg mult_nonneg_nonneg zero_le_power) simp_all
  then show ?thesis by simp
qed

lemma cert_U5_poly_c_13:
  fixes f :: real
  assumes "1 / 2 \<le> f" "f \<le> 33 / 64"
  shows "0 \<le> 906072064 * f ^ 4 - 4216107895 * f ^ 2 + 41306112 * f + 5247434752"
proof -
  have id: "4096 * (906072064 * f ^ 4 - 4216107895 * f ^ 2 + 41306112 * f + 5247434752) =
      17492747625472 * (33 - 64 * f) ^ 4 +
      69732797493824 * (64 * f - 32) * (33 - 64 * f) ^ 3 +
      104239049728841 * (64 * f - 32) ^ 2 * (33 - 64 * f) ^ 2 +
      69250725792850 * (64 * f - 32) ^ 3 * (33 - 64 * f) +
      17251726153570 * (64 * f - 32) ^ 4"
    by algebra
  have "0 \<le> 4096 * (906072064 * f ^ 4 - 4216107895 * f ^ 2 + 41306112 * f + 5247434752)"
    unfolding id
    using assms 
    by (intro add_nonneg_nonneg mult_nonneg_nonneg zero_le_power) simp_all
  then show ?thesis by simp
qed

lemma cert_U5_poly_c_14:
  fixes f :: real
  assumes "1 / 2 \<le> f" "f \<le> 33 / 64"
  shows "0 \<le> 453036032 * f ^ 4 - 2098695435 * f ^ 2 + 278816256 * f + 2623717376"
proof -
  have id: "8192 * (453036032 * f ^ 4 - 2098695435 * f ^ 2 + 278816256 * f + 2623717376) =
      18569350326272 * (33 - 64 * f) ^ 4 +
      74073451076224 * (64 * f - 32) * (33 - 64 * f) ^ 3 +
      110801412988266 * (64 * f - 32) ^ 2 * (33 - 64 * f) ^ 2 +
      73659902367700 * (64 * f - 32) ^ 3 * (33 - 64 * f) +
      18362590350595 * (64 * f - 32) ^ 4"
    by algebra
  have "0 \<le> 8192 * (453036032 * f ^ 4 - 2098695435 * f ^ 2 + 278816256 * f + 2623717376)"
    unfolding id
    using assms 
    by (intro add_nonneg_nonneg mult_nonneg_nonneg zero_le_power) simp_all
  then show ?thesis by simp
qed

lemma cert_U5_poly_c_15:
  fixes f :: real
  assumes "1 / 2 \<le> f" "f \<le> 33 / 64"
  shows "0 \<le> 226518016 * f ^ 4 - 927687055 * f ^ 2 + 268489728 * f + 1311858688"
proof -
  have id: "16384 * (226518016 * f ^ 4 - 927687055 * f ^ 2 + 268489728 * f + 1311858688) =
      20125108867072 * (33 - 64 * f) ^ 4 +
      80360675258624 * (64 * f - 32) * (33 - 64 * f) ^ 3 +
      120329020933316 * (64 * f - 32) ^ 2 * (33 - 64 * f) ^ 2 +
      80076479873800 * (64 * f - 32) ^ 3 * (33 - 64 * f) +
      19983025553245 * (64 * f - 32) ^ 4"
    by algebra
  have "0 \<le> 16384 * (226518016 * f ^ 4 - 927687055 * f ^ 2 + 268489728 * f + 1311858688)"
    unfolding id
    using assms 
    by (intro add_nonneg_nonneg mult_nonneg_nonneg zero_le_power) simp_all
  then show ?thesis by simp
qed

lemma cert_U5_poly_c_16:
  fixes f z :: real
  assumes "1 / 128 \<le> z" "z \<le> 13 / 64" "1 / 2 \<le> f" "f \<le> 33 / 64"
  shows "0 \<le> 221209 * f ^ 4 + 2994724 * f ^ 2 * z ^ 2 - 1029506 * f ^ 2 + 1290816 * f * z + 1281112"
proof -
  define Q0 where "Q0 = 906072064 * f ^ 4 - 4216107895 * f ^ 2 + 41306112 * f + 5247434752"
  define Q1 where "Q1 = 453036032 * f ^ 4 - 2098695435 * f ^ 2 + 278816256 * f + 2623717376"
  define Q2 where "Q2 = 226518016 * f ^ 4 - 927687055 * f ^ 2 + 268489728 * f + 1311858688"
  have q0: "0 \<le> Q0" unfolding Q0_def by (rule cert_U5_poly_c_13 [OF assms(3) assms(4)])
  have q1: "0 \<le> Q1" unfolding Q1_def by (rule cert_U5_poly_c_14 [OF assms(3) assms(4)])
  have q2: "0 \<le> Q2" unfolding Q2_def by (rule cert_U5_poly_c_15 [OF assms(3) assms(4)])
  have id: "2560000 * (221209 * f ^ 4 + 2994724 * f ^ 2 * z ^ 2 - 1029506 * f ^ 2 + 1290816 * f * z + 1281112) =
      1 * (26 - 128 * z) ^ 2 * Q0 +
      4 * (128 * z - 1) * (26 - 128 * z) * Q1 +
      4 * (128 * z - 1) ^ 2 * Q2"
    unfolding Q0_def Q1_def Q2_def by algebra
  have "0 \<le> 2560000 * (221209 * f ^ 4 + 2994724 * f ^ 2 * z ^ 2 - 1029506 * f ^ 2 + 1290816 * f * z + 1281112)"
    unfolding id
    using assms q0 q1 q2
    by (intro add_nonneg_nonneg mult_nonneg_nonneg zero_le_power) simp_all
  then show ?thesis by simp
qed

lemma cert_U5_poly_c_17:
  fixes f :: real
  assumes "1 / 2 \<le> f" "f \<le> 33 / 64"
  shows "0 \<le> 9294848 * f ^ 4 - 50461835 * f ^ 2 + 497664 * f + 74399744"
proof -
  have id: "16384 * (9294848 * f ^ 4 - 50461835 * f ^ 2 + 497664 * f + 74399744) =
      1025868517376 * (33 - 64 * f) ^ 4 +
      4091872982272 * (64 * f - 32) * (33 - 64 * f) ^ 3 +
      6120261764308 * (64 * f - 32) ^ 2 * (33 - 64 * f) ^ 2 +
      4068379813160 * (64 * f - 32) ^ 3 * (33 - 64 * f) +
      1014122522825 * (64 * f - 32) ^ 4"
    by algebra
  have "0 \<le> 16384 * (9294848 * f ^ 4 - 50461835 * f ^ 2 + 497664 * f + 74399744)"
    unfolding id
    using assms 
    by (intro add_nonneg_nonneg mult_nonneg_nonneg zero_le_power) simp_all
  then show ?thesis by simp
qed

lemma cert_U5_poly_c_18:
  fixes f :: real
  assumes "1 / 2 \<le> f" "f \<le> 33 / 64"
  shows "0 \<le> 4647424 * f ^ 4 - 25117455 * f ^ 2 + 3359232 * f + 37199872"
proof -
  have id: "32768 * (4647424 * f ^ 4 - 25117455 * f ^ 2 + 3359232 * f + 37199872) =
      1077758795776 * (33 - 64 * f) ^ 4 +
      4301084713472 * (64 * f - 32) * (33 - 64 * f) ^ 3 +
      6436556195208 * (64 * f - 32) ^ 2 * (33 - 64 * f) ^ 2 +
      4280894594960 * (64 * f - 32) ^ 3 * (33 - 64 * f) +
      1067664326525 * (64 * f - 32) ^ 4"
    by algebra
  have "0 \<le> 32768 * (4647424 * f ^ 4 - 25117455 * f ^ 2 + 3359232 * f + 37199872)"
    unfolding id
    using assms 
    by (intro add_nonneg_nonneg mult_nonneg_nonneg zero_le_power) simp_all
  then show ?thesis by simp
qed

lemma cert_U5_poly_c_19:
  fixes f :: real
  assumes "1 / 2 \<le> f" "f \<le> 33 / 64"
  shows "0 \<le> 2323712 * f ^ 4 - 11083715 * f ^ 2 + 3234816 * f + 18599936"
proof -
  have id: "65536 * (2323712 * f ^ 4 - 11083715 * f ^ 2 + 3234816 * f + 18599936) =
      1152886194176 * (33 - 64 * f) ^ 4 +
      4604697244672 * (64 * f - 32) * (33 - 64 * f) ^ 3 +
      6896652998608 * (64 * f - 32) ^ 2 * (33 - 64 * f) ^ 2 +
      4590760201760 * (64 * f - 32) ^ 3 * (33 - 64 * f) +
      1145918262725 * (64 * f - 32) ^ 4"
    by algebra
  have "0 \<le> 65536 * (2323712 * f ^ 4 - 11083715 * f ^ 2 + 3234816 * f + 18599936)"
    unfolding id
    using assms 
    by (intro add_nonneg_nonneg mult_nonneg_nonneg zero_le_power) simp_all
  then show ?thesis by simp
qed

lemma cert_U5_poly_c_20:
  fixes f z :: real
  assumes "1 / 128 \<le> z" "z \<le> 13 / 64" "1 / 2 \<le> f" "f \<le> 33 / 64"
  shows "0 \<le> 9077 * f ^ 4 + 145232 * f ^ 2 * z ^ 2 - 49288 * f ^ 2 + 62208 * f * z + 72656"
proof -
  define Q0 where "Q0 = 9294848 * f ^ 4 - 50461835 * f ^ 2 + 497664 * f + 74399744"
  define Q1 where "Q1 = 4647424 * f ^ 4 - 25117455 * f ^ 2 + 3359232 * f + 37199872"
  define Q2 where "Q2 = 2323712 * f ^ 4 - 11083715 * f ^ 2 + 3234816 * f + 18599936"
  have q0: "0 \<le> Q0" unfolding Q0_def by (rule cert_U5_poly_c_17 [OF assms(3) assms(4)])
  have q1: "0 \<le> Q1" unfolding Q1_def by (rule cert_U5_poly_c_18 [OF assms(3) assms(4)])
  have q2: "0 \<le> Q2" unfolding Q2_def by (rule cert_U5_poly_c_19 [OF assms(3) assms(4)])
  have id: "640000 * (9077 * f ^ 4 + 145232 * f ^ 2 * z ^ 2 - 49288 * f ^ 2 + 62208 * f * z + 72656) =
      1 * (26 - 128 * z) ^ 2 * Q0 +
      4 * (128 * z - 1) * (26 - 128 * z) * Q1 +
      4 * (128 * z - 1) ^ 2 * Q2"
    unfolding Q0_def Q1_def Q2_def by algebra
  have "0 \<le> 640000 * (9077 * f ^ 4 + 145232 * f ^ 2 * z ^ 2 - 49288 * f ^ 2 + 62208 * f * z + 72656)"
    unfolding id
    using assms q0 q1 q2
    by (intro add_nonneg_nonneg mult_nonneg_nonneg zero_le_power) simp_all
  then show ?thesis by simp
qed

lemma cert_U5_poly_c_21:
  fixes f u z :: real
  assumes "17 / 8 \<le> u" "u \<le> 4" "1 / 128 \<le> z" "z \<le> 13 / 64" "1 / 2 \<le> f" "f \<le> 33 / 64"
  shows "0 \<le> 225 * u ^ 4 + 2304 * u ^ 3 * f ^ 2 * z ^ 2 - 720 * u ^ 3 * f ^ 2 + 972 * u ^ 3 * f * z + 279 * u ^ 3 + 576 * u ^ 2 * f ^ 4 + 36 * u ^ 2 * f ^ 2 * z ^ 2 - 288 * u ^ 2 * f ^ 2 - 175 * u ^ 2 + 9 * u * f ^ 4 - 700 * u * f ^ 2 * z ^ 2 + 350 * u * f ^ 2 - 175 * f ^ 4"
proof -
  define Q0 where "Q0 = 10015232 * f ^ 4 + 85129472 * f ^ 2 * z ^ 2 - 30579328 * f ^ 2 + 38203488 * f * z + 26521241"
  define Q1 where "Q1 = 7366336 * f ^ 4 + 72003136 * f ^ 2 * z ^ 2 - 25492304 * f ^ 2 + 31742604 * f * z + 24465703"
  define Q2 where "Q2 = 651016 * f ^ 4 + 7444396 * f ^ 2 * z ^ 2 - 2596784 * f ^ 2 + 3238704 * f * z + 2806903"
  define Q3 where "Q3 = 221209 * f ^ 4 + 2994724 * f ^ 2 * z ^ 2 - 1029506 * f ^ 2 + 1290816 * f * z + 1281112"
  define Q4 where "Q4 = 9077 * f ^ 4 + 145232 * f ^ 2 * z ^ 2 - 49288 * f ^ 2 + 62208 * f * z + 72656"
  have q0: "0 \<le> Q0" unfolding Q0_def by (rule cert_U5_poly_c_4 [OF assms(3) assms(4) assms(5) assms(6)])
  have q1: "0 \<le> Q1" unfolding Q1_def by (rule cert_U5_poly_c_8 [OF assms(3) assms(4) assms(5) assms(6)])
  have q2: "0 \<le> Q2" unfolding Q2_def by (rule cert_U5_poly_c_12 [OF assms(3) assms(4) assms(5) assms(6)])
  have q3: "0 \<le> Q3" unfolding Q3_def by (rule cert_U5_poly_c_16 [OF assms(3) assms(4) assms(5) assms(6)])
  have q4: "0 \<le> Q4" unfolding Q4_def by (rule cert_U5_poly_c_20 [OF assms(3) assms(4) assms(5) assms(6)])
  have id: "207360000 * (225 * u ^ 4 + 2304 * u ^ 3 * f ^ 2 * z ^ 2 - 720 * u ^ 3 * f ^ 2 + 972 * u ^ 3 * f * z + 279 * u ^ 3 + 576 * u ^ 2 * f ^ 4 + 36 * u ^ 2 * f ^ 2 * z ^ 2 - 288 * u ^ 2 * f ^ 2 - 175 * u ^ 2 + 9 * u * f ^ 4 - 700 * u * f ^ 2 * z ^ 2 + 350 * u * f ^ 2 - 175 * f ^ 4) =
      1 * (32 - 8 * u) ^ 4 * Q0 +
      8 * (8 * u - 17) * (32 - 8 * u) ^ 3 * Q1 +
      192 * (8 * u - 17) ^ 2 * (32 - 8 * u) ^ 2 * Q2 +
      512 * (8 * u - 17) ^ 3 * (32 - 8 * u) * Q3 +
      4096 * (8 * u - 17) ^ 4 * Q4"
    unfolding Q0_def Q1_def Q2_def Q3_def Q4_def by algebra
  have "0 \<le> 207360000 * (225 * u ^ 4 + 2304 * u ^ 3 * f ^ 2 * z ^ 2 - 720 * u ^ 3 * f ^ 2 + 972 * u ^ 3 * f * z + 279 * u ^ 3 + 576 * u ^ 2 * f ^ 4 + 36 * u ^ 2 * f ^ 2 * z ^ 2 - 288 * u ^ 2 * f ^ 2 - 175 * u ^ 2 + 9 * u * f ^ 4 - 700 * u * f ^ 2 * z ^ 2 + 350 * u * f ^ 2 - 175 * f ^ 4)"
    unfolding id
    using assms q0 q1 q2 q3 q4
    by (intro add_nonneg_nonneg mult_nonneg_nonneg zero_le_power) simp_all
  then show ?thesis by simp
qed

lemma cert_U5_poly:
  fixes u f z :: real
  assumes "1 / 4 \<le> u" "u \<le> 4" "1 / 2 \<le> f" "f \<le> 33 / 64" "1 / 128 \<le> z" "z \<le> 13 / 64"
  shows "0 \<le> 225 * u ^ 4 + 2304 * u ^ 3 * f ^ 2 * z ^ 2 - 720 * u ^ 3 * f ^ 2 + 972 * u ^ 3 * f * z + 279 * u ^ 3 + 576 * u ^ 2 * f ^ 4 + 36 * u ^ 2 * f ^ 2 * z ^ 2 - 288 * u ^ 2 * f ^ 2 - 175 * u ^ 2 + 9 * u * f ^ 4 - 700 * u * f ^ 2 * z ^ 2 + 350 * u * f ^ 2 - 175 * f ^ 4"
proof -
  consider "u \<le> 19 / 16" | "19 / 16 \<le> u" "u \<le> 17 / 8" | "17 / 8 \<le> u" by linarith
  then show ?thesis
  proof cases
    case 1
    show ?thesis by (rule cert_U5_poly_a_21 [OF assms(1) 1 assms(5) assms(6) assms(3) assms(4)])
  next
    case 2
    show ?thesis by (rule cert_U5_poly_b_21 [OF 2(1) 2(2) assms(5) assms(6) assms(3) assms(4)])
  next
    case 3
    show ?thesis by (rule cert_U5_poly_c_21 [OF 3 assms(2) assms(5) assms(6) assms(3) assms(4)])
  qed
qed

lemma cert_U5:
  fixes u f z :: real
  assumes "1 / 4 \<le> u" "u \<le> 4" "1 / 2 \<le> f" "f \<le> 33 / 64" "1 / 128 \<le> z" "z \<le> 13 / 64"
  shows "ampN u f z \<le> 9 / 16 * ampD u f z"
proof -
  have id: "400 * (9 / 16 * ampD u f z - ampN u f z) =
      225 * u ^ 4 + 2304 * u ^ 3 * f ^ 2 * z ^ 2 - 720 * u ^ 3 * f ^ 2 + 972 * u ^ 3 * f * z + 279 * u ^ 3 + 576 * u ^ 2 * f ^ 4 + 36 * u ^ 2 * f ^ 2 * z ^ 2 - 288 * u ^ 2 * f ^ 2 - 175 * u ^ 2 + 9 * u * f ^ 4 - 700 * u * f ^ 2 * z ^ 2 + 350 * u * f ^ 2 - 175 * f ^ 4"
    unfolding ampN_def ampD_def by algebra
  have "0 \<le> 400 * (9 / 16 * ampD u f z - ampN u f z)"
    unfolding id by (rule cert_U5_poly [OF assms])
  then show ?thesis by simp
qed

lemma cert_U6_poly_a_1:
  fixes f :: real
  assumes "1 / 2 \<le> f" "f \<le> 33 / 64"
  shows "0 \<le> - 196608 * f ^ 4 + 87229 * f ^ 2 + 1488 * f - 9984"
proof -
  have id: "4096 * (- 196608 * f ^ 4 + 87229 * f ^ 2 + 1488 * f - 9984) =
      1143808 * (33 - 64 * f) ^ 4 +
      3961664 * (64 * f - 32) * (33 - 64 * f) ^ 3 +
      4814461 * (64 * f - 32) ^ 2 * (33 - 64 * f) ^ 2 +
      2313018 * (64 * f - 32) ^ 3 * (33 - 64 * f) +
      316365 * (64 * f - 32) ^ 4"
    by algebra
  have "0 \<le> 4096 * (- 196608 * f ^ 4 + 87229 * f ^ 2 + 1488 * f - 9984)"
    unfolding id
    using assms 
    by (intro add_nonneg_nonneg mult_nonneg_nonneg zero_le_power) simp_all
  then show ?thesis by simp
qed

lemma cert_U6_poly_a_2:
  fixes f :: real
  assumes "1 / 2 \<le> f" "f \<le> 33 / 64"
  shows "0 \<le> - 196608 * f ^ 4 + 87043 * f ^ 2 + 1536 * f - 9984"
proof -
  have id: "4096 * (- 196608 * f ^ 4 + 87043 * f ^ 2 + 1536 * f - 9984) =
      1051648 * (33 - 64 * f) ^ 4 +
      3584192 * (64 * f - 32) * (33 - 64 * f) ^ 3 +
      4234819 * (64 * f - 32) ^ 2 * (33 - 64 * f) ^ 2 +
      1917510 * (64 * f - 32) ^ 3 * (33 - 64 * f) +
      215187 * (64 * f - 32) ^ 4"
    by algebra
  have "0 \<le> 4096 * (- 196608 * f ^ 4 + 87043 * f ^ 2 + 1536 * f - 9984)"
    unfolding id
    using assms 
    by (intro add_nonneg_nonneg mult_nonneg_nonneg zero_le_power) simp_all
  then show ?thesis by simp
qed

lemma cert_U6_poly_a_3:
  fixes f :: real
  assumes "1 / 2 \<le> f" "f \<le> 33 / 64"
  shows "0 \<le> - 196608 * f ^ 4 + 86845 * f ^ 2 + 1584 * f - 9984"
proof -
  have id: "4096 * (- 196608 * f ^ 4 + 86845 * f ^ 2 + 1584 * f - 9984) =
      947200 * (33 - 64 * f) ^ 4 +
      3156800 * (64 * f - 32) * (33 - 64 * f) ^ 3 +
      3579133 * (64 * f - 32) ^ 2 * (33 - 64 * f) ^ 2 +
      1470522 * (64 * f - 32) ^ 3 * (33 - 64 * f) +
      100941 * (64 * f - 32) ^ 4"
    by algebra
  have "0 \<le> 4096 * (- 196608 * f ^ 4 + 86845 * f ^ 2 + 1584 * f - 9984)"
    unfolding id
    using assms 
    by (intro add_nonneg_nonneg mult_nonneg_nonneg zero_le_power) simp_all
  then show ?thesis by simp
qed

lemma cert_U6_poly_a_4:
  fixes f z :: real
  assumes "31 / 256 \<le> z" "z \<le> 33 / 256" "1 / 2 \<le> f" "f \<le> 33 / 64"
  shows "0 \<le> - 768 * f ^ 4 - 768 * f ^ 2 * z ^ 2 + 352 * f ^ 2 + 48 * f * z - 39"
proof -
  define Q0 where "Q0 = - 196608 * f ^ 4 + 87229 * f ^ 2 + 1488 * f - 9984"
  define Q1 where "Q1 = - 196608 * f ^ 4 + 87043 * f ^ 2 + 1536 * f - 9984"
  define Q2 where "Q2 = - 196608 * f ^ 4 + 86845 * f ^ 2 + 1584 * f - 9984"
  have q0: "0 \<le> Q0" unfolding Q0_def by (rule cert_U6_poly_a_1 [OF assms(3) assms(4)])
  have q1: "0 \<le> Q1" unfolding Q1_def by (rule cert_U6_poly_a_2 [OF assms(3) assms(4)])
  have q2: "0 \<le> Q2" unfolding Q2_def by (rule cert_U6_poly_a_3 [OF assms(3) assms(4)])
  have id: "1024 * (- 768 * f ^ 4 - 768 * f ^ 2 * z ^ 2 + 352 * f ^ 2 + 48 * f * z - 39) =
      1 * (33 - 256 * z) ^ 2 * Q0 +
      2 * (256 * z - 31) * (33 - 256 * z) * Q1 +
      1 * (256 * z - 31) ^ 2 * Q2"
    unfolding Q0_def Q1_def Q2_def by algebra
  have "0 \<le> 1024 * (- 768 * f ^ 4 - 768 * f ^ 2 * z ^ 2 + 352 * f ^ 2 + 48 * f * z - 39)"
    unfolding id
    using assms q0 q1 q2
    by (intro add_nonneg_nonneg mult_nonneg_nonneg zero_le_power) simp_all
  then show ?thesis by simp
qed

lemma cert_U6_poly_a_5:
  fixes f :: real
  assumes "1 / 2 \<le> f" "f \<le> 33 / 64"
  shows "0 \<le> - 21561344 * f ^ 4 + 14485827 * f ^ 2 + 458304 * f - 2179072"
proof -
  have id: "4096 * (- 21561344 * f ^ 4 + 14485827 * f ^ 2 + 458304 * f - 2179072) =
      1326910464 * (33 - 64 * f) ^ 4 +
      5574103232 * (64 * f - 32) * (33 - 64 * f) ^ 3 +
      8742990723 * (64 * f - 32) ^ 2 * (33 - 64 * f) ^ 2 +
      6070639814 * (64 * f - 32) ^ 3 * (33 - 64 * f) +
      1574836595 * (64 * f - 32) ^ 4"
    by algebra
  have "0 \<le> 4096 * (- 21561344 * f ^ 4 + 14485827 * f ^ 2 + 458304 * f - 2179072)"
    unfolding id
    using assms 
    by (intro add_nonneg_nonneg mult_nonneg_nonneg zero_le_power) simp_all
  then show ?thesis by simp
qed

lemma cert_U6_poly_a_6:
  fixes f :: real
  assumes "1 / 2 \<le> f" "f \<le> 33 / 64"
  shows "0 \<le> - 21561344 * f ^ 4 + 14454269 * f ^ 2 + 473088 * f - 2179072"
proof -
  have id: "4096 * (- 21561344 * f ^ 4 + 14454269 * f ^ 2 + 473088 * f - 2179072) =
      1324872704 * (33 - 64 * f) ^ 4 +
      5564878656 * (64 * f - 32) * (33 - 64 * f) ^ 3 +
      8727511997 * (64 * f - 32) ^ 2 * (33 - 64 * f) ^ 2 +
      6059205050 * (64 * f - 32) ^ 3 * (33 - 64 * f) +
      1571693741 * (64 * f - 32) ^ 4"
    by algebra
  have "0 \<le> 4096 * (- 21561344 * f ^ 4 + 14454269 * f ^ 2 + 473088 * f - 2179072)"
    unfolding id
    using assms 
    by (intro add_nonneg_nonneg mult_nonneg_nonneg zero_le_power) simp_all
  then show ?thesis by simp
qed

lemma cert_U6_poly_a_7:
  fixes f :: real
  assumes "1 / 2 \<le> f" "f \<le> 33 / 64"
  shows "0 \<le> - 21561344 * f ^ 4 + 14420675 * f ^ 2 + 487872 * f - 2179072"
proof -
  have id: "4096 * (- 21561344 * f ^ 4 + 14420675 * f ^ 2 + 487872 * f - 2179072) =
      1320750080 * (33 - 64 * f) ^ 4 +
      5547184320 * (64 * f - 32) * (33 - 64 * f) ^ 3 +
      8699131139 * (64 * f - 32) ^ 2 * (33 - 64 * f) ^ 2 +
      6039035846 * (64 * f - 32) ^ 3 * (33 - 64 * f) +
      1566333683 * (64 * f - 32) ^ 4"
    by algebra
  have "0 \<le> 4096 * (- 21561344 * f ^ 4 + 14420675 * f ^ 2 + 487872 * f - 2179072)"
    unfolding id
    using assms 
    by (intro add_nonneg_nonneg mult_nonneg_nonneg zero_le_power) simp_all
  then show ?thesis by simp
qed

lemma cert_U6_poly_a_8:
  fixes f z :: real
  assumes "31 / 256 \<le> z" "z \<le> 33 / 256" "1 / 2 \<le> f" "f \<le> 33 / 64"
  shows "0 \<le> - 1316 * f ^ 4 - 2036 * f ^ 2 * z ^ 2 + 914 * f ^ 2 + 231 * f * z - 133"
proof -
  define Q0 where "Q0 = - 21561344 * f ^ 4 + 14485827 * f ^ 2 + 458304 * f - 2179072"
  define Q1 where "Q1 = - 21561344 * f ^ 4 + 14454269 * f ^ 2 + 473088 * f - 2179072"
  define Q2 where "Q2 = - 21561344 * f ^ 4 + 14420675 * f ^ 2 + 487872 * f - 2179072"
  have q0: "0 \<le> Q0" unfolding Q0_def by (rule cert_U6_poly_a_5 [OF assms(3) assms(4)])
  have q1: "0 \<le> Q1" unfolding Q1_def by (rule cert_U6_poly_a_6 [OF assms(3) assms(4)])
  have q2: "0 \<le> Q2" unfolding Q2_def by (rule cert_U6_poly_a_7 [OF assms(3) assms(4)])
  have id: "65536 * (- 1316 * f ^ 4 - 2036 * f ^ 2 * z ^ 2 + 914 * f ^ 2 + 231 * f * z - 133) =
      1 * (33 - 256 * z) ^ 2 * Q0 +
      2 * (256 * z - 31) * (33 - 256 * z) * Q1 +
      1 * (256 * z - 31) ^ 2 * Q2"
    unfolding Q0_def Q1_def Q2_def by algebra
  have "0 \<le> 65536 * (- 1316 * f ^ 4 - 2036 * f ^ 2 * z ^ 2 + 914 * f ^ 2 + 231 * f * z - 133)"
    unfolding id
    using assms q0 q1 q2
    by (intro add_nonneg_nonneg mult_nonneg_nonneg zero_le_power) simp_all
  then show ?thesis by simp
qed

lemma cert_U6_poly_a_9:
  fixes f :: real
  assumes "1 / 2 \<le> f" "f \<le> 33 / 64"
  shows "0 \<le> - 189267968 * f ^ 4 + 177170129 * f ^ 2 + 12731328 * f - 36399104"
proof -
  have id: "4096 * (- 189267968 * f ^ 4 + 177170129 * f ^ 2 + 12731328 * f - 36399104) =
      9952642048 * (33 - 64 * f) ^ 4 +
      45907686464 * (64 * f - 32) * (33 - 64 * f) ^ 3 +
      77900475281 * (64 * f - 32) ^ 2 * (33 - 64 * f) ^ 2 +
      57882544738 * (64 * f - 32) ^ 3 * (33 - 64 * f) +
      15937067665 * (64 * f - 32) ^ 4"
    by algebra
  have "0 \<le> 4096 * (- 189267968 * f ^ 4 + 177170129 * f ^ 2 + 12731328 * f - 36399104)"
    unfolding id
    using assms 
    by (intro add_nonneg_nonneg mult_nonneg_nonneg zero_le_power) simp_all
  then show ?thesis by simp
qed

lemma cert_U6_poly_a_10:
  fixes f :: real
  assumes "1 / 2 \<le> f" "f \<le> 33 / 64"
  shows "0 \<le> - 189267968 * f ^ 4 + 176774383 * f ^ 2 + 13142016 * f - 36399104"
proof -
  have id: "4096 * (- 189267968 * f ^ 4 + 176774383 * f ^ 2 + 13142016 * f - 36399104) =
      10388487168 * (33 - 64 * f) ^ 4 +
      47652023232 * (64 * f - 32) * (33 - 64 * f) ^ 3 +
      80518019119 * (64 * f - 32) ^ 2 * (33 - 64 * f) ^ 2 +
      59628002590 * (64 * f - 32) ^ 3 * (33 - 64 * f) +
      16373473327 * (64 * f - 32) ^ 4"
    by algebra
  have "0 \<le> 4096 * (- 189267968 * f ^ 4 + 176774383 * f ^ 2 + 13142016 * f - 36399104)"
    unfolding id
    using assms 
    by (intro add_nonneg_nonneg mult_nonneg_nonneg zero_le_power) simp_all
  then show ?thesis by simp
qed

lemma cert_U6_poly_a_11:
  fixes f :: real
  assumes "1 / 2 \<le> f" "f \<le> 33 / 64"
  shows "0 \<le> - 189267968 * f ^ 4 + 176353105 * f ^ 2 + 13552704 * f - 36399104"
proof -
  have id: "4096 * (- 189267968 * f ^ 4 + 176353105 * f ^ 2 + 13552704 * f - 36399104) =
      10798187520 * (33 - 64 * f) ^ 4 +
      49290146880 * (64 * f - 32) * (33 - 64 * f) ^ 3 +
      82973766673 * (64 * f - 32) ^ 2 * (33 - 64 * f) ^ 2 +
      61263928162 * (64 * f - 32) ^ 3 * (33 - 64 * f) +
      16782074641 * (64 * f - 32) ^ 4"
    by algebra
  have "0 \<le> 4096 * (- 189267968 * f ^ 4 + 176353105 * f ^ 2 + 13552704 * f - 36399104)"
    unfolding id
    using assms 
    by (intro add_nonneg_nonneg mult_nonneg_nonneg zero_le_power) simp_all
  then show ?thesis by simp
qed

lemma cert_U6_poly_a_12:
  fixes f z :: real
  assumes "31 / 256 \<le> z" "z \<le> 33 / 256" "1 / 2 \<le> f" "f \<le> 33 / 64"
  shows "0 \<le> - 92416 * f ^ 4 - 204256 * f ^ 2 * z ^ 2 + 89504 * f ^ 2 + 51336 * f * z - 17773"
proof -
  define Q0 where "Q0 = - 189267968 * f ^ 4 + 177170129 * f ^ 2 + 12731328 * f - 36399104"
  define Q1 where "Q1 = - 189267968 * f ^ 4 + 176774383 * f ^ 2 + 13142016 * f - 36399104"
  define Q2 where "Q2 = - 189267968 * f ^ 4 + 176353105 * f ^ 2 + 13552704 * f - 36399104"
  have q0: "0 \<le> Q0" unfolding Q0_def by (rule cert_U6_poly_a_9 [OF assms(3) assms(4)])
  have q1: "0 \<le> Q1" unfolding Q1_def by (rule cert_U6_poly_a_10 [OF assms(3) assms(4)])
  have q2: "0 \<le> Q2" unfolding Q2_def by (rule cert_U6_poly_a_11 [OF assms(3) assms(4)])
  have id: "8192 * (- 92416 * f ^ 4 - 204256 * f ^ 2 * z ^ 2 + 89504 * f ^ 2 + 51336 * f * z - 17773) =
      1 * (33 - 256 * z) ^ 2 * Q0 +
      2 * (256 * z - 31) * (33 - 256 * z) * Q1 +
      1 * (256 * z - 31) ^ 2 * Q2"
    unfolding Q0_def Q1_def Q2_def by algebra
  have "0 \<le> 8192 * (- 92416 * f ^ 4 - 204256 * f ^ 2 * z ^ 2 + 89504 * f ^ 2 + 51336 * f * z - 17773)"
    unfolding id
    using assms q0 q1 q2
    by (intro add_nonneg_nonneg mult_nonneg_nonneg zero_le_power) simp_all
  then show ?thesis by simp
qed

lemma cert_U6_poly_a_13:
  fixes f :: real
  assumes "1 / 2 \<le> f" "f \<le> 33 / 64"
  shows "0 \<le> - 7798784 * f ^ 4 + 10170457 * f ^ 2 + 2312259 * f - 2496512"
proof -
  have id: "4096 * (- 7798784 * f ^ 4 + 10170457 * f ^ 2 + 2312259 * f - 2496512) =
      2927852544 * (33 - 64 * f) ^ 4 +
      12260742912 * (64 * f - 32) * (33 - 64 * f) ^ 3 +
      19213585753 * (64 * f - 32) ^ 2 * (33 - 64 * f) ^ 2 +
      13356109234 * (64 * f - 32) ^ 3 * (33 - 64 * f) +
      3475411945 * (64 * f - 32) ^ 4"
    by algebra
  have "0 \<le> 4096 * (- 7798784 * f ^ 4 + 10170457 * f ^ 2 + 2312259 * f - 2496512)"
    unfolding id
    using assms 
    by (intro add_nonneg_nonneg mult_nonneg_nonneg zero_le_power) simp_all
  then show ?thesis by simp
qed

lemma cert_U6_poly_a_14:
  fixes f :: real
  assumes "1 / 2 \<le> f" "f \<le> 33 / 64"
  shows "0 \<le> - 7798784 * f ^ 4 + 10148199 * f ^ 2 + 2386848 * f - 2496512"
proof -
  have id: "4096 * (- 7798784 * f ^ 4 + 10148199 * f ^ 2 + 2386848 * f - 2496512) =
      3057818624 * (33 - 64 * f) ^ 4 +
      12783956416 * (64 * f - 32) * (33 - 64 * f) ^ 3 +
      20003407527 * (64 * f - 32) ^ 2 * (33 - 64 * f) ^ 2 +
      13885976590 * (64 * f - 32) ^ 3 * (33 - 64 * f) +
      3608704951 * (64 * f - 32) ^ 4"
    by algebra
  have "0 \<le> 4096 * (- 7798784 * f ^ 4 + 10148199 * f ^ 2 + 2386848 * f - 2496512)"
    unfolding id
    using assms 
    by (intro add_nonneg_nonneg mult_nonneg_nonneg zero_le_power) simp_all
  then show ?thesis by simp
qed

lemma cert_U6_poly_a_15:
  fixes f :: real
  assumes "1 / 2 \<le> f" "f \<le> 33 / 64"
  shows "0 \<le> - 7798784 * f ^ 4 + 10124505 * f ^ 2 + 2461437 * f - 2496512"
proof -
  have id: "4096 * (- 7798784 * f ^ 4 + 10124505 * f ^ 2 + 2461437 * f - 2496512) =
      3186314240 * (33 - 64 * f) ^ 4 +
      13301196160 * (64 * f - 32) * (33 - 64 * f) ^ 3 +
      20784129369 * (64 * f - 32) ^ 2 * (33 - 64 * f) ^ 2 +
      14409683506 * (64 * f - 32) ^ 3 * (33 - 64 * f) +
      3740434153 * (64 * f - 32) ^ 4"
    by algebra
  have "0 \<le> 4096 * (- 7798784 * f ^ 4 + 10124505 * f ^ 2 + 2461437 * f - 2496512)"
    unfolding id
    using assms 
    by (intro add_nonneg_nonneg mult_nonneg_nonneg zero_le_power) simp_all
  then show ?thesis by simp
qed

lemma cert_U6_poly_a_16:
  fixes f z :: real
  assumes "31 / 256 \<le> z" "z \<le> 33 / 256" "1 / 2 \<le> f" "f \<le> 33 / 64"
  shows "0 \<le> - 30464 * f ^ 4 - 91904 * f ^ 2 * z ^ 2 + 41076 * f ^ 2 + 74589 * f * z - 9752"
proof -
  define Q0 where "Q0 = - 7798784 * f ^ 4 + 10170457 * f ^ 2 + 2312259 * f - 2496512"
  define Q1 where "Q1 = - 7798784 * f ^ 4 + 10148199 * f ^ 2 + 2386848 * f - 2496512"
  define Q2 where "Q2 = - 7798784 * f ^ 4 + 10124505 * f ^ 2 + 2461437 * f - 2496512"
  have q0: "0 \<le> Q0" unfolding Q0_def by (rule cert_U6_poly_a_13 [OF assms(3) assms(4)])
  have q1: "0 \<le> Q1" unfolding Q1_def by (rule cert_U6_poly_a_14 [OF assms(3) assms(4)])
  have q2: "0 \<le> Q2" unfolding Q2_def by (rule cert_U6_poly_a_15 [OF assms(3) assms(4)])
  have id: "1024 * (- 30464 * f ^ 4 - 91904 * f ^ 2 * z ^ 2 + 41076 * f ^ 2 + 74589 * f * z - 9752) =
      1 * (33 - 256 * z) ^ 2 * Q0 +
      2 * (256 * z - 31) * (33 - 256 * z) * Q1 +
      1 * (256 * z - 31) ^ 2 * Q2"
    unfolding Q0_def Q1_def Q2_def by algebra
  have "0 \<le> 1024 * (- 30464 * f ^ 4 - 91904 * f ^ 2 * z ^ 2 + 41076 * f ^ 2 + 74589 * f * z - 9752)"
    unfolding id
    using assms q0 q1 q2
    by (intro add_nonneg_nonneg mult_nonneg_nonneg zero_le_power) simp_all
  then show ?thesis by simp
qed

lemma cert_U6_poly_a_17:
  fixes f :: real
  assumes "1 / 2 \<le> f" "f \<le> 33 / 64"
  shows "0 \<le> 4718592 * f ^ 4 - 2250481 * f ^ 2 + 9052248 * f + 3800336"
proof -
  have id: "4096 * (4718592 * f ^ 4 - 2250481 * f ^ 2 + 9052248 * f + 3800336) =
      33008647168 * (33 - 64 * f) ^ 4 +
      132620896704 * (64 * f - 32) * (33 - 64 * f) ^ 3 +
      199815634511 * (64 * f - 32) ^ 2 * (33 - 64 * f) ^ 2 +
      133803315038 * (64 * f - 32) ^ 3 * (33 - 64 * f) +
      33599931215 * (64 * f - 32) ^ 4"
    by algebra
  have "0 \<le> 4096 * (4718592 * f ^ 4 - 2250481 * f ^ 2 + 9052248 * f + 3800336)"
    unfolding id
    using assms 
    by (intro add_nonneg_nonneg mult_nonneg_nonneg zero_le_power) simp_all
  then show ?thesis by simp
qed

lemma cert_U6_poly_a_18:
  fixes f :: real
  assumes "1 / 2 \<le> f" "f \<le> 33 / 64"
  shows "0 \<le> 4718592 * f ^ 4 - 2237647 * f ^ 2 + 9344256 * f + 3800336"
proof -
  have id: "4096 * (4718592 * f ^ 4 - 2237647 * f ^ 2 + 9344256 * f + 3800336) =
      33619821568 * (33 - 64 * f) ^ 4 +
      135085104192 * (64 * f - 32) * (33 - 64 * f) ^ 3 +
      203541223409 * (64 * f - 32) ^ 2 * (33 - 64 * f) ^ 2 +
      136306567970 * (64 * f - 32) ^ 3 * (33 - 64 * f) +
      34230628337 * (64 * f - 32) ^ 4"
    by algebra
  have "0 \<le> 4096 * (4718592 * f ^ 4 - 2237647 * f ^ 2 + 9344256 * f + 3800336)"
    unfolding id
    using assms 
    by (intro add_nonneg_nonneg mult_nonneg_nonneg zero_le_power) simp_all
  then show ?thesis by simp
qed

lemma cert_U6_poly_a_19:
  fixes f :: real
  assumes "1 / 2 \<le> f" "f \<le> 33 / 64"
  shows "0 \<le> 4718592 * f ^ 4 - 2223985 * f ^ 2 + 9636264 * f + 3800336"
proof -
  have id: "4096 * (4718592 * f ^ 4 - 2223985 * f ^ 2 + 9636264 * f + 3800336) =
      34231843840 * (33 - 64 * f) ^ 4 +
      137552756160 * (64 * f - 32) * (33 - 64 * f) ^ 3 +
      207272059343 * (64 * f - 32) ^ 2 * (33 - 64 * f) ^ 2 +
      138813373022 * (64 * f - 32) ^ 3 * (33 - 64 * f) +
      34862227151 * (64 * f - 32) ^ 4"
    by algebra
  have "0 \<le> 4096 * (4718592 * f ^ 4 - 2223985 * f ^ 2 + 9636264 * f + 3800336)"
    unfolding id
    using assms 
    by (intro add_nonneg_nonneg mult_nonneg_nonneg zero_le_power) simp_all
  then show ?thesis by simp
qed

lemma cert_U6_poly_a_20:
  fixes f z :: real
  assumes "31 / 256 \<le> z" "z \<le> 33 / 256" "1 / 2 \<le> f" "f \<le> 33 / 64"
  shows "0 \<le> 294912 * f ^ 4 + 847872 * f ^ 2 * z ^ 2 - 153088 * f ^ 2 + 4672128 * f * z + 237521"
proof -
  define Q0 where "Q0 = 4718592 * f ^ 4 - 2250481 * f ^ 2 + 9052248 * f + 3800336"
  define Q1 where "Q1 = 4718592 * f ^ 4 - 2237647 * f ^ 2 + 9344256 * f + 3800336"
  define Q2 where "Q2 = 4718592 * f ^ 4 - 2223985 * f ^ 2 + 9636264 * f + 3800336"
  have q0: "0 \<le> Q0" unfolding Q0_def by (rule cert_U6_poly_a_17 [OF assms(3) assms(4)])
  have q1: "0 \<le> Q1" unfolding Q1_def by (rule cert_U6_poly_a_18 [OF assms(3) assms(4)])
  have q2: "0 \<le> Q2" unfolding Q2_def by (rule cert_U6_poly_a_19 [OF assms(3) assms(4)])
  have id: "64 * (294912 * f ^ 4 + 847872 * f ^ 2 * z ^ 2 - 153088 * f ^ 2 + 4672128 * f * z + 237521) =
      1 * (33 - 256 * z) ^ 2 * Q0 +
      2 * (256 * z - 31) * (33 - 256 * z) * Q1 +
      1 * (256 * z - 31) ^ 2 * Q2"
    unfolding Q0_def Q1_def Q2_def by algebra
  have "0 \<le> 64 * (294912 * f ^ 4 + 847872 * f ^ 2 * z ^ 2 - 153088 * f ^ 2 + 4672128 * f * z + 237521)"
    unfolding id
    using assms q0 q1 q2
    by (intro add_nonneg_nonneg mult_nonneg_nonneg zero_le_power) simp_all
  then show ?thesis by simp
qed

lemma cert_U6_poly_a_21:
  fixes f u z :: real
  assumes "1 / 4 \<le> u" "u \<le> 23 / 32" "31 / 256 \<le> z" "z \<le> 33 / 256" "1 / 2 \<le> f" "f \<le> 33 / 64"
  shows "0 \<le> 100 * u ^ 4 + 1024 * u ^ 3 * f ^ 2 * z ^ 2 - 320 * u ^ 3 * f ^ 2 + 432 * u ^ 3 * f * z + 124 * u ^ 3 + 256 * u ^ 2 * f ^ 4 + 16 * u ^ 2 * f ^ 2 * z ^ 2 - 128 * u ^ 2 * f ^ 2 - 125 * u ^ 2 + 4 * u * f ^ 4 - 500 * u * f ^ 2 * z ^ 2 + 250 * u * f ^ 2 - 125 * f ^ 4"
proof -
  define Q0 where "Q0 = - 768 * f ^ 4 - 768 * f ^ 2 * z ^ 2 + 352 * f ^ 2 + 48 * f * z - 39"
  define Q1 where "Q1 = - 1316 * f ^ 4 - 2036 * f ^ 2 * z ^ 2 + 914 * f ^ 2 + 231 * f * z - 133"
  define Q2 where "Q2 = - 92416 * f ^ 4 - 204256 * f ^ 2 * z ^ 2 + 89504 * f ^ 2 + 51336 * f * z - 17773"
  define Q3 where "Q3 = - 30464 * f ^ 4 - 91904 * f ^ 2 * z ^ 2 + 41076 * f ^ 2 + 74589 * f * z - 9752"
  define Q4 where "Q4 = 294912 * f ^ 4 + 847872 * f ^ 2 * z ^ 2 - 153088 * f ^ 2 + 4672128 * f * z + 237521"
  have q0: "0 \<le> Q0" unfolding Q0_def by (rule cert_U6_poly_a_4 [OF assms(3) assms(4) assms(5) assms(6)])
  have q1: "0 \<le> Q1" unfolding Q1_def by (rule cert_U6_poly_a_8 [OF assms(3) assms(4) assms(5) assms(6)])
  have q2: "0 \<le> Q2" unfolding Q2_def by (rule cert_U6_poly_a_12 [OF assms(3) assms(4) assms(5) assms(6)])
  have q3: "0 \<le> Q3" unfolding Q3_def by (rule cert_U6_poly_a_16 [OF assms(3) assms(4) assms(5) assms(6)])
  have q4: "0 \<le> Q4" unfolding Q4_def by (rule cert_U6_poly_a_20 [OF assms(3) assms(4) assms(5) assms(6)])
  have id: "13271040000 * (100 * u ^ 4 + 1024 * u ^ 3 * f ^ 2 * z ^ 2 - 320 * u ^ 3 * f ^ 2 + 432 * u ^ 3 * f * z + 124 * u ^ 3 + 256 * u ^ 2 * f ^ 4 + 16 * u ^ 2 * f ^ 2 * z ^ 2 - 128 * u ^ 2 * f ^ 2 - 125 * u ^ 2 + 4 * u * f ^ 4 - 500 * u * f ^ 2 * z ^ 2 + 250 * u * f ^ 2 - 125 * f ^ 4) =
      36864 * (23 - 32 * u) ^ 4 * Q0 +
      73728 * (32 * u - 8) * (23 - 32 * u) ^ 3 * Q1 +
      1152 * (32 * u - 8) ^ 2 * (23 - 32 * u) ^ 2 * Q2 +
      1152 * (32 * u - 8) ^ 3 * (23 - 32 * u) * Q3 +
      9 * (32 * u - 8) ^ 4 * Q4"
    unfolding Q0_def Q1_def Q2_def Q3_def Q4_def by algebra
  have "0 \<le> 13271040000 * (100 * u ^ 4 + 1024 * u ^ 3 * f ^ 2 * z ^ 2 - 320 * u ^ 3 * f ^ 2 + 432 * u ^ 3 * f * z + 124 * u ^ 3 + 256 * u ^ 2 * f ^ 4 + 16 * u ^ 2 * f ^ 2 * z ^ 2 - 128 * u ^ 2 * f ^ 2 - 125 * u ^ 2 + 4 * u * f ^ 4 - 500 * u * f ^ 2 * z ^ 2 + 250 * u * f ^ 2 - 125 * f ^ 4)"
    unfolding id
    using assms q0 q1 q2 q3 q4
    by (intro add_nonneg_nonneg mult_nonneg_nonneg zero_le_power) simp_all
  then show ?thesis by simp
qed

lemma cert_U6_poly_b_1:
  fixes f :: real
  assumes "1 / 2 \<le> f" "f \<le> 33 / 64"
  shows "0 \<le> 4718592 * f ^ 4 - 2250481 * f ^ 2 + 9052248 * f + 3800336"
proof -
  have id: "4096 * (4718592 * f ^ 4 - 2250481 * f ^ 2 + 9052248 * f + 3800336) =
      33008647168 * (33 - 64 * f) ^ 4 +
      132620896704 * (64 * f - 32) * (33 - 64 * f) ^ 3 +
      199815634511 * (64 * f - 32) ^ 2 * (33 - 64 * f) ^ 2 +
      133803315038 * (64 * f - 32) ^ 3 * (33 - 64 * f) +
      33599931215 * (64 * f - 32) ^ 4"
    by algebra
  have "0 \<le> 4096 * (4718592 * f ^ 4 - 2250481 * f ^ 2 + 9052248 * f + 3800336)"
    unfolding id
    using assms 
    by (intro add_nonneg_nonneg mult_nonneg_nonneg zero_le_power) simp_all
  then show ?thesis by simp
qed

lemma cert_U6_poly_b_2:
  fixes f :: real
  assumes "1 / 2 \<le> f" "f \<le> 33 / 64"
  shows "0 \<le> 4718592 * f ^ 4 - 2237647 * f ^ 2 + 9344256 * f + 3800336"
proof -
  have id: "4096 * (4718592 * f ^ 4 - 2237647 * f ^ 2 + 9344256 * f + 3800336) =
      33619821568 * (33 - 64 * f) ^ 4 +
      135085104192 * (64 * f - 32) * (33 - 64 * f) ^ 3 +
      203541223409 * (64 * f - 32) ^ 2 * (33 - 64 * f) ^ 2 +
      136306567970 * (64 * f - 32) ^ 3 * (33 - 64 * f) +
      34230628337 * (64 * f - 32) ^ 4"
    by algebra
  have "0 \<le> 4096 * (4718592 * f ^ 4 - 2237647 * f ^ 2 + 9344256 * f + 3800336)"
    unfolding id
    using assms 
    by (intro add_nonneg_nonneg mult_nonneg_nonneg zero_le_power) simp_all
  then show ?thesis by simp
qed

lemma cert_U6_poly_b_3:
  fixes f :: real
  assumes "1 / 2 \<le> f" "f \<le> 33 / 64"
  shows "0 \<le> 4718592 * f ^ 4 - 2223985 * f ^ 2 + 9636264 * f + 3800336"
proof -
  have id: "4096 * (4718592 * f ^ 4 - 2223985 * f ^ 2 + 9636264 * f + 3800336) =
      34231843840 * (33 - 64 * f) ^ 4 +
      137552756160 * (64 * f - 32) * (33 - 64 * f) ^ 3 +
      207272059343 * (64 * f - 32) ^ 2 * (33 - 64 * f) ^ 2 +
      138813373022 * (64 * f - 32) ^ 3 * (33 - 64 * f) +
      34862227151 * (64 * f - 32) ^ 4"
    by algebra
  have "0 \<le> 4096 * (4718592 * f ^ 4 - 2223985 * f ^ 2 + 9636264 * f + 3800336)"
    unfolding id
    using assms 
    by (intro add_nonneg_nonneg mult_nonneg_nonneg zero_le_power) simp_all
  then show ?thesis by simp
qed

lemma cert_U6_poly_b_4:
  fixes f z :: real
  assumes "31 / 256 \<le> z" "z \<le> 33 / 256" "1 / 2 \<le> f" "f \<le> 33 / 64"
  shows "0 \<le> 294912 * f ^ 4 + 847872 * f ^ 2 * z ^ 2 - 153088 * f ^ 2 + 4672128 * f * z + 237521"
proof -
  define Q0 where "Q0 = 4718592 * f ^ 4 - 2250481 * f ^ 2 + 9052248 * f + 3800336"
  define Q1 where "Q1 = 4718592 * f ^ 4 - 2237647 * f ^ 2 + 9344256 * f + 3800336"
  define Q2 where "Q2 = 4718592 * f ^ 4 - 2223985 * f ^ 2 + 9636264 * f + 3800336"
  have q0: "0 \<le> Q0" unfolding Q0_def by (rule cert_U6_poly_b_1 [OF assms(3) assms(4)])
  have q1: "0 \<le> Q1" unfolding Q1_def by (rule cert_U6_poly_b_2 [OF assms(3) assms(4)])
  have q2: "0 \<le> Q2" unfolding Q2_def by (rule cert_U6_poly_b_3 [OF assms(3) assms(4)])
  have id: "64 * (294912 * f ^ 4 + 847872 * f ^ 2 * z ^ 2 - 153088 * f ^ 2 + 4672128 * f * z + 237521) =
      1 * (33 - 256 * z) ^ 2 * Q0 +
      2 * (256 * z - 31) * (33 - 256 * z) * Q1 +
      1 * (256 * z - 31) ^ 2 * Q2"
    unfolding Q0_def Q1_def Q2_def by algebra
  have "0 \<le> 64 * (294912 * f ^ 4 + 847872 * f ^ 2 * z ^ 2 - 153088 * f ^ 2 + 4672128 * f * z + 237521)"
    unfolding id
    using assms q0 q1 q2
    by (intro add_nonneg_nonneg mult_nonneg_nonneg zero_le_power) simp_all
  then show ?thesis by simp
qed

lemma cert_U6_poly_b_5:
  fixes f :: real
  assumes "1 / 2 \<le> f" "f \<le> 33 / 64"
  shows "0 \<le> 12517376 * f ^ 4 - 12420938 * f ^ 2 + 6739989 * f + 6296848"
proof -
  have id: "2048 * (12517376 * f ^ 4 - 12420938 * f ^ 2 + 6739989 * f + 6296848) =
      15040397312 * (33 - 64 * f) ^ 4 +
      60180076896 * (64 * f - 32) * (33 - 64 * f) ^ 3 +
      90301024379 * (64 * f - 32) ^ 2 * (33 - 64 * f) ^ 2 +
      60223602902 * (64 * f - 32) ^ 3 * (33 - 64 * f) +
      15062259635 * (64 * f - 32) ^ 4"
    by algebra
  have "0 \<le> 2048 * (12517376 * f ^ 4 - 12420938 * f ^ 2 + 6739989 * f + 6296848)"
    unfolding id
    using assms 
    by (intro add_nonneg_nonneg mult_nonneg_nonneg zero_le_power) simp_all
  then show ?thesis by simp
qed

lemma cert_U6_poly_b_6:
  fixes f :: real
  assumes "1 / 2 \<le> f" "f \<le> 33 / 64"
  shows "0 \<le> 6258688 * f ^ 4 - 6192923 * f ^ 2 + 3478704 * f + 3148424"
proof -
  have id: "4096 * (6258688 * f ^ 4 - 6192923 * f ^ 2 + 3478704 * f + 3148424) =
      15281001472 * (33 - 64 * f) ^ 4 +
      61150573888 * (64 * f - 32) * (33 - 64 * f) ^ 3 +
      91768907941 * (64 * f - 32) ^ 2 * (33 - 64 * f) ^ 2 +
      61210295690 * (64 * f - 32) ^ 3 * (33 - 64 * f) +
      15310961693 * (64 * f - 32) ^ 4"
    by algebra
  have "0 \<le> 4096 * (6258688 * f ^ 4 - 6192923 * f ^ 2 + 3478704 * f + 3148424)"
    unfolding id
    using assms 
    by (intro add_nonneg_nonneg mult_nonneg_nonneg zero_le_power) simp_all
  then show ?thesis by simp
qed

lemma cert_U6_poly_b_7:
  fixes f :: real
  assumes "1 / 2 \<le> f" "f \<le> 33 / 64"
  shows "0 \<le> 12517376 * f ^ 4 - 12348490 * f ^ 2 + 7174827 * f + 6296848"
proof -
  have id: "2048 * (12517376 * f ^ 4 - 12348490 * f ^ 2 + 7174827 * f + 6296848) =
      15522764800 * (33 - 64 * f) ^ 4 +
      62125780000 * (64 * f - 32) * (33 - 64 * f) ^ 3 +
      93243964987 * (64 * f - 32) ^ 2 * (33 - 64 * f) ^ 2 +
      62201844758 * (64 * f - 32) ^ 3 * (33 - 64 * f) +
      15560896499 * (64 * f - 32) ^ 4"
    by algebra
  have "0 \<le> 2048 * (12517376 * f ^ 4 - 12348490 * f ^ 2 + 7174827 * f + 6296848)"
    unfolding id
    using assms 
    by (intro add_nonneg_nonneg mult_nonneg_nonneg zero_le_power) simp_all
  then show ?thesis by simp
qed

lemma cert_U6_poly_b_8:
  fixes f z :: real
  assumes "31 / 256 \<le> z" "z \<le> 33 / 256" "1 / 2 \<le> f" "f \<le> 33 / 64"
  shows "0 \<le> 782336 * f ^ 4 + 2318336 * f ^ 2 * z ^ 2 - 810304 * f ^ 2 + 3478704 * f * z + 393553"
proof -
  define Q0 where "Q0 = 12517376 * f ^ 4 - 12420938 * f ^ 2 + 6739989 * f + 6296848"
  define Q1 where "Q1 = 6258688 * f ^ 4 - 6192923 * f ^ 2 + 3478704 * f + 3148424"
  define Q2 where "Q2 = 12517376 * f ^ 4 - 12348490 * f ^ 2 + 7174827 * f + 6296848"
  have q0: "0 \<le> Q0" unfolding Q0_def by (rule cert_U6_poly_b_5 [OF assms(3) assms(4)])
  have q1: "0 \<le> Q1" unfolding Q1_def by (rule cert_U6_poly_b_6 [OF assms(3) assms(4)])
  have q2: "0 \<le> Q2" unfolding Q2_def by (rule cert_U6_poly_b_7 [OF assms(3) assms(4)])
  have id: "64 * (782336 * f ^ 4 + 2318336 * f ^ 2 * z ^ 2 - 810304 * f ^ 2 + 3478704 * f * z + 393553) =
      1 * (33 - 256 * z) ^ 2 * Q0 +
      4 * (256 * z - 31) * (33 - 256 * z) * Q1 +
      1 * (256 * z - 31) ^ 2 * Q2"
    unfolding Q0_def Q1_def Q2_def by algebra
  have "0 \<le> 64 * (782336 * f ^ 4 + 2318336 * f ^ 2 * z ^ 2 - 810304 * f ^ 2 + 3478704 * f * z + 393553)"
    unfolding id
    using assms q0 q1 q2
    by (intro add_nonneg_nonneg mult_nonneg_nonneg zero_le_power) simp_all
  then show ?thesis by simp
qed

lemma cert_U6_poly_b_9:
  fixes f :: real
  assumes "1 / 2 \<le> f" "f \<le> 33 / 64"
  shows "0 \<le> 298319872 * f ^ 4 - 365023351 * f ^ 2 + 118996848 * f + 174641536"
proof -
  have id: "4096 * (298319872 * f ^ 4 - 365023351 * f ^ 2 + 118996848 * f + 174641536) =
      661623251968 * (33 - 64 * f) ^ 4 +
      2640293547584 * (64 * f - 32) * (33 - 64 * f) ^ 3 +
      3951223587401 * (64 * f - 32) ^ 2 * (33 - 64 * f) ^ 2 +
      2628068862418 * (64 * f - 32) ^ 3 * (33 - 64 * f) +
      655515643465 * (64 * f - 32) ^ 4"
    by algebra
  have "0 \<le> 4096 * (298319872 * f ^ 4 - 365023351 * f ^ 2 + 118996848 * f + 174641536)"
    unfolding id
    using assms 
    by (intro add_nonneg_nonneg mult_nonneg_nonneg zero_le_power) simp_all
  then show ?thesis by simp
qed

lemma cert_U6_poly_b_10:
  fixes f :: real
  assumes "1 / 2 \<le> f" "f \<le> 33 / 64"
  shows "0 \<le> 298319872 * f ^ 4 - 364042697 * f ^ 2 + 122835456 * f + 174641536"
proof -
  have id: "4096 * (298319872 * f ^ 4 - 364042697 * f ^ 2 + 122835456 * f + 174641536) =
      670488910848 * (33 - 64 * f) ^ 4 +
      2676064615872 * (64 * f - 32) * (33 - 64 * f) ^ 3 +
      4005343819639 * (64 * f - 32) ^ 2 * (33 - 64 * f) ^ 2 +
      2664458757550 * (64 * f - 32) ^ 3 * (33 - 64 * f) +
      664690715767 * (64 * f - 32) ^ 4"
    by algebra
  have "0 \<le> 4096 * (298319872 * f ^ 4 - 364042697 * f ^ 2 + 122835456 * f + 174641536)"
    unfolding id
    using assms 
    by (intro add_nonneg_nonneg mult_nonneg_nonneg zero_le_power) simp_all
  then show ?thesis by simp
qed

lemma cert_U6_poly_b_11:
  fixes f :: real
  assumes "1 / 2 \<le> f" "f \<le> 33 / 64"
  shows "0 \<le> 298319872 * f ^ 4 - 362998775 * f ^ 2 + 126674064 * f + 174641536"
proof -
  have id: "4096 * (298319872 * f ^ 4 - 362998775 * f ^ 2 + 126674064 * f + 174641536) =
      679419356160 * (33 - 64 * f) ^ 4 +
      2712098879040 * (64 * f - 32) * (33 - 64 * f) ^ 3 +
      4059864981193 * (64 * f - 32) ^ 2 * (33 - 64 * f) ^ 2 +
      2701120072402 * (64 * f - 32) ^ 3 * (33 - 64 * f) +
      673934686921 * (64 * f - 32) ^ 4"
    by algebra
  have "0 \<le> 4096 * (298319872 * f ^ 4 - 362998775 * f ^ 2 + 126674064 * f + 174641536)"
    unfolding id
    using assms 
    by (intro add_nonneg_nonneg mult_nonneg_nonneg zero_le_power) simp_all
  then show ?thesis by simp
qed

lemma cert_U6_poly_b_12:
  fixes f z :: real
  assumes "31 / 256 \<le> z" "z \<le> 33 / 256" "1 / 2 \<le> f" "f \<le> 33 / 64"
  shows "0 \<le> 2330624 * f ^ 4 + 8098304 * f ^ 2 * z ^ 2 - 2970496 * f ^ 2 + 7677216 * f * z + 1364387"
proof -
  define Q0 where "Q0 = 298319872 * f ^ 4 - 365023351 * f ^ 2 + 118996848 * f + 174641536"
  define Q1 where "Q1 = 298319872 * f ^ 4 - 364042697 * f ^ 2 + 122835456 * f + 174641536"
  define Q2 where "Q2 = 298319872 * f ^ 4 - 362998775 * f ^ 2 + 126674064 * f + 174641536"
  have q0: "0 \<le> Q0" unfolding Q0_def by (rule cert_U6_poly_b_9 [OF assms(3) assms(4)])
  have q1: "0 \<le> Q1" unfolding Q1_def by (rule cert_U6_poly_b_10 [OF assms(3) assms(4)])
  have q2: "0 \<le> Q2" unfolding Q2_def by (rule cert_U6_poly_b_11 [OF assms(3) assms(4)])
  have id: "512 * (2330624 * f ^ 4 + 8098304 * f ^ 2 * z ^ 2 - 2970496 * f ^ 2 + 7677216 * f * z + 1364387) =
      1 * (33 - 256 * z) ^ 2 * Q0 +
      2 * (256 * z - 31) * (33 - 256 * z) * Q1 +
      1 * (256 * z - 31) ^ 2 * Q2"
    unfolding Q0_def Q1_def Q2_def by algebra
  have "0 \<le> 512 * (2330624 * f ^ 4 + 8098304 * f ^ 2 * z ^ 2 - 2970496 * f ^ 2 + 7677216 * f * z + 1364387)"
    unfolding id
    using assms q0 q1 q2
    by (intro add_nonneg_nonneg mult_nonneg_nonneg zero_le_power) simp_all
  then show ?thesis by simp
qed

lemma cert_U6_poly_b_13:
  fixes f :: real
  assumes "1 / 2 \<le> f" "f \<le> 33 / 64"
  shows "0 \<le> 78774272 * f ^ 4 - 113896341 * f ^ 2 + 28738488 * f + 58278016"
proof -
  have id: "4096 * (78774272 * f ^ 4 - 113896341 * f ^ 2 + 28738488 * f + 58278016) =
      201099537408 * (33 - 64 * f) ^ 4 +
      801468823744 * (64 * f - 32) * (33 - 64 * f) ^ 3 +
      1197813511851 * (64 * f - 32) ^ 2 * (33 - 64 * f) ^ 2 +
      795621163798 * (64 * f - 32) ^ 3 * (33 - 64 * f) +
      198176957515 * (64 * f - 32) ^ 4"
    by algebra
  have "0 \<le> 4096 * (78774272 * f ^ 4 - 113896341 * f ^ 2 + 28738488 * f + 58278016)"
    unfolding id
    using assms 
    by (intro add_nonneg_nonneg mult_nonneg_nonneg zero_le_power) simp_all
  then show ?thesis by simp
qed

lemma cert_U6_poly_b_14:
  fixes f :: real
  assumes "1 / 2 \<le> f" "f \<le> 33 / 64"
  shows "0 \<le> 78774272 * f ^ 4 - 113592107 * f ^ 2 + 29665536 * f + 58278016"
proof -
  have id: "4096 * (78774272 * f ^ 4 - 113592107 * f ^ 2 + 29665536 * f + 58278016) =
      203309667328 * (33 - 64 * f) ^ 4 +
      810388145472 * (64 * f - 32) * (33 - 64 * f) ^ 3 +
      1211311001749 * (64 * f - 32) ^ 2 * (33 - 64 * f) ^ 2 +
      804698698090 * (64 * f - 32) ^ 3 * (33 - 64 * f) +
      200466193717 * (64 * f - 32) ^ 4"
    by algebra
  have "0 \<le> 4096 * (78774272 * f ^ 4 - 113592107 * f ^ 2 + 29665536 * f + 58278016)"
    unfolding id
    using assms 
    by (intro add_nonneg_nonneg mult_nonneg_nonneg zero_le_power) simp_all
  then show ?thesis by simp
qed

lemma cert_U6_poly_b_15:
  fixes f :: real
  assumes "1 / 2 \<le> f" "f \<le> 33 / 64"
  shows "0 \<le> 78774272 * f ^ 4 - 113268245 * f ^ 2 + 30592584 * f + 58278016"
proof -
  have id: "4096 * (78774272 * f ^ 4 - 113268245 * f ^ 2 + 30592584 * f + 58278016) =
      205539896320 * (33 - 64 * f) ^ 4 +
      819389119680 * (64 * f - 32) * (33 - 64 * f) ^ 3 +
      1224932874283 * (64 * f - 32) ^ 2 * (33 - 64 * f) ^ 2 +
      813860436502 * (64 * f - 32) ^ 3 * (33 - 64 * f) +
      202776804811 * (64 * f - 32) ^ 4"
    by algebra
  have "0 \<le> 4096 * (78774272 * f ^ 4 - 113268245 * f ^ 2 + 30592584 * f + 58278016)"
    unfolding id
    using assms 
    by (intro add_nonneg_nonneg mult_nonneg_nonneg zero_le_power) simp_all
  then show ?thesis by simp
qed

lemma cert_U6_poly_b_16:
  fixes f z :: real
  assumes "31 / 256 \<le> z" "z \<le> 33 / 256" "1 / 2 \<le> f" "f \<le> 33 / 64"
  shows "0 \<le> 615424 * f ^ 4 + 2512384 * f ^ 2 * z ^ 2 - 926656 * f ^ 2 + 1854096 * f * z + 455297"
proof -
  define Q0 where "Q0 = 78774272 * f ^ 4 - 113896341 * f ^ 2 + 28738488 * f + 58278016"
  define Q1 where "Q1 = 78774272 * f ^ 4 - 113592107 * f ^ 2 + 29665536 * f + 58278016"
  define Q2 where "Q2 = 78774272 * f ^ 4 - 113268245 * f ^ 2 + 30592584 * f + 58278016"
  have q0: "0 \<le> Q0" unfolding Q0_def by (rule cert_U6_poly_b_13 [OF assms(3) assms(4)])
  have q1: "0 \<le> Q1" unfolding Q1_def by (rule cert_U6_poly_b_14 [OF assms(3) assms(4)])
  have q2: "0 \<le> Q2" unfolding Q2_def by (rule cert_U6_poly_b_15 [OF assms(3) assms(4)])
  have id: "512 * (615424 * f ^ 4 + 2512384 * f ^ 2 * z ^ 2 - 926656 * f ^ 2 + 1854096 * f * z + 455297) =
      1 * (33 - 256 * z) ^ 2 * Q0 +
      2 * (256 * z - 31) * (33 - 256 * z) * Q1 +
      1 * (256 * z - 31) ^ 2 * Q2"
    unfolding Q0_def Q1_def Q2_def by algebra
  have "0 \<le> 512 * (615424 * f ^ 4 + 2512384 * f ^ 2 * z ^ 2 - 926656 * f ^ 2 + 1854096 * f * z + 455297)"
    unfolding id
    using assms q0 q1 q2
    by (intro add_nonneg_nonneg mult_nonneg_nonneg zero_le_power) simp_all
  then show ?thesis by simp
qed

lemma cert_U6_poly_b_17:
  fixes f :: real
  assumes "1 / 2 \<le> f" "f \<le> 33 / 64"
  shows "0 \<le> 28049408 * f ^ 4 - 46919759 * f ^ 2 + 10206192 * f + 26823744"
proof -
  have id: "4096 * (28049408 * f ^ 4 - 46919759 * f ^ 2 + 10206192 * f + 26823744) =
      89907151872 * (33 - 64 * f) ^ 4 +
      358176520256 * (64 * f - 32) * (33 - 64 * f) ^ 3 +
      535081803889 * (64 * f - 32) ^ 2 * (33 - 64 * f) ^ 2 +
      355263531042 * (64 * f - 32) ^ 3 * (33 - 64 * f) +
      88451102385 * (64 * f - 32) ^ 4"
    by algebra
  have "0 \<le> 4096 * (28049408 * f ^ 4 - 46919759 * f ^ 2 + 10206192 * f + 26823744)"
    unfolding id
    using assms 
    by (intro add_nonneg_nonneg mult_nonneg_nonneg zero_le_power) simp_all
  then show ?thesis by simp
qed

lemma cert_U6_poly_b_18:
  fixes f :: real
  assumes "1 / 2 \<le> f" "f \<le> 33 / 64"
  shows "0 \<le> 28049408 * f ^ 4 - 46793713 * f ^ 2 + 10535424 * f + 26823744"
proof -
  have id: "4096 * (28049408 * f ^ 4 - 46793713 * f ^ 2 + 10535424 * f + 26823744) =
      90710490112 * (33 - 64 * f) ^ 4 +
      361419011008 * (64 * f - 32) * (33 - 64 * f) ^ 3 +
      539989372751 * (64 * f - 32) ^ 2 * (33 - 64 * f) ^ 2 +
      358564549470 * (64 * f - 32) ^ 3 * (33 - 64 * f) +
      89283704463 * (64 * f - 32) ^ 4"
    by algebra
  have "0 \<le> 4096 * (28049408 * f ^ 4 - 46793713 * f ^ 2 + 10535424 * f + 26823744)"
    unfolding id
    using assms 
    by (intro add_nonneg_nonneg mult_nonneg_nonneg zero_le_power) simp_all
  then show ?thesis by simp
qed

lemma cert_U6_poly_b_19:
  fixes f :: real
  assumes "1 / 2 \<le> f" "f \<le> 33 / 64"
  shows "0 \<le> 28049408 * f ^ 4 - 46659535 * f ^ 2 + 10864656 * f + 26823744"
proof -
  have id: "4096 * (28049408 * f ^ 4 - 46659535 * f ^ 2 + 10864656 * f + 26823744) =
      91522155520 * (33 - 64 * f) ^ 4 +
      364695330880 * (64 * f - 32) * (33 - 64 * f) ^ 3 +
      544948474097 * (64 * f - 32) ^ 2 * (33 - 64 * f) ^ 2 +
      361900454178 * (64 * f - 32) ^ 3 * (33 - 64 * f) +
      90125162289 * (64 * f - 32) ^ 4"
    by algebra
  have "0 \<le> 4096 * (28049408 * f ^ 4 - 46659535 * f ^ 2 + 10864656 * f + 26823744)"
    unfolding id
    using assms 
    by (intro add_nonneg_nonneg mult_nonneg_nonneg zero_le_power) simp_all
  then show ?thesis by simp
qed

lemma cert_U6_poly_b_20:
  fixes f z :: real
  assumes "31 / 256 \<le> z" "z \<le> 33 / 256" "1 / 2 \<le> f" "f \<le> 33 / 64"
  shows "0 \<le> 438272 * f ^ 4 + 2081792 * f ^ 2 * z ^ 2 - 763648 * f ^ 2 + 1316928 * f * z + 419121"
proof -
  define Q0 where "Q0 = 28049408 * f ^ 4 - 46919759 * f ^ 2 + 10206192 * f + 26823744"
  define Q1 where "Q1 = 28049408 * f ^ 4 - 46793713 * f ^ 2 + 10535424 * f + 26823744"
  define Q2 where "Q2 = 28049408 * f ^ 4 - 46659535 * f ^ 2 + 10864656 * f + 26823744"
  have q0: "0 \<le> Q0" unfolding Q0_def by (rule cert_U6_poly_b_17 [OF assms(3) assms(4)])
  have q1: "0 \<le> Q1" unfolding Q1_def by (rule cert_U6_poly_b_18 [OF assms(3) assms(4)])
  have q2: "0 \<le> Q2" unfolding Q2_def by (rule cert_U6_poly_b_19 [OF assms(3) assms(4)])
  have id: "256 * (438272 * f ^ 4 + 2081792 * f ^ 2 * z ^ 2 - 763648 * f ^ 2 + 1316928 * f * z + 419121) =
      1 * (33 - 256 * z) ^ 2 * Q0 +
      2 * (256 * z - 31) * (33 - 256 * z) * Q1 +
      1 * (256 * z - 31) ^ 2 * Q2"
    unfolding Q0_def Q1_def Q2_def by algebra
  have "0 \<le> 256 * (438272 * f ^ 4 + 2081792 * f ^ 2 * z ^ 2 - 763648 * f ^ 2 + 1316928 * f * z + 419121)"
    unfolding id
    using assms q0 q1 q2
    by (intro add_nonneg_nonneg mult_nonneg_nonneg zero_le_power) simp_all
  then show ?thesis by simp
qed

lemma cert_U6_poly_b_21:
  fixes f u z :: real
  assumes "23 / 32 \<le> u" "u \<le> 19 / 16" "31 / 256 \<le> z" "z \<le> 33 / 256" "1 / 2 \<le> f" "f \<le> 33 / 64"
  shows "0 \<le> 100 * u ^ 4 + 1024 * u ^ 3 * f ^ 2 * z ^ 2 - 320 * u ^ 3 * f ^ 2 + 432 * u ^ 3 * f * z + 124 * u ^ 3 + 256 * u ^ 2 * f ^ 4 + 16 * u ^ 2 * f ^ 2 * z ^ 2 - 128 * u ^ 2 * f ^ 2 - 125 * u ^ 2 + 4 * u * f ^ 4 - 500 * u * f ^ 2 * z ^ 2 + 250 * u * f ^ 2 - 125 * f ^ 4"
proof -
  define Q0 where "Q0 = 294912 * f ^ 4 + 847872 * f ^ 2 * z ^ 2 - 153088 * f ^ 2 + 4672128 * f * z + 237521"
  define Q1 where "Q1 = 782336 * f ^ 4 + 2318336 * f ^ 2 * z ^ 2 - 810304 * f ^ 2 + 3478704 * f * z + 393553"
  define Q2 where "Q2 = 2330624 * f ^ 4 + 8098304 * f ^ 2 * z ^ 2 - 2970496 * f ^ 2 + 7677216 * f * z + 1364387"
  define Q3 where "Q3 = 615424 * f ^ 4 + 2512384 * f ^ 2 * z ^ 2 - 926656 * f ^ 2 + 1854096 * f * z + 455297"
  define Q4 where "Q4 = 438272 * f ^ 4 + 2081792 * f ^ 2 * z ^ 2 - 763648 * f ^ 2 + 1316928 * f * z + 419121"
  have q0: "0 \<le> Q0" unfolding Q0_def by (rule cert_U6_poly_b_4 [OF assms(3) assms(4) assms(5) assms(6)])
  have q1: "0 \<le> Q1" unfolding Q1_def by (rule cert_U6_poly_b_8 [OF assms(3) assms(4) assms(5) assms(6)])
  have q2: "0 \<le> Q2" unfolding Q2_def by (rule cert_U6_poly_b_12 [OF assms(3) assms(4) assms(5) assms(6)])
  have q3: "0 \<le> Q3" unfolding Q3_def by (rule cert_U6_poly_b_16 [OF assms(3) assms(4) assms(5) assms(6)])
  have q4: "0 \<le> Q4" unfolding Q4_def by (rule cert_U6_poly_b_20 [OF assms(3) assms(4) assms(5) assms(6)])
  have id: "13271040000 * (100 * u ^ 4 + 1024 * u ^ 3 * f ^ 2 * z ^ 2 - 320 * u ^ 3 * f ^ 2 + 432 * u ^ 3 * f * z + 124 * u ^ 3 + 256 * u ^ 2 * f ^ 4 + 16 * u ^ 2 * f ^ 2 * z ^ 2 - 128 * u ^ 2 * f ^ 2 - 125 * u ^ 2 + 4 * u * f ^ 4 - 500 * u * f ^ 2 * z ^ 2 + 250 * u * f ^ 2 - 125 * f ^ 4) =
      9 * (38 - 32 * u) ^ 4 * Q0 +
      72 * (32 * u - 23) * (38 - 32 * u) ^ 3 * Q1 +
      72 * (32 * u - 23) ^ 2 * (38 - 32 * u) ^ 2 * Q2 +
      288 * (32 * u - 23) ^ 3 * (38 - 32 * u) * Q3 +
      144 * (32 * u - 23) ^ 4 * Q4"
    unfolding Q0_def Q1_def Q2_def Q3_def Q4_def by algebra
  have "0 \<le> 13271040000 * (100 * u ^ 4 + 1024 * u ^ 3 * f ^ 2 * z ^ 2 - 320 * u ^ 3 * f ^ 2 + 432 * u ^ 3 * f * z + 124 * u ^ 3 + 256 * u ^ 2 * f ^ 4 + 16 * u ^ 2 * f ^ 2 * z ^ 2 - 128 * u ^ 2 * f ^ 2 - 125 * u ^ 2 + 4 * u * f ^ 4 - 500 * u * f ^ 2 * z ^ 2 + 250 * u * f ^ 2 - 125 * f ^ 4)"
    unfolding id
    using assms q0 q1 q2 q3 q4
    by (intro add_nonneg_nonneg mult_nonneg_nonneg zero_le_power) simp_all
  then show ?thesis by simp
qed

lemma cert_U6_poly_c_1:
  fixes f :: real
  assumes "1 / 2 \<le> f" "f \<le> 33 / 64"
  shows "0 \<le> 28049408 * f ^ 4 - 46919759 * f ^ 2 + 10206192 * f + 26823744"
proof -
  have id: "4096 * (28049408 * f ^ 4 - 46919759 * f ^ 2 + 10206192 * f + 26823744) =
      89907151872 * (33 - 64 * f) ^ 4 +
      358176520256 * (64 * f - 32) * (33 - 64 * f) ^ 3 +
      535081803889 * (64 * f - 32) ^ 2 * (33 - 64 * f) ^ 2 +
      355263531042 * (64 * f - 32) ^ 3 * (33 - 64 * f) +
      88451102385 * (64 * f - 32) ^ 4"
    by algebra
  have "0 \<le> 4096 * (28049408 * f ^ 4 - 46919759 * f ^ 2 + 10206192 * f + 26823744)"
    unfolding id
    using assms 
    by (intro add_nonneg_nonneg mult_nonneg_nonneg zero_le_power) simp_all
  then show ?thesis by simp
qed

lemma cert_U6_poly_c_2:
  fixes f :: real
  assumes "1 / 2 \<le> f" "f \<le> 33 / 64"
  shows "0 \<le> 28049408 * f ^ 4 - 46793713 * f ^ 2 + 10535424 * f + 26823744"
proof -
  have id: "4096 * (28049408 * f ^ 4 - 46793713 * f ^ 2 + 10535424 * f + 26823744) =
      90710490112 * (33 - 64 * f) ^ 4 +
      361419011008 * (64 * f - 32) * (33 - 64 * f) ^ 3 +
      539989372751 * (64 * f - 32) ^ 2 * (33 - 64 * f) ^ 2 +
      358564549470 * (64 * f - 32) ^ 3 * (33 - 64 * f) +
      89283704463 * (64 * f - 32) ^ 4"
    by algebra
  have "0 \<le> 4096 * (28049408 * f ^ 4 - 46793713 * f ^ 2 + 10535424 * f + 26823744)"
    unfolding id
    using assms 
    by (intro add_nonneg_nonneg mult_nonneg_nonneg zero_le_power) simp_all
  then show ?thesis by simp
qed

lemma cert_U6_poly_c_3:
  fixes f :: real
  assumes "1 / 2 \<le> f" "f \<le> 33 / 64"
  shows "0 \<le> 28049408 * f ^ 4 - 46659535 * f ^ 2 + 10864656 * f + 26823744"
proof -
  have id: "4096 * (28049408 * f ^ 4 - 46659535 * f ^ 2 + 10864656 * f + 26823744) =
      91522155520 * (33 - 64 * f) ^ 4 +
      364695330880 * (64 * f - 32) * (33 - 64 * f) ^ 3 +
      544948474097 * (64 * f - 32) ^ 2 * (33 - 64 * f) ^ 2 +
      361900454178 * (64 * f - 32) ^ 3 * (33 - 64 * f) +
      90125162289 * (64 * f - 32) ^ 4"
    by algebra
  have "0 \<le> 4096 * (28049408 * f ^ 4 - 46659535 * f ^ 2 + 10864656 * f + 26823744)"
    unfolding id
    using assms 
    by (intro add_nonneg_nonneg mult_nonneg_nonneg zero_le_power) simp_all
  then show ?thesis by simp
qed

lemma cert_U6_poly_c_4:
  fixes f z :: real
  assumes "31 / 256 \<le> z" "z \<le> 33 / 256" "1 / 2 \<le> f" "f \<le> 33 / 64"
  shows "0 \<le> 438272 * f ^ 4 + 2081792 * f ^ 2 * z ^ 2 - 763648 * f ^ 2 + 1316928 * f * z + 419121"
proof -
  define Q0 where "Q0 = 28049408 * f ^ 4 - 46919759 * f ^ 2 + 10206192 * f + 26823744"
  define Q1 where "Q1 = 28049408 * f ^ 4 - 46793713 * f ^ 2 + 10535424 * f + 26823744"
  define Q2 where "Q2 = 28049408 * f ^ 4 - 46659535 * f ^ 2 + 10864656 * f + 26823744"
  have q0: "0 \<le> Q0" unfolding Q0_def by (rule cert_U6_poly_c_1 [OF assms(3) assms(4)])
  have q1: "0 \<le> Q1" unfolding Q1_def by (rule cert_U6_poly_c_2 [OF assms(3) assms(4)])
  have q2: "0 \<le> Q2" unfolding Q2_def by (rule cert_U6_poly_c_3 [OF assms(3) assms(4)])
  have id: "256 * (438272 * f ^ 4 + 2081792 * f ^ 2 * z ^ 2 - 763648 * f ^ 2 + 1316928 * f * z + 419121) =
      1 * (33 - 256 * z) ^ 2 * Q0 +
      2 * (256 * z - 31) * (33 - 256 * z) * Q1 +
      1 * (256 * z - 31) ^ 2 * Q2"
    unfolding Q0_def Q1_def Q2_def by algebra
  have "0 \<le> 256 * (438272 * f ^ 4 + 2081792 * f ^ 2 * z ^ 2 - 763648 * f ^ 2 + 1316928 * f * z + 419121)"
    unfolding id
    using assms q0 q1 q2
    by (intro add_nonneg_nonneg mult_nonneg_nonneg zero_le_power) simp_all
  then show ?thesis by simp
qed

lemma cert_U6_poly_c_5:
  fixes f :: real
  assumes "1 / 2 \<le> f" "f \<le> 33 / 64"
  shows "0 \<le> 89522176 * f ^ 4 - 167622213 * f ^ 2 + 32498664 * f + 102664448"
proof -
  have id: "4096 * (89522176 * f ^ 4 - 167622213 * f ^ 2 + 32498664 * f + 102664448) =
      338343373824 * (33 - 64 * f) ^ 4 +
      1347590297792 * (64 * f - 32) * (33 - 64 * f) ^ 3 +
      2012677311483 * (64 * f - 32) ^ 2 * (33 - 64 * f) ^ 2 +
      1335960022454 * (64 * f - 32) ^ 3 * (33 - 64 * f) +
      332529656795 * (64 * f - 32) ^ 4"
    by algebra
  have "0 \<le> 4096 * (89522176 * f ^ 4 - 167622213 * f ^ 2 + 32498664 * f + 102664448)"
    unfolding id
    using assms 
    by (intro add_nonneg_nonneg mult_nonneg_nonneg zero_le_power) simp_all
  then show ?thesis by simp
qed

lemma cert_U6_poly_c_6:
  fixes f :: real
  assumes "1 / 2 \<le> f" "f \<le> 33 / 64"
  shows "0 \<le> 89522176 * f ^ 4 - 167170171 * f ^ 2 + 33547008 * f + 102664448"
proof -
  have id: "4096 * (89522176 * f ^ 4 - 167170171 * f ^ 2 + 33547008 * f + 102664448) =
      340953273344 * (33 - 64 * f) ^ 4 +
      1358125920576 * (64 * f - 32) * (33 - 64 * f) ^ 3 +
      2028625234757 * (64 * f - 32) ^ 2 * (33 - 64 * f) ^ 2 +
      1346688598730 * (64 * f - 32) ^ 3 * (33 - 64 * f) +
      335236033061 * (64 * f - 32) ^ 4"
    by algebra
  have "0 \<le> 4096 * (89522176 * f ^ 4 - 167170171 * f ^ 2 + 33547008 * f + 102664448)"
    unfolding id
    using assms 
    by (intro add_nonneg_nonneg mult_nonneg_nonneg zero_le_power) simp_all
  then show ?thesis by simp
qed

lemma cert_U6_poly_c_7:
  fixes f :: real
  assumes "1 / 2 \<le> f" "f \<le> 33 / 64"
  shows "0 \<le> 89522176 * f ^ 4 - 166688965 * f ^ 2 + 34595352 * f + 102664448"
proof -
  have id: "4096 * (89522176 * f ^ 4 - 166688965 * f ^ 2 + 34595352 * f + 102664448) =
      343593036800 * (33 - 64 * f) ^ 4 +
      1368782865600 * (64 * f - 32) * (33 - 64 * f) ^ 3 +
      2044757970299 * (64 * f - 32) ^ 2 * (33 - 64 * f) ^ 2 +
      1357542288566 * (64 * f - 32) ^ 3 * (33 - 64 * f) +
      337974168923 * (64 * f - 32) ^ 4"
    by algebra
  have "0 \<le> 4096 * (89522176 * f ^ 4 - 166688965 * f ^ 2 + 34595352 * f + 102664448)"
    unfolding id
    using assms 
    by (intro add_nonneg_nonneg mult_nonneg_nonneg zero_le_power) simp_all
  then show ?thesis by simp
qed

lemma cert_U6_poly_c_8:
  fixes f z :: real
  assumes "31 / 256 \<le> z" "z \<le> 33 / 256" "1 / 2 \<le> f" "f \<le> 33 / 64"
  shows "0 \<le> 349696 * f ^ 4 + 1866496 * f ^ 2 * z ^ 2 - 682144 * f ^ 2 + 1048344 * f * z + 401033"
proof -
  define Q0 where "Q0 = 89522176 * f ^ 4 - 167622213 * f ^ 2 + 32498664 * f + 102664448"
  define Q1 where "Q1 = 89522176 * f ^ 4 - 167170171 * f ^ 2 + 33547008 * f + 102664448"
  define Q2 where "Q2 = 89522176 * f ^ 4 - 166688965 * f ^ 2 + 34595352 * f + 102664448"
  have q0: "0 \<le> Q0" unfolding Q0_def by (rule cert_U6_poly_c_5 [OF assms(3) assms(4)])
  have q1: "0 \<le> Q1" unfolding Q1_def by (rule cert_U6_poly_c_6 [OF assms(3) assms(4)])
  have q2: "0 \<le> Q2" unfolding Q2_def by (rule cert_U6_poly_c_7 [OF assms(3) assms(4)])
  have id: "1024 * (349696 * f ^ 4 + 1866496 * f ^ 2 * z ^ 2 - 682144 * f ^ 2 + 1048344 * f * z + 401033) =
      1 * (33 - 256 * z) ^ 2 * Q0 +
      2 * (256 * z - 31) * (33 - 256 * z) * Q1 +
      1 * (256 * z - 31) ^ 2 * Q2"
    unfolding Q0_def Q1_def Q2_def by algebra
  have "0 \<le> 1024 * (349696 * f ^ 4 + 1866496 * f ^ 2 * z ^ 2 - 682144 * f ^ 2 + 1048344 * f * z + 401033)"
    unfolding id
    using assms q0 q1 q2
    by (intro add_nonneg_nonneg mult_nonneg_nonneg zero_le_power) simp_all
  then show ?thesis by simp
qed

lemma cert_U6_poly_c_9:
  fixes f :: real
  assumes "1 / 2 \<le> f" "f \<le> 33 / 64"
  shows "0 \<le> 395051008 * f ^ 4 - 848556199 * f ^ 2 + 152838432 * f + 574119424"
proof -
  have id: "4096 * (395051008 * f ^ 4 - 848556199 * f ^ 2 + 152838432 * f + 574119424) =
      1896817779712 * (33 - 64 * f) ^ 4 +
      7555386814016 * (64 * f - 32) * (33 - 64 * f) ^ 3 +
      11284997784089 * (64 * f - 32) ^ 2 * (33 - 64 * f) ^ 2 +
      7491118590322 * (64 * f - 32) ^ 3 * (33 - 64 * f) +
      1864689936985 * (64 * f - 32) ^ 4"
    by algebra
  have "0 \<le> 4096 * (395051008 * f ^ 4 - 848556199 * f ^ 2 + 152838432 * f + 574119424)"
    unfolding id
    using assms 
    by (intro add_nonneg_nonneg mult_nonneg_nonneg zero_le_power) simp_all
  then show ?thesis by simp
qed

lemma cert_U6_poly_c_10:
  fixes f :: real
  assumes "1 / 2 \<le> f" "f \<le> 33 / 64"
  shows "0 \<le> 395051008 * f ^ 4 - 846245273 * f ^ 2 + 157768704 * f + 574119424"
proof -
  have id: "4096 * (395051008 * f ^ 4 - 846245273 * f ^ 2 + 157768704 * f + 574119424) =
      1909281364992 * (33 - 64 * f) ^ 4 +
      7605704591808 * (64 * f - 32) * (33 - 64 * f) ^ 3 +
      11361171916711 * (64 * f - 32) ^ 2 * (33 - 64 * f) ^ 2 +
      7542367863310 * (64 * f - 32) ^ 3 * (33 - 64 * f) +
      1877619269863 * (64 * f - 32) ^ 4"
    by algebra
  have "0 \<le> 4096 * (395051008 * f ^ 4 - 846245273 * f ^ 2 + 157768704 * f + 574119424)"
    unfolding id
    using assms 
    by (intro add_nonneg_nonneg mult_nonneg_nonneg zero_le_power) simp_all
  then show ?thesis by simp
qed

lemma cert_U6_poly_c_11:
  fixes f :: real
  assumes "1 / 2 \<le> f" "f \<le> 33 / 64"
  shows "0 \<le> 395051008 * f ^ 4 - 843785255 * f ^ 2 + 162698976 * f + 574119424"
proof -
  have id: "4096 * (395051008 * f ^ 4 - 843785255 * f ^ 2 + 162698976 * f + 574119424) =
      1921897620480 * (33 - 64 * f) ^ 4 +
      7656642592320 * (64 * f - 32) * (33 - 64 * f) ^ 3 +
      11438290845337 * (64 * f - 32) ^ 2 * (33 - 64 * f) ^ 2 +
      7594256740978 * (64 * f - 32) ^ 3 * (33 - 64 * f) +
      1890710963929 * (64 * f - 32) ^ 4"
    by algebra
  have "0 \<le> 4096 * (395051008 * f ^ 4 - 843785255 * f ^ 2 + 162698976 * f + 574119424)"
    unfolding id
    using assms 
    by (intro add_nonneg_nonneg mult_nonneg_nonneg zero_le_power) simp_all
  then show ?thesis by simp
qed

lemma cert_U6_poly_c_12:
  fixes f z :: real
  assumes "31 / 256 \<le> z" "z \<le> 33 / 256" "1 / 2 \<le> f" "f \<le> 33 / 64"
  shows "0 \<le> 771584 * f ^ 4 + 4770944 * f ^ 2 * z ^ 2 - 1727296 * f ^ 2 + 2465136 * f * z + 1121327"
proof -
  define Q0 where "Q0 = 395051008 * f ^ 4 - 848556199 * f ^ 2 + 152838432 * f + 574119424"
  define Q1 where "Q1 = 395051008 * f ^ 4 - 846245273 * f ^ 2 + 157768704 * f + 574119424"
  define Q2 where "Q2 = 395051008 * f ^ 4 - 843785255 * f ^ 2 + 162698976 * f + 574119424"
  have q0: "0 \<le> Q0" unfolding Q0_def by (rule cert_U6_poly_c_9 [OF assms(3) assms(4)])
  have q1: "0 \<le> Q1" unfolding Q1_def by (rule cert_U6_poly_c_10 [OF assms(3) assms(4)])
  have q2: "0 \<le> Q2" unfolding Q2_def by (rule cert_U6_poly_c_11 [OF assms(3) assms(4)])
  have id: "2048 * (771584 * f ^ 4 + 4770944 * f ^ 2 * z ^ 2 - 1727296 * f ^ 2 + 2465136 * f * z + 1121327) =
      1 * (33 - 256 * z) ^ 2 * Q0 +
      2 * (256 * z - 31) * (33 - 256 * z) * Q1 +
      1 * (256 * z - 31) ^ 2 * Q2"
    unfolding Q0_def Q1_def Q2_def by algebra
  have "0 \<le> 2048 * (771584 * f ^ 4 + 4770944 * f ^ 2 * z ^ 2 - 1727296 * f ^ 2 + 2465136 * f * z + 1121327)"
    unfolding id
    using assms q0 q1 q2
    by (intro add_nonneg_nonneg mult_nonneg_nonneg zero_le_power) simp_all
  then show ?thesis by simp
qed

lemma cert_U6_poly_c_13:
  fixes f :: real
  assumes "1 / 2 \<le> f" "f \<le> 33 / 64"
  shows "0 \<le> 22822912 * f ^ 4 - 56771041 * f ^ 2 + 9783228 * f + 43565696"
proof -
  have id: "4096 * (22822912 * f ^ 4 - 56771041 * f ^ 2 + 9783228 * f + 43565696) =
      146190261248 * (33 - 64 * f) ^ 4 +
      582484158144 * (64 * f - 32) * (33 - 64 * f) ^ 3 +
      870288370271 * (64 * f - 32) ^ 2 * (33 - 64 * f) ^ 2 +
      577886024318 * (64 * f - 32) ^ 3 * (33 - 64 * f) +
      143891556515 * (64 * f - 32) ^ 4"
    by algebra
  have "0 \<le> 4096 * (22822912 * f ^ 4 - 56771041 * f ^ 2 + 9783228 * f + 43565696)"
    unfolding id
    using assms 
    by (intro add_nonneg_nonneg mult_nonneg_nonneg zero_le_power) simp_all
  then show ?thesis by simp
qed

lemma cert_U6_poly_c_14:
  fixes f :: real
  assumes "1 / 2 \<le> f" "f \<le> 33 / 64"
  shows "0 \<le> 22822912 * f ^ 4 - 56614367 * f ^ 2 + 10098816 * f + 43565696"
proof -
  have id: "4096 * (22822912 * f ^ 4 - 56614367 * f ^ 2 + 10098816 * f + 43565696) =
      146997019648 * (33 - 64 * f) ^ 4 +
      585741416512 * (64 * f - 32) * (33 - 64 * f) ^ 3 +
      875219751649 * (64 * f - 32) ^ 2 * (33 - 64 * f) ^ 2 +
      581204045570 * (64 * f - 32) ^ 3 * (33 - 64 * f) +
      144728696357 * (64 * f - 32) ^ 4"
    by algebra
  have "0 \<le> 4096 * (22822912 * f ^ 4 - 56614367 * f ^ 2 + 10098816 * f + 43565696)"
    unfolding id
    using assms 
    by (intro add_nonneg_nonneg mult_nonneg_nonneg zero_le_power) simp_all
  then show ?thesis by simp
qed

lemma cert_U6_poly_c_15:
  fixes f :: real
  assumes "1 / 2 \<le> f" "f \<le> 33 / 64"
  shows "0 \<le> 22822912 * f ^ 4 - 56447585 * f ^ 2 + 10414404 * f + 43565696"
proof -
  have id: "4096 * (22822912 * f ^ 4 - 56447585 * f ^ 2 + 10414404 * f + 43565696) =
      147814128640 * (33 - 64 * f) ^ 4 +
      589040724160 * (64 * f - 32) * (33 - 64 * f) ^ 3 +
      880215187423 * (64 * f - 32) ^ 2 * (33 - 64 * f) ^ 2 +
      584565430142 * (64 * f - 32) ^ 3 * (33 - 64 * f) +
      145576843811 * (64 * f - 32) ^ 4"
    by algebra
  have "0 \<le> 4096 * (22822912 * f ^ 4 - 56447585 * f ^ 2 + 10414404 * f + 43565696)"
    unfolding id
    using assms 
    by (intro add_nonneg_nonneg mult_nonneg_nonneg zero_le_power) simp_all
  then show ?thesis by simp
qed

lemma cert_U6_poly_c_16:
  fixes f z :: real
  assumes "31 / 256 \<le> z" "z \<le> 33 / 256" "1 / 2 \<le> f" "f \<le> 33 / 64"
  shows "0 \<le> 178304 * f ^ 4 + 1293824 * f ^ 2 * z ^ 2 - 462496 * f ^ 2 + 631176 * f * z + 340357"
proof -
  define Q0 where "Q0 = 22822912 * f ^ 4 - 56771041 * f ^ 2 + 9783228 * f + 43565696"
  define Q1 where "Q1 = 22822912 * f ^ 4 - 56614367 * f ^ 2 + 10098816 * f + 43565696"
  define Q2 where "Q2 = 22822912 * f ^ 4 - 56447585 * f ^ 2 + 10414404 * f + 43565696"
  have q0: "0 \<le> Q0" unfolding Q0_def by (rule cert_U6_poly_c_13 [OF assms(3) assms(4)])
  have q1: "0 \<le> Q1" unfolding Q1_def by (rule cert_U6_poly_c_14 [OF assms(3) assms(4)])
  have q2: "0 \<le> Q2" unfolding Q2_def by (rule cert_U6_poly_c_15 [OF assms(3) assms(4)])
  have id: "512 * (178304 * f ^ 4 + 1293824 * f ^ 2 * z ^ 2 - 462496 * f ^ 2 + 631176 * f * z + 340357) =
      1 * (33 - 256 * z) ^ 2 * Q0 +
      2 * (256 * z - 31) * (33 - 256 * z) * Q1 +
      1 * (256 * z - 31) ^ 2 * Q2"
    unfolding Q0_def Q1_def Q2_def by algebra
  have "0 \<le> 512 * (178304 * f ^ 4 + 1293824 * f ^ 2 * z ^ 2 - 462496 * f ^ 2 + 631176 * f * z + 340357)"
    unfolding id
    using assms q0 q1 q2
    by (intro add_nonneg_nonneg mult_nonneg_nonneg zero_le_power) simp_all
  then show ?thesis by simp
qed

lemma cert_U6_poly_c_17:
  fixes f :: real
  assumes "1 / 2 \<le> f" "f \<le> 33 / 64"
  shows "0 \<le> 30277632 * f ^ 4 - 87026281 * f ^ 2 + 14621088 * f + 77609216"
proof -
  have id: "4096 * (30277632 * f ^ 4 - 87026281 * f ^ 2 + 14621088 * f + 77609216) =
      266467499008 * (33 - 64 * f) ^ 4 +
      1062204947904 * (64 * f - 32) * (33 - 64 * f) ^ 3 +
      1587768239831 * (64 * f - 32) ^ 2 * (33 - 64 * f) ^ 2 +
      1054792578158 * (64 * f - 32) ^ 3 * (33 - 64 * f) +
      262761794615 * (64 * f - 32) ^ 4"
    by algebra
  have "0 \<le> 4096 * (30277632 * f ^ 4 - 87026281 * f ^ 2 + 14621088 * f + 77609216)"
    unfolding id
    using assms 
    by (intro add_nonneg_nonneg mult_nonneg_nonneg zero_le_power) simp_all
  then show ?thesis by simp
qed

lemma cert_U6_poly_c_18:
  fixes f :: real
  assumes "1 / 2 \<le> f" "f \<le> 33 / 64"
  shows "0 \<le> 30277632 * f ^ 4 - 86782807 * f ^ 2 + 15092736 * f + 77609216"
proof -
  have id: "4096 * (30277632 * f ^ 4 - 86782807 * f ^ 2 + 15092736 * f + 77609216) =
      267682751488 * (33 - 64 * f) ^ 4 +
      1067111725632 * (64 * f - 32) * (33 - 64 * f) ^ 3 +
      1595197301609 * (64 * f - 32) ^ 2 * (33 - 64 * f) ^ 2 +
      1059791378450 * (64 * f - 32) ^ 3 * (33 - 64 * f) +
      264023058377 * (64 * f - 32) ^ 4"
    by algebra
  have "0 \<le> 4096 * (30277632 * f ^ 4 - 86782807 * f ^ 2 + 15092736 * f + 77609216)"
    unfolding id
    using assms 
    by (intro add_nonneg_nonneg mult_nonneg_nonneg zero_le_power) simp_all
  then show ?thesis by simp
qed

lemma cert_U6_poly_c_19:
  fixes f :: real
  assumes "1 / 2 \<le> f" "f \<le> 33 / 64"
  shows "0 \<le> 30277632 * f ^ 4 - 86523625 * f ^ 2 + 15564384 * f + 77609216"
proof -
  have id: "4096 * (30277632 * f ^ 4 - 86523625 * f ^ 2 + 15564384 * f + 77609216) =
      268914088960 * (33 - 64 * f) ^ 4 +
      1072083848640 * (64 * f - 32) * (33 - 64 * f) ^ 3 +
      1602725904983 * (64 * f - 32) ^ 2 * (33 - 64 * f) ^ 2 +
      1064857566062 * (64 * f - 32) ^ 3 * (33 - 64 * f) +
      265301428151 * (64 * f - 32) ^ 4"
    by algebra
  have "0 \<le> 4096 * (30277632 * f ^ 4 - 86523625 * f ^ 2 + 15564384 * f + 77609216)"
    unfolding id
    using assms 
    by (intro add_nonneg_nonneg mult_nonneg_nonneg zero_le_power) simp_all
  then show ?thesis by simp
qed

lemma cert_U6_poly_c_20:
  fixes f z :: real
  assumes "31 / 256 \<le> z" "z \<le> 33 / 256" "1 / 2 \<le> f" "f \<le> 33 / 64"
  shows "0 \<le> 118272 * f ^ 4 + 1005312 * f ^ 2 * z ^ 2 - 354688 * f ^ 2 + 471648 * f * z + 303161"
proof -
  define Q0 where "Q0 = 30277632 * f ^ 4 - 87026281 * f ^ 2 + 14621088 * f + 77609216"
  define Q1 where "Q1 = 30277632 * f ^ 4 - 86782807 * f ^ 2 + 15092736 * f + 77609216"
  define Q2 where "Q2 = 30277632 * f ^ 4 - 86523625 * f ^ 2 + 15564384 * f + 77609216"
  have q0: "0 \<le> Q0" unfolding Q0_def by (rule cert_U6_poly_c_17 [OF assms(3) assms(4)])
  have q1: "0 \<le> Q1" unfolding Q1_def by (rule cert_U6_poly_c_18 [OF assms(3) assms(4)])
  have q2: "0 \<le> Q2" unfolding Q2_def by (rule cert_U6_poly_c_19 [OF assms(3) assms(4)])
  have id: "1024 * (118272 * f ^ 4 + 1005312 * f ^ 2 * z ^ 2 - 354688 * f ^ 2 + 471648 * f * z + 303161) =
      1 * (33 - 256 * z) ^ 2 * Q0 +
      2 * (256 * z - 31) * (33 - 256 * z) * Q1 +
      1 * (256 * z - 31) ^ 2 * Q2"
    unfolding Q0_def Q1_def Q2_def by algebra
  have "0 \<le> 1024 * (118272 * f ^ 4 + 1005312 * f ^ 2 * z ^ 2 - 354688 * f ^ 2 + 471648 * f * z + 303161)"
    unfolding id
    using assms q0 q1 q2
    by (intro add_nonneg_nonneg mult_nonneg_nonneg zero_le_power) simp_all
  then show ?thesis by simp
qed

lemma cert_U6_poly_c_21:
  fixes f u z :: real
  assumes "19 / 16 \<le> u" "u \<le> 17 / 8" "31 / 256 \<le> z" "z \<le> 33 / 256" "1 / 2 \<le> f" "f \<le> 33 / 64"
  shows "0 \<le> 100 * u ^ 4 + 1024 * u ^ 3 * f ^ 2 * z ^ 2 - 320 * u ^ 3 * f ^ 2 + 432 * u ^ 3 * f * z + 124 * u ^ 3 + 256 * u ^ 2 * f ^ 4 + 16 * u ^ 2 * f ^ 2 * z ^ 2 - 128 * u ^ 2 * f ^ 2 - 125 * u ^ 2 + 4 * u * f ^ 4 - 500 * u * f ^ 2 * z ^ 2 + 250 * u * f ^ 2 - 125 * f ^ 4"
proof -
  define Q0 where "Q0 = 438272 * f ^ 4 + 2081792 * f ^ 2 * z ^ 2 - 763648 * f ^ 2 + 1316928 * f * z + 419121"
  define Q1 where "Q1 = 349696 * f ^ 4 + 1866496 * f ^ 2 * z ^ 2 - 682144 * f ^ 2 + 1048344 * f * z + 401033"
  define Q2 where "Q2 = 771584 * f ^ 4 + 4770944 * f ^ 2 * z ^ 2 - 1727296 * f ^ 2 + 2465136 * f * z + 1121327"
  define Q3 where "Q3 = 178304 * f ^ 4 + 1293824 * f ^ 2 * z ^ 2 - 462496 * f ^ 2 + 631176 * f * z + 340357"
  define Q4 where "Q4 = 118272 * f ^ 4 + 1005312 * f ^ 2 * z ^ 2 - 354688 * f ^ 2 + 471648 * f * z + 303161"
  have q0: "0 \<le> Q0" unfolding Q0_def by (rule cert_U6_poly_c_4 [OF assms(3) assms(4) assms(5) assms(6)])
  have q1: "0 \<le> Q1" unfolding Q1_def by (rule cert_U6_poly_c_8 [OF assms(3) assms(4) assms(5) assms(6)])
  have q2: "0 \<le> Q2" unfolding Q2_def by (rule cert_U6_poly_c_12 [OF assms(3) assms(4) assms(5) assms(6)])
  have q3: "0 \<le> Q3" unfolding Q3_def by (rule cert_U6_poly_c_16 [OF assms(3) assms(4) assms(5) assms(6)])
  have q4: "0 \<le> Q4" unfolding Q4_def by (rule cert_U6_poly_c_20 [OF assms(3) assms(4) assms(5) assms(6)])
  have id: "829440000 * (100 * u ^ 4 + 1024 * u ^ 3 * f ^ 2 * z ^ 2 - 320 * u ^ 3 * f ^ 2 + 432 * u ^ 3 * f * z + 124 * u ^ 3 + 256 * u ^ 2 * f ^ 4 + 16 * u ^ 2 * f ^ 2 * z ^ 2 - 128 * u ^ 2 * f ^ 2 - 125 * u ^ 2 + 4 * u * f ^ 4 - 500 * u * f ^ 2 * z ^ 2 + 250 * u * f ^ 2 - 125 * f ^ 4) =
      9 * (34 - 16 * u) ^ 4 * Q0 +
      72 * (16 * u - 19) * (34 - 16 * u) ^ 3 * Q1 +
      72 * (16 * u - 19) ^ 2 * (34 - 16 * u) ^ 2 * Q2 +
      288 * (16 * u - 19) ^ 3 * (34 - 16 * u) * Q3 +
      144 * (16 * u - 19) ^ 4 * Q4"
    unfolding Q0_def Q1_def Q2_def Q3_def Q4_def by algebra
  have "0 \<le> 829440000 * (100 * u ^ 4 + 1024 * u ^ 3 * f ^ 2 * z ^ 2 - 320 * u ^ 3 * f ^ 2 + 432 * u ^ 3 * f * z + 124 * u ^ 3 + 256 * u ^ 2 * f ^ 4 + 16 * u ^ 2 * f ^ 2 * z ^ 2 - 128 * u ^ 2 * f ^ 2 - 125 * u ^ 2 + 4 * u * f ^ 4 - 500 * u * f ^ 2 * z ^ 2 + 250 * u * f ^ 2 - 125 * f ^ 4)"
    unfolding id
    using assms q0 q1 q2 q3 q4
    by (intro add_nonneg_nonneg mult_nonneg_nonneg zero_le_power) simp_all
  then show ?thesis by simp
qed

lemma cert_U6_poly_d_1:
  fixes f :: real
  assumes "1 / 2 \<le> f" "f \<le> 33 / 64"
  shows "0 \<le> 30277632 * f ^ 4 - 87026281 * f ^ 2 + 14621088 * f + 77609216"
proof -
  have id: "4096 * (30277632 * f ^ 4 - 87026281 * f ^ 2 + 14621088 * f + 77609216) =
      266467499008 * (33 - 64 * f) ^ 4 +
      1062204947904 * (64 * f - 32) * (33 - 64 * f) ^ 3 +
      1587768239831 * (64 * f - 32) ^ 2 * (33 - 64 * f) ^ 2 +
      1054792578158 * (64 * f - 32) ^ 3 * (33 - 64 * f) +
      262761794615 * (64 * f - 32) ^ 4"
    by algebra
  have "0 \<le> 4096 * (30277632 * f ^ 4 - 87026281 * f ^ 2 + 14621088 * f + 77609216)"
    unfolding id
    using assms 
    by (intro add_nonneg_nonneg mult_nonneg_nonneg zero_le_power) simp_all
  then show ?thesis by simp
qed

lemma cert_U6_poly_d_2:
  fixes f :: real
  assumes "1 / 2 \<le> f" "f \<le> 33 / 64"
  shows "0 \<le> 30277632 * f ^ 4 - 86782807 * f ^ 2 + 15092736 * f + 77609216"
proof -
  have id: "4096 * (30277632 * f ^ 4 - 86782807 * f ^ 2 + 15092736 * f + 77609216) =
      267682751488 * (33 - 64 * f) ^ 4 +
      1067111725632 * (64 * f - 32) * (33 - 64 * f) ^ 3 +
      1595197301609 * (64 * f - 32) ^ 2 * (33 - 64 * f) ^ 2 +
      1059791378450 * (64 * f - 32) ^ 3 * (33 - 64 * f) +
      264023058377 * (64 * f - 32) ^ 4"
    by algebra
  have "0 \<le> 4096 * (30277632 * f ^ 4 - 86782807 * f ^ 2 + 15092736 * f + 77609216)"
    unfolding id
    using assms 
    by (intro add_nonneg_nonneg mult_nonneg_nonneg zero_le_power) simp_all
  then show ?thesis by simp
qed

lemma cert_U6_poly_d_3:
  fixes f :: real
  assumes "1 / 2 \<le> f" "f \<le> 33 / 64"
  shows "0 \<le> 30277632 * f ^ 4 - 86523625 * f ^ 2 + 15564384 * f + 77609216"
proof -
  have id: "4096 * (30277632 * f ^ 4 - 86523625 * f ^ 2 + 15564384 * f + 77609216) =
      268914088960 * (33 - 64 * f) ^ 4 +
      1072083848640 * (64 * f - 32) * (33 - 64 * f) ^ 3 +
      1602725904983 * (64 * f - 32) ^ 2 * (33 - 64 * f) ^ 2 +
      1064857566062 * (64 * f - 32) ^ 3 * (33 - 64 * f) +
      265301428151 * (64 * f - 32) ^ 4"
    by algebra
  have "0 \<le> 4096 * (30277632 * f ^ 4 - 86523625 * f ^ 2 + 15564384 * f + 77609216)"
    unfolding id
    using assms 
    by (intro add_nonneg_nonneg mult_nonneg_nonneg zero_le_power) simp_all
  then show ?thesis by simp
qed

lemma cert_U6_poly_d_4:
  fixes f z :: real
  assumes "31 / 256 \<le> z" "z \<le> 33 / 256" "1 / 2 \<le> f" "f \<le> 33 / 64"
  shows "0 \<le> 118272 * f ^ 4 + 1005312 * f ^ 2 * z ^ 2 - 354688 * f ^ 2 + 471648 * f * z + 303161"
proof -
  define Q0 where "Q0 = 30277632 * f ^ 4 - 87026281 * f ^ 2 + 14621088 * f + 77609216"
  define Q1 where "Q1 = 30277632 * f ^ 4 - 86782807 * f ^ 2 + 15092736 * f + 77609216"
  define Q2 where "Q2 = 30277632 * f ^ 4 - 86523625 * f ^ 2 + 15564384 * f + 77609216"
  have q0: "0 \<le> Q0" unfolding Q0_def by (rule cert_U6_poly_d_1 [OF assms(3) assms(4)])
  have q1: "0 \<le> Q1" unfolding Q1_def by (rule cert_U6_poly_d_2 [OF assms(3) assms(4)])
  have q2: "0 \<le> Q2" unfolding Q2_def by (rule cert_U6_poly_d_3 [OF assms(3) assms(4)])
  have id: "1024 * (118272 * f ^ 4 + 1005312 * f ^ 2 * z ^ 2 - 354688 * f ^ 2 + 471648 * f * z + 303161) =
      1 * (33 - 256 * z) ^ 2 * Q0 +
      2 * (256 * z - 31) * (33 - 256 * z) * Q1 +
      1 * (256 * z - 31) ^ 2 * Q2"
    unfolding Q0_def Q1_def Q2_def by algebra
  have "0 \<le> 1024 * (118272 * f ^ 4 + 1005312 * f ^ 2 * z ^ 2 - 354688 * f ^ 2 + 471648 * f * z + 303161)"
    unfolding id
    using assms q0 q1 q2
    by (intro add_nonneg_nonneg mult_nonneg_nonneg zero_le_power) simp_all
  then show ?thesis by simp
qed

lemma cert_U6_poly_d_5:
  fixes f :: real
  assumes "1 / 2 \<le> f" "f \<le> 33 / 64"
  shows "0 \<le> 45187072 * f ^ 4 - 147536761 * f ^ 2 + 24296808 * f + 145696256"
proof -
  have id: "4096 * (45187072 * f ^ 4 - 147536761 * f ^ 2 + 24296808 * f + 145696256) =
      507021974528 * (33 - 64 * f) ^ 4 +
      2021646527424 * (64 * f - 32) * (33 - 64 * f) ^ 3 +
      3022727978951 * (64 * f - 32) ^ 2 * (33 - 64 * f) ^ 2 +
      2008605685838 * (64 * f - 32) ^ 3 * (33 - 64 * f) +
      500502270815 * (64 * f - 32) ^ 4"
    by algebra
  have "0 \<le> 4096 * (45187072 * f ^ 4 - 147536761 * f ^ 2 + 24296808 * f + 145696256)"
    unfolding id
    using assms 
    by (intro add_nonneg_nonneg mult_nonneg_nonneg zero_le_power) simp_all
  then show ?thesis by simp
qed

lemma cert_U6_poly_d_6:
  fixes f :: real
  assumes "1 / 2 \<le> f" "f \<le> 33 / 64"
  shows "0 \<le> 45187072 * f ^ 4 - 147119687 * f ^ 2 + 25080576 * f + 145696256"
proof -
  have id: "4096 * (45187072 * f ^ 4 - 147119687 * f ^ 2 + 25080576 * f + 145696256) =
      509054215168 * (33 - 64 * f) ^ 4 +
      2029852343872 * (64 * f - 32) * (33 - 64 * f) ^ 3 +
      3035152401529 * (64 * f - 32) ^ 2 * (33 - 64 * f) ^ 2 +
      2016966044210 * (64 * f - 32) ^ 3 * (33 - 64 * f) +
      502611782417 * (64 * f - 32) ^ 4"
    by algebra
  have "0 \<le> 4096 * (45187072 * f ^ 4 - 147119687 * f ^ 2 + 25080576 * f + 145696256)"
    unfolding id
    using assms 
    by (intro add_nonneg_nonneg mult_nonneg_nonneg zero_le_power) simp_all
  then show ?thesis by simp
qed

lemma cert_U6_poly_d_7:
  fixes f :: real
  assumes "1 / 2 \<le> f" "f \<le> 33 / 64"
  shows "0 \<le> 45187072 * f ^ 4 - 146675705 * f ^ 2 + 25864344 * f + 145696256"
proof -
  have id: "4096 * (45187072 * f ^ 4 - 146675705 * f ^ 2 + 25864344 * f + 145696256) =
      511114009600 * (33 - 64 * f) ^ 4 +
      2038170097600 * (64 * f - 32) * (33 - 64 * f) ^ 3 +
      3047747340103 * (64 * f - 32) ^ 2 * (33 - 64 * f) ^ 2 +
      2025441837902 * (64 * f - 32) ^ 3 * (33 - 64 * f) +
      504750596831 * (64 * f - 32) ^ 4"
    by algebra
  have "0 \<le> 4096 * (45187072 * f ^ 4 - 146675705 * f ^ 2 + 25864344 * f + 145696256)"
    unfolding id
    using assms 
    by (intro add_nonneg_nonneg mult_nonneg_nonneg zero_le_power) simp_all
  then show ?thesis by simp
qed

lemma cert_U6_poly_d_8:
  fixes f z :: real
  assumes "31 / 256 \<le> z" "z \<le> 33 / 256" "1 / 2 \<le> f" "f \<le> 33 / 64"
  shows "0 \<le> 88256 * f ^ 4 + 861056 * f ^ 2 * z ^ 2 - 300784 * f ^ 2 + 391884 * f * z + 284563"
proof -
  define Q0 where "Q0 = 45187072 * f ^ 4 - 147536761 * f ^ 2 + 24296808 * f + 145696256"
  define Q1 where "Q1 = 45187072 * f ^ 4 - 147119687 * f ^ 2 + 25080576 * f + 145696256"
  define Q2 where "Q2 = 45187072 * f ^ 4 - 146675705 * f ^ 2 + 25864344 * f + 145696256"
  have q0: "0 \<le> Q0" unfolding Q0_def by (rule cert_U6_poly_d_5 [OF assms(3) assms(4)])
  have q1: "0 \<le> Q1" unfolding Q1_def by (rule cert_U6_poly_d_6 [OF assms(3) assms(4)])
  have q2: "0 \<le> Q2" unfolding Q2_def by (rule cert_U6_poly_d_7 [OF assms(3) assms(4)])
  have id: "2048 * (88256 * f ^ 4 + 861056 * f ^ 2 * z ^ 2 - 300784 * f ^ 2 + 391884 * f * z + 284563) =
      1 * (33 - 256 * z) ^ 2 * Q0 +
      2 * (256 * z - 31) * (33 - 256 * z) * Q1 +
      1 * (256 * z - 31) ^ 2 * Q2"
    unfolding Q0_def Q1_def Q2_def by algebra
  have "0 \<le> 2048 * (88256 * f ^ 4 + 861056 * f ^ 2 * z ^ 2 - 300784 * f ^ 2 + 391884 * f * z + 284563)"
    unfolding id
    using assms q0 q1 q2
    by (intro add_nonneg_nonneg mult_nonneg_nonneg zero_le_power) simp_all
  then show ?thesis by simp
qed

lemma cert_U6_poly_d_9:
  fixes f :: real
  assumes "1 / 2 \<le> f" "f \<le> 33 / 64"
  shows "0 \<le> 386793472 * f ^ 4 - 1460460421 * f ^ 2 + 237984768 * f + 1628286976"
proof -
  have id: "4096 * (386793472 * f ^ 4 - 1460460421 * f ^ 2 + 237984768 * f + 1628286976) =
      5760363916288 * (33 - 64 * f) ^ 4 +
      22975594614464 * (64 * f - 32) * (33 - 64 * f) ^ 3 +
      34363720075451 * (64 * f - 32) ^ 2 * (33 - 64 * f) ^ 2 +
      22842124059958 * (64 * f - 32) ^ 3 * (33 - 64 * f) +
      5693634777115 * (64 * f - 32) ^ 4"
    by algebra
  have "0 \<le> 4096 * (386793472 * f ^ 4 - 1460460421 * f ^ 2 + 237984768 * f + 1628286976)"
    unfolding id
    using assms 
    by (intro add_nonneg_nonneg mult_nonneg_nonneg zero_le_power) simp_all
  then show ?thesis by simp
qed

lemma cert_U6_poly_d_10:
  fixes f :: real
  assumes "1 / 2 \<le> f" "f \<le> 33 / 64"
  shows "0 \<le> 386793472 * f ^ 4 - 1456282427 * f ^ 2 + 245661696 * f + 1628286976"
proof -
  have id: "4096 * (386793472 * f ^ 4 - 1456282427 * f ^ 2 + 245661696 * f + 1628286976) =
      5780364530688 * (33 - 64 * f) ^ 4 +
      23056355787072 * (64 * f - 32) * (33 - 64 * f) ^ 3 +
      34486004084869 * (64 * f - 32) ^ 2 * (33 - 64 * f) ^ 2 +
      22924411018570 * (64 * f - 32) ^ 3 * (33 - 64 * f) +
      5714398284517 * (64 * f - 32) ^ 4"
    by algebra
  have "0 \<le> 4096 * (386793472 * f ^ 4 - 1456282427 * f ^ 2 + 245661696 * f + 1628286976)"
    unfolding id
    using assms 
    by (intro add_nonneg_nonneg mult_nonneg_nonneg zero_le_power) simp_all
  then show ?thesis by simp
qed

lemma cert_U6_poly_d_11:
  fixes f :: real
  assumes "1 / 2 \<le> f" "f \<le> 33 / 64"
  shows "0 \<le> 386793472 * f ^ 4 - 1451834885 * f ^ 2 + 253338624 * f + 1628286976"
proof -
  have id: "4096 * (386793472 * f ^ 4 - 1451834885 * f ^ 2 + 253338624 * f + 1628286976) =
      5800641162240 * (33 - 64 * f) ^ 4 +
      23138238279360 * (64 * f - 32) * (33 - 64 * f) ^ 3 +
      34609996219963 * (64 * f - 32) ^ 2 * (33 - 64 * f) ^ 2 +
      23007854338102 * (64 * f - 32) ^ 3 * (33 - 64 * f) +
      5735455329691 * (64 * f - 32) ^ 4"
    by algebra
  have "0 \<le> 4096 * (386793472 * f ^ 4 - 1451834885 * f ^ 2 + 253338624 * f + 1628286976)"
    unfolding id
    using assms 
    by (intro add_nonneg_nonneg mult_nonneg_nonneg zero_le_power) simp_all
  then show ?thesis by simp
qed

lemma cert_U6_poly_d_12:
  fixes f z :: real
  assumes "31 / 256 \<le> z" "z \<le> 33 / 256" "1 / 2 \<le> f" "f \<le> 33 / 64"
  shows "0 \<le> 94432 * f ^ 4 + 1078192 * f ^ 2 * z ^ 2 - 372368 * f ^ 2 + 479808 * f * z + 397531"
proof -
  define Q0 where "Q0 = 386793472 * f ^ 4 - 1460460421 * f ^ 2 + 237984768 * f + 1628286976"
  define Q1 where "Q1 = 386793472 * f ^ 4 - 1456282427 * f ^ 2 + 245661696 * f + 1628286976"
  define Q2 where "Q2 = 386793472 * f ^ 4 - 1451834885 * f ^ 2 + 253338624 * f + 1628286976"
  have q0: "0 \<le> Q0" unfolding Q0_def by (rule cert_U6_poly_d_9 [OF assms(3) assms(4)])
  have q1: "0 \<le> Q1" unfolding Q1_def by (rule cert_U6_poly_d_10 [OF assms(3) assms(4)])
  have q2: "0 \<le> Q2" unfolding Q2_def by (rule cert_U6_poly_d_11 [OF assms(3) assms(4)])
  have id: "16384 * (94432 * f ^ 4 + 1078192 * f ^ 2 * z ^ 2 - 372368 * f ^ 2 + 479808 * f * z + 397531) =
      1 * (33 - 256 * z) ^ 2 * Q0 +
      2 * (256 * z - 31) * (33 - 256 * z) * Q1 +
      1 * (256 * z - 31) ^ 2 * Q2"
    unfolding Q0_def Q1_def Q2_def by algebra
  have "0 \<le> 16384 * (94432 * f ^ 4 + 1078192 * f ^ 2 * z ^ 2 - 372368 * f ^ 2 + 479808 * f * z + 397531)"
    unfolding id
    using assms q0 q1 q2
    by (intro add_nonneg_nonneg mult_nonneg_nonneg zero_le_power) simp_all
  then show ?thesis by simp
qed

lemma cert_U6_poly_d_13:
  fixes f :: real
  assumes "1 / 2 \<le> f" "f \<le> 33 / 64"
  shows "0 \<le> 176226304 * f ^ 4 - 778570917 * f ^ 2 + 126468096 * f + 1002831872"
proof -
  have id: "4096 * (176226304 * f ^ 4 - 778570917 * f ^ 2 + 126468096 * f + 1002831872) =
      3614463323136 * (33 - 64 * f) ^ 4 +
      14421757953728 * (64 * f - 32) * (33 - 64 * f) ^ 3 +
      21577979690907 * (64 * f - 32) ^ 2 * (33 - 64 * f) ^ 2 +
      14348544320246 * (64 * f - 32) ^ 3 * (33 - 64 * f) +
      3577859302955 * (64 * f - 32) ^ 4"
    by algebra
  have "0 \<le> 4096 * (176226304 * f ^ 4 - 778570917 * f ^ 2 + 126468096 * f + 1002831872)"
    unfolding id
    using assms 
    by (intro add_nonneg_nonneg mult_nonneg_nonneg zero_le_power) simp_all
  then show ?thesis by simp
qed

lemma cert_U6_poly_d_14:
  fixes f :: real
  assumes "1 / 2 \<le> f" "f \<le> 33 / 64"
  shows "0 \<le> 176226304 * f ^ 4 - 776315419 * f ^ 2 + 130547712 * f + 1002831872"
proof -
  have id: "4096 * (176226304 * f ^ 4 - 776315419 * f ^ 2 + 130547712 * f + 1002831872) =
      3625128006656 * (33 - 64 * f) ^ 4 +
      14464822135104 * (64 * f - 32) * (33 - 64 * f) ^ 3 +
      21643186389413 * (64 * f - 32) ^ 2 * (33 - 64 * f) ^ 2 +
      14392423907210 * (64 * f - 32) ^ 3 * (33 - 64 * f) +
      3588931689269 * (64 * f - 32) ^ 4"
    by algebra
  have "0 \<le> 4096 * (176226304 * f ^ 4 - 776315419 * f ^ 2 + 130547712 * f + 1002831872)"
    unfolding id
    using assms 
    by (intro add_nonneg_nonneg mult_nonneg_nonneg zero_le_power) simp_all
  then show ?thesis by simp
qed

lemma cert_U6_poly_d_15:
  fixes f :: real
  assumes "1 / 2 \<le> f" "f \<le> 33 / 64"
  shows "0 \<le> 176226304 * f ^ 4 - 773914405 * f ^ 2 + 134627328 * f + 1002831872"
proof -
  have id: "4096 * (176226304 * f ^ 4 - 773914405 * f ^ 2 + 134627328 * f + 1002831872) =
      3635941698560 * (33 - 64 * f) ^ 4 +
      14508491663040 * (64 * f - 32) * (33 - 64 * f) ^ 3 +
      21709315222811 * (64 * f - 32) ^ 2 * (33 - 64 * f) ^ 2 +
      14436927757814 * (64 * f - 32) ^ 3 * (33 - 64 * f) +
      3600162542507 * (64 * f - 32) ^ 4"
    by algebra
  have "0 \<le> 4096 * (176226304 * f ^ 4 - 773914405 * f ^ 2 + 134627328 * f + 1002831872)"
    unfolding id
    using assms 
    by (intro add_nonneg_nonneg mult_nonneg_nonneg zero_le_power) simp_all
  then show ?thesis by simp
qed

lemma cert_U6_poly_d_16:
  fixes f z :: real
  assumes "31 / 256 \<le> z" "z \<le> 33 / 256" "1 / 2 \<le> f" "f \<le> 33 / 64"
  shows "0 \<le> 5378 * f ^ 4 + 72758 * f ^ 2 * z ^ 2 - 24827 * f ^ 2 + 31872 * f * z + 30604"
proof -
  define Q0 where "Q0 = 176226304 * f ^ 4 - 778570917 * f ^ 2 + 126468096 * f + 1002831872"
  define Q1 where "Q1 = 176226304 * f ^ 4 - 776315419 * f ^ 2 + 130547712 * f + 1002831872"
  define Q2 where "Q2 = 176226304 * f ^ 4 - 773914405 * f ^ 2 + 134627328 * f + 1002831872"
  have q0: "0 \<le> Q0" unfolding Q0_def by (rule cert_U6_poly_d_13 [OF assms(3) assms(4)])
  have q1: "0 \<le> Q1" unfolding Q1_def by (rule cert_U6_poly_d_14 [OF assms(3) assms(4)])
  have q2: "0 \<le> Q2" unfolding Q2_def by (rule cert_U6_poly_d_15 [OF assms(3) assms(4)])
  have id: "131072 * (5378 * f ^ 4 + 72758 * f ^ 2 * z ^ 2 - 24827 * f ^ 2 + 31872 * f * z + 30604) =
      1 * (33 - 256 * z) ^ 2 * Q0 +
      2 * (256 * z - 31) * (33 - 256 * z) * Q1 +
      1 * (256 * z - 31) ^ 2 * Q2"
    unfolding Q0_def Q1_def Q2_def by algebra
  have "0 \<le> 131072 * (5378 * f ^ 4 + 72758 * f ^ 2 * z ^ 2 - 24827 * f ^ 2 + 31872 * f * z + 30604)"
    unfolding id
    using assms q0 q1 q2
    by (intro add_nonneg_nonneg mult_nonneg_nonneg zero_le_power) simp_all
  then show ?thesis by simp
qed

lemma cert_U6_poly_d_17:
  fixes f :: real
  assumes "1 / 2 \<le> f" "f \<le> 33 / 64"
  shows "0 \<le> 1814528 * f ^ 4 - 9371909 * f ^ 2 + 1523712 * f + 14352384"
proof -
  have id: "4096 * (1814528 * f ^ 4 - 9371909 * f ^ 2 + 1523712 * f + 14352384) =
      52775611392 * (33 - 64 * f) ^ 4 +
      210658225856 * (64 * f - 32) * (33 - 64 * f) ^ 3 +
      315314359099 * (64 * f - 32) ^ 2 * (33 - 64 * f) ^ 2 +
      209756542902 * (64 * f - 32) ^ 3 * (33 - 64 * f) +
      52324798710 * (64 * f - 32) ^ 4"
    by algebra
  have "0 \<le> 4096 * (1814528 * f ^ 4 - 9371909 * f ^ 2 + 1523712 * f + 14352384)"
    unfolding id
    using assms 
    by (intro add_nonneg_nonneg mult_nonneg_nonneg zero_le_power) simp_all
  then show ?thesis by simp
qed

lemma cert_U6_poly_d_18:
  fixes f :: real
  assumes "1 / 2 \<le> f" "f \<le> 33 / 64"
  shows "0 \<le> 1814528 * f ^ 4 - 9344443 * f ^ 2 + 1572864 * f + 14352384"
proof -
  have id: "4096 * (1814528 * f ^ 4 - 9344443 * f ^ 2 + 1572864 * f + 14352384) =
      52904399872 * (33 - 64 * f) ^ 4 +
      211178283328 * (64 * f - 32) * (33 - 64 * f) ^ 3 +
      316101828101 * (64 * f - 32) ^ 2 * (33 - 64 * f) ^ 2 +
      210286462410 * (64 * f - 32) ^ 3 * (33 - 64 * f) +
      52458518208 * (64 * f - 32) ^ 4"
    by algebra
  have "0 \<le> 4096 * (1814528 * f ^ 4 - 9344443 * f ^ 2 + 1572864 * f + 14352384)"
    unfolding id
    using assms 
    by (intro add_nonneg_nonneg mult_nonneg_nonneg zero_le_power) simp_all
  then show ?thesis by simp
qed

lemma cert_U6_poly_d_19:
  fixes f :: real
  assumes "1 / 2 \<le> f" "f \<le> 33 / 64"
  shows "0 \<le> 1814528 * f ^ 4 - 9315205 * f ^ 2 + 1622016 * f + 14352384"
proof -
  have id: "4096 * (1814528 * f ^ 4 - 9315205 * f ^ 2 + 1622016 * f + 14352384) =
      53035002880 * (33 - 64 * f) ^ 4 +
      211705712320 * (64 * f - 32) * (33 - 64 * f) ^ 3 +
      316900526267 * (64 * f - 32) ^ 2 * (33 - 64 * f) ^ 2 +
      210823983798 * (64 * f - 32) ^ 3 * (33 - 64 * f) +
      52594167414 * (64 * f - 32) ^ 4"
    by algebra
  have "0 \<le> 4096 * (1814528 * f ^ 4 - 9315205 * f ^ 2 + 1622016 * f + 14352384)"
    unfolding id
    using assms 
    by (intro add_nonneg_nonneg mult_nonneg_nonneg zero_le_power) simp_all
  then show ?thesis by simp
qed

lemma cert_U6_poly_d_20:
  fixes f z :: real
  assumes "31 / 256 \<le> z" "z \<le> 33 / 256" "1 / 2 \<le> f" "f \<le> 33 / 64"
  shows "0 \<le> 443 * f ^ 4 + 7088 * f ^ 2 * z ^ 2 - 2392 * f ^ 2 + 3072 * f * z + 3504"
proof -
  define Q0 where "Q0 = 1814528 * f ^ 4 - 9371909 * f ^ 2 + 1523712 * f + 14352384"
  define Q1 where "Q1 = 1814528 * f ^ 4 - 9344443 * f ^ 2 + 1572864 * f + 14352384"
  define Q2 where "Q2 = 1814528 * f ^ 4 - 9315205 * f ^ 2 + 1622016 * f + 14352384"
  have q0: "0 \<le> Q0" unfolding Q0_def by (rule cert_U6_poly_d_17 [OF assms(3) assms(4)])
  have q1: "0 \<le> Q1" unfolding Q1_def by (rule cert_U6_poly_d_18 [OF assms(3) assms(4)])
  have q2: "0 \<le> Q2" unfolding Q2_def by (rule cert_U6_poly_d_19 [OF assms(3) assms(4)])
  have id: "16384 * (443 * f ^ 4 + 7088 * f ^ 2 * z ^ 2 - 2392 * f ^ 2 + 3072 * f * z + 3504) =
      1 * (33 - 256 * z) ^ 2 * Q0 +
      2 * (256 * z - 31) * (33 - 256 * z) * Q1 +
      1 * (256 * z - 31) ^ 2 * Q2"
    unfolding Q0_def Q1_def Q2_def by algebra
  have "0 \<le> 16384 * (443 * f ^ 4 + 7088 * f ^ 2 * z ^ 2 - 2392 * f ^ 2 + 3072 * f * z + 3504)"
    unfolding id
    using assms q0 q1 q2
    by (intro add_nonneg_nonneg mult_nonneg_nonneg zero_le_power) simp_all
  then show ?thesis by simp
qed

lemma cert_U6_poly_d_21:
  fixes f u z :: real
  assumes "17 / 8 \<le> u" "u \<le> 4" "31 / 256 \<le> z" "z \<le> 33 / 256" "1 / 2 \<le> f" "f \<le> 33 / 64"
  shows "0 \<le> 100 * u ^ 4 + 1024 * u ^ 3 * f ^ 2 * z ^ 2 - 320 * u ^ 3 * f ^ 2 + 432 * u ^ 3 * f * z + 124 * u ^ 3 + 256 * u ^ 2 * f ^ 4 + 16 * u ^ 2 * f ^ 2 * z ^ 2 - 128 * u ^ 2 * f ^ 2 - 125 * u ^ 2 + 4 * u * f ^ 4 - 500 * u * f ^ 2 * z ^ 2 + 250 * u * f ^ 2 - 125 * f ^ 4"
proof -
  define Q0 where "Q0 = 118272 * f ^ 4 + 1005312 * f ^ 2 * z ^ 2 - 354688 * f ^ 2 + 471648 * f * z + 303161"
  define Q1 where "Q1 = 88256 * f ^ 4 + 861056 * f ^ 2 * z ^ 2 - 300784 * f ^ 2 + 391884 * f * z + 284563"
  define Q2 where "Q2 = 94432 * f ^ 4 + 1078192 * f ^ 2 * z ^ 2 - 372368 * f ^ 2 + 479808 * f * z + 397531"
  define Q3 where "Q3 = 5378 * f ^ 4 + 72758 * f ^ 2 * z ^ 2 - 24827 * f ^ 2 + 31872 * f * z + 30604"
  define Q4 where "Q4 = 443 * f ^ 4 + 7088 * f ^ 2 * z ^ 2 - 2392 * f ^ 2 + 3072 * f * z + 3504"
  have q0: "0 \<le> Q0" unfolding Q0_def by (rule cert_U6_poly_d_4 [OF assms(3) assms(4) assms(5) assms(6)])
  have q1: "0 \<le> Q1" unfolding Q1_def by (rule cert_U6_poly_d_8 [OF assms(3) assms(4) assms(5) assms(6)])
  have q2: "0 \<le> Q2" unfolding Q2_def by (rule cert_U6_poly_d_12 [OF assms(3) assms(4) assms(5) assms(6)])
  have q3: "0 \<le> Q3" unfolding Q3_def by (rule cert_U6_poly_d_16 [OF assms(3) assms(4) assms(5) assms(6)])
  have q4: "0 \<le> Q4" unfolding Q4_def by (rule cert_U6_poly_d_20 [OF assms(3) assms(4) assms(5) assms(6)])
  have id: "51840000 * (100 * u ^ 4 + 1024 * u ^ 3 * f ^ 2 * z ^ 2 - 320 * u ^ 3 * f ^ 2 + 432 * u ^ 3 * f * z + 124 * u ^ 3 + 256 * u ^ 2 * f ^ 4 + 16 * u ^ 2 * f ^ 2 * z ^ 2 - 128 * u ^ 2 * f ^ 2 - 125 * u ^ 2 + 4 * u * f ^ 4 - 500 * u * f ^ 2 * z ^ 2 + 250 * u * f ^ 2 - 125 * f ^ 4) =
      9 * (32 - 8 * u) ^ 4 * Q0 +
      72 * (8 * u - 17) * (32 - 8 * u) ^ 3 * Q1 +
      144 * (8 * u - 17) ^ 2 * (32 - 8 * u) ^ 2 * Q2 +
      2304 * (8 * u - 17) ^ 3 * (32 - 8 * u) * Q3 +
      9216 * (8 * u - 17) ^ 4 * Q4"
    unfolding Q0_def Q1_def Q2_def Q3_def Q4_def by algebra
  have "0 \<le> 51840000 * (100 * u ^ 4 + 1024 * u ^ 3 * f ^ 2 * z ^ 2 - 320 * u ^ 3 * f ^ 2 + 432 * u ^ 3 * f * z + 124 * u ^ 3 + 256 * u ^ 2 * f ^ 4 + 16 * u ^ 2 * f ^ 2 * z ^ 2 - 128 * u ^ 2 * f ^ 2 - 125 * u ^ 2 + 4 * u * f ^ 4 - 500 * u * f ^ 2 * z ^ 2 + 250 * u * f ^ 2 - 125 * f ^ 4)"
    unfolding id
    using assms q0 q1 q2 q3 q4
    by (intro add_nonneg_nonneg mult_nonneg_nonneg zero_le_power) simp_all
  then show ?thesis by simp
qed

lemma cert_U6_poly:
  fixes u f z :: real
  assumes "1 / 4 \<le> u" "u \<le> 4" "1 / 2 \<le> f" "f \<le> 33 / 64" "31 / 256 \<le> z" "z \<le> 33 / 256"
  shows "0 \<le> 100 * u ^ 4 + 1024 * u ^ 3 * f ^ 2 * z ^ 2 - 320 * u ^ 3 * f ^ 2 + 432 * u ^ 3 * f * z + 124 * u ^ 3 + 256 * u ^ 2 * f ^ 4 + 16 * u ^ 2 * f ^ 2 * z ^ 2 - 128 * u ^ 2 * f ^ 2 - 125 * u ^ 2 + 4 * u * f ^ 4 - 500 * u * f ^ 2 * z ^ 2 + 250 * u * f ^ 2 - 125 * f ^ 4"
proof -
  consider "u \<le> 23 / 32" | "23 / 32 \<le> u" "u \<le> 19 / 16" | "19 / 16 \<le> u" "u \<le> 17 / 8" | "17 / 8 \<le> u" by linarith
  then show ?thesis
  proof cases
    case 1
    show ?thesis by (rule cert_U6_poly_a_21 [OF assms(1) 1 assms(5) assms(6) assms(3) assms(4)])
  next
    case 2
    show ?thesis by (rule cert_U6_poly_b_21 [OF 2(1) 2(2) assms(5) assms(6) assms(3) assms(4)])
  next
    case 3
    show ?thesis by (rule cert_U6_poly_c_21 [OF 3(1) 3(2) assms(5) assms(6) assms(3) assms(4)])
  next
    case 4
    show ?thesis by (rule cert_U6_poly_d_21 [OF 4 assms(2) assms(5) assms(6) assms(3) assms(4)])
  qed
qed

lemma cert_U6:
  fixes u f z :: real
  assumes "1 / 4 \<le> u" "u \<le> 4" "1 / 2 \<le> f" "f \<le> 33 / 64" "31 / 256 \<le> z" "z \<le> 33 / 256"
  shows "ampN u f z \<le> 4 / 9 * ampD u f z"
proof -
  have id: "225 * (4 / 9 * ampD u f z - ampN u f z) =
      100 * u ^ 4 + 1024 * u ^ 3 * f ^ 2 * z ^ 2 - 320 * u ^ 3 * f ^ 2 + 432 * u ^ 3 * f * z + 124 * u ^ 3 + 256 * u ^ 2 * f ^ 4 + 16 * u ^ 2 * f ^ 2 * z ^ 2 - 128 * u ^ 2 * f ^ 2 - 125 * u ^ 2 + 4 * u * f ^ 4 - 500 * u * f ^ 2 * z ^ 2 + 250 * u * f ^ 2 - 125 * f ^ 4"
    unfolding ampN_def ampD_def by algebra
  have "0 \<le> 225 * (4 / 9 * ampD u f z - ampN u f z)"
    unfolding id by (rule cert_U6_poly [OF assms])
  then show ?thesis by simp
qed

lemma cert_L5_poly_a_1:
  fixes f :: real
  assumes "1 / 2 \<le> f" "f \<le> 33 / 64"
  shows "0 \<le> 44810240 * f ^ 4 - 14927425 * f ^ 2 - 1516320 * f + 1736448"
proof -
  have id: "4096 * (44810240 * f ^ 4 - 14927425 * f ^ 2 - 1516320 * f + 1736448) =
      192805888 * (33 - 64 * f) ^ 4 +
      1152751552 * (64 * f - 32) * (33 - 64 * f) ^ 3 +
      2353707263 * (64 * f - 32) ^ 2 * (33 - 64 * f) ^ 2 +
      2021783742 * (64 * f - 32) ^ 3 * (33 - 64 * f) +
      628033083 * (64 * f - 32) ^ 4"
    by algebra
  have "0 \<le> 4096 * (44810240 * f ^ 4 - 14927425 * f ^ 2 - 1516320 * f + 1736448)"
    unfolding id
    using assms 
    by (intro add_nonneg_nonneg mult_nonneg_nonneg zero_le_power) simp_all
  then show ?thesis by simp
qed

lemma cert_L5_poly_a_2:
  fixes f :: real
  assumes "1 / 2 \<le> f" "f \<le> 33 / 64"
  shows "0 \<le> 44810240 * f ^ 4 - 14714095 * f ^ 2 - 1555200 * f + 1736448"
proof -
  have id: "4096 * (44810240 * f ^ 4 - 14714095 * f ^ 2 - 1555200 * f + 1736448) =
      331629568 * (33 - 64 * f) ^ 4 +
      1719211072 * (64 * f - 32) * (33 - 64 * f) ^ 3 +
      3220357073 * (64 * f - 32) ^ 2 * (33 - 64 * f) ^ 2 +
      2610999522 * (64 * f - 32) ^ 3 * (33 - 64 * f) +
      778234893 * (64 * f - 32) ^ 4"
    by algebra
  have "0 \<le> 4096 * (44810240 * f ^ 4 - 14714095 * f ^ 2 - 1555200 * f + 1736448)"
    unfolding id
    using assms 
    by (intro add_nonneg_nonneg mult_nonneg_nonneg zero_le_power) simp_all
  then show ?thesis by simp
qed

lemma cert_L5_poly_a_3:
  fixes f :: real
  assumes "1 / 2 \<le> f" "f \<le> 33 / 64"
  shows "0 \<le> 44810240 * f ^ 4 - 14489825 * f ^ 2 - 1594080 * f + 1736448"
proof -
  have id: "4096 * (44810240 * f ^ 4 - 14489825 * f ^ 2 - 1594080 * f + 1736448) =
      481655808 * (33 - 64 * f) ^ 4 +
      2331180992 * (64 * f - 32) * (33 - 64 * f) ^ 3 +
      4156333663 * (64 * f - 32) ^ 2 * (33 - 64 * f) ^ 2 +
      3247147902 * (64 * f - 32) ^ 3 * (33 - 64 * f) +
      940350363 * (64 * f - 32) ^ 4"
    by algebra
  have "0 \<le> 4096 * (44810240 * f ^ 4 - 14489825 * f ^ 2 - 1594080 * f + 1736448)"
    unfolding id
    using assms 
    by (intro add_nonneg_nonneg mult_nonneg_nonneg zero_le_power) simp_all
  then show ?thesis by simp
qed

lemma cert_L5_poly_a_4:
  fixes f z :: real
  assumes "39 / 128 \<le> z" "z \<le> 41 / 128" "1 / 2 \<le> f" "f \<le> 33 / 64"
  shows "0 \<le> 175040 * f ^ 4 + 175040 * f ^ 2 * z ^ 2 - 74560 * f ^ 2 - 19440 * f * z + 6783"
proof -
  define Q0 where "Q0 = 44810240 * f ^ 4 - 14927425 * f ^ 2 - 1516320 * f + 1736448"
  define Q1 where "Q1 = 44810240 * f ^ 4 - 14714095 * f ^ 2 - 1555200 * f + 1736448"
  define Q2 where "Q2 = 44810240 * f ^ 4 - 14489825 * f ^ 2 - 1594080 * f + 1736448"
  have q0: "0 \<le> Q0" unfolding Q0_def by (rule cert_L5_poly_a_1 [OF assms(3) assms(4)])
  have q1: "0 \<le> Q1" unfolding Q1_def by (rule cert_L5_poly_a_2 [OF assms(3) assms(4)])
  have q2: "0 \<le> Q2" unfolding Q2_def by (rule cert_L5_poly_a_3 [OF assms(3) assms(4)])
  have id: "1024 * (175040 * f ^ 4 + 175040 * f ^ 2 * z ^ 2 - 74560 * f ^ 2 - 19440 * f * z + 6783) =
      1 * (41 - 128 * z) ^ 2 * Q0 +
      2 * (128 * z - 39) * (41 - 128 * z) * Q1 +
      1 * (128 * z - 39) ^ 2 * Q2"
    unfolding Q0_def Q1_def Q2_def by algebra
  have "0 \<le> 1024 * (175040 * f ^ 4 + 175040 * f ^ 2 * z ^ 2 - 74560 * f ^ 2 - 19440 * f * z + 6783)"
    unfolding id
    using assms q0 q1 q2
    by (intro add_nonneg_nonneg mult_nonneg_nonneg zero_le_power) simp_all
  then show ?thesis by simp
qed

lemma cert_L5_poly:
  fixes f z :: real
  assumes "1 / 2 \<le> f" "f \<le> 33 / 64" "39 / 128 \<le> z" "z \<le> 41 / 128"
  shows "0 \<le> 175040 * f ^ 4 + 175040 * f ^ 2 * z ^ 2 - 74560 * f ^ 2 - 19440 * f * z + 6783"
  by (rule cert_L5_poly_a_4 [OF assms(3) assms(4) assms(1) assms(2)])

lemma cert_L5:
  fixes f z :: real
  assumes "1 / 2 \<le> f" "f \<le> 33 / 64" "39 / 128 \<le> z" "z \<le> 41 / 128"
  shows "9 / 16 * ampD (1 / 4) f z < ampN (1 / 4) f z"
proof -
  define Q where "Q = 175040 * f ^ 4 + 175040 * f ^ 2 * z ^ 2 - 74560 * f ^ 2 - 19440 * f * z + 6783"
  have q: "0 \<le> Q" unfolding Q_def by (rule cert_L5_poly [OF assms])
  have id: "512000 * (ampN (1 / 4) f z - 9 / 16 * ampD (1 / 4) f z) = Q + 512"
    unfolding Q_def ampN_def ampD_def by algebra
  have "0 < 512000 * (ampN (1 / 4) f z - 9 / 16 * ampD (1 / 4) f z)"
    unfolding id using q by simp
  then show ?thesis by simp
qed

lemma cert_L6_poly_a_1:
  fixes f :: real
  assumes "1 / 2 \<le> f" "f \<le> 33 / 64"
  shows "0 \<le> 245760 * f ^ 4 - 103265 * f ^ 2 - 3000 * f + 12224"
proof -
  have id: "4096 * (245760 * f ^ 4 - 103265 * f ^ 2 - 3000 * f + 12224) =
      1096704 * (33 - 64 * f) ^ 4 +
      5450176 * (64 * f - 32) * (33 - 64 * f) ^ 3 +
      10035679 * (64 * f - 32) ^ 2 * (33 - 64 * f) ^ 2 +
      8115326 * (64 * f - 32) ^ 3 * (33 - 64 * f) +
      2433179 * (64 * f - 32) ^ 4"
    by algebra
  have "0 \<le> 4096 * (245760 * f ^ 4 - 103265 * f ^ 2 - 3000 * f + 12224)"
    unfolding id
    using assms 
    by (intro add_nonneg_nonneg mult_nonneg_nonneg zero_le_power) simp_all
  then show ?thesis by simp
qed

lemma cert_L6_poly_a_2:
  fixes f :: real
  assumes "1 / 2 \<le> f" "f \<le> 33 / 64"
  shows "0 \<le> 491520 * f ^ 4 - 206155 * f ^ 2 - 6060 * f + 24448"
proof -
  have id: "4096 * (491520 * f ^ 4 - 206155 * f ^ 2 - 6060 * f + 24448) =
      2454528 * (33 - 64 * f) ^ 4 +
      11964992 * (64 * f - 32) * (33 - 64 * f) ^ 3 +
      21698933 * (64 * f - 32) ^ 2 * (33 - 64 * f) ^ 2 +
      17336362 * (64 * f - 32) ^ 3 * (33 - 64 * f) +
      5148013 * (64 * f - 32) ^ 4"
    by algebra
  have "0 \<le> 4096 * (491520 * f ^ 4 - 206155 * f ^ 2 - 6060 * f + 24448)"
    unfolding id
    using assms 
    by (intro add_nonneg_nonneg mult_nonneg_nonneg zero_le_power) simp_all
  then show ?thesis by simp
qed

lemma cert_L6_poly_a_3:
  fixes f :: real
  assumes "1 / 2 \<le> f" "f \<le> 33 / 64"
  shows "0 \<le> 983040 * f ^ 4 - 411545 * f ^ 2 - 12240 * f + 48896"
proof -
  have id: "4096 * (983040 * f ^ 4 - 411545 * f ^ 2 - 12240 * f + 48896) =
      5446656 * (33 - 64 * f) ^ 4 +
      26121664 * (64 * f - 32) * (33 - 64 * f) ^ 3 +
      46748071 * (64 * f - 32) ^ 2 * (33 - 64 * f) ^ 2 +
      36948494 * (64 * f - 32) ^ 3 * (33 - 64 * f) +
      10875671 * (64 * f - 32) ^ 4"
    by algebra
  have "0 \<le> 4096 * (983040 * f ^ 4 - 411545 * f ^ 2 - 12240 * f + 48896)"
    unfolding id
    using assms 
    by (intro add_nonneg_nonneg mult_nonneg_nonneg zero_le_power) simp_all
  then show ?thesis by simp
qed

lemma cert_L6_poly_a_4:
  fixes f z :: real
  assumes "25 / 128 \<le> z" "z \<le> 51 / 256" "1 / 2 \<le> f" "f \<le> 33 / 64"
  shows "0 \<le> 3840 * f ^ 4 + 3840 * f ^ 2 * z ^ 2 - 1760 * f ^ 2 - 240 * f * z + 191"
proof -
  define Q0 where "Q0 = 245760 * f ^ 4 - 103265 * f ^ 2 - 3000 * f + 12224"
  define Q1 where "Q1 = 491520 * f ^ 4 - 206155 * f ^ 2 - 6060 * f + 24448"
  define Q2 where "Q2 = 983040 * f ^ 4 - 411545 * f ^ 2 - 12240 * f + 48896"
  have q0: "0 \<le> Q0" unfolding Q0_def by (rule cert_L6_poly_a_1 [OF assms(3) assms(4)])
  have q1: "0 \<le> Q1" unfolding Q1_def by (rule cert_L6_poly_a_2 [OF assms(3) assms(4)])
  have q2: "0 \<le> Q2" unfolding Q2_def by (rule cert_L6_poly_a_3 [OF assms(3) assms(4)])
  have id: "256 * (3840 * f ^ 4 + 3840 * f ^ 2 * z ^ 2 - 1760 * f ^ 2 - 240 * f * z + 191) =
      4 * (51 - 256 * z) ^ 2 * Q0 +
      4 * (256 * z - 50) * (51 - 256 * z) * Q1 +
      1 * (256 * z - 50) ^ 2 * Q2"
    unfolding Q0_def Q1_def Q2_def by algebra
  have "0 \<le> 256 * (3840 * f ^ 4 + 3840 * f ^ 2 * z ^ 2 - 1760 * f ^ 2 - 240 * f * z + 191)"
    unfolding id
    using assms q0 q1 q2
    by (intro add_nonneg_nonneg mult_nonneg_nonneg zero_le_power) simp_all
  then show ?thesis by simp
qed

lemma cert_L6_poly:
  fixes f z :: real
  assumes "1 / 2 \<le> f" "f \<le> 33 / 64" "25 / 128 \<le> z" "z \<le> 51 / 256"
  shows "0 \<le> 3840 * f ^ 4 + 3840 * f ^ 2 * z ^ 2 - 1760 * f ^ 2 - 240 * f * z + 191"
  by (rule cert_L6_poly_a_4 [OF assms(3) assms(4) assms(1) assms(2)])

lemma cert_L6:
  fixes f z :: real
  assumes "1 / 2 \<le> f" "f \<le> 33 / 64" "25 / 128 \<le> z" "z \<le> 51 / 256"
  shows "4 / 9 * ampD (1 / 4) f z < ampN (1 / 4) f z"
proof -
  define Q where "Q = 3840 * f ^ 4 + 3840 * f ^ 2 * z ^ 2 - 1760 * f ^ 2 - 240 * f * z + 191"
  have q: "0 \<le> Q" unfolding Q_def by (rule cert_L6_poly [OF assms])
  have id: "8000 * (ampN (1 / 4) f z - 4 / 9 * ampD (1 / 4) f z) = Q + 4"
    unfolding Q_def ampN_def ampD_def by algebra
  have "0 < 8000 * (ampN (1 / 4) f z - 4 / 9 * ampD (1 / 4) f z)"
    unfolding id using q by simp
  then show ?thesis by simp
qed

lemma cert_Lb_poly_a_1:
  fixes f :: real
  assumes "95 / 64 \<le> f" "f \<le> 3 / 2"
  shows "0 \<le> 2142208 * f ^ 4 + 924491 * f ^ 2 - 1084752 * f - 286016"
proof -
  have id: "4096 * (2142208 * f ^ 4 + 924491 * f ^ 2 - 1084752 * f - 286016) =
      43175394454 * (96 - 64 * f) ^ 4 +
      174601435478 * (64 * f - 95) * (96 - 64 * f) ^ 3 +
      264781184651 * (64 * f - 95) ^ 2 * (96 - 64 * f) ^ 2 +
      178459839424 * (64 * f - 95) ^ 3 * (96 - 64 * f) +
      45104696320 * (64 * f - 95) ^ 4"
    by algebra
  have "0 \<le> 4096 * (2142208 * f ^ 4 + 924491 * f ^ 2 - 1084752 * f - 286016)"
    unfolding id
    using assms 
    by (intro add_nonneg_nonneg mult_nonneg_nonneg zero_le_power) simp_all
  then show ?thesis by simp
qed

lemma cert_Lb_poly_a_2:
  fixes f :: real
  assumes "95 / 64 \<le> f" "f \<le> 3 / 2"
  shows "0 \<le> 267776 * f ^ 4 + 117588 * f ^ 2 - 137781 * f - 35752"
proof -
  have id: "32768 * (267776 * f ^ 4 + 117588 * f ^ 2 - 137781 * f - 35752) =
      43215341099 * (96 - 64 * f) ^ 4 +
      174763182784 * (64 * f - 95) * (96 - 64 * f) ^ 3 +
      265026762912 * (64 * f - 95) ^ 2 * (96 - 64 * f) ^ 2 +
      178625540608 * (64 * f - 95) ^ 3 * (96 - 64 * f) +
      45146619904 * (64 * f - 95) ^ 4"
    by algebra
  have "0 \<le> 32768 * (267776 * f ^ 4 + 117588 * f ^ 2 - 137781 * f - 35752)"
    unfolding id
    using assms 
    by (intro add_nonneg_nonneg mult_nonneg_nonneg zero_le_power) simp_all
  then show ?thesis by simp
qed

lemma cert_Lb_poly_a_3:
  fixes f :: real
  assumes "95 / 64 \<le> f" "f \<le> 3 / 2"
  shows "0 \<le> 33472 * f ^ 4 + 14960 * f ^ 2 - 17496 * f - 4469"
proof -
  have id: "262144 * (33472 * f ^ 4 + 14960 * f ^ 2 - 17496 * f - 4469) =
      43260007819 * (96 - 64 * f) ^ 4 +
      174943909760 * (64 * f - 95) * (96 - 64 * f) ^ 3 +
      265300960256 * (64 * f - 95) ^ 2 * (96 - 64 * f) ^ 2 +
      178810421248 * (64 * f - 95) ^ 3 * (96 - 64 * f) +
      45193363456 * (64 * f - 95) ^ 4"
    by algebra
  have "0 \<le> 262144 * (33472 * f ^ 4 + 14960 * f ^ 2 - 17496 * f - 4469)"
    unfolding id
    using assms 
    by (intro add_nonneg_nonneg mult_nonneg_nonneg zero_le_power) simp_all
  then show ?thesis by simp
qed

lemma cert_Lb_poly_a_4:
  fixes f z :: real
  assumes "31 / 64 \<le> z" "z \<le> 1 / 2" "95 / 64 \<le> f" "f \<le> 3 / 2"
  shows "0 \<le> 33472 * f ^ 4 + 33472 * f ^ 2 * z ^ 2 + 6592 * f ^ 2 - 34992 * f * z - 4469"
proof -
  define Q0 where "Q0 = 2142208 * f ^ 4 + 924491 * f ^ 2 - 1084752 * f - 286016"
  define Q1 where "Q1 = 267776 * f ^ 4 + 117588 * f ^ 2 - 137781 * f - 35752"
  define Q2 where "Q2 = 33472 * f ^ 4 + 14960 * f ^ 2 - 17496 * f - 4469"
  have q0: "0 \<le> Q0" unfolding Q0_def by (rule cert_Lb_poly_a_1 [OF assms(3) assms(4)])
  have q1: "0 \<le> Q1" unfolding Q1_def by (rule cert_Lb_poly_a_2 [OF assms(3) assms(4)])
  have q2: "0 \<le> Q2" unfolding Q2_def by (rule cert_Lb_poly_a_3 [OF assms(3) assms(4)])
  have id: "64 * (33472 * f ^ 4 + 33472 * f ^ 2 * z ^ 2 + 6592 * f ^ 2 - 34992 * f * z - 4469) =
      1 * (32 - 64 * z) ^ 2 * Q0 +
      16 * (64 * z - 31) * (32 - 64 * z) * Q1 +
      64 * (64 * z - 31) ^ 2 * Q2"
    unfolding Q0_def Q1_def Q2_def by algebra
  have "0 \<le> 64 * (33472 * f ^ 4 + 33472 * f ^ 2 * z ^ 2 + 6592 * f ^ 2 - 34992 * f * z - 4469)"
    unfolding id
    using assms q0 q1 q2
    by (intro add_nonneg_nonneg mult_nonneg_nonneg zero_le_power) simp_all
  then show ?thesis by simp
qed

lemma cert_Lb_poly:
  fixes f z :: real
  assumes "95 / 64 \<le> f" "f \<le> 3 / 2" "31 / 64 \<le> z" "z \<le> 1 / 2"
  shows "0 \<le> 33472 * f ^ 4 + 33472 * f ^ 2 * z ^ 2 + 6592 * f ^ 2 - 34992 * f * z - 4469"
  by (rule cert_Lb_poly_a_4 [OF assms(3) assms(4) assms(1) assms(2)])

lemma cert_Lb:
  fixes f z :: real
  assumes "95 / 64 \<le> f" "f \<le> 3 / 2" "31 / 64 \<le> z" "z \<le> 1 / 2"
  shows "81 / 100 * ampD (1 / 4) f z \<le> ampN (1 / 4) f z"
proof -
  define Q where "Q = 33472 * f ^ 4 + 33472 * f ^ 2 * z ^ 2 + 6592 * f ^ 2 - 34992 * f * z - 4469"
  have q: "0 \<le> Q" unfolding Q_def by (rule cert_Lb_poly [OF assms])
  have id: "640000 * (ampN (1 / 4) f z - 81 / 100 * ampD (1 / 4) f z) = Q + 0"
    unfolding Q_def ampN_def ampD_def by algebra
  have "0 \<le> 640000 * (ampN (1 / 4) f z - 81 / 100 * ampD (1 / 4) f z)"
    unfolding id using q by simp
  then show ?thesis by simp
qed

lemma cert_Sf1_poly_a_1:
  fixes f2 :: real
  assumes "1 / 2 \<le> f2" "f2 \<le> 9 / 8"
  shows "0 \<le> 57600 * f2 ^ 3 + 28800 * f2 ^ 2 + 180 * f2 - 7651"
proof -
  have id: "250 * (57600 * f2 ^ 3 + 28800 * f2 ^ 2 + 180 * f2 - 7651) =
      13678 * (9 - 8 * f2) ^ 3 +
      131259 * (8 * f2 - 4) * (9 - 8 * f2) ^ 2 +
      311484 * (8 * f2 - 4) ^ 2 * (9 - 8 * f2) +
      222028 * (8 * f2 - 4) ^ 3"
    by algebra
  have "0 \<le> 250 * (57600 * f2 ^ 3 + 28800 * f2 ^ 2 + 180 * f2 - 7651)"
    unfolding id
    using assms 
    by (intro add_nonneg_nonneg mult_nonneg_nonneg zero_le_power) simp_all
  then show ?thesis by simp
qed

lemma cert_Sf1_poly_a_2:
  fixes f2 :: real
  assumes "1 / 2 \<le> f2" "f2 \<le> 9 / 8"
  shows "0 \<le> 163200 * f2 ^ 3 + 129600 * f2 ^ 2 + 77670 * f2 - 4129"
proof -
  have id: "500 * (163200 * f2 ^ 3 + 129600 * f2 ^ 2 + 77670 * f2 - 4129) =
      350024 * (9 - 8 * f2) ^ 3 +
      1874247 * (8 * f2 - 4) * (9 - 8 * f2) ^ 2 +
      3283422 * (8 * f2 - 4) ^ 2 * (9 - 8 * f2) +
      1918574 * (8 * f2 - 4) ^ 3"
    by algebra
  have "0 \<le> 500 * (163200 * f2 ^ 3 + 129600 * f2 ^ 2 + 77670 * f2 - 4129)"
    unfolding id
    using assms 
    by (intro add_nonneg_nonneg mult_nonneg_nonneg zero_le_power) simp_all
  then show ?thesis by simp
qed

lemma cert_Sf1_poly_a_3:
  fixes f2 :: real
  assumes "1 / 2 \<le> f2" "f2 \<le> 9 / 8"
  shows "0 \<le> 27000 * f2 ^ 2 + 131310 * f2 + 31423"
proof -
  have id: "200 * (27000 * f2 ^ 2 + 131310 * f2 + 31423) =
      830624 * (9 - 8 * f2) ^ 2 +
      2452798 * (8 * f2 - 4) * (9 - 8 * f2) +
      1706549 * (8 * f2 - 4) ^ 2"
    by algebra
  have "0 \<le> 200 * (27000 * f2 ^ 2 + 131310 * f2 + 31423)"
    unfolding id
    using assms 
    by (intro add_nonneg_nonneg mult_nonneg_nonneg zero_le_power) simp_all
  then show ?thesis by simp
qed

lemma cert_Sf1_poly_a_4:
  fixes f2 :: real
  assumes "1 / 2 \<le> f2" "f2 \<le> 9 / 8"
  shows "0 \<le> - 129600 * f2 ^ 3 - 145800 * f2 ^ 2 + 328410 * f2 + 110473"
proof -
  have id: "1000 * (- 129600 * f2 ^ 3 - 145800 * f2 ^ 2 + 328410 * f2 + 110473) =
      1776224 * (9 - 8 * f2) ^ 3 +
      5755722 * (8 * f2 - 4) * (9 - 8 * f2) ^ 2 +
      5119647 * (8 * f2 - 4) ^ 2 * (9 - 8 * f2) +
      887024 * (8 * f2 - 4) ^ 3"
    by algebra
  have "0 \<le> 1000 * (- 129600 * f2 ^ 3 - 145800 * f2 ^ 2 + 328410 * f2 + 110473)"
    unfolding id
    using assms 
    by (intro add_nonneg_nonneg mult_nonneg_nonneg zero_le_power) simp_all
  then show ?thesis by simp
qed

lemma cert_Sf1_poly_a_5:
  fixes f1 f2 :: real
  assumes "1 / 2 \<le> f1" "f1 \<le> 9 / 8" "1 / 2 \<le> f2" "f2 \<le> 9 / 8"
  shows "0 \<le> - 92160 * f1 ^ 3 * f2 ^ 2 + 51840 * f1 ^ 3 * f2 + 25920 * f1 ^ 3 - 92160 * f1 ^ 2 * f2 ^ 3 + 51840 * f1 ^ 2 * f2 ^ 2 + 25920 * f1 ^ 2 * f2 + 51840 * f1 * f2 ^ 3 + 25920 * f1 * f2 ^ 2 - 18630 * f1 * f2 - 3555 * f1 + 25920 * f2 ^ 3 - 3555 * f2 - 5288"
proof -
  define Q0 where "Q0 = 57600 * f2 ^ 3 + 28800 * f2 ^ 2 + 180 * f2 - 7651"
  define Q1 where "Q1 = 163200 * f2 ^ 3 + 129600 * f2 ^ 2 + 77670 * f2 - 4129"
  define Q2 where "Q2 = 27000 * f2 ^ 2 + 131310 * f2 + 31423"
  define Q3 where "Q3 = - 129600 * f2 ^ 3 - 145800 * f2 ^ 2 + 328410 * f2 + 110473"
  have q0: "0 \<le> Q0" unfolding Q0_def by (rule cert_Sf1_poly_a_1 [OF assms(3) assms(4)])
  have q1: "0 \<le> Q1" unfolding Q1_def by (rule cert_Sf1_poly_a_2 [OF assms(3) assms(4)])
  have q2: "0 \<le> Q2" unfolding Q2_def by (rule cert_Sf1_poly_a_3 [OF assms(3) assms(4)])
  have q3: "0 \<le> Q3" unfolding Q3_def by (rule cert_Sf1_poly_a_4 [OF assms(3) assms(4)])
  have id: "1000 * (- 92160 * f1 ^ 3 * f2 ^ 2 + 51840 * f1 ^ 3 * f2 + 25920 * f1 ^ 3 - 92160 * f1 ^ 2 * f2 ^ 3 + 51840 * f1 ^ 2 * f2 ^ 2 + 25920 * f1 ^ 2 * f2 + 51840 * f1 * f2 ^ 3 + 25920 * f1 * f2 ^ 2 - 18630 * f1 * f2 - 3555 * f1 + 25920 * f2 ^ 3 - 3555 * f2 - 5288) =
      4 * (9 - 8 * f1) ^ 3 * Q0 +
      3 * (8 * f1 - 4) * (9 - 8 * f1) ^ 2 * Q1 +
      6 * (8 * f1 - 4) ^ 2 * (9 - 8 * f1) * Q2 +
      2 * (8 * f1 - 4) ^ 3 * Q3"
    unfolding Q0_def Q1_def Q2_def Q3_def by algebra
  have "0 \<le> 1000 * (- 92160 * f1 ^ 3 * f2 ^ 2 + 51840 * f1 ^ 3 * f2 + 25920 * f1 ^ 3 - 92160 * f1 ^ 2 * f2 ^ 3 + 51840 * f1 ^ 2 * f2 ^ 2 + 25920 * f1 ^ 2 * f2 + 51840 * f1 * f2 ^ 3 + 25920 * f1 * f2 ^ 2 - 18630 * f1 * f2 - 3555 * f1 + 25920 * f2 ^ 3 - 3555 * f2 - 5288)"
    unfolding id
    using assms q0 q1 q2 q3
    by (intro add_nonneg_nonneg mult_nonneg_nonneg zero_le_power) simp_all
  then show ?thesis by simp
qed

lemma cert_Sf1_poly_a_6:
  fixes f2 :: real
  assumes "1 / 2 \<le> f2" "f2 \<le> 9 / 8"
  shows "0 \<le> 63360 * f2 ^ 3 + 31680 * f2 ^ 2 + 2790 * f2 - 7561"
proof -
  have id: "500 * (63360 * f2 ^ 3 + 31680 * f2 ^ 2 + 2790 * f2 - 7561) =
      38696 * (9 - 8 * f2) ^ 3 +
      321063 * (8 * f2 - 4) * (9 - 8 * f2) ^ 2 +
      724038 * (8 * f2 - 4) ^ 2 * (9 - 8 * f2) +
      503546 * (8 * f2 - 4) ^ 3"
    by algebra
  have "0 \<le> 500 * (63360 * f2 ^ 3 + 31680 * f2 ^ 2 + 2790 * f2 - 7561)"
    unfolding id
    using assms 
    by (intro add_nonneg_nonneg mult_nonneg_nonneg zero_le_power) simp_all
  then show ?thesis by simp
qed

lemma cert_Sf1_poly_a_7:
  fixes f2 :: real
  assumes "1 / 2 \<le> f2" "f2 \<le> 9 / 8"
  shows "0 \<le> 195840 * f2 ^ 3 + 150720 * f2 ^ 2 + 94560 * f2 - 2419"
proof -
  have id: "250 * (195840 * f2 ^ 3 + 150720 * f2 ^ 2 + 94560 * f2 - 2419) =
      214042 * (9 - 8 * f2) ^ 3 +
      1132326 * (8 * f2 - 4) * (9 - 8 * f2) ^ 2 +
      1969776 * (8 * f2 - 4) ^ 2 * (9 - 8 * f2) +
      1147117 * (8 * f2 - 4) ^ 3"
    by algebra
  have "0 \<le> 250 * (195840 * f2 ^ 3 + 150720 * f2 ^ 2 + 94560 * f2 - 2419)"
    unfolding id
    using assms 
    by (intro add_nonneg_nonneg mult_nonneg_nonneg zero_le_power) simp_all
  then show ?thesis by simp
qed

lemma cert_Sf1_poly_a_8:
  fixes f2 :: real
  assumes "1 / 2 \<le> f2" "f2 \<le> 9 / 8"
  shows "0 \<le> 21120 * f2 ^ 3 + 45360 * f2 ^ 2 + 147480 * f2 + 32953"
proof -
  have id: "500 * (21120 * f2 ^ 3 + 45360 * f2 ^ 2 + 147480 * f2 + 32953) =
      482692 * (9 - 8 * f2) ^ 3 +
      1969776 * (8 * f2 - 4) * (9 - 8 * f2) ^ 2 +
      2611851 * (8 * f2 - 4) ^ 2 * (9 - 8 * f2) +
      1145392 * (8 * f2 - 4) ^ 3"
    by algebra
  have "0 \<le> 500 * (21120 * f2 ^ 3 + 45360 * f2 ^ 2 + 147480 * f2 + 32953)"
    unfolding id
    using assms 
    by (intro add_nonneg_nonneg mult_nonneg_nonneg zero_le_power) simp_all
  then show ?thesis by simp
qed

lemma cert_Sf1_poly_a_9:
  fixes f2 :: real
  assumes "1 / 2 \<le> f2" "f2 \<le> 9 / 8"
  shows "0 \<le> - 51840 * f2 ^ 3 - 58320 * f2 ^ 2 + 181215 * f2 + 56339"
proof -
  have id: "1000 * (- 51840 * f2 ^ 3 - 58320 * f2 ^ 2 + 181215 * f2 + 56339) =
      1007092 * (9 - 8 * f2) ^ 3 +
      3441351 * (8 * f2 - 4) * (9 - 8 * f2) ^ 2 +
      3436176 * (8 * f2 - 4) ^ 2 * (9 - 8 * f2) +
      900667 * (8 * f2 - 4) ^ 3"
    by algebra
  have "0 \<le> 1000 * (- 51840 * f2 ^ 3 - 58320 * f2 ^ 2 + 181215 * f2 + 56339)"
    unfolding id
    using assms 
    by (intro add_nonneg_nonneg mult_nonneg_nonneg zero_le_power) simp_all
  then show ?thesis by simp
qed

lemma cert_Sf1_poly_a_10:
  fixes f1 f2 :: real
  assumes "1 / 2 \<le> f1" "f1 \<le> 9 / 8" "1 / 2 \<le> f2" "f2 \<le> 9 / 8"
  shows "0 \<le> - 92160 * f1 ^ 3 * f2 ^ 2 + 57600 * f1 ^ 3 * f2 + 25920 * f1 ^ 3 - 92160 * f1 ^ 2 * f2 ^ 3 + 57600 * f1 ^ 2 * f2 ^ 2 + 25920 * f1 ^ 2 * f2 + 57600 * f1 * f2 ^ 3 + 25920 * f1 * f2 ^ 2 - 19080 * f1 * f2 - 2745 * f1 + 25920 * f2 ^ 3 - 2745 * f2 - 5648"
proof -
  define Q0 where "Q0 = 63360 * f2 ^ 3 + 31680 * f2 ^ 2 + 2790 * f2 - 7561"
  define Q1 where "Q1 = 195840 * f2 ^ 3 + 150720 * f2 ^ 2 + 94560 * f2 - 2419"
  define Q2 where "Q2 = 21120 * f2 ^ 3 + 45360 * f2 ^ 2 + 147480 * f2 + 32953"
  define Q3 where "Q3 = - 51840 * f2 ^ 3 - 58320 * f2 ^ 2 + 181215 * f2 + 56339"
  have q0: "0 \<le> Q0" unfolding Q0_def by (rule cert_Sf1_poly_a_6 [OF assms(3) assms(4)])
  have q1: "0 \<le> Q1" unfolding Q1_def by (rule cert_Sf1_poly_a_7 [OF assms(3) assms(4)])
  have q2: "0 \<le> Q2" unfolding Q2_def by (rule cert_Sf1_poly_a_8 [OF assms(3) assms(4)])
  have q3: "0 \<le> Q3" unfolding Q3_def by (rule cert_Sf1_poly_a_9 [OF assms(3) assms(4)])
  have id: "1000 * (- 92160 * f1 ^ 3 * f2 ^ 2 + 57600 * f1 ^ 3 * f2 + 25920 * f1 ^ 3 - 92160 * f1 ^ 2 * f2 ^ 3 + 57600 * f1 ^ 2 * f2 ^ 2 + 25920 * f1 ^ 2 * f2 + 57600 * f1 * f2 ^ 3 + 25920 * f1 * f2 ^ 2 - 19080 * f1 * f2 - 2745 * f1 + 25920 * f2 ^ 3 - 2745 * f2 - 5648) =
      4 * (9 - 8 * f1) ^ 3 * Q0 +
      3 * (8 * f1 - 4) * (9 - 8 * f1) ^ 2 * Q1 +
      6 * (8 * f1 - 4) ^ 2 * (9 - 8 * f1) * Q2 +
      4 * (8 * f1 - 4) ^ 3 * Q3"
    unfolding Q0_def Q1_def Q2_def Q3_def by algebra
  have "0 \<le> 1000 * (- 92160 * f1 ^ 3 * f2 ^ 2 + 57600 * f1 ^ 3 * f2 + 25920 * f1 ^ 3 - 92160 * f1 ^ 2 * f2 ^ 3 + 57600 * f1 ^ 2 * f2 ^ 2 + 25920 * f1 ^ 2 * f2 + 57600 * f1 * f2 ^ 3 + 25920 * f1 * f2 ^ 2 - 19080 * f1 * f2 - 2745 * f1 + 25920 * f2 ^ 3 - 2745 * f2 - 5648)"
    unfolding id
    using assms q0 q1 q2 q3
    by (intro add_nonneg_nonneg mult_nonneg_nonneg zero_le_power) simp_all
  then show ?thesis by simp
qed

lemma cert_Sf1_poly_a_11:
  fixes f2 :: real
  assumes "1 / 2 \<le> f2" "f2 \<le> 9 / 8"
  shows "0 \<le> 8640 * f2 ^ 3 + 4320 * f2 ^ 2 + 810 * f2 - 917"
proof -
  have id: "1000 * (8640 * f2 ^ 3 + 4320 * f2 ^ 2 + 810 * f2 - 917) =
      13184 * (9 - 8 * f2) ^ 3 +
      97602 * (8 * f2 - 4) * (9 - 8 * f2) ^ 2 +
      209652 * (8 * f2 - 4) ^ 2 * (9 - 8 * f2) +
      142109 * (8 * f2 - 4) ^ 3"
    by algebra
  have "0 \<le> 1000 * (8640 * f2 ^ 3 + 4320 * f2 ^ 2 + 810 * f2 - 917)"
    unfolding id
    using assms 
    by (intro add_nonneg_nonneg mult_nonneg_nonneg zero_le_power) simp_all
  then show ?thesis by simp
qed

lemma cert_Sf1_poly_a_12:
  fixes f2 :: real
  assumes "1 / 2 \<le> f2" "f2 \<le> 9 / 8"
  shows "0 \<le> 28560 * f2 ^ 3 + 21480 * f2 ^ 2 + 14640 * f2 + 7"
proof -
  have id: "4000 * (28560 * f2 ^ 3 + 21480 * f2 ^ 2 + 14640 * f2 + 7) =
      520544 * (9 - 8 * f2) ^ 3 +
      2712432 * (8 * f2 - 4) * (9 - 8 * f2) ^ 2 +
      4667232 * (8 * f2 - 4) ^ 2 * (9 - 8 * f2) +
      2698469 * (8 * f2 - 4) ^ 3"
    by algebra
  have "0 \<le> 4000 * (28560 * f2 ^ 3 + 21480 * f2 ^ 2 + 14640 * f2 + 7)"
    unfolding id
    using assms 
    by (intro add_nonneg_nonneg mult_nonneg_nonneg zero_le_power) simp_all
  then show ?thesis by simp
qed

lemma cert_Sf1_poly_a_13:
  fixes f2 :: real
  assumes "1 / 2 \<le> f2" "f2 \<le> 9 / 8"
  shows "0 \<le> 21120 * f2 ^ 3 + 31860 * f2 ^ 2 + 83580 * f2 + 17489"
proof -
  have id: "2000 * (21120 * f2 ^ 3 + 31860 * f2 ^ 2 + 83580 * f2 + 17489) =
      1118144 * (9 - 8 * f2) ^ 3 +
      4667232 * (8 * f2 - 4) * (9 - 8 * f2) ^ 2 +
      6377157 * (8 * f2 - 4) ^ 2 * (9 - 8 * f2) +
      2910569 * (8 * f2 - 4) ^ 3"
    by algebra
  have "0 \<le> 2000 * (21120 * f2 ^ 3 + 31860 * f2 ^ 2 + 83580 * f2 + 17489)"
    unfolding id
    using assms 
    by (intro add_nonneg_nonneg mult_nonneg_nonneg zero_le_power) simp_all
  then show ?thesis by simp
qed

lemma cert_Sf1_poly_a_14:
  fixes f2 :: real
  assumes "1 / 2 \<le> f2" "f2 \<le> 9 / 8"
  shows "0 \<le> - 155520 * f2 ^ 3 - 174960 * f2 ^ 2 + 801270 * f2 + 230981"
proof -
  have id: "500 * (- 155520 * f2 ^ 3 - 174960 * f2 ^ 2 + 801270 * f2 + 230981) =
      2273744 * (9 - 8 * f2) ^ 3 +
      8095407 * (8 * f2 - 4) * (9 - 8 * f2) ^ 2 +
      8731707 * (8 * f2 - 4) ^ 2 * (9 - 8 * f2) +
      2758169 * (8 * f2 - 4) ^ 3"
    by algebra
  have "0 \<le> 500 * (- 155520 * f2 ^ 3 - 174960 * f2 ^ 2 + 801270 * f2 + 230981)"
    unfolding id
    using assms 
    by (intro add_nonneg_nonneg mult_nonneg_nonneg zero_le_power) simp_all
  then show ?thesis by simp
qed

lemma cert_Sf1_poly_a_15:
  fixes f1 f2 :: real
  assumes "1 / 2 \<le> f1" "f1 \<le> 9 / 8" "1 / 2 \<le> f2" "f2 \<le> 9 / 8"
  shows "0 \<le> - 11520 * f1 ^ 3 * f2 ^ 2 + 7920 * f1 ^ 3 * f2 + 3240 * f1 ^ 3 - 11520 * f1 ^ 2 * f2 ^ 3 + 7920 * f1 ^ 2 * f2 ^ 2 + 3240 * f1 ^ 2 * f2 + 7920 * f1 * f2 ^ 3 + 3240 * f1 * f2 ^ 2 - 2340 * f1 * f2 - 225 * f1 + 3240 * f2 ^ 3 - 225 * f2 - 751"
proof -
  define Q0 where "Q0 = 8640 * f2 ^ 3 + 4320 * f2 ^ 2 + 810 * f2 - 917"
  define Q1 where "Q1 = 28560 * f2 ^ 3 + 21480 * f2 ^ 2 + 14640 * f2 + 7"
  define Q2 where "Q2 = 21120 * f2 ^ 3 + 31860 * f2 ^ 2 + 83580 * f2 + 17489"
  define Q3 where "Q3 = - 155520 * f2 ^ 3 - 174960 * f2 ^ 2 + 801270 * f2 + 230981"
  have q0: "0 \<le> Q0" unfolding Q0_def by (rule cert_Sf1_poly_a_11 [OF assms(3) assms(4)])
  have q1: "0 \<le> Q1" unfolding Q1_def by (rule cert_Sf1_poly_a_12 [OF assms(3) assms(4)])
  have q2: "0 \<le> Q2" unfolding Q2_def by (rule cert_Sf1_poly_a_13 [OF assms(3) assms(4)])
  have q3: "0 \<le> Q3" unfolding Q3_def by (rule cert_Sf1_poly_a_14 [OF assms(3) assms(4)])
  have id: "8000 * (- 11520 * f1 ^ 3 * f2 ^ 2 + 7920 * f1 ^ 3 * f2 + 3240 * f1 ^ 3 - 11520 * f1 ^ 2 * f2 ^ 3 + 7920 * f1 ^ 2 * f2 ^ 2 + 3240 * f1 ^ 2 * f2 + 7920 * f1 * f2 ^ 3 + 3240 * f1 * f2 ^ 2 - 2340 * f1 * f2 - 225 * f1 + 3240 * f2 ^ 3 - 225 * f2 - 751) =
      32 * (9 - 8 * f1) ^ 3 * Q0 +
      24 * (8 * f1 - 4) * (9 - 8 * f1) ^ 2 * Q1 +
      12 * (8 * f1 - 4) ^ 2 * (9 - 8 * f1) * Q2 +
      1 * (8 * f1 - 4) ^ 3 * Q3"
    unfolding Q0_def Q1_def Q2_def Q3_def by algebra
  have "0 \<le> 8000 * (- 11520 * f1 ^ 3 * f2 ^ 2 + 7920 * f1 ^ 3 * f2 + 3240 * f1 ^ 3 - 11520 * f1 ^ 2 * f2 ^ 3 + 7920 * f1 ^ 2 * f2 ^ 2 + 3240 * f1 ^ 2 * f2 + 7920 * f1 * f2 ^ 3 + 3240 * f1 * f2 ^ 2 - 2340 * f1 * f2 - 225 * f1 + 3240 * f2 ^ 3 - 225 * f2 - 751)"
    unfolding id
    using assms q0 q1 q2 q3
    by (intro add_nonneg_nonneg mult_nonneg_nonneg zero_le_power) simp_all
  then show ?thesis by simp
qed

lemma cert_Sf1_poly_a_16:
  fixes f2 :: real
  assumes "1 / 2 \<le> f2" "f2 \<le> 9 / 8"
  shows "0 \<le> 1170 * f2 ^ 3 + 585 * f2 ^ 2 + 180 * f2 - 109"
proof -
  have id: "32000 * (1170 * f2 ^ 3 + 585 * f2 ^ 2 + 180 * f2 - 109) =
      70016 * (9 - 8 * f2) ^ 3 +
      472848 * (8 * f2 - 4) * (9 - 8 * f2) ^ 2 +
      969648 * (8 * f2 - 4) ^ 2 * (9 - 8 * f2) +
      639941 * (8 * f2 - 4) ^ 3"
    by algebra
  have "0 \<le> 32000 * (1170 * f2 ^ 3 + 585 * f2 ^ 2 + 180 * f2 - 109)"
    unfolding id
    using assms 
    by (intro add_nonneg_nonneg mult_nonneg_nonneg zero_le_power) simp_all
  then show ?thesis by simp
qed

lemma cert_Sf1_poly_a_17:
  fixes f2 :: real
  assumes "1 / 2 \<le> f2" "f2 \<le> 9 / 8"
  shows "0 \<le> 8160 * f2 ^ 3 + 6030 * f2 ^ 2 + 4590 * f2 + 103"
proof -
  have id: "4000 * (8160 * f2 ^ 3 + 6030 * f2 ^ 2 + 4590 * f2 + 103) =
      157616 * (9 - 8 * f2) ^ 3 +
      807648 * (8 * f2 - 4) * (9 - 8 * f2) ^ 2 +
      1370823 * (8 * f2 - 4) ^ 2 * (9 - 8 * f2) +
      784541 * (8 * f2 - 4) ^ 3"
    by algebra
  have "0 \<le> 4000 * (8160 * f2 ^ 3 + 6030 * f2 ^ 2 + 4590 * f2 + 103)"
    unfolding id
    using assms 
    by (intro add_nonneg_nonneg mult_nonneg_nonneg zero_le_power) simp_all
  then show ?thesis by simp
qed

lemma cert_Sf1_poly_a_18:
  fixes f2 :: real
  assumes "1 / 2 \<le> f2" "f2 \<le> 9 / 8"
  shows "0 \<le> 31680 * f2 ^ 3 + 41040 * f2 ^ 2 + 95670 * f2 + 18749"
proof -
  have id: "1000 * (31680 * f2 ^ 3 + 41040 * f2 ^ 2 + 95670 * f2 + 18749) =
      646432 * (9 - 8 * f2) ^ 3 +
      2741646 * (8 * f2 - 4) * (9 - 8 * f2) ^ 2 +
      3820746 * (8 * f2 - 4) ^ 2 * (9 - 8 * f2) +
      1787407 * (8 * f2 - 4) ^ 3"
    by algebra
  have "0 \<le> 1000 * (31680 * f2 ^ 3 + 41040 * f2 ^ 2 + 95670 * f2 + 18749)"
    unfolding id
    using assms 
    by (intro add_nonneg_nonneg mult_nonneg_nonneg zero_le_power) simp_all
  then show ?thesis by simp
qed

lemma cert_Sf1_poly_a_19:
  fixes f2 :: real
  assumes "1 / 2 \<le> f2" "f2 \<le> 9 / 8"
  shows "0 \<le> - 103680 * f2 ^ 3 - 116640 * f2 ^ 2 + 888480 * f2 + 237821"
proof -
  have id: "250 * (- 103680 * f2 ^ 3 - 116640 * f2 ^ 2 + 888480 * f2 + 237821) =
      1279882 * (9 - 8 * f2) ^ 3 +
      4707246 * (8 * f2 - 4) * (9 - 8 * f2) ^ 2 +
      5362221 * (8 * f2 - 4) ^ 2 * (9 - 8 * f2) +
      1884232 * (8 * f2 - 4) ^ 3"
    by algebra
  have "0 \<le> 250 * (- 103680 * f2 ^ 3 - 116640 * f2 ^ 2 + 888480 * f2 + 237821)"
    unfolding id
    using assms 
    by (intro add_nonneg_nonneg mult_nonneg_nonneg zero_le_power) simp_all
  then show ?thesis by simp
qed

lemma cert_Sf1_poly_a_20:
  fixes f1 f2 :: real
  assumes "1 / 2 \<le> f1" "f1 \<le> 9 / 8" "1 / 2 \<le> f2" "f2 \<le> 9 / 8"
  shows "0 \<le> - 5760 * f1 ^ 3 * f2 ^ 2 + 4320 * f1 ^ 3 * f2 + 1620 * f1 ^ 3 - 5760 * f1 ^ 2 * f2 ^ 3 + 4320 * f1 ^ 2 * f2 ^ 2 + 1620 * f1 ^ 2 * f2 + 4320 * f1 * f2 ^ 3 + 1620 * f1 * f2 ^ 2 - 1080 * f1 * f2 - 45 * f1 + 1620 * f2 ^ 3 - 45 * f2 - 398"
proof -
  define Q0 where "Q0 = 1170 * f2 ^ 3 + 585 * f2 ^ 2 + 180 * f2 - 109"
  define Q1 where "Q1 = 8160 * f2 ^ 3 + 6030 * f2 ^ 2 + 4590 * f2 + 103"
  define Q2 where "Q2 = 31680 * f2 ^ 3 + 41040 * f2 ^ 2 + 95670 * f2 + 18749"
  define Q3 where "Q3 = - 103680 * f2 ^ 3 - 116640 * f2 ^ 2 + 888480 * f2 + 237821"
  have q0: "0 \<le> Q0" unfolding Q0_def by (rule cert_Sf1_poly_a_16 [OF assms(3) assms(4)])
  have q1: "0 \<le> Q1" unfolding Q1_def by (rule cert_Sf1_poly_a_17 [OF assms(3) assms(4)])
  have q2: "0 \<le> Q2" unfolding Q2_def by (rule cert_Sf1_poly_a_18 [OF assms(3) assms(4)])
  have q3: "0 \<le> Q3" unfolding Q3_def by (rule cert_Sf1_poly_a_19 [OF assms(3) assms(4)])
  have id: "16000 * (- 5760 * f1 ^ 3 * f2 ^ 2 + 4320 * f1 ^ 3 * f2 + 1620 * f1 ^ 3 - 5760 * f1 ^ 2 * f2 ^ 3 + 4320 * f1 ^ 2 * f2 ^ 2 + 1620 * f1 ^ 2 * f2 + 4320 * f1 * f2 ^ 3 + 1620 * f1 * f2 ^ 2 - 1080 * f1 * f2 - 45 * f1 + 1620 * f2 ^ 3 - 45 * f2 - 398) =
      256 * (9 - 8 * f1) ^ 3 * Q0 +
      96 * (8 * f1 - 4) * (9 - 8 * f1) ^ 2 * Q1 +
      12 * (8 * f1 - 4) ^ 2 * (9 - 8 * f1) * Q2 +
      1 * (8 * f1 - 4) ^ 3 * Q3"
    unfolding Q0_def Q1_def Q2_def Q3_def by algebra
  have "0 \<le> 16000 * (- 5760 * f1 ^ 3 * f2 ^ 2 + 4320 * f1 ^ 3 * f2 + 1620 * f1 ^ 3 - 5760 * f1 ^ 2 * f2 ^ 3 + 4320 * f1 ^ 2 * f2 ^ 2 + 1620 * f1 ^ 2 * f2 + 4320 * f1 * f2 ^ 3 + 1620 * f1 * f2 ^ 2 - 1080 * f1 * f2 - 45 * f1 + 1620 * f2 ^ 3 - 45 * f2 - 398)"
    unfolding id
    using assms q0 q1 q2 q3
    by (intro add_nonneg_nonneg mult_nonneg_nonneg zero_le_power) simp_all
  then show ?thesis by simp
qed

lemma cert_Sf1_poly_a_21:
  fixes f1 f2 z :: real
  assumes "3 / 8 \<le> z" "z \<le> 1 / 2" "1 / 2 \<le> f1" "f1 \<le> 9 / 8" "1 / 2 \<le> f2" "f2 \<le> 9 / 8"
  shows "0 \<le> - 2880 * f1 ^ 3 * f2 ^ 2 + 4320 * f1 ^ 3 * f2 * z + 810 * f1 ^ 3 - 2880 * f1 ^ 2 * f2 ^ 3 + 4320 * f1 ^ 2 * f2 ^ 2 * z + 810 * f1 ^ 2 * f2 + 4320 * f1 * f2 ^ 3 * z + 810 * f1 * f2 ^ 2 + 4320 * f1 * f2 * z ^ 3 - 2160 * f1 * f2 * z + 810 * f1 * z ^ 2 - 225 * f1 + 810 * f2 ^ 3 + 810 * f2 * z ^ 2 - 225 * f2 - 270 * z - 64"
proof -
  define Q0 where "Q0 = - 92160 * f1 ^ 3 * f2 ^ 2 + 51840 * f1 ^ 3 * f2 + 25920 * f1 ^ 3 - 92160 * f1 ^ 2 * f2 ^ 3 + 51840 * f1 ^ 2 * f2 ^ 2 + 25920 * f1 ^ 2 * f2 + 51840 * f1 * f2 ^ 3 + 25920 * f1 * f2 ^ 2 - 18630 * f1 * f2 - 3555 * f1 + 25920 * f2 ^ 3 - 3555 * f2 - 5288"
  define Q1 where "Q1 = - 92160 * f1 ^ 3 * f2 ^ 2 + 57600 * f1 ^ 3 * f2 + 25920 * f1 ^ 3 - 92160 * f1 ^ 2 * f2 ^ 3 + 57600 * f1 ^ 2 * f2 ^ 2 + 25920 * f1 ^ 2 * f2 + 57600 * f1 * f2 ^ 3 + 25920 * f1 * f2 ^ 2 - 19080 * f1 * f2 - 2745 * f1 + 25920 * f2 ^ 3 - 2745 * f2 - 5648"
  define Q2 where "Q2 = - 11520 * f1 ^ 3 * f2 ^ 2 + 7920 * f1 ^ 3 * f2 + 3240 * f1 ^ 3 - 11520 * f1 ^ 2 * f2 ^ 3 + 7920 * f1 ^ 2 * f2 ^ 2 + 3240 * f1 ^ 2 * f2 + 7920 * f1 * f2 ^ 3 + 3240 * f1 * f2 ^ 2 - 2340 * f1 * f2 - 225 * f1 + 3240 * f2 ^ 3 - 225 * f2 - 751"
  define Q3 where "Q3 = - 5760 * f1 ^ 3 * f2 ^ 2 + 4320 * f1 ^ 3 * f2 + 1620 * f1 ^ 3 - 5760 * f1 ^ 2 * f2 ^ 3 + 4320 * f1 ^ 2 * f2 ^ 2 + 1620 * f1 ^ 2 * f2 + 4320 * f1 * f2 ^ 3 + 1620 * f1 * f2 ^ 2 - 1080 * f1 * f2 - 45 * f1 + 1620 * f2 ^ 3 - 45 * f2 - 398"
  have q0: "0 \<le> Q0" unfolding Q0_def by (rule cert_Sf1_poly_a_5 [OF assms(3) assms(4) assms(5) assms(6)])
  have q1: "0 \<le> Q1" unfolding Q1_def by (rule cert_Sf1_poly_a_10 [OF assms(3) assms(4) assms(5) assms(6)])
  have q2: "0 \<le> Q2" unfolding Q2_def by (rule cert_Sf1_poly_a_15 [OF assms(3) assms(4) assms(5) assms(6)])
  have q3: "0 \<le> Q3" unfolding Q3_def by (rule cert_Sf1_poly_a_20 [OF assms(3) assms(4) assms(5) assms(6)])
  have id: "32 * (- 2880 * f1 ^ 3 * f2 ^ 2 + 4320 * f1 ^ 3 * f2 * z + 810 * f1 ^ 3 - 2880 * f1 ^ 2 * f2 ^ 3 + 4320 * f1 ^ 2 * f2 ^ 2 * z + 810 * f1 ^ 2 * f2 + 4320 * f1 * f2 ^ 3 * z + 810 * f1 * f2 ^ 2 + 4320 * f1 * f2 * z ^ 3 - 2160 * f1 * f2 * z + 810 * f1 * z ^ 2 - 225 * f1 + 810 * f2 ^ 3 + 810 * f2 * z ^ 2 - 225 * f2 - 270 * z - 64) =
      1 * (4 - 8 * z) ^ 3 * Q0 +
      3 * (8 * z - 3) * (4 - 8 * z) ^ 2 * Q1 +
      24 * (8 * z - 3) ^ 2 * (4 - 8 * z) * Q2 +
      16 * (8 * z - 3) ^ 3 * Q3"
    unfolding Q0_def Q1_def Q2_def Q3_def by algebra
  have "0 \<le> 32 * (- 2880 * f1 ^ 3 * f2 ^ 2 + 4320 * f1 ^ 3 * f2 * z + 810 * f1 ^ 3 - 2880 * f1 ^ 2 * f2 ^ 3 + 4320 * f1 ^ 2 * f2 ^ 2 * z + 810 * f1 ^ 2 * f2 + 4320 * f1 * f2 ^ 3 * z + 810 * f1 * f2 ^ 2 + 4320 * f1 * f2 * z ^ 3 - 2160 * f1 * f2 * z + 810 * f1 * z ^ 2 - 225 * f1 + 810 * f2 ^ 3 + 810 * f2 * z ^ 2 - 225 * f2 - 270 * z - 64)"
    unfolding id
    using assms q0 q1 q2 q3
    by (intro add_nonneg_nonneg mult_nonneg_nonneg zero_le_power) simp_all
  then show ?thesis by simp
qed

lemma cert_Sf1_poly:
  fixes f1 f2 z :: real
  assumes "1 / 2 \<le> f1" "f1 \<le> 9 / 8" "1 / 2 \<le> f2" "f2 \<le> 9 / 8" "3 / 8 \<le> z" "z \<le> 1 / 2"
  shows "0 \<le> - 2880 * f1 ^ 3 * f2 ^ 2 + 4320 * f1 ^ 3 * f2 * z + 810 * f1 ^ 3 - 2880 * f1 ^ 2 * f2 ^ 3 + 4320 * f1 ^ 2 * f2 ^ 2 * z + 810 * f1 ^ 2 * f2 + 4320 * f1 * f2 ^ 3 * z + 810 * f1 * f2 ^ 2 + 4320 * f1 * f2 * z ^ 3 - 2160 * f1 * f2 * z + 810 * f1 * z ^ 2 - 225 * f1 + 810 * f2 ^ 3 + 810 * f2 * z ^ 2 - 225 * f2 - 270 * z - 64"
  by (rule cert_Sf1_poly_a_21 [OF assms(5) assms(6) assms(1) assms(2) assms(3) assms(4)])

lemma cert_Sf1:
  fixes f1 f2 z :: real
  assumes "1 / 2 \<le> f1" "f1 \<le> 9 / 8" "1 / 2 \<le> f2" "f2 \<le> 9 / 8" "3 / 8 \<le> z" "z \<le> 1 / 2" "f1 < f2"
  shows "ampN (1 / 4) f1 z * ampD (1 / 4) f2 z < ampN (1 / 4) f2 z * ampD (1 / 4) f1 z"
proof -
  define Q where "Q = - 2880 * f1 ^ 3 * f2 ^ 2 + 4320 * f1 ^ 3 * f2 * z + 810 * f1 ^ 3 - 2880 * f1 ^ 2 * f2 ^ 3 + 4320 * f1 ^ 2 * f2 ^ 2 * z + 810 * f1 ^ 2 * f2 + 4320 * f1 * f2 ^ 3 * z + 810 * f1 * f2 ^ 2 + 4320 * f1 * f2 * z ^ 3 - 2160 * f1 * f2 * z + 810 * f1 * z ^ 2 - 225 * f1 + 810 * f2 ^ 3 + 810 * f2 * z ^ 2 - 225 * f2 - 270 * z - 64"
  have q: "0 \<le> Q" unfolding Q_def by (rule cert_Sf1_poly [OF assms(1-6)])
  have id: "64000 * (ampN (1 / 4) f2 z * ampD (1 / 4) f1 z - ampN (1 / 4) f1 z * ampD (1 / 4) f2 z) = (f2 - f1) * (Q + 64)"
    unfolding Q_def ampN_def ampD_def by algebra
  have "0 < (f2 - f1) * (Q + 64)"
    using assms(7) q by (intro mult_pos_pos) simp_all
  then have "0 < 64000 * (ampN (1 / 4) f2 z * ampD (1 / 4) f1 z - ampN (1 / 4) f1 z * ampD (1 / 4) f2 z)" unfolding id .
  then show ?thesis by simp
qed

lemma cert_Sf2_poly_a_1:
  fixes f2 :: real
  assumes "71 / 64 \<le> f2" "f2 \<le> 3 / 2"
  shows "0 \<le> 15908864 * f2 ^ 3 + 13920256 * f2 ^ 2 - 4695893 * f2 - 4004344"
proof -
  have id: "1000000 * (15908864 * f2 ^ 3 + 13920256 * f2 ^ 2 - 4695893 * f2 - 4004344) =
      1896877569 * (96 - 64 * f2) ^ 3 +
      7813817882 * (64 * f2 - 71) * (96 - 64 * f2) ^ 2 +
      10590000557 * (64 * f2 - 71) ^ 2 * (96 - 64 * f2) +
      4733747744 * (64 * f2 - 71) ^ 3"
    by algebra
  have "0 \<le> 1000000 * (15908864 * f2 ^ 3 + 13920256 * f2 ^ 2 - 4695893 * f2 - 4004344)"
    unfolding id
    using assms 
    by (intro add_nonneg_nonneg mult_nonneg_nonneg zero_le_power) simp_all
  then show ?thesis by simp
qed

lemma cert_Sf2_poly_a_2:
  fixes f2 :: real
  assumes "71 / 64 \<le> f2" "f2 \<le> 3 / 2"
  shows "0 \<le> 42090496 * f2 ^ 3 + 41800704 * f2 ^ 2 - 12425607 * f2 - 11961256"
proof -
  have id: "1000000 * (42090496 * f2 ^ 3 + 41800704 * f2 ^ 2 - 12425607 * f2 - 11961256) =
      5322613531 * (96 - 64 * f2) ^ 3 +
      21860931918 * (64 * f2 - 71) * (96 - 64 * f2) ^ 2 +
      29530225743 * (64 * f2 - 71) ^ 2 * (96 - 64 * f2) +
      13152469856 * (64 * f2 - 71) ^ 3"
    by algebra
  have "0 \<le> 1000000 * (42090496 * f2 ^ 3 + 41800704 * f2 ^ 2 - 12425607 * f2 - 11961256)"
    unfolding id
    using assms 
    by (intro add_nonneg_nonneg mult_nonneg_nonneg zero_le_power) simp_all
  then show ?thesis by simp
qed

lemma cert_Sf2_poly_a_3:
  fixes f2 :: real
  assumes "71 / 64 \<le> f2" "f2 \<le> 3 / 2"
  shows "0 \<le> 133742592 * f2 ^ 3 + 159694848 * f2 ^ 2 - 39704349 * f2 - 45508792"
proof -
  have id: "1000000 * (133742592 * f2 ^ 3 + 159694848 * f2 ^ 2 - 39704349 * f2 - 45508792) =
      18533403017 * (96 - 64 * f2) ^ 3 +
      75810578826 * (64 * f2 - 71) * (96 - 64 * f2) ^ 2 +
      101927266101 * (64 * f2 - 71) ^ 2 * (96 - 64 * f2) +
      45160277792 * (64 * f2 - 71) ^ 3"
    by algebra
  have "0 \<le> 1000000 * (133742592 * f2 ^ 3 + 159694848 * f2 ^ 2 - 39704349 * f2 - 45508792)"
    unfolding id
    using assms 
    by (intro add_nonneg_nonneg mult_nonneg_nonneg zero_le_power) simp_all
  then show ?thesis by simp
qed

lemma cert_Sf2_poly_a_4:
  fixes f2 :: real
  assumes "71 / 64 \<le> f2" "f2 \<le> 3 / 2"
  shows "0 \<le> 16367616 * f2 ^ 3 + 24551424 * f2 ^ 2 - 4911257 * f2 - 6973656"
proof -
  have id: "1000000 * (16367616 * f2 ^ 3 + 24551424 * f2 ^ 2 - 4911257 * f2 - 6973656) =
      2569007381 * (96 - 64 * f2) ^ 3 +
      10456865218 * (64 * f2 - 71) * (96 - 64 * f2) ^ 2 +
      13978435793 * (64 * f2 - 71) ^ 2 * (96 - 64 * f2) +
      6153015456 * (64 * f2 - 71) ^ 3"
    by algebra
  have "0 \<le> 1000000 * (16367616 * f2 ^ 3 + 24551424 * f2 ^ 2 - 4911257 * f2 - 6973656)"
    unfolding id
    using assms 
    by (intro add_nonneg_nonneg mult_nonneg_nonneg zero_le_power) simp_all
  then show ?thesis by simp
qed

lemma cert_Sf2_poly_a_5:
  fixes f1 f2 :: real
  assumes "7 / 8 \<le> f1" "f1 \<le> 3 / 2" "71 / 64 \<le> f2" "f2 \<le> 3 / 2"
  shows "0 \<le> 4194304 * f1 ^ 3 * f2 ^ 2 - 49152 * f1 ^ 3 * f2 - 1179648 * f1 ^ 3 + 4194304 * f1 ^ 2 * f2 ^ 3 - 49152 * f1 ^ 2 * f2 ^ 2 - 1179648 * f1 ^ 2 * f2 - 49152 * f1 * f2 ^ 3 - 1179648 * f1 * f2 ^ 2 + 24573 * f1 * f2 + 327608 * f1 - 1179648 * f2 ^ 3 + 327608 * f2 + 3072"
proof -
  define Q0 where "Q0 = 15908864 * f2 ^ 3 + 13920256 * f2 ^ 2 - 4695893 * f2 - 4004344"
  define Q1 where "Q1 = 42090496 * f2 ^ 3 + 41800704 * f2 ^ 2 - 12425607 * f2 - 11961256"
  define Q2 where "Q2 = 133742592 * f2 ^ 3 + 159694848 * f2 ^ 2 - 39704349 * f2 - 45508792"
  define Q3 where "Q3 = 16367616 * f2 ^ 3 + 24551424 * f2 ^ 2 - 4911257 * f2 - 6973656"
  have q0: "0 \<le> Q0" unfolding Q0_def by (rule cert_Sf2_poly_a_1 [OF assms(3) assms(4)])
  have q1: "0 \<le> Q1" unfolding Q1_def by (rule cert_Sf2_poly_a_2 [OF assms(3) assms(4)])
  have q2: "0 \<le> Q2" unfolding Q2_def by (rule cert_Sf2_poly_a_3 [OF assms(3) assms(4)])
  have q3: "0 \<le> Q3" unfolding Q3_def by (rule cert_Sf2_poly_a_4 [OF assms(3) assms(4)])
  have id: "1000 * (4194304 * f1 ^ 3 * f2 ^ 2 - 49152 * f1 ^ 3 * f2 - 1179648 * f1 ^ 3 + 4194304 * f1 ^ 2 * f2 ^ 3 - 49152 * f1 ^ 2 * f2 ^ 2 - 1179648 * f1 ^ 2 * f2 - 49152 * f1 * f2 ^ 3 - 1179648 * f1 * f2 ^ 2 + 24573 * f1 * f2 + 327608 * f1 - 1179648 * f2 ^ 3 + 327608 * f2 + 3072) =
      1 * (12 - 8 * f1) ^ 3 * Q0 +
      2 * (8 * f1 - 7) * (12 - 8 * f1) ^ 2 * Q1 +
      1 * (8 * f1 - 7) ^ 2 * (12 - 8 * f1) * Q2 +
      4 * (8 * f1 - 7) ^ 3 * Q3"
    unfolding Q0_def Q1_def Q2_def Q3_def by algebra
  have "0 \<le> 1000 * (4194304 * f1 ^ 3 * f2 ^ 2 - 49152 * f1 ^ 3 * f2 - 1179648 * f1 ^ 3 + 4194304 * f1 ^ 2 * f2 ^ 3 - 49152 * f1 ^ 2 * f2 ^ 2 - 1179648 * f1 ^ 2 * f2 - 49152 * f1 * f2 ^ 3 - 1179648 * f1 * f2 ^ 2 + 24573 * f1 * f2 + 327608 * f1 - 1179648 * f2 ^ 3 + 327608 * f2 + 3072)"
    unfolding id
    using assms q0 q1 q2 q3
    by (intro add_nonneg_nonneg mult_nonneg_nonneg zero_le_power) simp_all
  then show ?thesis by simp
qed

lemma cert_Sf2_poly_a_6:
  fixes f2 :: real
  assumes "71 / 64 \<le> f2" "f2 \<le> 3 / 2"
  shows "0 \<le> 6520832 * f2 ^ 3 + 5705728 * f2 ^ 2 - 2733809 * f2 - 1903972"
proof -
  have id: "1000000 * (6520832 * f2 ^ 3 + 5705728 * f2 ^ 2 - 2733809 * f2 - 1903972) =
      703254897 * (96 - 64 * f2) ^ 3 +
      2959804466 * (64 * f2 - 71) * (96 - 64 * f2) ^ 2 +
      4077499241 * (64 * f2 - 71) ^ 2 * (96 - 64 * f2) +
      1845824672 * (64 * f2 - 71) ^ 3"
    by algebra
  have "0 \<le> 1000000 * (6520832 * f2 ^ 3 + 5705728 * f2 ^ 2 - 2733809 * f2 - 1903972)"
    unfolding id
    using assms 
    by (intro add_nonneg_nonneg mult_nonneg_nonneg zero_le_power) simp_all
  then show ?thesis by simp
qed

lemma cert_Sf2_poly_a_7:
  fixes f2 :: real
  assumes "71 / 64 \<le> f2" "f2 \<le> 3 / 2"
  shows "0 \<le> 18382848 * f2 ^ 3 + 18122752 * f2 ^ 2 - 7711691 * f2 - 5834828"
proof -
  have id: "1000000 * (18382848 * f2 ^ 3 + 18122752 * f2 ^ 2 - 7711691 * f2 - 5834828) =
      2112795403 * (96 - 64 * f2) ^ 3 +
      8847640934 * (64 * f2 - 71) * (96 - 64 * f2) ^ 2 +
      12131340659 * (64 * f2 - 71) ^ 2 * (96 - 64 * f2) +
      5466620128 * (64 * f2 - 71) ^ 3"
    by algebra
  have "0 \<le> 1000000 * (18382848 * f2 ^ 3 + 18122752 * f2 ^ 2 - 7711691 * f2 - 5834828)"
    unfolding id
    using assms 
    by (intro add_nonneg_nonneg mult_nonneg_nonneg zero_le_power) simp_all
  then show ?thesis by simp
qed

lemma cert_Sf2_poly_a_8:
  fixes f2 :: real
  assumes "71 / 64 \<le> f2" "f2 \<le> 3 / 2"
  shows "0 \<le> 60522496 * f2 ^ 3 + 71860224 * f2 ^ 2 - 26370137 * f2 - 22465796"
proof -
  have id: "1000000 * (60522496 * f2 ^ 3 + 71860224 * f2 ^ 2 - 26370137 * f2 - 22465796) =
      7638517721 * (96 - 64 * f2) ^ 3 +
      31828732738 * (64 * f2 - 71) * (96 - 64 * f2) ^ 2 +
      43410727313 * (64 * f2 - 71) ^ 2 * (96 - 64 * f2) +
      19451387296 * (64 * f2 - 71) ^ 3"
    by algebra
  have "0 \<le> 1000000 * (60522496 * f2 ^ 3 + 71860224 * f2 ^ 2 - 26370137 * f2 - 22465796)"
    unfolding id
    using assms 
    by (intro add_nonneg_nonneg mult_nonneg_nonneg zero_le_power) simp_all
  then show ?thesis by simp
qed

lemma cert_Sf2_poly_a_9:
  fixes f2 :: real
  assumes "71 / 64 \<le> f2" "f2 \<le> 3 / 2"
  shows "0 \<le> 7569408 * f2 ^ 3 + 11354112 * f2 ^ 2 - 3532141 * f2 - 3463028"
proof -
  have id: "1000000 * (7569408 * f2 ^ 3 + 11354112 * f2 ^ 2 - 3532141 * f2 - 3463028) =
      1083317453 * (96 - 64 * f2) ^ 3 +
      4490129834 * (64 * f2 - 71) * (96 - 64 * f2) ^ 2 +
      6087202309 * (64 * f2 - 71) ^ 2 * (96 - 64 * f2) +
      2709264928 * (64 * f2 - 71) ^ 3"
    by algebra
  have "0 \<le> 1000000 * (7569408 * f2 ^ 3 + 11354112 * f2 ^ 2 - 3532141 * f2 - 3463028)"
    unfolding id
    using assms 
    by (intro add_nonneg_nonneg mult_nonneg_nonneg zero_le_power) simp_all
  then show ?thesis by simp
qed

lemma cert_Sf2_poly_a_10:
  fixes f1 f2 :: real
  assumes "7 / 8 \<le> f1" "f1 \<le> 3 / 2" "71 / 64 \<le> f2" "f2 \<le> 3 / 2"
  shows "0 \<le> 2097152 * f1 ^ 3 * f2 ^ 2 - 229376 * f1 ^ 3 * f2 - 589824 * f1 ^ 3 + 2097152 * f1 ^ 2 * f2 ^ 3 - 229376 * f1 ^ 2 * f2 ^ 2 - 589824 * f1 ^ 2 * f2 - 229376 * f1 * f2 ^ 3 - 589824 * f1 * f2 ^ 2 + 114649 * f1 * f2 + 163204 * f1 - 589824 * f2 ^ 3 + 163204 * f2 + 14336"
proof -
  define Q0 where "Q0 = 6520832 * f2 ^ 3 + 5705728 * f2 ^ 2 - 2733809 * f2 - 1903972"
  define Q1 where "Q1 = 18382848 * f2 ^ 3 + 18122752 * f2 ^ 2 - 7711691 * f2 - 5834828"
  define Q2 where "Q2 = 60522496 * f2 ^ 3 + 71860224 * f2 ^ 2 - 26370137 * f2 - 22465796"
  define Q3 where "Q3 = 7569408 * f2 ^ 3 + 11354112 * f2 ^ 2 - 3532141 * f2 - 3463028"
  have q0: "0 \<le> Q0" unfolding Q0_def by (rule cert_Sf2_poly_a_6 [OF assms(3) assms(4)])
  have q1: "0 \<le> Q1" unfolding Q1_def by (rule cert_Sf2_poly_a_7 [OF assms(3) assms(4)])
  have q2: "0 \<le> Q2" unfolding Q2_def by (rule cert_Sf2_poly_a_8 [OF assms(3) assms(4)])
  have q3: "0 \<le> Q3" unfolding Q3_def by (rule cert_Sf2_poly_a_9 [OF assms(3) assms(4)])
  have id: "1000 * (2097152 * f1 ^ 3 * f2 ^ 2 - 229376 * f1 ^ 3 * f2 - 589824 * f1 ^ 3 + 2097152 * f1 ^ 2 * f2 ^ 3 - 229376 * f1 ^ 2 * f2 ^ 2 - 589824 * f1 ^ 2 * f2 - 229376 * f1 * f2 ^ 3 - 589824 * f1 * f2 ^ 2 + 114649 * f1 * f2 + 163204 * f1 - 589824 * f2 ^ 3 + 163204 * f2 + 14336) =
      1 * (12 - 8 * f1) ^ 3 * Q0 +
      2 * (8 * f1 - 7) * (12 - 8 * f1) ^ 2 * Q1 +
      1 * (8 * f1 - 7) ^ 2 * (12 - 8 * f1) * Q2 +
      4 * (8 * f1 - 7) ^ 3 * Q3"
    unfolding Q0_def Q1_def Q2_def Q3_def by algebra
  have "0 \<le> 1000 * (2097152 * f1 ^ 3 * f2 ^ 2 - 229376 * f1 ^ 3 * f2 - 589824 * f1 ^ 3 + 2097152 * f1 ^ 2 * f2 ^ 3 - 229376 * f1 ^ 2 * f2 ^ 2 - 589824 * f1 ^ 2 * f2 - 229376 * f1 * f2 ^ 3 - 589824 * f1 * f2 ^ 2 + 114649 * f1 * f2 + 163204 * f1 - 589824 * f2 ^ 3 + 163204 * f2 + 14336)"
    unfolding id
    using assms q0 q1 q2 q3
    by (intro add_nonneg_nonneg mult_nonneg_nonneg zero_le_power) simp_all
  then show ?thesis by simp
qed

lemma cert_Sf2_poly_a_11:
  fixes f2 :: real
  assumes "71 / 64 \<le> f2" "f2 \<le> 3 / 2"
  shows "0 \<le> 847872 * f2 ^ 3 + 741888 * f2 ^ 2 - 531039 * f2 - 309712"
proof -
  have id: "1000000 * (847872 * f2 ^ 3 + 741888 * f2 ^ 2 - 531039 * f2 - 309712) =
      74997512 * (96 - 64 * f2) ^ 3 +
      331129686 * (64 * f2 - 71) * (96 - 64 * f2) ^ 2 +
      472068711 * (64 * f2 - 71) ^ 2 * (96 - 64 * f2) +
      219170912 * (64 * f2 - 71) ^ 3"
    by algebra
  have "0 \<le> 1000000 * (847872 * f2 ^ 3 + 741888 * f2 ^ 2 - 531039 * f2 - 309712)"
    unfolding id
    using assms 
    by (intro add_nonneg_nonneg mult_nonneg_nonneg zero_le_power) simp_all
  then show ?thesis by simp
qed

lemma cert_Sf2_poly_a_12:
  fixes f2 :: real
  assumes "71 / 64 \<le> f2" "f2 \<le> 3 / 2"
  shows "0 \<le> 7860224 * f2 ^ 3 + 7672576 * f2 ^ 2 - 4656383 * f2 - 2893264"
proof -
  have id: "1000000 * (7860224 * f2 ^ 3 + 7672576 * f2 ^ 2 - 4656383 * f2 - 2893264) =
      775394364 * (96 - 64 * f2) ^ 3 +
      3360887642 * (64 * f2 - 71) * (96 - 64 * f2) ^ 2 +
      4725986567 * (64 * f2 - 71) ^ 2 * (96 - 64 * f2) +
      2170477664 * (64 * f2 - 71) ^ 3"
    by algebra
  have "0 \<le> 1000000 * (7860224 * f2 ^ 3 + 7672576 * f2 ^ 2 - 4656383 * f2 - 2893264)"
    unfolding id
    using assms 
    by (intro add_nonneg_nonneg mult_nonneg_nonneg zero_le_power) simp_all
  then show ?thesis by simp
qed

lemma cert_Sf2_poly_a_13:
  fixes f2 :: real
  assumes "71 / 64 \<le> f2" "f2 \<le> 3 / 2"
  shows "0 \<le> 27086848 * f2 ^ 3 + 31936512 * f2 ^ 2 - 16548581 * f2 - 11204848"
proof -
  have id: "1000000 * (27086848 * f2 ^ 3 + 31936512 * f2 ^ 2 - 16548581 * f2 - 11204848) =
      2990305248 * (96 - 64 * f2) ^ 3 +
      12828889594 * (64 * f2 - 71) * (96 - 64 * f2) ^ 2 +
      17879099069 * (64 * f2 - 71) ^ 2 * (96 - 64 * f2) +
      8143842848 * (64 * f2 - 71) ^ 3"
    by algebra
  have "0 \<le> 1000000 * (27086848 * f2 ^ 3 + 31936512 * f2 ^ 2 - 16548581 * f2 - 11204848)"
    unfolding id
    using assms 
    by (intro add_nonneg_nonneg mult_nonneg_nonneg zero_le_power) simp_all
  then show ?thesis by simp
qed

lemma cert_Sf2_poly_a_14:
  fixes f2 :: real
  assumes "71 / 64 \<le> f2" "f2 \<le> 3 / 2"
  shows "0 \<le> 3477504 * f2 ^ 3 + 5216256 * f2 ^ 2 - 2313233 * f2 - 1730864"
proof -
  have id: "1000000 * (3477504 * f2 ^ 3 + 5216256 * f2 ^ 2 - 2313233 * f2 - 1730864) =
      439713264 * (96 - 64 * f2) ^ 3 +
      1871633842 * (64 * f2 - 71) * (96 - 64 * f2) ^ 2 +
      2588091017 * (64 * f2 - 71) ^ 2 * (96 - 64 * f2) +
      1169436064 * (64 * f2 - 71) ^ 3"
    by algebra
  have "0 \<le> 1000000 * (3477504 * f2 ^ 3 + 5216256 * f2 ^ 2 - 2313233 * f2 - 1730864)"
    unfolding id
    using assms 
    by (intro add_nonneg_nonneg mult_nonneg_nonneg zero_le_power) simp_all
  then show ?thesis by simp
qed

lemma cert_Sf2_poly_a_15:
  fixes f1 f2 :: real
  assumes "7 / 8 \<le> f1" "f1 \<le> 3 / 2" "71 / 64 \<le> f2" "f2 \<le> 3 / 2"
  shows "0 \<le> 1048576 * f1 ^ 3 * f2 ^ 2 - 217088 * f1 ^ 3 * f2 - 294912 * f1 ^ 3 + 1048576 * f1 ^ 2 * f2 ^ 3 - 217088 * f1 ^ 2 * f2 ^ 2 - 294912 * f1 ^ 2 * f2 - 217088 * f1 * f2 ^ 3 - 294912 * f1 * f2 ^ 2 + 108037 * f1 * f2 + 77552 * f1 - 294912 * f2 ^ 3 + 77552 * f2 + 13568"
proof -
  define Q0 where "Q0 = 847872 * f2 ^ 3 + 741888 * f2 ^ 2 - 531039 * f2 - 309712"
  define Q1 where "Q1 = 7860224 * f2 ^ 3 + 7672576 * f2 ^ 2 - 4656383 * f2 - 2893264"
  define Q2 where "Q2 = 27086848 * f2 ^ 3 + 31936512 * f2 ^ 2 - 16548581 * f2 - 11204848"
  define Q3 where "Q3 = 3477504 * f2 ^ 3 + 5216256 * f2 ^ 2 - 2313233 * f2 - 1730864"
  have q0: "0 \<le> Q0" unfolding Q0_def by (rule cert_Sf2_poly_a_11 [OF assms(3) assms(4)])
  have q1: "0 \<le> Q1" unfolding Q1_def by (rule cert_Sf2_poly_a_12 [OF assms(3) assms(4)])
  have q2: "0 \<le> Q2" unfolding Q2_def by (rule cert_Sf2_poly_a_13 [OF assms(3) assms(4)])
  have q3: "0 \<le> Q3" unfolding Q3_def by (rule cert_Sf2_poly_a_14 [OF assms(3) assms(4)])
  have id: "1000 * (1048576 * f1 ^ 3 * f2 ^ 2 - 217088 * f1 ^ 3 * f2 - 294912 * f1 ^ 3 + 1048576 * f1 ^ 2 * f2 ^ 3 - 217088 * f1 ^ 2 * f2 ^ 2 - 294912 * f1 ^ 2 * f2 - 217088 * f1 * f2 ^ 3 - 294912 * f1 * f2 ^ 2 + 108037 * f1 * f2 + 77552 * f1 - 294912 * f2 ^ 3 + 77552 * f2 + 13568) =
      3 * (12 - 8 * f1) ^ 3 * Q0 +
      2 * (8 * f1 - 7) * (12 - 8 * f1) ^ 2 * Q1 +
      1 * (8 * f1 - 7) ^ 2 * (12 - 8 * f1) * Q2 +
      4 * (8 * f1 - 7) ^ 3 * Q3"
    unfolding Q0_def Q1_def Q2_def Q3_def by algebra
  have "0 \<le> 1000 * (1048576 * f1 ^ 3 * f2 ^ 2 - 217088 * f1 ^ 3 * f2 - 294912 * f1 ^ 3 + 1048576 * f1 ^ 2 * f2 ^ 3 - 217088 * f1 ^ 2 * f2 ^ 2 - 294912 * f1 ^ 2 * f2 - 217088 * f1 * f2 ^ 3 - 294912 * f1 * f2 ^ 2 + 108037 * f1 * f2 + 77552 * f1 - 294912 * f2 ^ 3 + 77552 * f2 + 13568)"
    unfolding id
    using assms q0 q1 q2 q3
    by (intro add_nonneg_nonneg mult_nonneg_nonneg zero_le_power) simp_all
  then show ?thesis by simp
qed

lemma cert_Sf2_poly_a_16:
  fixes f2 :: real
  assumes "71 / 64 \<le> f2" "f2 \<le> 3 / 2"
  shows "0 \<le> 913408 * f2 ^ 3 + 799232 * f2 ^ 2 - 967321 * f2 - 466268"
proof -
  have id: "1000000 * (913408 * f2 ^ 3 + 799232 * f2 ^ 2 - 967321 * f2 - 466268) =
      44245218 * (96 - 64 * f2) ^ 3 +
      237195754 * (64 * f2 - 71) * (96 - 64 * f2) ^ 2 +
      379147729 * (64 * f2 - 71) ^ 2 * (96 - 64 * f2) +
      189681568 * (64 * f2 - 71) ^ 3"
    by algebra
  have "0 \<le> 1000000 * (913408 * f2 ^ 3 + 799232 * f2 ^ 2 - 967321 * f2 - 466268)"
    unfolding id
    using assms 
    by (intro add_nonneg_nonneg mult_nonneg_nonneg zero_le_power) simp_all
  then show ?thesis by simp
qed

lemma cert_Sf2_poly_a_17:
  fixes f2 :: real
  assumes "71 / 64 \<le> f2" "f2 \<le> 3 / 2"
  shows "0 \<le> 3264512 * f2 ^ 3 + 3141888 * f2 ^ 2 - 2830179 * f2 - 1458932"
proof -
  have id: "1000000 * (3264512 * f2 ^ 3 + 3141888 * f2 ^ 2 - 2830179 * f2 - 1458932) =
      238413482 * (96 - 64 * f2) ^ 3 +
      1120088346 * (64 * f2 - 71) * (96 - 64 * f2) ^ 2 +
      1661719371 * (64 * f2 - 71) ^ 2 * (96 - 64 * f2) +
      792497632 * (64 * f2 - 71) ^ 3"
    by algebra
  have "0 \<le> 1000000 * (3264512 * f2 ^ 3 + 3141888 * f2 ^ 2 - 2830179 * f2 - 1458932)"
    unfolding id
    using assms 
    by (intro add_nonneg_nonneg mult_nonneg_nonneg zero_le_power) simp_all
  then show ?thesis by simp
qed

lemma cert_Sf2_poly_a_18:
  fixes f2 :: real
  assumes "71 / 64 \<le> f2" "f2 \<le> 3 / 2"
  shows "0 \<le> 11956224 * f2 ^ 3 + 13971456 * f2 ^ 2 - 10189953 * f2 - 5646524"
proof -
  have id: "1000000 * (11956224 * f2 ^ 3 + 13971456 * f2 ^ 2 - 10189953 * f2 - 5646524) =
      1060348474 * (96 - 64 * f2) ^ 3 +
      4804876722 * (64 * f2 - 71) * (96 - 64 * f2) ^ 2 +
      6953739897 * (64 * f2 - 71) ^ 2 * (96 - 64 * f2) +
      3254821024 * (64 * f2 - 71) ^ 3"
    by algebra
  have "0 \<le> 1000000 * (11956224 * f2 ^ 3 + 13971456 * f2 ^ 2 - 10189953 * f2 - 5646524)"
    unfolding id
    using assms 
    by (intro add_nonneg_nonneg mult_nonneg_nonneg zero_le_power) simp_all
  then show ?thesis by simp
qed

lemma cert_Sf2_poly_a_19:
  fixes f2 :: real
  assumes "71 / 64 \<le> f2" "f2 \<le> 3 / 2"
  shows "0 \<le> 1585152 * f2 ^ 3 + 2377728 * f2 ^ 2 - 1452229 * f2 - 870732"
proof -
  have id: "1000000 * (1585152 * f2 ^ 3 + 2377728 * f2 ^ 2 - 1452229 * f2 - 870732) =
      166959682 * (96 - 64 * f2) ^ 3 +
      742777946 * (64 * f2 - 71) * (96 - 64 * f2) ^ 2 +
      1059416221 * (64 * f2 - 71) ^ 2 * (96 - 64 * f2) +
      489644832 * (64 * f2 - 71) ^ 3"
    by algebra
  have "0 \<le> 1000000 * (1585152 * f2 ^ 3 + 2377728 * f2 ^ 2 - 1452229 * f2 - 870732)"
    unfolding id
    using assms 
    by (intro add_nonneg_nonneg mult_nonneg_nonneg zero_le_power) simp_all
  then show ?thesis by simp
qed

lemma cert_Sf2_poly_a_20:
  fixes f1 f2 :: real
  assumes "7 / 8 \<le> f1" "f1 \<le> 3 / 2" "71 / 64 \<le> f2" "f2 \<le> 3 / 2"
  shows "0 \<le> 524288 * f1 ^ 3 * f2 ^ 2 - 159744 * f1 ^ 3 * f2 - 147456 * f1 ^ 3 + 524288 * f1 ^ 2 * f2 ^ 3 - 159744 * f1 ^ 2 * f2 ^ 2 - 147456 * f1 ^ 2 * f2 - 159744 * f1 * f2 ^ 3 - 147456 * f1 * f2 ^ 2 + 73281 * f1 * f2 + 34876 * f1 - 147456 * f2 ^ 3 + 34876 * f2 + 9984"
proof -
  define Q0 where "Q0 = 913408 * f2 ^ 3 + 799232 * f2 ^ 2 - 967321 * f2 - 466268"
  define Q1 where "Q1 = 3264512 * f2 ^ 3 + 3141888 * f2 ^ 2 - 2830179 * f2 - 1458932"
  define Q2 where "Q2 = 11956224 * f2 ^ 3 + 13971456 * f2 ^ 2 - 10189953 * f2 - 5646524"
  define Q3 where "Q3 = 1585152 * f2 ^ 3 + 2377728 * f2 ^ 2 - 1452229 * f2 - 870732"
  have q0: "0 \<le> Q0" unfolding Q0_def by (rule cert_Sf2_poly_a_16 [OF assms(3) assms(4)])
  have q1: "0 \<le> Q1" unfolding Q1_def by (rule cert_Sf2_poly_a_17 [OF assms(3) assms(4)])
  have q2: "0 \<le> Q2" unfolding Q2_def by (rule cert_Sf2_poly_a_18 [OF assms(3) assms(4)])
  have q3: "0 \<le> Q3" unfolding Q3_def by (rule cert_Sf2_poly_a_19 [OF assms(3) assms(4)])
  have id: "1000 * (524288 * f1 ^ 3 * f2 ^ 2 - 159744 * f1 ^ 3 * f2 - 147456 * f1 ^ 3 + 524288 * f1 ^ 2 * f2 ^ 3 - 159744 * f1 ^ 2 * f2 ^ 2 - 147456 * f1 ^ 2 * f2 - 159744 * f1 * f2 ^ 3 - 147456 * f1 * f2 ^ 2 + 73281 * f1 * f2 + 34876 * f1 - 147456 * f2 ^ 3 + 34876 * f2 + 9984) =
      1 * (12 - 8 * f1) ^ 3 * Q0 +
      2 * (8 * f1 - 7) * (12 - 8 * f1) ^ 2 * Q1 +
      1 * (8 * f1 - 7) ^ 2 * (12 - 8 * f1) * Q2 +
      4 * (8 * f1 - 7) ^ 3 * Q3"
    unfolding Q0_def Q1_def Q2_def Q3_def by algebra
  have "0 \<le> 1000 * (524288 * f1 ^ 3 * f2 ^ 2 - 159744 * f1 ^ 3 * f2 - 147456 * f1 ^ 3 + 524288 * f1 ^ 2 * f2 ^ 3 - 159744 * f1 ^ 2 * f2 ^ 2 - 147456 * f1 ^ 2 * f2 - 159744 * f1 * f2 ^ 3 - 147456 * f1 * f2 ^ 2 + 73281 * f1 * f2 + 34876 * f1 - 147456 * f2 ^ 3 + 34876 * f2 + 9984)"
    unfolding id
    using assms q0 q1 q2 q3
    by (intro add_nonneg_nonneg mult_nonneg_nonneg zero_le_power) simp_all
  then show ?thesis by simp
qed

lemma cert_Sf2_poly_a_21:
  fixes f1 f2 z :: real
  assumes "1 / 128 \<le> z" "z \<le> 13 / 64" "7 / 8 \<le> f1" "f1 \<le> 3 / 2" "71 / 64 \<le> f2" "f2 \<le> 3 / 2"
  shows "0 \<le> 64 * f1 ^ 3 * f2 ^ 2 - 96 * f1 ^ 3 * f2 * z - 18 * f1 ^ 3 + 64 * f1 ^ 2 * f2 ^ 3 - 96 * f1 ^ 2 * f2 ^ 2 * z - 18 * f1 ^ 2 * f2 - 96 * f1 * f2 ^ 3 * z - 18 * f1 * f2 ^ 2 - 96 * f1 * f2 * z ^ 3 + 48 * f1 * f2 * z - 18 * f1 * z ^ 2 + 5 * f1 - 18 * f2 ^ 3 - 18 * f2 * z ^ 2 + 5 * f2 + 6 * z"
proof -
  define Q0 where "Q0 = 4194304 * f1 ^ 3 * f2 ^ 2 - 49152 * f1 ^ 3 * f2 - 1179648 * f1 ^ 3 + 4194304 * f1 ^ 2 * f2 ^ 3 - 49152 * f1 ^ 2 * f2 ^ 2 - 1179648 * f1 ^ 2 * f2 - 49152 * f1 * f2 ^ 3 - 1179648 * f1 * f2 ^ 2 + 24573 * f1 * f2 + 327608 * f1 - 1179648 * f2 ^ 3 + 327608 * f2 + 3072"
  define Q1 where "Q1 = 2097152 * f1 ^ 3 * f2 ^ 2 - 229376 * f1 ^ 3 * f2 - 589824 * f1 ^ 3 + 2097152 * f1 ^ 2 * f2 ^ 3 - 229376 * f1 ^ 2 * f2 ^ 2 - 589824 * f1 ^ 2 * f2 - 229376 * f1 * f2 ^ 3 - 589824 * f1 * f2 ^ 2 + 114649 * f1 * f2 + 163204 * f1 - 589824 * f2 ^ 3 + 163204 * f2 + 14336"
  define Q2 where "Q2 = 1048576 * f1 ^ 3 * f2 ^ 2 - 217088 * f1 ^ 3 * f2 - 294912 * f1 ^ 3 + 1048576 * f1 ^ 2 * f2 ^ 3 - 217088 * f1 ^ 2 * f2 ^ 2 - 294912 * f1 ^ 2 * f2 - 217088 * f1 * f2 ^ 3 - 294912 * f1 * f2 ^ 2 + 108037 * f1 * f2 + 77552 * f1 - 294912 * f2 ^ 3 + 77552 * f2 + 13568"
  define Q3 where "Q3 = 524288 * f1 ^ 3 * f2 ^ 2 - 159744 * f1 ^ 3 * f2 - 147456 * f1 ^ 3 + 524288 * f1 ^ 2 * f2 ^ 3 - 159744 * f1 ^ 2 * f2 ^ 2 - 147456 * f1 ^ 2 * f2 - 159744 * f1 * f2 ^ 3 - 147456 * f1 * f2 ^ 2 + 73281 * f1 * f2 + 34876 * f1 - 147456 * f2 ^ 3 + 34876 * f2 + 9984"
  have q0: "0 \<le> Q0" unfolding Q0_def by (rule cert_Sf2_poly_a_5 [OF assms(3) assms(4) assms(5) assms(6)])
  have q1: "0 \<le> Q1" unfolding Q1_def by (rule cert_Sf2_poly_a_10 [OF assms(3) assms(4) assms(5) assms(6)])
  have q2: "0 \<le> Q2" unfolding Q2_def by (rule cert_Sf2_poly_a_15 [OF assms(3) assms(4) assms(5) assms(6)])
  have q3: "0 \<le> Q3" unfolding Q3_def by (rule cert_Sf2_poly_a_20 [OF assms(3) assms(4) assms(5) assms(6)])
  have id: "1024000000 * (64 * f1 ^ 3 * f2 ^ 2 - 96 * f1 ^ 3 * f2 * z - 18 * f1 ^ 3 + 64 * f1 ^ 2 * f2 ^ 3 - 96 * f1 ^ 2 * f2 ^ 2 * z - 18 * f1 ^ 2 * f2 - 96 * f1 * f2 ^ 3 * z - 18 * f1 * f2 ^ 2 - 96 * f1 * f2 * z ^ 3 + 48 * f1 * f2 * z - 18 * f1 * z ^ 2 + 5 * f1 - 18 * f2 ^ 3 - 18 * f2 * z ^ 2 + 5 * f2 + 6 * z) =
      1 * (26 - 128 * z) ^ 3 * Q0 +
      6 * (128 * z - 1) * (26 - 128 * z) ^ 2 * Q1 +
      12 * (128 * z - 1) ^ 2 * (26 - 128 * z) * Q2 +
      8 * (128 * z - 1) ^ 3 * Q3"
    unfolding Q0_def Q1_def Q2_def Q3_def by algebra
  have "0 \<le> 1024000000 * (64 * f1 ^ 3 * f2 ^ 2 - 96 * f1 ^ 3 * f2 * z - 18 * f1 ^ 3 + 64 * f1 ^ 2 * f2 ^ 3 - 96 * f1 ^ 2 * f2 ^ 2 * z - 18 * f1 ^ 2 * f2 - 96 * f1 * f2 ^ 3 * z - 18 * f1 * f2 ^ 2 - 96 * f1 * f2 * z ^ 3 + 48 * f1 * f2 * z - 18 * f1 * z ^ 2 + 5 * f1 - 18 * f2 ^ 3 - 18 * f2 * z ^ 2 + 5 * f2 + 6 * z)"
    unfolding id
    using assms q0 q1 q2 q3
    by (intro add_nonneg_nonneg mult_nonneg_nonneg zero_le_power) simp_all
  then show ?thesis by simp
qed

lemma cert_Sf2_poly:
  fixes f1 f2 z :: real
  assumes "7 / 8 \<le> f1" "f1 \<le> 3 / 2" "71 / 64 \<le> f2" "f2 \<le> 3 / 2" "1 / 128 \<le> z" "z \<le> 13 / 64"
  shows "0 \<le> 64 * f1 ^ 3 * f2 ^ 2 - 96 * f1 ^ 3 * f2 * z - 18 * f1 ^ 3 + 64 * f1 ^ 2 * f2 ^ 3 - 96 * f1 ^ 2 * f2 ^ 2 * z - 18 * f1 ^ 2 * f2 - 96 * f1 * f2 ^ 3 * z - 18 * f1 * f2 ^ 2 - 96 * f1 * f2 * z ^ 3 + 48 * f1 * f2 * z - 18 * f1 * z ^ 2 + 5 * f1 - 18 * f2 ^ 3 - 18 * f2 * z ^ 2 + 5 * f2 + 6 * z"
  by (rule cert_Sf2_poly_a_21 [OF assms(5) assms(6) assms(1) assms(2) assms(3) assms(4)])

lemma cert_Sf2:
  fixes f1 f2 z :: real
  assumes "7 / 8 \<le> f1" "f1 \<le> 3 / 2" "71 / 64 \<le> f2" "f2 \<le> 3 / 2" "1 / 128 \<le> z" "z \<le> 13 / 64" "f1 \<le> f2"
  shows "ampN (1 / 4) f2 z * ampD (1 / 4) f1 z \<le> ampN (1 / 4) f1 z * ampD (1 / 4) f2 z"
proof -
  define Q where "Q = 64 * f1 ^ 3 * f2 ^ 2 - 96 * f1 ^ 3 * f2 * z - 18 * f1 ^ 3 + 64 * f1 ^ 2 * f2 ^ 3 - 96 * f1 ^ 2 * f2 ^ 2 * z - 18 * f1 ^ 2 * f2 - 96 * f1 * f2 ^ 3 * z - 18 * f1 * f2 ^ 2 - 96 * f1 * f2 * z ^ 3 + 48 * f1 * f2 * z - 18 * f1 * z ^ 2 + 5 * f1 - 18 * f2 ^ 3 - 18 * f2 * z ^ 2 + 5 * f2 + 6 * z"
  have q: "0 \<le> Q" unfolding Q_def by (rule cert_Sf2_poly [OF assms(1-6)])
  have id: "12800 / 9 * (ampN (1 / 4) f1 z * ampD (1 / 4) f2 z - ampN (1 / 4) f2 z * ampD (1 / 4) f1 z) = (f2 - f1) * (Q + 0)"
    unfolding Q_def ampN_def ampD_def by algebra
  have "0 \<le> (f2 - f1) * (Q + 0)"
    using assms(7) q by (intro mult_nonneg_nonneg) simp_all
  then have "0 \<le> 12800 / 9 * (ampN (1 / 4) f1 z * ampD (1 / 4) f2 z - ampN (1 / 4) f2 z * ampD (1 / 4) f1 z)" unfolding id .
  then show ?thesis by simp
qed

lemma cert_Sz3_poly_a_1:
  fixes f :: real
  assumes "11 / 8 \<le> f" "f \<le> 3 / 2"
  shows "0 \<le> 256 * f ^ 5 + 64 * f ^ 4 - 137 * f ^ 3 - 18 * f ^ 2 + 16 * f"
proof -
  have id: "512 * (256 * f ^ 5 + 64 * f ^ 4 - 137 * f ^ 3 - 18 * f ^ 2 + 16 * f) =
      572825 * (12 - 8 * f) ^ 5 +
      3147662 * (8 * f - 11) * (12 - 8 * f) ^ 4 +
      6916781 * (8 * f - 11) ^ 2 * (12 - 8 * f) ^ 3 +
      7597676 * (8 * f - 11) ^ 3 * (12 - 8 * f) ^ 2 +
      4171760 * (8 * f - 11) ^ 4 * (12 - 8 * f) +
      916032 * (8 * f - 11) ^ 5"
    by algebra
  have "0 \<le> 512 * (256 * f ^ 5 + 64 * f ^ 4 - 137 * f ^ 3 - 18 * f ^ 2 + 16 * f)"
    unfolding id
    using assms 
    by (intro add_nonneg_nonneg mult_nonneg_nonneg zero_le_power) simp_all
  then show ?thesis by simp
qed

lemma cert_Sz3_poly_a_2:
  fixes f :: real
  assumes "11 / 8 \<le> f" "f \<le> 3 / 2"
  shows "0 \<le> 768 * f ^ 5 + 352 * f ^ 4 - 456 * f ^ 3 - 99 * f ^ 2 + 48 * f"
proof -
  have id: "128 * (768 * f ^ 5 + 352 * f ^ 4 - 456 * f ^ 3 - 99 * f ^ 2 + 48 * f) =
      476960 * (12 - 8 * f) ^ 5 +
      2618009 * (8 * f - 11) * (12 - 8 * f) ^ 4 +
      5746392 * (8 * f - 11) ^ 2 * (12 - 8 * f) ^ 3 +
      6304722 * (8 * f - 11) ^ 3 * (12 - 8 * f) ^ 2 +
      3457680 * (8 * f - 11) ^ 4 * (12 - 8 * f) +
      758304 * (8 * f - 11) ^ 5"
    by algebra
  have "0 \<le> 128 * (768 * f ^ 5 + 352 * f ^ 4 - 456 * f ^ 3 - 99 * f ^ 2 + 48 * f)"
    unfolding id
    using assms 
    by (intro add_nonneg_nonneg mult_nonneg_nonneg zero_le_power) simp_all
  then show ?thesis by simp
qed

lemma cert_Sz3_poly_a_3:
  fixes f zb :: real
  assumes "3 / 16 \<le> zb" "zb \<le> 1 / 2" "11 / 8 \<le> f" "f \<le> 3 / 2"
  shows "0 \<le> 768 * f ^ 5 + 512 * f ^ 4 * zb + 96 * f ^ 4 - 144 * f ^ 3 * zb - 384 * f ^ 3 - 144 * f ^ 2 * zb - 27 * f ^ 2 + 48 * f"
proof -
  define Q0 where "Q0 = 256 * f ^ 5 + 64 * f ^ 4 - 137 * f ^ 3 - 18 * f ^ 2 + 16 * f"
  define Q1 where "Q1 = 768 * f ^ 5 + 352 * f ^ 4 - 456 * f ^ 3 - 99 * f ^ 2 + 48 * f"
  have q0: "0 \<le> Q0" unfolding Q0_def by (rule cert_Sz3_poly_a_1 [OF assms(3) assms(4)])
  have q1: "0 \<le> Q1" unfolding Q1_def by (rule cert_Sz3_poly_a_2 [OF assms(3) assms(4)])
  have id: "5 * (768 * f ^ 5 + 512 * f ^ 4 * zb + 96 * f ^ 4 - 144 * f ^ 3 * zb - 384 * f ^ 3 - 144 * f ^ 2 * zb - 27 * f ^ 2 + 48 * f) =
      3 * (8 - 16 * zb) * Q0 +
      1 * (16 * zb - 3) * Q1"
    unfolding Q0_def Q1_def by algebra
  have "0 \<le> 5 * (768 * f ^ 5 + 512 * f ^ 4 * zb + 96 * f ^ 4 - 144 * f ^ 3 * zb - 384 * f ^ 3 - 144 * f ^ 2 * zb - 27 * f ^ 2 + 48 * f)"
    unfolding id
    using assms q0 q1
    by (intro add_nonneg_nonneg mult_nonneg_nonneg zero_le_power) simp_all
  then show ?thesis by simp
qed

lemma cert_Sz3_poly_a_4:
  fixes f :: real
  assumes "11 / 8 \<le> f" "f \<le> 3 / 2"
  shows "0 \<le> 768 * f ^ 5 + 352 * f ^ 4 - 456 * f ^ 3 - 99 * f ^ 2 + 48 * f"
proof -
  have id: "128 * (768 * f ^ 5 + 352 * f ^ 4 - 456 * f ^ 3 - 99 * f ^ 2 + 48 * f) =
      476960 * (12 - 8 * f) ^ 5 +
      2618009 * (8 * f - 11) * (12 - 8 * f) ^ 4 +
      5746392 * (8 * f - 11) ^ 2 * (12 - 8 * f) ^ 3 +
      6304722 * (8 * f - 11) ^ 3 * (12 - 8 * f) ^ 2 +
      3457680 * (8 * f - 11) ^ 4 * (12 - 8 * f) +
      758304 * (8 * f - 11) ^ 5"
    by algebra
  have "0 \<le> 128 * (768 * f ^ 5 + 352 * f ^ 4 - 456 * f ^ 3 - 99 * f ^ 2 + 48 * f)"
    unfolding id
    using assms 
    by (intro add_nonneg_nonneg mult_nonneg_nonneg zero_le_power) simp_all
  then show ?thesis by simp
qed

lemma cert_Sz3_poly_a_5:
  fixes f :: real
  assumes "11 / 8 \<le> f" "f \<le> 3 / 2"
  shows "0 \<le> 48 * f ^ 5 + 32 * f ^ 4 - 36 * f ^ 3 - 9 * f ^ 2 + 3 * f"
proof -
  have id: "2048 * (48 * f ^ 5 + 32 * f ^ 4 - 36 * f ^ 3 - 9 * f ^ 2 + 3 * f) =
      499345 * (12 - 8 * f) ^ 5 +
      2743684 * (8 * f - 11) * (12 - 8 * f) ^ 4 +
      6027792 * (8 * f - 11) ^ 2 * (12 - 8 * f) ^ 3 +
      6618912 * (8 * f - 11) ^ 3 * (12 - 8 * f) ^ 2 +
      3632640 * (8 * f - 11) ^ 4 * (12 - 8 * f) +
      797184 * (8 * f - 11) ^ 5"
    by algebra
  have "0 \<le> 2048 * (48 * f ^ 5 + 32 * f ^ 4 - 36 * f ^ 3 - 9 * f ^ 2 + 3 * f)"
    unfolding id
    using assms 
    by (intro add_nonneg_nonneg mult_nonneg_nonneg zero_le_power) simp_all
  then show ?thesis by simp
qed

lemma cert_Sz3_poly_a_6:
  fixes f zb :: real
  assumes "3 / 16 \<le> zb" "zb \<le> 1 / 2" "11 / 8 \<le> f" "f \<le> 3 / 2"
  shows "0 \<le> 96 * f ^ 5 + 64 * f ^ 4 * zb + 32 * f ^ 4 - 48 * f ^ 3 * zb - 48 * f ^ 3 - 18 * f ^ 2 * zb - 9 * f ^ 2 + 6 * f"
proof -
  define Q0 where "Q0 = 768 * f ^ 5 + 352 * f ^ 4 - 456 * f ^ 3 - 99 * f ^ 2 + 48 * f"
  define Q1 where "Q1 = 48 * f ^ 5 + 32 * f ^ 4 - 36 * f ^ 3 - 9 * f ^ 2 + 3 * f"
  have q0: "0 \<le> Q0" unfolding Q0_def by (rule cert_Sz3_poly_a_4 [OF assms(3) assms(4)])
  have q1: "0 \<le> Q1" unfolding Q1_def by (rule cert_Sz3_poly_a_5 [OF assms(3) assms(4)])
  have id: "40 * (96 * f ^ 5 + 64 * f ^ 4 * zb + 32 * f ^ 4 - 48 * f ^ 3 * zb - 48 * f ^ 3 - 18 * f ^ 2 * zb - 9 * f ^ 2 + 6 * f) =
      1 * (8 - 16 * zb) * Q0 +
      16 * (16 * zb - 3) * Q1"
    unfolding Q0_def Q1_def by algebra
  have "0 \<le> 40 * (96 * f ^ 5 + 64 * f ^ 4 * zb + 32 * f ^ 4 - 48 * f ^ 3 * zb - 48 * f ^ 3 - 18 * f ^ 2 * zb - 9 * f ^ 2 + 6 * f)"
    unfolding id
    using assms q0 q1
    by (intro add_nonneg_nonneg mult_nonneg_nonneg zero_le_power) simp_all
  then show ?thesis by simp
qed

lemma cert_Sz3_poly_a_7:
  fixes f za zb :: real
  assumes "3 / 16 \<le> za" "za \<le> 1 / 2" "3 / 16 \<le> zb" "zb \<le> 1 / 2" "11 / 8 \<le> f" "f \<le> 3 / 2"
  shows "0 \<le> 48 * f ^ 5 + 32 * f ^ 4 * za + 32 * f ^ 4 * zb - 48 * f ^ 3 * za * zb - 24 * f ^ 3 - 9 * f ^ 2 * za - 9 * f ^ 2 * zb + 3 * f"
proof -
  define Q0 where "Q0 = 768 * f ^ 5 + 512 * f ^ 4 * zb + 96 * f ^ 4 - 144 * f ^ 3 * zb - 384 * f ^ 3 - 144 * f ^ 2 * zb - 27 * f ^ 2 + 48 * f"
  define Q1 where "Q1 = 96 * f ^ 5 + 64 * f ^ 4 * zb + 32 * f ^ 4 - 48 * f ^ 3 * zb - 48 * f ^ 3 - 18 * f ^ 2 * zb - 9 * f ^ 2 + 6 * f"
  have q0: "0 \<le> Q0" unfolding Q0_def by (rule cert_Sz3_poly_a_3 [OF assms(3) assms(4) assms(5) assms(6)])
  have q1: "0 \<le> Q1" unfolding Q1_def by (rule cert_Sz3_poly_a_6 [OF assms(3) assms(4) assms(5) assms(6)])
  have id: "80 * (48 * f ^ 5 + 32 * f ^ 4 * za + 32 * f ^ 4 * zb - 48 * f ^ 3 * za * zb - 24 * f ^ 3 - 9 * f ^ 2 * za - 9 * f ^ 2 * zb + 3 * f) =
      1 * (8 - 16 * za) * Q0 +
      8 * (16 * za - 3) * Q1"
    unfolding Q0_def Q1_def by algebra
  have "0 \<le> 80 * (48 * f ^ 5 + 32 * f ^ 4 * za + 32 * f ^ 4 * zb - 48 * f ^ 3 * za * zb - 24 * f ^ 3 - 9 * f ^ 2 * za - 9 * f ^ 2 * zb + 3 * f)"
    unfolding id
    using assms q0 q1
    by (intro add_nonneg_nonneg mult_nonneg_nonneg zero_le_power) simp_all
  then show ?thesis by simp
qed

lemma cert_Sz3_poly:
  fixes f za zb :: real
  assumes "11 / 8 \<le> f" "f \<le> 3 / 2" "3 / 16 \<le> za" "za \<le> 1 / 2" "3 / 16 \<le> zb" "zb \<le> 1 / 2"
  shows "0 \<le> 48 * f ^ 5 + 32 * f ^ 4 * za + 32 * f ^ 4 * zb - 48 * f ^ 3 * za * zb - 24 * f ^ 3 - 9 * f ^ 2 * za - 9 * f ^ 2 * zb + 3 * f"
  by (rule cert_Sz3_poly_a_7 [OF assms(3) assms(4) assms(5) assms(6) assms(1) assms(2)])

lemma cert_Sz3:
  fixes f za zb :: real
  assumes "11 / 8 \<le> f" "f \<le> 3 / 2" "3 / 16 \<le> za" "za \<le> 1 / 2" "3 / 16 \<le> zb" "zb \<le> 1 / 2" "za \<le> zb"
  shows "ampN (1 / 4) f zb * ampD (1 / 4) f za \<le> ampN (1 / 4) f za * ampD (1 / 4) f zb"
proof -
  define Q where "Q = 48 * f ^ 5 + 32 * f ^ 4 * za + 32 * f ^ 4 * zb - 48 * f ^ 3 * za * zb - 24 * f ^ 3 - 9 * f ^ 2 * za - 9 * f ^ 2 * zb + 3 * f"
  have q: "0 \<le> Q" unfolding Q_def by (rule cert_Sz3_poly [OF assms(1-6)])
  have id: "6400 / 9 * (ampN (1 / 4) f za * ampD (1 / 4) f zb - ampN (1 / 4) f zb * ampD (1 / 4) f za) = (zb - za) * (Q + 0)"
    unfolding Q_def ampN_def ampD_def by algebra
  have "0 \<le> (zb - za) * (Q + 0)"
    using assms(7) q by (intro mult_nonneg_nonneg) simp_all
  then have "0 \<le> 6400 / 9 * (ampN (1 / 4) f za * ampD (1 / 4) f zb - ampN (1 / 4) f zb * ampD (1 / 4) f za)" unfolding id .
  then show ?thesis by simp
qed

section \<open>The amplitude and its peak at \<open>mu = 3 / 5\<close>, \<open>zeta1 = 9 / 10\<close>\<close>

lemma getAmplitude_sq_form:
  "getAmplitude g f z (3 / 5) (9 / 10) =
     (if sqrt (ampD (g * g) f z) = 0 then 100
      else sqrt (ampN (g * g) f z) / sqrt (ampD (g * g) f z))"
proof -
  have n: "(f * f - g * g) * (f * f - g * g) + 2 * z * f * g * (2 * z * f * g) = ampN (g * g) f z"
    unfolding ampN_def by algebra
  have d: "((1 - g * g) * (f * f - g * g) - 3 / 5 * (f * f) * (g * g) - 4 * (9 / 10) * z * f * (g * g)) *
           ((1 - g * g) * (f * f - g * g) - 3 / 5 * (f * f) * (g * g) - 4 * (9 / 10) * z * f * (g * g)) +
           (2 * z * f * g * (1 - g * g - 3 / 5 * (g * g)) + 2 * (9 / 10) * g * (f * f - g * g)) *
           (2 * z * f * g * (1 - g * g - 3 / 5 * (g * g)) + 2 * (9 / 10) * g * (f * f - g * g))
           = ampD (g * g) f z"
    unfolding ampD_def by algebra
  show ?thesis
    unfolding getAmplitude_def Let_def by (simp only: n d)
qed

lemma ampN_nonneg:
  assumes "0 \<le> u"
  shows "0 \<le> ampN u f z"
proof -
  have "0 \<le> (f * f - u) * (f * f - u)" by simp
  moreover have "0 \<le> (2 * z * f) * (2 * z * f) * u"
    using assms by (intro mult_nonneg_nonneg zero_le_square)
  moreover have "4 * z * z * (f * f) * u = (2 * z * f) * (2 * z * f) * u" by simp
  ultimately show ?thesis unfolding ampN_def by linarith
qed

lemma ampN_pos:
  assumes "0 < u" "0 < f" "0 < z"
  shows "0 < ampN u f z"
proof -
  have "0 < 4 * z * z * (f * f) * u" using assms by simp
  moreover have "0 \<le> (f * f - u) * (f * f - u)" by simp
  ultimately show ?thesis unfolding ampN_def by linarith
qed

lemma ampD_quarter_pos:
  assumes "1 / 2 \<le> f" "0 < z"
  shows "0 < ampD (1 / 4) f z"
proof -
  define K where "K = 2 * z * f * (1 - 1 / 4 - 3 / 5 * (1 / 4)) + 2 * (9 / 10) * (f * f - 1 / 4)"
  define D1 where "D1 = (1 - 1 / 4) * (f * f - 1 / 4) - 3 / 5 * (f * f) * (1 / 4) - 4 * (9 / 10) * z * f * (1 / 4)"
  have "1 / 2 * (1 / 2) \<le> f * f" using assms(1) by (intro mult_mono) simp_all
  then have ff: "1 / 4 \<le> f * f" by simp
  have zf: "0 < z * f" using assms by simp
  have "K = 6 / 5 * (z * f) + 9 / 5 * (f * f - 1 / 4)"
    unfolding K_def by (simp add: algebra_simps)
  moreover have "0 < 6 / 5 * (z * f)" using zf by simp
  moreover have "0 \<le> 9 / 5 * (f * f - 1 / 4)" using ff by simp
  ultimately have "0 < K" by (simp only: add_pos_nonneg)
  then have "0 < K * K" by simp
  moreover have "0 \<le> D1 * D1" by simp
  moreover have "ampD (1 / 4) f z = D1 * D1 + 1 / 4 * (K * K)"
    unfolding ampD_def K_def D1_def ..
  ultimately show ?thesis by linarith
qed

lemma sqrt_ratio_le:
  fixes n d n' d' :: real
  assumes "0 < d" "0 < d'" "n * d' \<le> n' * d"
  shows "sqrt n / sqrt d \<le> sqrt n' / sqrt d'"
proof -
  have "n / d \<le> n' / d'" using assms by (simp add: field_simps)
  then have "sqrt (n / d) \<le> sqrt (n' / d')" by simp
  then show ?thesis by (simp only: real_sqrt_divide)
qed

lemma sqrt_ratio_less:
  fixes n d n' d' :: real
  assumes "0 < d" "0 < d'" "n * d' < n' * d"
  shows "sqrt n / sqrt d < sqrt n' / sqrt d'"
proof -
  have "n / d < n' / d'" using assms by (simp add: field_simps)
  then have "sqrt (n / d) < sqrt (n' / d')" by simp
  then show ?thesis by (simp only: real_sqrt_divide)
qed

lemma sqrt_ratio_le_const:
  fixes n d c :: real
  assumes "0 < d" "0 \<le> c" "n \<le> c * c * d"
  shows "sqrt n / sqrt d \<le> c"
proof -
  have "n / d \<le> c * c" using assms by (simp add: field_simps)
  then have "sqrt (n / d) \<le> sqrt (c * c)" by (simp only: real_sqrt_le_iff)
  moreover have "sqrt (c * c) = c" using assms(2) by simp
  ultimately show ?thesis by (simp only: real_sqrt_divide)
qed

lemma sqrt_ratio_gt_const:
  fixes n d c :: real
  assumes "0 < d" "0 \<le> c" "c * c * d < n"
  shows "c < sqrt n / sqrt d"
proof -
  have "c * c < n / d" using assms by (simp add: field_simps)
  then have "sqrt (c * c) < sqrt (n / d)" by (simp only: real_sqrt_less_iff)
  moreover have "sqrt (c * c) = c" using assms(2) by simp
  ultimately show ?thesis by (simp only: real_sqrt_divide)
qed

lemma sqrt_ratio_ge_const:
  fixes n d c :: real
  assumes "0 < d" "0 \<le> c" "c * c * d \<le> n"
  shows "c \<le> sqrt n / sqrt d"
proof -
  have "c * c \<le> n / d" using assms by (simp add: field_simps)
  then have "sqrt (c * c) \<le> sqrt (n / d)" by (simp only: real_sqrt_le_iff)
  moreover have "sqrt (c * c) = c" using assms(2) by simp
  ultimately show ?thesis by (simp only: real_sqrt_divide)
qed

text \<open>The amplitude where the denominator is positive.\<close>

lemma getAmplitude_ratio:
  assumes "0 < ampD (g * g) f z"
  shows "getAmplitude g f z (3 / 5) (9 / 10) = sqrt (ampN (g * g) f z) / sqrt (ampD (g * g) f z)"
proof -
  have "sqrt (ampD (g * g) f z) \<noteq> 0" using assms by simp
  then show ?thesis by (simp only: getAmplitude_sq_form if_False)
qed

lemma sq_range:
  fixes g :: real
  assumes "1 / 2 \<le> g" "g \<le> 2"
  shows "1 / 4 \<le> g * g" "g * g \<le> 4"
proof -
  have "1 / 2 * (1 / 2) \<le> g * g" using assms by (intro mult_mono) simp_all
  then show "1 / 4 \<le> g * g" by simp
  have "g * g \<le> 2 * 2" using assms by (intro mult_mono) simp_all
  then show "g * g \<le> 4" by simp
qed

lemma amp_half:
  assumes "1 / 2 \<le> f" "0 < z"
  shows "amp (1 / 2) f z = sqrt (ampN (1 / 4) f z) / sqrt (ampD (1 / 4) f z)"
proof -
  have q: "(1 / 2 :: real) * (1 / 2) = 1 / 4" by simp
  have "0 < ampD ((1 / 2) * (1 / 2)) f z"
    unfolding q using assms by (rule ampD_quarter_pos)
  from getAmplitude_ratio [OF this] show ?thesis unfolding q .
qed

lemma peak_ge_half: "amp (1 / 2) f z \<le> peak f z"
  using findPeakAmplitude_ge_sample [of 0 f z "3 / 5" "9 / 10"] by simp

lemma grid_range:
  assumes "k \<le> 300"
  shows "1 / 2 \<le> 5 / 10 + 5 / 1000 * real k" "5 / 10 + 5 / 1000 * real k \<le> 2"
proof -
  show "1 / 2 \<le> 5 / 10 + 5 / 1000 * real k" by simp
  have "real k \<le> 300" using assms by simp
  then show "5 / 10 + 5 / 1000 * real k \<le> 2" by simp
qed

lemma amp_le_half:
  assumes g: "1 / 2 \<le> g" "g \<le> 2" and f: "1 / 2 \<le> f" and z: "0 < z"
    and c: "ampN (g * g) f z * ampD (1 / 4) f z \<le> ampN (1 / 4) f z * ampD (g * g) f z"
  shows "amp g f z \<le> amp (1 / 2) f z"
proof -
  have u: "0 < g * g" using g by simp
  have f0: "0 < f" using f by simp
  have n: "0 < ampN (g * g) f z" using u f0 z by (rule ampN_pos)
  have d0: "0 < ampD (1 / 4) f z" using f z by (rule ampD_quarter_pos)
  have n0: "0 \<le> ampN (1 / 4) f z" by (rule ampN_nonneg) simp
  have "0 < ampN (g * g) f z * ampD (1 / 4) f z" using n d0 by simp
  with c have pos: "0 < ampN (1 / 4) f z * ampD (g * g) f z" by linarith
  have d: "0 < ampD (g * g) f z"
  proof (rule ccontr)
    assume "\<not> 0 < ampD (g * g) f z"
    then have "ampD (g * g) f z \<le> 0" by simp
    with n0 have "ampN (1 / 4) f z * ampD (g * g) f z \<le> 0"
      by (simp add: mult_nonneg_nonpos)
    with pos show False by simp
  qed
  have "sqrt (ampN (g * g) f z) / sqrt (ampD (g * g) f z)
          \<le> sqrt (ampN (1 / 4) f z) / sqrt (ampD (1 / 4) f z)"
    using d d0 c by (rule sqrt_ratio_le)
  then show ?thesis
    by (simp only: getAmplitude_ratio [OF d] amp_half [OF f z])
qed

lemma peak_eq_half:
  assumes f: "1 / 2 \<le> f" and z: "0 < z"
    and c: "\<And>u. 1 / 4 \<le> u \<Longrightarrow> u \<le> 4 \<Longrightarrow>
              ampN u f z * ampD (1 / 4) f z \<le> ampN (1 / 4) f z * ampD u f z"
  shows "peak f z = amp (1 / 2) f z"
proof -
  let ?A = "\<lambda>k. amp (5 / 10 + 5 / 1000 * real k) f z"
  have "Max (?A ` {0..300}) = amp (1 / 2) f z"
  proof (rule Max_eqI)
    show "finite (?A ` {0..300})" by (rule finite_imageI) (rule finite_atLeastAtMost)
  next
    fix y assume "y \<in> ?A ` {0..300}"
    then obtain k where k: "k \<le> 300" and y: "y = ?A k" by auto
    have r: "1 / 2 \<le> 5 / 10 + 5 / 1000 * real k" "5 / 10 + 5 / 1000 * real k \<le> 2"
      using grid_range [OF k] by simp_all
    show "y \<le> amp (1 / 2) f z"
      unfolding y using r f z
    proof (rule amp_le_half)
      show "ampN ((5 / 10 + 5 / 1000 * real k) * (5 / 10 + 5 / 1000 * real k)) f z * ampD (1 / 4) f z
            \<le> ampN (1 / 4) f z * ampD ((5 / 10 + 5 / 1000 * real k) * (5 / 10 + 5 / 1000 * real k)) f z"
        using sq_range [OF r] by (rule c)
    qed
  next
    have "?A 0 \<in> ?A ` {0..300}"
      by (rule imageI) (simp only: atLeastAtMost_iff le0 simp_thms)
    moreover have "?A 0 = amp (1 / 2) f z" by simp
    ultimately show "amp (1 / 2) f z \<in> ?A ` {0..300}" by (simp only:)
  qed
  then show ?thesis by (simp only: findPeakAmplitude_grid)
qed

lemma peak_le_const:
  assumes f: "0 < f" and z: "0 < z" and c0: "0 \<le> c"
    and c: "\<And>u. 1 / 4 \<le> u \<Longrightarrow> u \<le> 4 \<Longrightarrow> ampN u f z \<le> c * c * ampD u f z"
  shows "peak f z \<le> c"
proof -
  let ?A = "\<lambda>k. amp (5 / 10 + 5 / 1000 * real k) f z"
  have "Max (?A ` {0..300}) \<le> c"
  proof (rule Max.boundedI)
    show "finite (?A ` {0..300})" by (rule finite_imageI) (rule finite_atLeastAtMost)
  next
    show "?A ` {0..300} \<noteq> {}" by simp
  next
    fix y assume "y \<in> ?A ` {0..300}"
    then obtain k where k: "k \<le> 300" and y: "y = ?A k" by auto
    define g where "g = 5 / 10 + 5 / 1000 * real k"
    have r: "1 / 2 \<le> g" "g \<le> 2" unfolding g_def using grid_range [OF k] by simp_all
    have u: "0 < g * g" using r by simp
    have n: "0 < ampN (g * g) f z" using u f z by (rule ampN_pos)
    have le: "ampN (g * g) f z \<le> c * c * ampD (g * g) f z" using sq_range [OF r] by (rule c)
    have d: "0 < ampD (g * g) f z"
    proof (rule ccontr)
      assume "\<not> 0 < ampD (g * g) f z"
      then have "ampD (g * g) f z \<le> 0" by simp
      moreover have "0 \<le> c * c" by simp
      ultimately have "c * c * ampD (g * g) f z \<le> 0" by (simp only: mult_nonneg_nonpos)
      with n le show False by simp
    qed
    have "sqrt (ampN (g * g) f z) / sqrt (ampD (g * g) f z) \<le> c"
      using d c0 le by (rule sqrt_ratio_le_const)
    then show "y \<le> c" unfolding y g_def [symmetric] by (simp only: getAmplitude_ratio [OF d])
  qed
  then show ?thesis by (simp only: findPeakAmplitude_grid)
qed

text \<open>Region 1: f in [1/2, 9/8], z in [3/8, 1/2].\<close>

lemma peak_region1:
  assumes "1 / 2 \<le> f" "f \<le> 9 / 8" "3 / 8 \<le> z" "z \<le> 1 / 2"
  shows "peak f z = amp (1 / 2) f z"
proof (rule peak_eq_half)
  show "1 / 2 \<le> f" by (rule assms(1))
  show "0 < z" using assms(3) by simp
  show "ampN u f z * ampD (1 / 4) f z \<le> ampN (1 / 4) f z * ampD u f z"
    if "1 / 4 \<le> u" "u \<le> 4" for u
    using that assms by (rule cert_R1)
qed

lemma peak_increasing1:
  assumes "1 / 2 \<le> f1" "f1 < f2" "f2 \<le> 9 / 8" "3 / 8 \<le> z" "z \<le> 1 / 2"
  shows "peak f1 z < peak f2 z"
proof -
  have z: "0 < z" using assms(4) by simp
  have b: "f1 \<le> 9 / 8" "1 / 2 \<le> f2" using assms by simp_all
  have d1: "0 < ampD (1 / 4) f1 z" using assms(1) z by (rule ampD_quarter_pos)
  have d2: "0 < ampD (1 / 4) f2 z" using b(2) z by (rule ampD_quarter_pos)
  have "ampN (1 / 4) f1 z * ampD (1 / 4) f2 z < ampN (1 / 4) f2 z * ampD (1 / 4) f1 z"
    using assms(1) b(1) b(2) assms(3) assms(4) assms(5) assms(2) by (rule cert_Sf1)
  with d1 d2 have "sqrt (ampN (1 / 4) f1 z) / sqrt (ampD (1 / 4) f1 z)
                 < sqrt (ampN (1 / 4) f2 z) / sqrt (ampD (1 / 4) f2 z)"
    by (rule sqrt_ratio_less)
  then have "amp (1 / 2) f1 z < amp (1 / 2) f2 z"
    by (simp only: amp_half [OF assms(1) z] amp_half [OF b(2) z])
  then show ?thesis
    by (simp only: peak_region1 [OF assms(1) b(1) assms(4) assms(5)]
        peak_region1 [OF b(2) assms(3) assms(4) assms(5)])
qed

text \<open>Region 2: f in [7/8, 3/2], z in [1/128, 13/64].\<close>

lemma peak_region2:
  assumes "7 / 8 \<le> f" "f \<le> 3 / 2" "1 / 128 \<le> z" "z \<le> 13 / 64"
  shows "peak f z = amp (1 / 2) f z"
proof (rule peak_eq_half)
  show "1 / 2 \<le> f" using assms(1) by simp
  show "0 < z" using assms(3) by simp
  show "ampN u f z * ampD (1 / 4) f z \<le> ampN (1 / 4) f z * ampD u f z"
    if "1 / 4 \<le> u" "u \<le> 4" for u
    using that assms by (rule cert_R2)
qed

lemma peak_decreasing2:
  assumes "7 / 8 \<le> f1" "f1 \<le> f2" "71 / 64 \<le> f2" "f2 \<le> 3 / 2" "1 / 128 \<le> z" "z \<le> 13 / 64"
  shows "peak f2 z \<le> peak f1 z"
proof -
  have z: "0 < z" using assms(5) by simp
  have b: "f1 \<le> 3 / 2" "7 / 8 \<le> f2" "1 / 2 \<le> f1" "1 / 2 \<le> f2" using assms by simp_all
  have d1: "0 < ampD (1 / 4) f1 z" using b(3) z by (rule ampD_quarter_pos)
  have d2: "0 < ampD (1 / 4) f2 z" using b(4) z by (rule ampD_quarter_pos)
  have "ampN (1 / 4) f2 z * ampD (1 / 4) f1 z \<le> ampN (1 / 4) f1 z * ampD (1 / 4) f2 z"
    using assms(1) b(1) assms(3) assms(4) assms(5) assms(6) assms(2) by (rule cert_Sf2)
  with d2 d1 have "sqrt (ampN (1 / 4) f2 z) / sqrt (ampD (1 / 4) f2 z)
                 \<le> sqrt (ampN (1 / 4) f1 z) / sqrt (ampD (1 / 4) f1 z)"
    by (rule sqrt_ratio_le)
  then have "amp (1 / 2) f2 z \<le> amp (1 / 2) f1 z"
    by (simp only: amp_half [OF b(3) z] amp_half [OF b(4) z])
  then show ?thesis
    by (simp only: peak_region2 [OF assms(1) b(1) assms(5) assms(6)]
        peak_region2 [OF b(2) assms(4) assms(5) assms(6)])
qed

text \<open>Region 3: f in [11/8, 3/2], z in [3/16, 1/2].\<close>

lemma peak_region3:
  assumes "11 / 8 \<le> f" "f \<le> 3 / 2" "3 / 16 \<le> z" "z \<le> 1 / 2"
  shows "peak f z = amp (1 / 2) f z"
proof (rule peak_eq_half)
  show "1 / 2 \<le> f" using assms(1) by simp
  show "0 < z" using assms(3) by simp
  show "ampN u f z * ampD (1 / 4) f z \<le> ampN (1 / 4) f z * ampD u f z"
    if "1 / 4 \<le> u" "u \<le> 4" for u
    using that assms by (rule cert_R3)
qed

lemma peak_decreasing3:
  assumes "11 / 8 \<le> f" "f \<le> 3 / 2" "3 / 16 \<le> za" "za \<le> zb" "zb \<le> 1 / 2"
  shows "peak f zb \<le> peak f za"
proof -
  have b: "za \<le> 1 / 2" "3 / 16 \<le> zb" "0 < za" "0 < zb" "1 / 2 \<le> f" using assms by simp_all
  have d1: "0 < ampD (1 / 4) f za" using b(5) b(3) by (rule ampD_quarter_pos)
  have d2: "0 < ampD (1 / 4) f zb" using b(5) b(4) by (rule ampD_quarter_pos)
  have "ampN (1 / 4) f zb * ampD (1 / 4) f za \<le> ampN (1 / 4) f za * ampD (1 / 4) f zb"
    using assms(1) assms(2) assms(3) b(1) b(2) assms(5) assms(4) by (rule cert_Sz3)
  with d2 d1 have "sqrt (ampN (1 / 4) f zb) / sqrt (ampD (1 / 4) f zb)
                 \<le> sqrt (ampN (1 / 4) f za) / sqrt (ampD (1 / 4) f za)"
    by (rule sqrt_ratio_le)
  then have "amp (1 / 2) f zb \<le> amp (1 / 2) f za"
    by (simp only: amp_half [OF b(5) b(3)] amp_half [OF b(5) b(4)])
  then show ?thesis
    by (simp only: peak_region3 [OF assms(1) assms(2) assms(3) b(1)]
        peak_region3 [OF assms(1) assms(2) b(2) assms(5)])
qed

text \<open>Bounds near f = 1/2.\<close>

lemma peak_le_three_quarters:
  assumes "1 / 2 \<le> f" "f \<le> 33 / 64" "1 / 128 \<le> z" "z \<le> 13 / 64"
  shows "peak f z \<le> 3 / 4"
proof (rule peak_le_const)
  show "0 < f" using assms(1) by simp
  show "0 < z" using assms(3) by simp
  show "(0::real) \<le> 3 / 4" by simp
  show "ampN u f z \<le> 3 / 4 * (3 / 4) * ampD u f z" if "1 / 4 \<le> u" "u \<le> 4" for u
    using cert_U5 [OF that assms] by simp
qed

lemma peak_le_two_thirds:
  assumes "1 / 2 \<le> f" "f \<le> 33 / 64" "31 / 256 \<le> z" "z \<le> 33 / 256"
  shows "peak f z \<le> 2 / 3"
proof (rule peak_le_const)
  show "0 < f" using assms(1) by simp
  show "0 < z" using assms(3) by simp
  show "(0::real) \<le> 2 / 3" by simp
  show "ampN u f z \<le> 2 / 3 * (2 / 3) * ampD u f z" if "1 / 4 \<le> u" "u \<le> 4" for u
    using cert_U6 [OF that assms] by simp
qed

lemma peak_gt_three_quarters:
  assumes "1 / 2 \<le> f" "f \<le> 33 / 64" "39 / 128 \<le> z" "z \<le> 41 / 128"
  shows "3 / 4 < peak f z"
proof -
  have z: "0 < z" using assms(3) by simp
  have d: "0 < ampD (1 / 4) f z" using assms(1) z by (rule ampD_quarter_pos)
  have "3 / 4 * (3 / 4) * ampD (1 / 4) f z < ampN (1 / 4) f z"
    using cert_L5 [OF assms] by simp
  with d have "3 / 4 < sqrt (ampN (1 / 4) f z) / sqrt (ampD (1 / 4) f z)"
    by (intro sqrt_ratio_gt_const) simp_all
  then have "3 / 4 < amp (1 / 2) f z" by (simp only: amp_half [OF assms(1) z])
  with peak_ge_half [of f z] show ?thesis by linarith
qed

lemma peak_gt_two_thirds:
  assumes "1 / 2 \<le> f" "f \<le> 33 / 64" "25 / 128 \<le> z" "z \<le> 51 / 256"
  shows "2 / 3 < peak f z"
proof -
  have z: "0 < z" using assms(3) by simp
  have d: "0 < ampD (1 / 4) f z" using assms(1) z by (rule ampD_quarter_pos)
  have "2 / 3 * (2 / 3) * ampD (1 / 4) f z < ampN (1 / 4) f z"
    using cert_L6 [OF assms] by simp
  with d have "2 / 3 < sqrt (ampN (1 / 4) f z) / sqrt (ampD (1 / 4) f z)"
    by (intro sqrt_ratio_gt_const) simp_all
  then have "2 / 3 < amp (1 / 2) f z" by (simp only: amp_half [OF assms(1) z])
  with peak_ge_half [of f z] show ?thesis by linarith
qed

text \<open>The corner f = 3/2, z = 1/2, and the warm start.\<close>

lemma peak_ge_nine_tenths:
  assumes "95 / 64 \<le> f" "f \<le> 3 / 2" "31 / 64 \<le> z" "z \<le> 1 / 2"
  shows "9 / 10 \<le> peak f z"
proof -
  have z: "0 < z" using assms(3) by simp
  have f: "1 / 2 \<le> f" using assms(1) by simp
  have d: "0 < ampD (1 / 4) f z" using f z by (rule ampD_quarter_pos)
  have "9 / 10 * (9 / 10) * ampD (1 / 4) f z \<le> ampN (1 / 4) f z"
    using cert_Lb [OF assms] by simp
  with d have "9 / 10 \<le> sqrt (ampN (1 / 4) f z) / sqrt (ampD (1 / 4) f z)"
    by (intro sqrt_ratio_ge_const) simp_all
  then have "9 / 10 \<le> amp (1 / 2) f z" by (simp only: amp_half [OF f z])
  with peak_ge_half [of f z] show ?thesis by linarith
qed

lemma sqrt_ratio_lt_const:
  fixes n d c :: real
  assumes "0 < d" "0 \<le> c" "n < c * c * d"
  shows "sqrt n / sqrt d < c"
proof -
  have "n / d < c * c" using assms by (simp add: field_simps)
  then have "sqrt (n / d) < sqrt (c * c)" by (simp only: real_sqrt_less_iff)
  moreover have "sqrt (c * c) = c" using assms(2) by simp
  ultimately show ?thesis by (simp only: real_sqrt_divide)
qed

lemma peak_warm_start: "peak (5 / 8) (3 / 8) < 9 / 10"
proof -
  have n: "ampN (1 / 4) (5 / 8) (3 / 8) = 153 / 2048" by (simp add: ampN_def)
  have d: "ampD (1 / 4) (5 / 8) (3 / 8) = 20133 / 204800" by (simp add: ampD_def)
  have "sqrt (ampN (1 / 4) (5 / 8) (3 / 8)) / sqrt (ampD (1 / 4) (5 / 8) (3 / 8)) < 9 / 10"
    unfolding n d by (rule sqrt_ratio_lt_const) simp_all
  then have "amp (1 / 2) (5 / 8) (3 / 8) < 9 / 10"
    by (simp only: amp_half [of "5 / 8" "3 / 8", simplified])
  moreover have "peak (5 / 8) (3 / 8) = amp (1 / 2) (5 / 8) (3 / 8)"
    by (rule peak_region1) simp_all
  ultimately show ?thesis by simp
qed

section \<open>Where the golden-section search ends on a monotone objective\<close>

lemma phi_bounds: "617 / 1000 < phi" "phi < 619 / 1000"
proof -
  have "2234 / 1000 < sqrt 5" by (rule real_less_rsqrt) (simp add: power2_eq_square)
  then show "617 / 1000 < phi" unfolding phi_def by simp
  have "sqrt 5 < 2238 / 1000" by (rule real_less_lsqrt) (simp_all add: power2_eq_square)
  then show "phi < 619 / 1000" unfolding phi_def by simp
qed

lemma gss_probes_ordered:
  assumes "gss_inv f s" "gss_a s < gss_b s"
  shows "gss_a s < gss_x1 s" "gss_x1 s < gss_x2 s" "gss_x2 s < gss_b s"
proof -
  let ?w = "gss_b s - gss_a s"
  have w: "0 < ?w" using assms(2) by simp
  have x1: "gss_x1 s = gss_b s - phi * ?w" and x2: "gss_x2 s = gss_a s + phi * ?w"
    using assms(1) by (simp_all add: gss_inv_def)
  have lt: "phi * ?w < 1 * ?w" using w phi_lt_one by (intro mult_strict_right_mono) simp_all
  have gt: "1 / 2 * ?w < phi * ?w" using w phi_gt_half by (intro mult_strict_right_mono) simp_all
  show "gss_a s < gss_x1 s" using lt x1 by simp
  show "gss_x2 s < gss_b s" using lt x2 by simp
  show "gss_x1 s < gss_x2 s" using gt x1 x2 by simp
qed

lemma gss_step_left:
  assumes "gss_f1 s < gss_f2 s"
  shows "gss_a (gss_step f s) = gss_a s" "gss_b (gss_step f s) = gss_x2 s"
    "gss_x2 (gss_step f s) = gss_x1 s"
  using assms by (simp_all add: gss_step_def Let_def)

lemma gss_step_right:
  assumes "\<not> gss_f1 s < gss_f2 s"
  shows "gss_a (gss_step f s) = gss_x1 s" "gss_b (gss_step f s) = gss_b s"
    "gss_x1 (gss_step f s) = gss_x2 s"
  using assms by (simp_all add: gss_step_def Let_def)

text \<open>An objective that increases on the lower part of the interval drives the search to
  the lower end.\<close>

lemma gss_all_left:
  assumes tol: "0 < tol" and lu: "lower < upper"
    and c: "lower + phi * (upper - lower) \<le> c"
    and inc: "\<And>x y. lower \<le> x \<Longrightarrow> x < y \<Longrightarrow> y \<le> c \<Longrightarrow> f x < f y"
  shows "\<exists>x. goldenSectionSearch f lower upper tol = Some x \<and> lower \<le> x \<and> x \<le> lower + tol / 2"
proof -
  define J where "J s \<longleftrightarrow> gss_inv f s \<and> gss_a s = lower \<and> lower < gss_b s \<and> gss_x2 s \<le> c" for s
  have J0: "J (gss_init f lower upper)"
    unfolding J_def using gss_init_inv [of f lower upper] lu c
    by (simp add: gss_init_def Let_def)
  have Jstep: "J (gss_step f s)" if "J s" for s
  proof -
    from that have inv: "gss_inv f s" and a: "gss_a s = lower" and ab: "gss_a s < gss_b s"
      and x2c: "gss_x2 s \<le> c" by (simp_all add: J_def)
    note ord = gss_probes_ordered [OF inv ab]
    have "f (gss_x1 s) < f (gss_x2 s)"
      using ord(1) ord(2) x2c a by (intro inc) simp_all
    then have lt: "gss_f1 s < gss_f2 s" using inv by (simp add: gss_inv_def)
    show ?thesis
      unfolding J_def using gss_step_inv [OF inv] gss_step_left [OF lt, of f] a ord x2c
      by simp
  qed
  have Jn: "J ((gss_step f ^^ n) (gss_init f lower upper))" for n
    by (induction n) (simp_all add: J0 Jstep)
  from goldenSectionSearch_result [OF tol, of f lower upper]
  obtain n where n: "goldenSectionSearch f lower upper tol =
             Some ((gss_a ((gss_step f ^^ n) (gss_init f lower upper)) +
                    gss_b ((gss_step f ^^ n) (gss_init f lower upper))) / 2)"
    and small: "\<bar>phi ^ n * (upper - lower)\<bar> \<le> tol"
    by blast
  let ?s = "(gss_step f ^^ n) (gss_init f lower upper)"
  have "gss_b ?s - gss_a ?s = phi ^ n * (upper - lower)"
    using gss_funpow_width [OF gss_init_inv [of f lower upper], of n] by (simp only: gss_init_bracket)
  with small have w: "\<bar>gss_b ?s - gss_a ?s\<bar> \<le> tol" by simp
  from Jn [of n] have a: "gss_a ?s = lower" and b: "lower < gss_b ?s" by (simp_all add: J_def)
  have "lower \<le> (gss_a ?s + gss_b ?s) / 2 \<and> (gss_a ?s + gss_b ?s) / 2 \<le> lower + tol / 2"
    using w a b by (simp add: abs_le_iff)
  with n show ?thesis by blast
qed

text \<open>An objective that does not increase on the upper part of the interval drives the
  search to the upper end.\<close>

lemma gss_all_right:
  assumes tol: "0 < tol" and lu: "lower < upper"
    and c1: "c1 \<le> upper - phi * (upper - lower)" and c2: "c2 \<le> lower + phi * (upper - lower)"
    and dec: "\<And>x y. c1 \<le> x \<Longrightarrow> x < y \<Longrightarrow> c2 \<le> y \<Longrightarrow> y \<le> upper \<Longrightarrow> f y \<le> f x"
  shows "\<exists>x. goldenSectionSearch f lower upper tol = Some x \<and> upper - tol / 2 \<le> x \<and> x \<le> upper"
proof -
  define J where "J s \<longleftrightarrow> gss_inv f s \<and> gss_b s = upper \<and> gss_a s < upper \<and>
      c1 \<le> gss_x1 s \<and> c2 \<le> gss_x2 s" for s
  have J0: "J (gss_init f lower upper)"
    unfolding J_def using gss_init_inv [of f lower upper] lu c1 c2
    by (simp add: gss_init_def Let_def)
  have Jstep: "J (gss_step f s)" if "J s" for s
  proof -
    from that have inv: "gss_inv f s" and b: "gss_b s = upper" and ab: "gss_a s < gss_b s"
      and x1c: "c1 \<le> gss_x1 s" and x2c: "c2 \<le> gss_x2 s" by (simp_all add: J_def)
    note ord = gss_probes_ordered [OF inv ab]
    have "f (gss_x2 s) \<le> f (gss_x1 s)"
      using x1c ord(2) x2c ord(3) b by (intro dec) simp_all
    then have ge: "\<not> gss_f1 s < gss_f2 s" using inv by (simp add: gss_inv_def)
    note st = gss_step_right [OF ge, of f]
    have inv': "gss_inv f (gss_step f s)" by (rule gss_step_inv [OF inv])
    have ab': "gss_a (gss_step f s) < gss_b (gss_step f s)"
      using st ord by simp
    note ord' = gss_probes_ordered [OF inv' ab']
    show ?thesis
      unfolding J_def using inv' st ord ord' b x1c x2c by simp
  qed
  have Jn: "J ((gss_step f ^^ n) (gss_init f lower upper))" for n
    by (induction n) (simp_all add: J0 Jstep)
  from goldenSectionSearch_result [OF tol, of f lower upper]
  obtain n where n: "goldenSectionSearch f lower upper tol =
             Some ((gss_a ((gss_step f ^^ n) (gss_init f lower upper)) +
                    gss_b ((gss_step f ^^ n) (gss_init f lower upper))) / 2)"
    and small: "\<bar>phi ^ n * (upper - lower)\<bar> \<le> tol"
    by blast
  let ?s = "(gss_step f ^^ n) (gss_init f lower upper)"
  have "gss_b ?s - gss_a ?s = phi ^ n * (upper - lower)"
    using gss_funpow_width [OF gss_init_inv [of f lower upper], of n] by (simp only: gss_init_bracket)
  with small have w: "\<bar>gss_b ?s - gss_a ?s\<bar> \<le> tol" by simp
  from Jn [of n] have b: "gss_b ?s = upper" and a: "gss_a ?s < upper" by (simp_all add: J_def)
  have "upper - tol / 2 \<le> (gss_a ?s + gss_b ?s) / 2 \<and> (gss_a ?s + gss_b ?s) / 2 \<le> upper"
    using w a b by (simp add: abs_le_iff)
  with n show ?thesis by blast
qed

text \<open>Two steps to the left put the result below the first lower probe.\<close>

lemma gss_loop_bracket:
  assumes "gss_inv f s" "gss_a s \<le> gss_b s" "0 < tol"
  shows "\<exists>s'. gss_loop f tol s = Some s' \<and> gss_a s \<le> gss_a s' \<and> gss_a s' \<le> gss_b s' \<and>
            gss_b s' \<le> gss_b s"
proof -
  from gss_loop_terminates [OF assms(1) assms(3)]
  obtain m where "gss_loop f tol s = Some ((gss_step f ^^ m) s)" by blast
  with gss_funpow_bracket [OF assms(1) assms(2), of m] show ?thesis by simp
qed

lemma gss_two_left:
  assumes tol: "0 < tol" and lu: "lower < upper"
    and big: "tol < phi * (upper - lower)"
    and p1: "f (upper - phi * (upper - lower)) < f (lower + phi * (upper - lower))"
    and p2: "f (lower + phi * (upper - lower) - phi * (lower + phi * (upper - lower) - lower))
               < f (upper - phi * (upper - lower))"
  shows "\<exists>x. goldenSectionSearch f lower upper tol = Some x \<and> lower \<le> x \<and>
             x \<le> upper - phi * (upper - lower)"
proof -
  define s0 where "s0 = gss_init f lower upper"
  define s1 where "s1 = gss_step f s0"
  define s2 where "s2 = gss_step f s1"
  have inv0: "gss_inv f s0" unfolding s0_def by (rule gss_init_inv)
  have inv1: "gss_inv f s1" unfolding s1_def by (rule gss_step_inv [OF inv0])
  have inv2: "gss_inv f s2" unfolding s2_def by (rule gss_step_inv [OF inv1])
  have s0: "gss_a s0 = lower" "gss_b s0 = upper"
    "gss_x1 s0 = upper - phi * (upper - lower)" "gss_x2 s0 = lower + phi * (upper - lower)"
    "gss_f1 s0 = f (upper - phi * (upper - lower))" "gss_f2 s0 = f (lower + phi * (upper - lower))"
    unfolding s0_def by (simp_all add: gss_init_def Let_def)
  have lt0: "gss_f1 s0 < gss_f2 s0" using p1 by (simp only: s0)
  have s1: "gss_a s1 = lower" "gss_b s1 = lower + phi * (upper - lower)"
    "gss_x2 s1 = upper - phi * (upper - lower)"
    unfolding s1_def using gss_step_left [OF lt0, of f] s0 by simp_all
  have x11: "gss_x1 s1 = lower + phi * (upper - lower) - phi * (lower + phi * (upper - lower) - lower)"
    using inv1 s1 by (simp add: gss_inv_def)
  have "gss_f1 s1 = f (gss_x1 s1)" "gss_f2 s1 = f (gss_x2 s1)"
    using inv1 by (simp_all add: gss_inv_def)
  then have lt1: "gss_f1 s1 < gss_f2 s1" using p2 by (simp only: x11 s1)
  have s2: "gss_a s2 = lower" "gss_b s2 = upper - phi * (upper - lower)"
    unfolding s2_def using gss_step_left [OF lt1, of f] s1 by simp_all
  have w: "0 < upper - lower" using lu by simp
  have pw: "phi * (upper - lower) < 1 * (upper - lower)"
    using w phi_lt_one by (intro mult_strict_right_mono) simp_all
  have run0: "gss_loop f tol s0 = gss_loop f tol s1"
  proof -
    have "tol < \<bar>gss_b s0 - gss_a s0\<bar>" using big pw s0 by simp
    then show ?thesis unfolding s1_def by (subst gss_loop.simps) simp
  qed
  have run1: "gss_loop f tol s1 = gss_loop f tol s2"
  proof -
    have "tol < \<bar>gss_b s1 - gss_a s1\<bar>" using big s1 by simp
    then show ?thesis unfolding s2_def by (subst gss_loop.simps) simp
  qed
  have "gss_a s2 \<le> gss_b s2" using s2 pw by simp
  from gss_loop_bracket [OF inv2 this tol]
  obtain s' where s': "gss_loop f tol s2 = Some s'" "gss_a s2 \<le> gss_a s'" "gss_a s' \<le> gss_b s'"
    "gss_b s' \<le> gss_b s2" by blast
  have "goldenSectionSearch f lower upper tol = Some ((gss_a s' + gss_b s') / 2)"
    unfolding goldenSectionSearch_def s0_def [symmetric] run0 run1 s'(1) by simp
  moreover have "lower \<le> (gss_a s' + gss_b s') / 2"
    "(gss_a s' + gss_b s') / 2 \<le> upper - phi * (upper - lower)"
    using s' s2 by simp_all
  ultimately show ?thesis by blast
qed

lemma search_f_left:
  assumes "3 / 8 \<le> z" "z \<le> 1 / 2"
  shows "\<exists>x. goldenSectionSearch (\<lambda>testF. findPeakAmplitude testF z (3 / 5) (9 / 10))
               (5 / 10) (15 / 10) (1 / 10000) = Some x \<and> 1 / 2 \<le> x \<and> x \<le> 33 / 64"
proof -
  have "\<exists>x. goldenSectionSearch (\<lambda>testF. peak testF z) (5 / 10) (15 / 10) (1 / 10000) = Some x \<and>
          5 / 10 \<le> x \<and> x \<le> 5 / 10 + (1 / 10000) / 2"
  proof (rule gss_all_left [where c = "9 / 8"])
    show "(0::real) < 1 / 10000" by simp
    show "(5 / 10 :: real) < 15 / 10" by simp
    show "5 / 10 + phi * (15 / 10 - 5 / 10) \<le> 9 / 8" using phi_bounds by simp
    show "peak x z < peak y z" if "5 / 10 \<le> x" "x < y" "y \<le> 9 / 8" for x y
      using that assms by (intro peak_increasing1) simp_all
  qed
  then obtain x where x: "goldenSectionSearch (\<lambda>testF. peak testF z) (5 / 10) (15 / 10) (1 / 10000) = Some x"
    "5 / 10 \<le> x" "x \<le> 5 / 10 + (1 / 10000) / 2" by blast
  have "1 / 2 \<le> x" "x \<le> 33 / 64" using x(2,3) by simp_all
  with x(1) show ?thesis by blast
qed

lemma search_f_right:
  assumes "1 / 128 \<le> z" "z \<le> 13 / 64"
  shows "\<exists>x. goldenSectionSearch (\<lambda>testF. findPeakAmplitude testF z (3 / 5) (9 / 10))
               (5 / 10) (15 / 10) (1 / 10000) = Some x \<and> 95 / 64 \<le> x \<and> x \<le> 3 / 2"
proof -
  have "\<exists>x. goldenSectionSearch (\<lambda>testF. peak testF z) (5 / 10) (15 / 10) (1 / 10000) = Some x \<and>
          15 / 10 - (1 / 10000) / 2 \<le> x \<and> x \<le> 15 / 10"
  proof (rule gss_all_right [where ?c1.0 = "7 / 8" and ?c2.0 = "71 / 64"])
    show "(0::real) < 1 / 10000" by simp
    show "(5 / 10 :: real) < 15 / 10" by simp
    show "7 / 8 \<le> 15 / 10 - phi * (15 / 10 - 5 / 10)" using phi_bounds by simp
    show "71 / 64 \<le> 5 / 10 + phi * (15 / 10 - 5 / 10)" using phi_bounds by simp
    show "peak y z \<le> peak x z" if "7 / 8 \<le> x" "x < y" "71 / 64 \<le> y" "y \<le> 15 / 10" for x y
      using that assms by (intro peak_decreasing2) simp_all
  qed
  then obtain x where x: "goldenSectionSearch (\<lambda>testF. peak testF z) (5 / 10) (15 / 10) (1 / 10000) = Some x"
    "15 / 10 - (1 / 10000) / 2 \<le> x" "x \<le> 15 / 10" by blast
  have "95 / 64 \<le> x" "x \<le> 3 / 2" using x(2,3) by simp_all
  with x(1) show ?thesis by blast
qed

lemma search_z_right:
  assumes "11 / 8 \<le> f" "f \<le> 3 / 2"
  shows "\<exists>x. goldenSectionSearch (\<lambda>testZ2. findPeakAmplitude f testZ2 (3 / 5) (9 / 10))
               (1 / 100) (5 / 10) (1 / 10000) = Some x \<and> 31 / 64 \<le> x \<and> x \<le> 1 / 2"
proof -
  have "\<exists>x. goldenSectionSearch (\<lambda>testZ2. peak f testZ2) (1 / 100) (5 / 10) (1 / 10000) = Some x \<and>
          5 / 10 - (1 / 10000) / 2 \<le> x \<and> x \<le> 5 / 10"
  proof (rule gss_all_right [where ?c1.0 = "3 / 16" and ?c2.0 = "3 / 16"])
    show "(0::real) < 1 / 10000" by simp
    show "(1 / 100 :: real) < 5 / 10" by simp
    show "3 / 16 \<le> 5 / 10 - phi * (5 / 10 - 1 / 100)" using phi_bounds by simp
    show "3 / 16 \<le> 1 / 100 + phi * (5 / 10 - 1 / 100)" using phi_bounds by simp
    show "peak f y \<le> peak f x" if "3 / 16 \<le> x" "x < y" "3 / 16 \<le> y" "y \<le> 5 / 10" for x y
      using that assms by (intro peak_decreasing3) simp_all
  qed
  then obtain x where x: "goldenSectionSearch (\<lambda>testZ2. peak f testZ2) (1 / 100) (5 / 10) (1 / 10000) = Some x"
    "5 / 10 - (1 / 10000) / 2 \<le> x" "x \<le> 5 / 10" by blast
  have "31 / 64 \<le> x" "x \<le> 1 / 2" using x(2,3) by simp_all
  with x(1) show ?thesis by blast
qed

lemma search_z_at_half:
  assumes "1 / 2 \<le> f" "f \<le> 33 / 64"
  shows "\<exists>x. goldenSectionSearch (\<lambda>testZ2. findPeakAmplitude f testZ2 (3 / 5) (9 / 10))
               (1 / 100) (5 / 10) (1 / 10000) = Some x \<and> 1 / 100 \<le> x \<and> x \<le> 13 / 64"
proof -
  define x1 where "x1 = 5 / 10 - phi * (5 / 10 - 1 / 100)"
  define x2 where "x2 = 1 / 100 + phi * (5 / 10 - 1 / 100)"
  define x3 where "x3 = 1 / 100 + phi * (5 / 10 - 1 / 100) -
                        phi * (1 / 100 + phi * (5 / 10 - 1 / 100) - 1 / 100)"
  have b1: "25 / 128 \<le> x1" "x1 \<le> 51 / 256" unfolding x1_def using phi_bounds by simp_all
  have b2: "39 / 128 \<le> x2" "x2 \<le> 41 / 128" unfolding x2_def using phi_bounds by simp_all
  have "x3 = 1 / 100 + 49 / 100 * phi - 49 / 100 * (phi * phi)"
    unfolding x3_def by (simp add: algebra_simps)
  also have "\<dots> = 1 / 100 + 49 / 100 * phi - 49 / 100 * (1 - phi)" by (simp only: phi_square)
  also have "\<dots> = 98 / 100 * phi - 48 / 100" by (simp add: field_simps)
  finally have x3: "x3 = 98 / 100 * phi - 48 / 100" .
  have b3: "31 / 256 \<le> x3" "x3 \<le> 33 / 256" unfolding x3 using phi_bounds by simp_all
  have "\<exists>x. goldenSectionSearch (\<lambda>testZ2. peak f testZ2) (1 / 100) (5 / 10) (1 / 10000) = Some x \<and>
          1 / 100 \<le> x \<and> x \<le> 5 / 10 - phi * (5 / 10 - 1 / 100)"
  proof (rule gss_two_left)
    show "(0::real) < 1 / 10000" by simp
    show "(1 / 100 :: real) < 5 / 10" by simp
    show "1 / 10000 < phi * (5 / 10 - 1 / 100)" using phi_bounds by simp
    have "peak f x1 \<le> 3 / 4" using assms b1 by (intro peak_le_three_quarters) simp_all
    moreover have "3 / 4 < peak f x2" using assms b2 by (intro peak_gt_three_quarters) simp_all
    ultimately show "peak f (5 / 10 - phi * (5 / 10 - 1 / 100))
                       < peak f (1 / 100 + phi * (5 / 10 - 1 / 100))"
      unfolding x1_def x2_def by linarith
    have "peak f x3 \<le> 2 / 3" using assms b3 by (intro peak_le_two_thirds) simp_all
    moreover have "2 / 3 < peak f x1" using assms b1 by (intro peak_gt_two_thirds) simp_all
    ultimately show "peak f (1 / 100 + phi * (5 / 10 - 1 / 100) -
                        phi * (1 / 100 + phi * (5 / 10 - 1 / 100) - 1 / 100))
                       < peak f (5 / 10 - phi * (5 / 10 - 1 / 100))"
      unfolding x1_def x3_def by linarith
  qed
  then obtain x where x: "goldenSectionSearch (\<lambda>testZ2. peak f testZ2) (1 / 100) (5 / 10) (1 / 10000) = Some x"
    "1 / 100 \<le> x" "x \<le> x1" unfolding x1_def by blast
  have "x \<le> 13 / 64" using x(3) b1 by simp
  with x(1,2) show ?thesis by blast
qed

section \<open>The twenty passes of the optimiser\<close>

lemma pass_left:
  assumes i: "i < 20" and pre: "pre_left s"
  shows "\<exists>s'. optimizeTMD_loop (3 / 5) (9 / 10) (1 / 10000) i s =
               optimizeTMD_loop (3 / 5) (9 / 10) (1 / 10000) (i + 1) s' \<and> pre_right s'"
proof -
  from pre have z: "3 / 8 \<le> opt_zeta2 s" "opt_zeta2 s \<le> 1 / 2"
    and prev: "case opt_prevVal s of None \<Rightarrow> True | Some p \<Rightarrow> 9 / 10 \<le> p"
    by (simp_all add: pre_left_def)
  from search_f_left [OF z] obtain f where
    f: "goldenSectionSearch (\<lambda>testF. findPeakAmplitude testF (opt_zeta2 s) (3 / 5) (9 / 10))
          (5 / 10) (15 / 10) (1 / 10000) = Some f" "1 / 2 \<le> f" "f \<le> 33 / 64"
    by blast
  from search_z_at_half [OF f(2,3)] obtain zeta2 where
    z2: "goldenSectionSearch (\<lambda>testZ2. findPeakAmplitude f testZ2 (3 / 5) (9 / 10))
          (1 / 100) (5 / 10) (1 / 10000) = Some zeta2" "1 / 100 \<le> zeta2" "zeta2 \<le> 13 / 64"
    by blast
  define cur where "cur = findPeakAmplitude f zeta2 (3 / 5) (9 / 10)"
  have cur: "cur \<le> 3 / 4"
    unfolding cur_def using f(2,3) z2(2,3) by (intro peak_le_three_quarters) simp_all
  have nc: "\<not> converged (opt_prevVal s) cur (1 / 10000)"
    using prev cur by (cases "opt_prevVal s") (simp_all add: converged_def)
  define s' where "s' = s\<lparr>opt_f := f, opt_zeta2 := zeta2, opt_currentVal := cur,
                           opt_runs := opt_runs s + 1, opt_prevVal := Some cur\<rparr>"
  have "optimizeTMD_loop (3 / 5) (9 / 10) (1 / 10000) i s =
        optimizeTMD_loop (3 / 5) (9 / 10) (1 / 10000) (i + 1) s'"
    using i f(1) z2(1) nc
    by (subst optimizeTMD_loop.simps) (simp add: Let_def cur_def s'_def)
  moreover have "pre_right s'"
    using z2(2,3) cur by (simp add: pre_right_def s'_def)
  ultimately show ?thesis by blast
qed

lemma pass_right:
  assumes i: "i < 20" and pre: "pre_right s"
  shows "\<exists>s'. optimizeTMD_loop (3 / 5) (9 / 10) (1 / 10000) i s =
               optimizeTMD_loop (3 / 5) (9 / 10) (1 / 10000) (i + 1) s' \<and>
             pre_left s' \<and> at_upper_corner s'"
proof -
  from pre have z: "1 / 100 \<le> opt_zeta2 s" "opt_zeta2 s \<le> 13 / 64"
    and prev: "case opt_prevVal s of None \<Rightarrow> False | Some p \<Rightarrow> p \<le> 3 / 4"
    by (simp_all add: pre_right_def)
  have z': "1 / 128 \<le> opt_zeta2 s" using z(1) by simp
  from search_f_right [OF z' z(2)] obtain f where
    f: "goldenSectionSearch (\<lambda>testF. findPeakAmplitude testF (opt_zeta2 s) (3 / 5) (9 / 10))
          (5 / 10) (15 / 10) (1 / 10000) = Some f" "95 / 64 \<le> f" "f \<le> 3 / 2"
    by blast
  have f': "11 / 8 \<le> f" using f(2) by simp
  from search_z_right [OF f' f(3)] obtain zeta2 where
    z2: "goldenSectionSearch (\<lambda>testZ2. findPeakAmplitude f testZ2 (3 / 5) (9 / 10))
          (1 / 100) (5 / 10) (1 / 10000) = Some zeta2" "31 / 64 \<le> zeta2" "zeta2 \<le> 1 / 2"
    by blast
  define cur where "cur = findPeakAmplitude f zeta2 (3 / 5) (9 / 10)"
  have cur: "9 / 10 \<le> cur"
    unfolding cur_def using f(2,3) z2(2,3) by (rule peak_ge_nine_tenths)
  have nc: "\<not> converged (opt_prevVal s) cur (1 / 10000)"
    using prev cur by (cases "opt_prevVal s") (simp_all add: converged_def)
  define s' where "s' = s\<lparr>opt_f := f, opt_zeta2 := zeta2, opt_currentVal := cur,
                           opt_runs := opt_runs s + 1, opt_prevVal := Some cur\<rparr>"
  have "optimizeTMD_loop (3 / 5) (9 / 10) (1 / 10000) i s =
        optimizeTMD_loop (3 / 5) (9 / 10) (1 / 10000) (i + 1) s'"
    using i f(1) z2(1) nc
    by (subst optimizeTMD_loop.simps) (simp add: Let_def cur_def s'_def)
  moreover have "pre_left s'"
    using z2(2,3) cur by (simp add: pre_left_def s'_def)
  moreover have "at_upper_corner s'"
    using f(2,3) z2(2,3) by (simp add: at_upper_corner_def s'_def cur_def)
  ultimately show ?thesis by blast
qed

lemma two_passes:
  assumes "i + 2 \<le> 20" "pre_left s"
  shows "\<exists>s'. optimizeTMD_loop (3 / 5) (9 / 10) (1 / 10000) i s =
               optimizeTMD_loop (3 / 5) (9 / 10) (1 / 10000) (i + 2) s' \<and>
             pre_left s' \<and> at_upper_corner s'"
proof -
  have i: "i < 20" "i + 1 < 20" using assms(1) by simp_all
  from pass_left [OF i(1) assms(2)] obtain s1 where
    s1: "optimizeTMD_loop (3 / 5) (9 / 10) (1 / 10000) i s =
         optimizeTMD_loop (3 / 5) (9 / 10) (1 / 10000) (i + 1) s1" "pre_right s1"
    by blast
  from pass_right [OF i(2) s1(2)] obtain s2 where
    s2: "optimizeTMD_loop (3 / 5) (9 / 10) (1 / 10000) (i + 1) s1 =
         optimizeTMD_loop (3 / 5) (9 / 10) (1 / 10000) (i + 1 + 1) s2"
      "pre_left s2" "at_upper_corner s2"
    by blast
  have "i + 1 + 1 = i + 2" by simp
  with s1(1) s2 show ?thesis by (intro exI [of _ s2]) simp
qed

lemma all_passes:
  assumes "1 \<le> k" "i + 2 * k = 20" "pre_left s"
  shows "\<exists>s'. optimizeTMD_loop (3 / 5) (9 / 10) (1 / 10000) i s = Some s' \<and> at_upper_corner s'"
  using assms
proof (induction k arbitrary: i s)
  case 0
  then show ?case by simp
next
  case (Suc k)
  have "i + 2 \<le> 20" using Suc.prems(2) by simp
  from two_passes [OF this Suc.prems(3)] obtain s2 where
    s2: "optimizeTMD_loop (3 / 5) (9 / 10) (1 / 10000) i s =
         optimizeTMD_loop (3 / 5) (9 / 10) (1 / 10000) (i + 2) s2"
      "pre_left s2" "at_upper_corner s2"
    by blast
  show ?case
  proof (cases "k = 0")
    case True
    then have "i + 2 = 20" using Suc.prems(2) by simp
    then have "optimizeTMD_loop (3 / 5) (9 / 10) (1 / 10000) (i + 2) s2 = Some s2"
      by (subst optimizeTMD_loop.simps) simp
    with s2 show ?thesis by simp
  next
    case False
    then have "1 \<le> k" by simp
    moreover have "i + 2 + 2 * k = 20" using Suc.prems(2) by simp
    ultimately obtain s' where
      "optimizeTMD_loop (3 / 5) (9 / 10) (1 / 10000) (i + 2) s2 = Some s'" "at_upper_corner s'"
      using Suc.IH [of "i + 2" s2] s2(2) by blast
    with s2(1) show ?thesis by simp
  qed
qed

lemma sqrt_nine_sixtyfourths: "sqrt (9 / 64) = 3 / 8"
  by (rule real_sqrt_unique) (simp_all add: power2_eq_square)

lemma warm_start_values:
  "1 / (1 + 3 / 5) = (5 / 8 :: real)" "sqrt ((3 * (3 / 5)) / (8 * (1 + 3 / 5))) = 3 / 8"
proof -
  show "1 / (1 + 3 / 5) = (5 / 8 :: real)" by simp
  have "(3 * (3 / 5)) / (8 * (1 + 3 / 5)) = (9 / 64 :: real)" by simp
  moreover have "sqrt (9 / 64) = 3 / 8"
    by (rule real_sqrt_unique) (simp_all add: power2_eq_square)
  ultimately show "sqrt ((3 * (3 / 5)) / (8 * (1 + 3 / 5))) = 3 / 8" by simp
qed

lemma optimizeTMD_run_at_failing_input:
  "\<exists>s. optimizeTMD (3 / 5) (9 / 10) =
         Some \<lparr>f_opt = opt_f s, zeta2_opt = opt_zeta2 s, minPeakAmp = opt_currentVal s\<rparr> \<and>
       at_upper_corner s"
proof -
  have "pre_left (optimizeTMD_init (3 / 5) (9 / 10))"
    by (simp add: pre_left_def optimizeTMD_init_def Let_def sqrt_nine_sixtyfourths)
  from all_passes [of 10 0, OF _ _ this] obtain s where
    s: "optimizeTMD_loop (3 / 5) (9 / 10) (1 / 10000) 0 (optimizeTMD_init (3 / 5) (9 / 10)) = Some s"
      "at_upper_corner s"
    by auto
  then show ?thesis by (auto simp: optimizeTMD_def opt_tolerance_def)
qed

text \<open>
  C2 (fails). The claim is that the peak amplitude at the pair returned by \<open>optimizeTMD\<close> never
  exceeds the peak amplitude at the warm start \<open>f0 = 1 / (1 + mu)\<close>,
  \<open>zeta2_0 = sqrt (3 * mu / (8 * (1 + mu)))\<close>. At \<open>mu = 3 / 5\<close>, \<open>zeta1 = 9 / 10\<close>, inside the
  documented domain, \<open>optimizeTMD\<close> returns a result, its \<open>minPeakAmp\<close> is the peak amplitude at
  the returned pair, and that peak amplitude is strictly greater than the one at the warm
  start: the twenty passes alternate between the two ends of the frequency box and the last
  one ends at the upper end.
\<close>

theorem optimizeTMD_worse_than_warm_start:
  "optimizeTMD (3 / 5) (9 / 10) \<noteq> None \<and>
   minPeakAmp (the (optimizeTMD (3 / 5) (9 / 10))) =
     findPeakAmplitude (f_opt (the (optimizeTMD (3 / 5) (9 / 10))))
       (zeta2_opt (the (optimizeTMD (3 / 5) (9 / 10)))) (3 / 5) (9 / 10) \<and>
   findPeakAmplitude (1 / (1 + 3 / 5)) (sqrt ((3 * (3 / 5)) / (8 * (1 + 3 / 5)))) (3 / 5) (9 / 10)
     < findPeakAmplitude (f_opt (the (optimizeTMD (3 / 5) (9 / 10))))
         (zeta2_opt (the (optimizeTMD (3 / 5) (9 / 10)))) (3 / 5) (9 / 10)"
proof -
  from optimizeTMD_run_at_failing_input obtain s where
    s: "optimizeTMD (3 / 5) (9 / 10) =
         Some \<lparr>f_opt = opt_f s, zeta2_opt = opt_zeta2 s, minPeakAmp = opt_currentVal s\<rparr>"
      "at_upper_corner s"
    by blast
  from s(2) have b: "95 / 64 \<le> opt_f s" "opt_f s \<le> 3 / 2" "31 / 64 \<le> opt_zeta2 s"
    "opt_zeta2 s \<le> 1 / 2"
    "opt_currentVal s = findPeakAmplitude (opt_f s) (opt_zeta2 s) (3 / 5) (9 / 10)"
    by (simp_all add: at_upper_corner_def)
  have "9 / 10 \<le> findPeakAmplitude (opt_f s) (opt_zeta2 s) (3 / 5) (9 / 10)"
    using b(1-4) by (rule peak_ge_nine_tenths)
  moreover have "findPeakAmplitude (1 / (1 + 3 / 5)) (sqrt ((3 * (3 / 5)) / (8 * (1 + 3 / 5))))
                   (3 / 5) (9 / 10) < 9 / 10"
    unfolding warm_start_values by (rule peak_warm_start)
  ultimately show ?thesis using s(1) b(5) by simp
qed

end
